(* ===== verification/Prelude.thy ===== *)
theory Prelude
  imports Main "HOL-Library.AList" "HOL-Library.Sublist" "HOL-Library.Char_ord"
    "HOL-Library.List_Lexorder" "HOL-Library.Multiset"
begin

text \<open>
  Shared vocabulary of the development.

  \<^item> Time: a Go \<^verbatim>\<open>time.Time\<close> is the number of nanoseconds since Go's zero time, so the
    zero value is \<open>0\<close>; a \<^verbatim>\<open>time.Duration\<close> is a number of nanoseconds.  Subtraction of
    two times saturates at the int64 range, as \<^verbatim>\<open>Time.Sub\<close> does.
  \<^item> Strings are byte strings.  \<^verbatim>\<open>strings.ToLower\<close> and \<^verbatim>\<open>strings.TrimSpace\<close>
    are modelled on ASCII bytes: bytes above 127 are left as they are.
  \<^item> A Go map that the code iterates over is an association list with distinct keys whose
    order stands for the order the runtime happens to pick; a Go map that is only looked up
    and written is a partial function.
  \<^item> A generic transition system with its reachable states and the invariant rule, as a locale
    that the stateful components interpret.
\<close>

named_theorems model_defs \<open>definitions unfolded when a model function is evaluated\<close>
named_theorems wf_intros \<open>preservation lemmas of the well-formedness invariants\<close>

section \<open>Time\<close>

type_synonym time = int
type_synonym duration = int

definition max_duration :: duration where
  "max_duration = 2 ^ 63 - 1"

definition min_duration :: duration where
  "min_duration = - (2 ^ 63)"

abbreviation (input) zero_time :: time where
  "zero_time \<equiv> 0"

definition is_zero :: "time \<Rightarrow> bool" where
  "is_zero t \<longleftrightarrow> t = zero_time"

definition time_sub :: "time \<Rightarrow> time \<Rightarrow> duration" where
  "time_sub a b = max min_duration (min max_duration (a - b))"

definition second :: duration where
  "second = 1000000000"

definition minute :: duration where
  "minute = 60 * second"

definition hour :: duration where
  "hour = 60 * minute"

lemma time_sub_gt:
  assumes "d < max_duration" "min_duration \<le> d"
  shows "d < time_sub a b \<longleftrightarrow> d < a - b"
  using assms by (auto simp: time_sub_def)

lemma time_sub_le_diff: "0 \<le> d \<Longrightarrow> a - b \<le> d \<Longrightarrow> time_sub a b \<le> d"
  by (simp add: time_sub_def min_duration_def max_duration_def)

lemma time_sub_self [simp]: "time_sub a a = 0"
  by (simp add: time_sub_def min_duration_def max_duration_def)

lemma time_sub_mono: "a \<le> a' \<Longrightarrow> time_sub a b \<le> time_sub a' b"
  by (auto simp: time_sub_def)

lemma time_sub_antimono: "b \<le> b' \<Longrightarrow> time_sub a b' \<le> time_sub a b"
  by (auto simp: time_sub_def)

section \<open>Strings\<close>

definition char_code :: "char \<Rightarrow> nat" where
  "char_code c = of_char c"

definition is_upper_char :: "char \<Rightarrow> bool" where
  "is_upper_char c \<longleftrightarrow> 65 \<le> char_code c \<and> char_code c \<le> 90"

definition is_lower_char :: "char \<Rightarrow> bool" where
  "is_lower_char c \<longleftrightarrow> 97 \<le> char_code c \<and> char_code c \<le> 122"

definition is_digit_char :: "char \<Rightarrow> bool" where
  "is_digit_char c \<longleftrightarrow> 48 \<le> char_code c \<and> char_code c \<le> 57"

definition lower_char :: "char \<Rightarrow> char" where
  "lower_char c = (if is_upper_char c then char_of (char_code c + 32) else c)"

definition to_lower :: "string \<Rightarrow> string" where
  "to_lower s = map lower_char s"

definition is_space_char :: "char \<Rightarrow> bool" where
  "is_space_char c \<longleftrightarrow> char_code c = 32 \<or> (9 \<le> char_code c \<and> char_code c \<le> 13)"

definition trim_space :: "string \<Rightarrow> string" where
  "trim_space s = rev (dropWhile is_space_char (rev (dropWhile is_space_char s)))"

definition has_prefix :: "string \<Rightarrow> string \<Rightarrow> bool" where
  "has_prefix s p \<longleftrightarrow> take (length p) s = p"

definition has_suffix :: "string \<Rightarrow> string \<Rightarrow> bool" where
  "has_suffix s p \<longleftrightarrow> length p \<le> length s \<and> drop (length s - length p) s = p"

definition trim_prefix :: "string \<Rightarrow> string \<Rightarrow> string" where
  "trim_prefix s p = (if has_prefix s p then drop (length p) s else s)"

definition trim_suffix :: "string \<Rightarrow> string \<Rightarrow> string" where
  "trim_suffix s p = (if has_suffix s p then take (length s - length p) s else s)"

text \<open>\<open>index_of s p\<close> is the position of the first occurrence of \<open>p\<close> in \<open>s\<close>.\<close>

fun index_of :: "string \<Rightarrow> string \<Rightarrow> nat option" where
  "index_of [] p = (if p = [] then Some 0 else None)"
| "index_of (c # s) p =
     (if has_prefix (c # s) p then Some 0 else map_option Suc (index_of s p))"

text \<open>\<open>last_index s c\<close> is the position of the last byte \<open>c\<close> of \<open>s\<close>.\<close>

fun last_index :: "string \<Rightarrow> char \<Rightarrow> nat option" where
  "last_index [] c = None"
| "last_index (x # s) c =
     (case last_index s c of Some i \<Rightarrow> Some (Suc i) | None \<Rightarrow> (if x = c then Some 0 else None))"

text \<open>\<open>cut s c\<close> is \<^verbatim>\<open>strings.Cut\<close> for a one-byte separator.\<close>

definition cut :: "string \<Rightarrow> char \<Rightarrow> string \<times> string \<times> bool" where
  "cut s c =
     (if c \<in> set s then (takeWhile (\<lambda>x. x \<noteq> c) s, tl (dropWhile (\<lambda>x. x \<noteq> c) s), True)
      else (s, [], False))"

definition is_hex_lower :: "char \<Rightarrow> bool" where
  "is_hex_lower c \<longleftrightarrow> is_digit_char c \<or> (97 \<le> char_code c \<and> char_code c \<le> 102)"

definition is_hex_any :: "char \<Rightarrow> bool" where
  "is_hex_any c \<longleftrightarrow> is_hex_lower c \<or> (65 \<le> char_code c \<and> char_code c \<le> 70)"

lemma char_code_less: "char_code c < 256"
  by (simp add: char_code_def)

lemma char_code_of [simp]: "n < 256 \<Longrightarrow> char_code (char_of n) = n"
  by (simp add: char_code_def)

lemma char_code_inject: "char_code c = char_code d \<longleftrightarrow> c = d"
  by (simp add: char_code_def)

lemma is_upper_lower_char [simp]: "\<not> is_upper_char (lower_char c)"
  by (simp add: lower_char_def is_upper_char_def)

lemma lower_char_idem [simp]: "lower_char (lower_char c) = lower_char c"
  by (simp add: lower_char_def [of "lower_char c"])

lemma to_lower_idem [simp]: "to_lower (to_lower s) = to_lower s"
  by (simp add: to_lower_def)

lemma length_to_lower [simp]: "length (to_lower s) = length s"
  by (simp add: to_lower_def)

lemma to_lower_append: "to_lower (s @ t) = to_lower s @ to_lower t"
  by (simp add: to_lower_def)

lemma hex_lower_not_upper: "is_hex_lower c \<Longrightarrow> \<not> is_upper_char c"
  by (auto simp: is_hex_lower_def is_upper_char_def is_digit_char_def)

lemma lower_char_hex_id: "is_hex_lower c \<Longrightarrow> lower_char c = c"
  by (simp add: lower_char_def hex_lower_not_upper)

lemma lower_char_hex_any: "is_hex_any c \<Longrightarrow> is_hex_lower (lower_char c)"
  by (auto simp: is_hex_any_def is_hex_lower_def lower_char_def is_upper_char_def
      is_digit_char_def)

lemma hex_lower_not_space: "is_hex_lower c \<Longrightarrow> \<not> is_space_char c"
  by (auto simp: is_hex_lower_def is_space_char_def is_digit_char_def)

lemma has_prefix_append [simp]: "has_prefix (p @ s) p"
  by (simp add: has_prefix_def)

lemma has_prefix_iff: "has_prefix s p \<longleftrightarrow> (\<exists>r. s = p @ r)"
  unfolding has_prefix_def by (metis append_eq_conv_conj append_take_drop_id)

lemma has_suffix_iff: "has_suffix s p \<longleftrightarrow> (\<exists>r. s = r @ p)"
proof
  assume "has_suffix s p"
  then show "\<exists>r. s = r @ p"
    unfolding has_suffix_def by (metis append_take_drop_id)
next
  assume "\<exists>r. s = r @ p"
  then show "has_suffix s p" by (auto simp: has_suffix_def)
qed

lemma trim_prefix_append [simp]: "trim_prefix (p @ s) p = s"
  by (simp add: trim_prefix_def)

lemma trim_space_id: "\<forall>c \<in> set s. \<not> is_space_char c \<Longrightarrow> trim_space s = s"
proof -
  assume s: "\<forall>c \<in> set s. \<not> is_space_char c"
  then have "dropWhile is_space_char s = s" by (cases s) auto
  moreover from s have "dropWhile is_space_char (rev s) = rev s"
    by (metis dropWhile_eq_self_iff last_in_set rev_rev_ident set_rev hd_in_set)
  ultimately show ?thesis by (simp add: trim_space_def)
qed

text \<open>Decimal rendering of a natural number (\<^verbatim>\<open>strconv.Itoa\<close> on non-negative input) and
  its inverse on digit strings (\<^verbatim>\<open>strconv.Atoi\<close>, without a sign).\<close>

fun nat_digits :: "nat \<Rightarrow> nat list" where
  "nat_digits n = (if n < 10 then [n] else nat_digits (n div 10) @ [n mod 10])"

declare nat_digits.simps [simp del]

definition itoa :: "nat \<Rightarrow> string" where
  "itoa n = map (\<lambda>d. char_of (48 + d)) (nat_digits n)"

definition digits_value :: "string \<Rightarrow> nat" where
  "digits_value s = foldl (\<lambda>acc c. 10 * acc + (char_code c - 48)) 0 s"

definition parse_nat :: "string \<Rightarrow> nat option" where
  "parse_nat s = (if s \<noteq> [] \<and> list_all is_digit_char s then Some (digits_value s) else None)"

lemma nat_digits_bound: "d \<in> set (nat_digits n) \<Longrightarrow> d < 10"
proof (induction n rule: nat_digits.induct)
  case (1 n)
  then show ?case by (subst (asm) nat_digits.simps) (auto split: if_splits)
qed

lemma nat_digits_nonempty [simp]: "nat_digits n \<noteq> []"
  by (subst nat_digits.simps) simp

lemma nat_digits_value: "foldl (\<lambda>acc d. 10 * acc + d) 0 (nat_digits n) = n"
proof (induction n rule: nat_digits.induct)
  case (1 n)
  then show ?case by (subst nat_digits.simps) auto
qed

lemma itoa_digits: "c \<in> set (itoa n) \<Longrightarrow> is_digit_char c"
  by (auto simp: itoa_def is_digit_char_def dest!: nat_digits_bound)

lemma itoa_nonempty [simp]: "itoa n \<noteq> []"
  by (simp add: itoa_def)

lemma digits_value_itoa: "digits_value (itoa n) = n"
proof -
  have "foldl (\<lambda>acc c. 10 * acc + (char_code c - 48)) a (map (\<lambda>d. char_of (48 + d)) ds)
      = foldl (\<lambda>acc d. 10 * acc + d) a ds" if "\<forall>d \<in> set ds. d < 10" for a and ds :: "nat list"
    using that by (induction ds arbitrary: a) auto
  from this [of "nat_digits n" 0] show ?thesis
    by (simp add: digits_value_def itoa_def nat_digits_bound nat_digits_value)
qed

lemma parse_nat_itoa [simp]: "parse_nat (itoa n) = Some n"
  by (auto simp: parse_nat_def digits_value_itoa list_all_iff dest: itoa_digits)

lemma itoa_inj: "itoa m = itoa n \<longleftrightarrow> m = n"
  by (metis digits_value_itoa)

section \<open>Association lists\<close>

definition wf_alist :: "('k \<times> 'v) list \<Rightarrow> bool" where
  "wf_alist al \<longleftrightarrow> distinct (map fst al)"

abbreviation keys :: "('k \<times> 'v) list \<Rightarrow> 'k set" where
  "keys al \<equiv> fst ` set al"

lemma wf_alist_Nil [simp]: "wf_alist []"
  by (simp add: wf_alist_def)

lemma wf_alist_update [wf_intros]: "wf_alist al \<Longrightarrow> wf_alist (AList.update k v al)"
  by (simp add: wf_alist_def distinct_update)

lemma wf_alist_delete [wf_intros]: "wf_alist al \<Longrightarrow> wf_alist (AList.delete k al)"
  by (simp add: wf_alist_def distinct_delete)

lemma wf_alist_filter [wf_intros]: "wf_alist al \<Longrightarrow> wf_alist (filter P al)"
  by (simp add: wf_alist_def distinct_map_filter)

lemma wf_alist_map_snd [wf_intros]:
  "wf_alist al \<Longrightarrow> wf_alist (map (\<lambda>(k, v). (k, f k v)) al)"
  by (simp add: wf_alist_def comp_def case_prod_beta)

lemma map_of_map_snd:
  "map_of (map (\<lambda>(k, v). (k, f k v)) al) k = map_option (f k) (map_of al k)"
  by (induction al) auto

lemma keys_map_snd [simp]: "fst ` (\<lambda>(k, v). (k, f k v)) ` A = fst ` A"
  by force

lemma keys_update [simp]: "keys (AList.update k v al) = insert k (keys al)"
  using dom_update [of k v al] by (simp add: dom_map_of_conv_image_fst)

lemma keys_delete [simp]: "keys (AList.delete k al) = keys al - {k}"
  by (metis delete_keys list.set_map set_removeAll)

lemma map_of_update [simp]: "map_of (AList.update k v al) = (map_of al)(k \<mapsto> v)"
  by (simp add: update_conv')

lemma map_of_delete [simp]: "map_of (AList.delete k al) = (map_of al)(k := None)"
  by (simp add: delete_conv')

lemma map_of_eq_None_keys: "map_of al k = None \<longleftrightarrow> k \<notin> keys al"
  by (simp add: map_of_eq_None_iff)

lemma map_of_Some_keys: "map_of al k = Some v \<Longrightarrow> k \<in> keys al"
  by (metis map_of_eq_None_keys option.distinct(1))

lemma wf_alist_map_of: "wf_alist al \<Longrightarrow> (k, v) \<in> set al \<longleftrightarrow> map_of al k = Some v"
  by (simp add: wf_alist_def)

lemma map_of_filter:
  "wf_alist al \<Longrightarrow> map_of (filter (\<lambda>(k, v). P k v) al) k
     = (case map_of al k of None \<Rightarrow> None | Some v \<Rightarrow> if P k v then Some v else None)"
proof (induction al)
  case (Cons kv al)
  obtain k' v' where kv: "kv = (k', v')" by force
  from Cons.prems have al: "wf_alist al" and k': "k' \<notin> keys al"
    by (auto simp: wf_alist_def kv)
  have "map_of al k' = None" using k' by (simp only: map_of_eq_None_keys) simp
  with Cons.IH [OF al] show ?case by (auto simp: kv split: option.splits)
qed simp

section \<open>Updating one place of a list\<close>

lemma filter_update:
  "c < length xs \<Longrightarrow> length (filter P (xs[c := y])) + (if P (xs ! c) then 1 else 0)
     = length (filter P xs) + (if P y then 1 else 0)"
proof (induction xs arbitrary: c)
  case (Cons x xs)
  then show ?case by (cases c) auto
qed simp

lemma sum_update:
  fixes f :: "'a \<Rightarrow> nat"
  shows "c < length xs \<Longrightarrow> sum_list (map f (xs[c := y])) + f (xs ! c) = sum_list (map f xs) + f y"
proof (induction xs arbitrary: c)
  case (Cons x xs)
  then show ?case by (cases c) auto
qed simp

section \<open>Transition systems\<close>

text \<open>
  A component whose state is changed by messages: an initial state, a step function of a
  message and the state, and a predicate on messages for what its environment promises.
\<close>

locale machine =
  fixes init :: "'s \<Rightarrow> bool"
    and step :: "'m \<Rightarrow> 's \<Rightarrow> 's"
    and ok :: "'m \<Rightarrow> 's \<Rightarrow> bool"
    and invar :: "'s \<Rightarrow> bool"
  assumes init_invar: "init s \<Longrightarrow> invar s"
    and step_invar: "invar s \<Longrightarrow> ok m s \<Longrightarrow> invar (step m s)"
begin

inductive reachable :: "'s \<Rightarrow> bool" where
  start: "init s \<Longrightarrow> reachable s"
| move: "reachable s \<Longrightarrow> ok m s \<Longrightarrow> reachable (step m s)"

lemma reachable_invar: "reachable s \<Longrightarrow> invar s"
  by (induction rule: reachable.induct) (auto intro: init_invar step_invar)

fun run :: "'m list \<Rightarrow> 's \<Rightarrow> 's" where
  "run [] s = s"
| "run (m # ms) s = run ms (step m s)"

fun oks :: "'m list \<Rightarrow> 's \<Rightarrow> bool" where
  "oks [] s = True"
| "oks (m # ms) s = (ok m s \<and> oks ms (step m s))"

lemma run_append: "run (ms @ ns) s = run ns (run ms s)"
  by (induction ms arbitrary: s) auto

lemma run_invar: "invar s \<Longrightarrow> oks ms s \<Longrightarrow> invar (run ms s)"
  by (induction ms arbitrary: s) (auto intro: step_invar)

lemma run_reachable: "reachable s \<Longrightarrow> oks ms s \<Longrightarrow> reachable (run ms s)"
  by (induction ms arbitrary: s) (auto intro: reachable.move)

end

end
