(* ===== verification/Netip.thy ===== *)
theory Netip
  imports Prelude "HOL-Library.Word"
begin

text \<open>
  The part of Go's \<^verbatim>\<open>net/netip\<close> that the address policy and the discovery backends
  use: addresses with their classification predicates, the total order of \<^verbatim>\<open>Addr.Compare\<close>
  (an instance of \<open>linorder\<close>, so that the library's sorting applies), and prefixes.
\<close>

unbundle bit_operations_syntax

datatype netip_addr =
    NoAddr                        \<comment> \<open>the zero \<^verbatim>\<open>Addr\<close>, which is not valid\<close>
  | Addr4 "32 word"
  | Addr6 "128 word" string       \<comment> \<open>with its zone, empty for none\<close>

fun is_valid :: "netip_addr \<Rightarrow> bool" where
  "is_valid NoAddr = False"
| "is_valid _ = True"

fun is4 :: "netip_addr \<Rightarrow> bool" where
  "is4 (Addr4 _) = True"
| "is4 _ = False"

fun is6 :: "netip_addr \<Rightarrow> bool" where
  "is6 (Addr6 _ _) = True"
| "is6 _ = False"

definition is_mapped :: "128 word \<Rightarrow> bool" where
  "is_mapped w \<longleftrightarrow> drop_bit 32 w = 0xffff"

fun unmap :: "netip_addr \<Rightarrow> netip_addr" where
  "unmap (Addr6 w z) = (if is_mapped w then Addr4 (ucast w) else Addr6 w z)"
| "unmap a = a"

fun is_loopback :: "netip_addr \<Rightarrow> bool" where
  "is_loopback (Addr4 w) = (drop_bit 24 w = 127)"
| "is_loopback (Addr6 w z) = (w = 1)"
| "is_loopback NoAddr = False"

fun is_multicast :: "netip_addr \<Rightarrow> bool" where
  "is_multicast (Addr4 w) = (drop_bit 28 w = 0xe)"
| "is_multicast (Addr6 w z) = (drop_bit 120 w = 0xff)"
| "is_multicast NoAddr = False"

fun is_unspecified :: "netip_addr \<Rightarrow> bool" where
  "is_unspecified (Addr4 w) = (w = 0)"
| "is_unspecified (Addr6 w z) = (w = 0 \<and> z = [])"
| "is_unspecified NoAddr = False"

fun is_link_local_unicast :: "netip_addr \<Rightarrow> bool" where
  "is_link_local_unicast (Addr4 w) = (drop_bit 16 w = 0xa9fe)"
| "is_link_local_unicast (Addr6 w z) = (drop_bit 118 w = 0x3fa)"
| "is_link_local_unicast NoAddr = False"

fun is_link_local_multicast :: "netip_addr \<Rightarrow> bool" where
  "is_link_local_multicast (Addr4 w) = (drop_bit 8 w = 0xe00000)"
| "is_link_local_multicast (Addr6 w z) = (drop_bit 112 w AND 0xff0f = 0xff02)"
| "is_link_local_multicast NoAddr = False"

fun is_interface_local_multicast :: "netip_addr \<Rightarrow> bool" where
  "is_interface_local_multicast (Addr6 w z) = (drop_bit 112 w AND 0xff0f = 0xff01)"
| "is_interface_local_multicast _ = False"

lemma not_mapped_unmap: "unmap a = Addr6 w z \<Longrightarrow> \<not> is_mapped w"
  by (cases a) (auto split: if_splits)

lemma unmap_idem [simp]: "unmap (unmap a) = unmap a"
  by (cases a) auto

lemma is_valid_unmap [simp]: "is_valid (unmap a) = is_valid a"
  by (cases a) auto

lemma is4_or_is6: "is_valid a \<Longrightarrow> is4 a \<or> is6 a"
  by (cases a) auto

section \<open>The order of addresses\<close>

text \<open>
  \<^verbatim>\<open>Addr.Compare\<close> orders by bit length, then by value, then by zone.
\<close>

fun addr_le :: "netip_addr \<Rightarrow> netip_addr \<Rightarrow> bool" where
  "addr_le NoAddr b = True"
| "addr_le (Addr4 v) NoAddr = False"
| "addr_le (Addr4 v) (Addr4 w) = (v \<le> w)"
| "addr_le (Addr4 v) (Addr6 w z) = True"
| "addr_le (Addr6 v z) (Addr6 w z') = (v < w \<or> (v = w \<and> z \<le> z'))"
| "addr_le (Addr6 v z) b = False"

instantiation netip_addr :: linorder
begin

definition less_eq_netip_addr :: "netip_addr \<Rightarrow> netip_addr \<Rightarrow> bool" where
  "less_eq_netip_addr a b = addr_le a b"

definition less_netip_addr :: "netip_addr \<Rightarrow> netip_addr \<Rightarrow> bool" where
  "less_netip_addr a b = (addr_le a b \<and> \<not> addr_le b a)"

instance
proof
  fix x y z :: netip_addr
  show "(x < y) = (x \<le> y \<and> \<not> y \<le> x)"
    by (simp add: less_eq_netip_addr_def less_netip_addr_def)
  show "x \<le> x"
    by (cases x) (simp_all add: less_eq_netip_addr_def)
  show "x \<le> y \<Longrightarrow> y \<le> z \<Longrightarrow> x \<le> z"
    by (cases x; cases y; cases z) (auto simp: less_eq_netip_addr_def)
  show "x \<le> y \<Longrightarrow> y \<le> x \<Longrightarrow> x = y"
    by (cases x; cases y) (auto simp: less_eq_netip_addr_def)
  show "x \<le> y \<or> y \<le> x"
    by (cases x; cases y) (auto simp: less_eq_netip_addr_def)
qed

end

section \<open>Prefixes\<close>

text \<open>A prefix with an address and a number of leading bits, as \<^verbatim>\<open>netip.ParsePrefix\<close>
  returns it: the address is valid and has no zone, and the bits do not exceed its length.\<close>

record netip_prefix =
  pfx_addr :: netip_addr
  pfx_bits :: nat

definition prefix_valid :: "netip_prefix \<Rightarrow> bool" where
  "prefix_valid p \<longleftrightarrow>
     (case pfx_addr p of
        NoAddr \<Rightarrow> False
      | Addr4 w \<Rightarrow> pfx_bits p \<le> 32
      | Addr6 w z \<Rightarrow> z = [] \<and> pfx_bits p \<le> 128)"

definition prefix_contains :: "netip_prefix \<Rightarrow> netip_addr \<Rightarrow> bool" where
  "prefix_contains p a \<longleftrightarrow> prefix_valid p \<and>
     (case (pfx_addr p, a) of
        (Addr4 v, Addr4 w) \<Rightarrow> drop_bit (32 - pfx_bits p) (v XOR w) = 0
      | (Addr6 v z, Addr6 w z') \<Rightarrow> z' = [] \<and> drop_bit (128 - pfx_bits p) (v XOR w) = 0
      | _ \<Rightarrow> False)"

definition prefix_masked :: "netip_prefix \<Rightarrow> netip_prefix" where
  "prefix_masked p =
     (case pfx_addr p of
        NoAddr \<Rightarrow> p
      | Addr4 w \<Rightarrow> p\<lparr>pfx_addr := Addr4 (push_bit (32 - pfx_bits p) (drop_bit (32 - pfx_bits p) w))\<rparr>
      | Addr6 w z \<Rightarrow>
          p\<lparr>pfx_addr := Addr6 (push_bit (128 - pfx_bits p) (drop_bit (128 - pfx_bits p) w)) []\<rparr>)"

lemma drop_push_drop:
  fixes w :: "'a::len word"
  assumes "n \<le> LENGTH('a)"
  shows "drop_bit n (push_bit n (drop_bit n w)) = drop_bit n w"
  by (rule bit_word_eqI) (auto simp: bit_simps dest: bit_imp_le_length)

lemma prefix_contains_masked:
  assumes "prefix_valid p"
  shows "prefix_contains (prefix_masked p) a = prefix_contains p a"
proof (cases "pfx_addr p")
  case (Addr4 v)
  have "drop_bit (32 - pfx_bits p) (push_bit (32 - pfx_bits p) (drop_bit (32 - pfx_bits p) v) XOR w)
      = drop_bit (32 - pfx_bits p) (v XOR w)" for w
    by (simp add: drop_bit_xor drop_push_drop)
  with assms Addr4 show ?thesis
    by (cases a) (auto simp: prefix_contains_def prefix_masked_def prefix_valid_def)
next
  case (Addr6 v z)
  have "drop_bit (128 - pfx_bits p) (push_bit (128 - pfx_bits p) (drop_bit (128 - pfx_bits p) v) XOR w)
      = drop_bit (128 - pfx_bits p) (v XOR w)" for w
    by (simp add: drop_bit_xor drop_push_drop)
  with assms Addr6 show ?thesis
    by (cases a) (auto simp: prefix_contains_def prefix_masked_def prefix_valid_def)
qed (use assms in \<open>auto simp: prefix_valid_def\<close>)

end
