(* ===== verification/Discovery.thy ===== *)
theory Discovery
  imports Netip
begin

text \<open>
  Package \<^verbatim>\<open>internal/discovery\<close>: the observations the backends publish
  (\<^verbatim>\<open>types.go\<close>), the classification of an mDNS record into a device family
  (\<^verbatim>\<open>classify.go\<close>) and the parsing of TXT records (\<^verbatim>\<open>txt.go\<close>).
\<close>

type_synonym txt_map = "string \<Rightarrow> string option"

text \<open>Reading a missing key of a \<^verbatim>\<open>map[string]string\<close> gives the empty string.\<close>

definition txt_get :: "txt_map \<Rightarrow> string \<Rightarrow> string" where
  "txt_get m k = (case m k of None \<Rightarrow> [] | Some v \<Rightarrow> v)"

section \<open>Observations\<close>

type_synonym kind = string

definition KindESPHome :: kind where "KindESPHome = ''esphome''"
definition KindShelly :: kind where "KindShelly = ''shelly''"
definition KindUnknown :: kind where "KindUnknown = ''unknown''"

definition ServiceESPHome :: string where "ServiceESPHome = ''_esphomelib._tcp''"
definition ServiceShelly :: string where "ServiceShelly = ''_shelly._tcp''"
definition ServiceHTTP :: string where "ServiceHTTP = ''_http._tcp''"

record EndpointKey =
  key_ServiceType :: string
  key_Interface :: int
  key_Protocol :: string

definition ProtoIPv4 :: string where "ProtoIPv4 = ''ipv4''"
definition ProtoIPv6 :: string where "ProtoIPv6 = ''ipv6''"

definition zero_key :: EndpointKey where
  "zero_key = \<lparr>key_ServiceType = [], key_Interface = 0, key_Protocol = []\<rparr>"

record Endpoint =
  ep_Key :: EndpointKey
  ep_Host :: string
  ep_Addr :: netip_addr
  ep_Port :: "16 word"
  ep_TXT :: txt_map
  ep_Cached :: bool
  ep_Trusted :: bool
  ep_ObservedAt :: time

definition zero_endpoint :: Endpoint where
  "zero_endpoint = \<lparr>ep_Key = zero_key, ep_Host = [], ep_Addr = NoAddr, ep_Port = 0,
     ep_TXT = Map.empty, ep_Cached = False, ep_Trusted = False, ep_ObservedAt = zero_time\<rparr>"

datatype EventType = EventAdd | EventRemove | EventSourceReset

definition EventType_String :: "EventType \<Rightarrow> string" where
  "EventType_String t =
     (case t of EventAdd \<Rightarrow> ''add'' | EventRemove \<Rightarrow> ''remove'' | EventSourceReset \<Rightarrow> ''source_reset'')"

record Event =
  ev_Type :: EventType
  ev_Source :: string
  ev_DeviceID :: string
  ev_Instance :: string
  ev_Unnamed :: bool
  ev_Domain :: string
  ev_Kind :: kind
  ev_Endpoint :: Endpoint
  ev_At :: time

definition StaticID :: "string \<Rightarrow> string" where
  "StaticID i = ''static:'' @ to_lower i"

section \<open>Classification\<close>

definition instanceLabel :: "string \<Rightarrow> string" where
  "instanceLabel inst =
     (case index_of inst ''._'' of
        Some (Suc i) \<Rightarrow> take (Suc i) inst
      | _ \<Rightarrow> trim_suffix inst ''.'')"

definition normaliseServiceType :: "string \<Rightarrow> string" where
  "normaliseServiceType s =
     trim_suffix (trim_suffix (trim_suffix (trim_space s) ''.'') ''.local'') ''.''"

definition isHexDigit :: "char \<Rightarrow> bool" where
  "isHexDigit c \<longleftrightarrow> is_digit_char c
     \<or> (97 \<le> char_code c \<and> char_code c \<le> 102) \<or> (65 \<le> char_code c \<and> char_code c \<le> 70)"

definition looksLikeShellyGen1 :: "string \<Rightarrow> bool" where
  "looksLikeShellyGen1 inst =
     (let name = to_lower (instanceLabel inst)
      in if \<not> has_prefix name ''shelly'' then False
         else case last_index name (CHR ''-'') of
            None \<Rightarrow> False
          | Some i \<Rightarrow>
              (let sfx = drop (Suc i) name
               in if length sfx \<noteq> 6 \<and> length sfx \<noteq> 12 then False
                  else list_all isHexDigit sfx))"

definition Classify :: "string \<Rightarrow> string \<Rightarrow> txt_map \<Rightarrow> kind" where
  "Classify serviceType inst txt =
     (let st = normaliseServiceType serviceType
      in if st = ServiceESPHome then KindESPHome
         else if st = ServiceShelly then KindShelly
         else if st = ServiceHTTP then
           (if txt ''gen'' \<noteq> None then KindShelly
            else if looksLikeShellyGen1 inst then KindShelly
            else KindUnknown)
         else KindUnknown)"

text \<open>
  \<^verbatim>\<open>strconv.Atoi\<close> accepts an optional sign before the digits; a value that overflows
  int is an error, and every such value is above 9, so the bound below covers it.
\<close>

definition atoi :: "string \<Rightarrow> int option" where
  "atoi s =
     (case s of
        [] \<Rightarrow> None
      | c # r \<Rightarrow>
          (if c = CHR ''-'' then map_option (\<lambda>n. - int n) (parse_nat r)
           else if c = CHR ''+'' then map_option int (parse_nat r)
           else map_option int (parse_nat s)))"

definition ShellyGeneration :: "txt_map \<Rightarrow> int" where
  "ShellyGeneration txt =
     (case atoi (trim_space (txt_get txt ''gen'')) of
        None \<Rightarrow> 0
      | Some g \<Rightarrow> (if g < 1 \<or> 9 < g then 0 else g))"

section \<open>TXT records\<close>

text \<open>
  The width of the UTF-8 sequence a byte string starts with, \<open>0\<close> when it starts with none
  (\<^verbatim>\<open>utf8.DecodeRuneInString\<close>), and \<^verbatim>\<open>strings.ToValidUTF8\<close> with the
  replacement character: every run of bytes that belong to no sequence becomes one of it.
\<close>

definition in_range :: "nat \<Rightarrow> nat \<Rightarrow> char \<Rightarrow> bool" where
  "in_range lo hi c \<longleftrightarrow> lo \<le> char_code c \<and> char_code c \<le> hi"

definition cont_byte :: "char \<Rightarrow> bool" where
  "cont_byte = in_range 128 191"

fun rune_len :: "string \<Rightarrow> nat" where
  "rune_len [] = 0"
| "rune_len (a # s) =
     (if char_code a < 128 then 1
      else case s of
        [] \<Rightarrow> 0
      | b # t \<Rightarrow>
          (if in_range 194 223 a then (if cont_byte b then 2 else 0)
           else if (char_code a = 224 \<and> in_range 160 191 b)
              \<or> (in_range 225 236 a \<and> cont_byte b)
              \<or> (char_code a = 237 \<and> in_range 128 159 b)
              \<or> (in_range 238 239 a \<and> cont_byte b) then
             (case t of c # _ \<Rightarrow> (if cont_byte c then 3 else 0) | [] \<Rightarrow> 0)
           else if (char_code a = 240 \<and> in_range 144 191 b)
              \<or> (in_range 241 243 a \<and> cont_byte b)
              \<or> (char_code a = 244 \<and> in_range 128 143 b) then
             (case t of c # d # _ \<Rightarrow> (if cont_byte c \<and> cont_byte d then 4 else 0) | _ \<Rightarrow> 0)
           else 0))"

definition replacement_rune :: string where
  "replacement_rune = [char_of (239::nat), char_of (191::nat), char_of (189::nat)]"

function valid_runs :: "bool \<Rightarrow> string \<Rightarrow> string" where
  "valid_runs inRun [] = []"
| "valid_runs inRun (c # s) =
     (let n = rune_len (c # s)
      in if n = 0 then (if inRun then [] else replacement_rune) @ valid_runs True s
         else take n (c # s) @ valid_runs False (drop n (c # s)))"
  by pat_completeness auto
termination
  by (relation "measure (\<lambda>(b, s). length s)") auto

definition to_valid_utf8 :: "string \<Rightarrow> string" where
  "to_valid_utf8 s = valid_runs False s"

definition parse_txt_step :: "txt_map \<Rightarrow> string \<Rightarrow> txt_map" where
  "parse_txt_step out rec =
     (case cut rec (CHR ''='') of (key0, value, hasValue) \<Rightarrow>
        (let key = to_lower (trim_space key0)
         in if key = [] then out
            else if out key \<noteq> None then out
            else if \<not> hasValue then out(key \<mapsto> [])
            else out(key \<mapsto> to_valid_utf8 value)))"

definition ParseTXT :: "string list \<Rightarrow> txt_map" where
  "ParseTXT records = foldl parse_txt_step Map.empty records"

text \<open>A byte slice and a string are the same list here, so the adapter for Avahi converts each
  record by the identity.\<close>

definition ParseTXTBytes :: "string list \<Rightarrow> txt_map" where
  "ParseTXTBytes records = ParseTXT (map (\<lambda>r. r) records)"

text \<open>What one record declares: its key, lower-cased and trimmed, and its value.\<close>

definition txt_record :: "string \<Rightarrow> (string \<times> string) option" where
  "txt_record rec =
     (case cut rec (CHR ''='') of (key0, value, hasValue) \<Rightarrow>
        (let key = to_lower (trim_space key0)
         in if key = [] then None
            else Some (key, if hasValue then to_valid_utf8 value else [])))"

lemma parse_txt_step_record:
  "parse_txt_step out r =
     (case txt_record r of
        None \<Rightarrow> out
      | Some (k, v) \<Rightarrow> (if out k = None then out(k \<mapsto> v) else out))"
  by (auto simp: parse_txt_step_def txt_record_def Let_def split: prod.split)

lemma foldl_txt_records:
  "foldl parse_txt_step out rs k =
     (case out k of Some v \<Rightarrow> Some v | None \<Rightarrow> map_of (List.map_filter txt_record rs) k)"
proof (induction rs arbitrary: out)
  case Nil
  then show ?case by (simp add: List.map_filter_simps split: option.split)
next
  case (Cons r rs)
  from Cons.IH [of "parse_txt_step out r"] show ?case
    by (auto simp: parse_txt_step_record [of out r] List.map_filter_simps split: option.splits)
qed

text \<open>
  A value that is already valid UTF-8 is kept as it is: here, ASCII.
\<close>

lemma rune_len_le: "rune_len s \<le> length s"
  by (cases s) (auto split: list.splits)

lemma to_valid_ascii: "list_all (\<lambda>c. char_code c < 128) s \<Longrightarrow> to_valid_utf8 s = s"
proof -
  have "list_all (\<lambda>c. char_code c < 128) s \<Longrightarrow> valid_runs b s = s" for b
    by (induction b s rule: valid_runs.induct) (auto simp: Let_def)
  then show "list_all (\<lambda>c. char_code c < 128) s \<Longrightarrow> to_valid_utf8 s = s"
    by (simp add: to_valid_utf8_def)
qed

end
