(* ===== verification/Identity.thy ===== *)
theory Identity
  imports Discovery
begin

text \<open>
  \<^verbatim>\<open>internal/registry/identity.go\<close>: how the registry derives a device identifier from
  an observation, with the strongest evidence first (a full MAC, then the short Gen1 form, then
  the name), and what shape the identifiers have.
\<close>

definition prefixMAC :: string where "prefixMAC = ''mac:''"
definition prefixShortID :: string where "prefixShortID = ''shortid:''"
definition prefixName :: string where "prefixName = ''name:''"
definition prefixStatic :: string where "prefixStatic = ''static:''"

definition NormaliseMAC :: "string \<Rightarrow> string" where
  "NormaliseMAC s = filter is_hex_lower (to_lower (trim_space s))"

definition regInstanceLabel :: "string \<Rightarrow> string" where
  "regInstanceLabel inst =
     (let inst' = (case index_of inst ''._'' of
                     Some (Suc i) \<Rightarrow> take (Suc i) inst
                   | _ \<Rightarrow> inst)
      in trim_suffix (trim_suffix inst' ''.'') ''.local'')"

text \<open>
  The regular expression \<^verbatim>\<open>(?i)-([0-9a-f]{12}|[0-9a-f]{6})$\<close> matches exactly the
  strings that end in a dash and 12, or a dash and 6, hexadecimal digits; \<open>hex_tail n s\<close> is
  the capture for \<open>n\<close> digits.
\<close>

definition hex_tail :: "nat \<Rightarrow> string \<Rightarrow> string option" where
  "hex_tail n s =
     (if n < length s \<and> s ! (length s - n - 1) = CHR ''-''
         \<and> list_all is_hex_any (drop (length s - n) s)
      then Some (drop (length s - n) s) else None)"

definition macFromName :: "string \<Rightarrow> string" where
  "macFromName s =
     (let l = regInstanceLabel s
      in case hex_tail 12 l of
           Some m \<Rightarrow> to_lower m
         | None \<Rightarrow> (case hex_tail 6 l of Some m \<Rightarrow> to_lower m | None \<Rightarrow> []))"

definition DeriveID :: "kind \<Rightarrow> string \<Rightarrow> txt_map \<Rightarrow> string" where
  "DeriveID kind inst txt =
     (let mac = NormaliseMAC (txt_get txt ''mac'')
      in if length mac = 12 then prefixMAC @ mac
         else (let mac = macFromName (txt_get txt ''id'')
               in if length mac = 12 then prefixMAC @ mac
                  else (let label = regInstanceLabel inst; mac = macFromName label
                        in if length mac = 12 then prefixMAC @ mac
                           else if length mac = 6 then prefixShortID @ to_lower label
                           else prefixName @ to_lower label)))"

definition IsMACID :: "string \<Rightarrow> bool" where
  "IsMACID i \<longleftrightarrow> has_prefix i prefixMAC"

definition MACOfID :: "string \<Rightarrow> string" where
  "MACOfID i = (if \<not> IsMACID i then [] else trim_prefix i prefixMAC)"

text \<open>The byte-wise lower-casing of \<^verbatim>\<open>registry.go\<close>.\<close>

definition lower :: "string \<Rightarrow> string" where
  "lower s = map (\<lambda>c. if 65 \<le> char_code c \<and> char_code c \<le> 90
                       then char_of (char_code c + (97 - 65)) else c) s"

section \<open>Shape of identifiers\<close>

definition is_mac :: "string \<Rightarrow> bool" where
  "is_mac m \<longleftrightarrow> length m = 12 \<and> list_all is_hex_lower m"

lemma lower_to_lower: "lower s = to_lower s"
  by (simp add: lower_def to_lower_def lower_char_def is_upper_char_def)

lemma NormaliseMAC_hex: "list_all is_hex_lower (NormaliseMAC s)"
  by (auto simp: NormaliseMAC_def list_all_iff)

lemma NormaliseMAC_id: "list_all is_hex_lower m \<Longrightarrow> NormaliseMAC m = m"
proof -
  assume m: "list_all is_hex_lower m"
  then have "trim_space m = m"
    by (intro trim_space_id) (auto simp: list_all_iff hex_lower_not_space)
  moreover from m have "to_lower m = m"
    by (induction m) (auto simp: to_lower_def lower_char_hex_id)
  ultimately show ?thesis
    using m by (simp add: NormaliseMAC_def list_all_iff)
qed

lemma hex_tail_length: "hex_tail n s = Some m \<Longrightarrow> length m = n"
  by (auto simp: hex_tail_def split: if_splits)

lemma hex_tail_hex: "hex_tail n s = Some m \<Longrightarrow> list_all is_hex_any m"
  by (auto simp: hex_tail_def split: if_splits)

lemma hex_tail_append:
  "list_all is_hex_any m \<Longrightarrow> hex_tail (length m) (p @ CHR ''-'' # m) = Some m"
  by (simp add: hex_tail_def nth_append)

lemma lower_hex: "list_all is_hex_any m \<Longrightarrow> list_all is_hex_lower (to_lower m)"
  by (auto simp: to_lower_def list_all_iff lower_char_hex_any)

lemma macFromName_hex: "list_all is_hex_lower (macFromName s)"
  by (auto simp: macFromName_def Let_def lower_hex hex_tail_hex split: option.splits)

lemma macFromName_is_mac: "length (macFromName s) = 12 \<Longrightarrow> is_mac (macFromName s)"
  by (simp add: is_mac_def macFromName_hex)

lemma prefix_distinct [simp]:
  "\<not> has_prefix (prefixShortID @ s) prefixMAC"
  "\<not> has_prefix (prefixName @ s) prefixMAC"
  "\<not> has_prefix (prefixMAC @ s) prefixShortID"
  "\<not> has_prefix (prefixName @ s) prefixShortID"
  by (simp_all add: has_prefix_def prefixMAC_def prefixShortID_def prefixName_def)

lemma MACOfID_mac [simp]: "MACOfID (prefixMAC @ m) = m"
  by (simp add: MACOfID_def IsMACID_def)

lemma IsMACID_simps [simp]:
  "IsMACID (prefixMAC @ m)" "\<not> IsMACID (prefixShortID @ m)" "\<not> IsMACID (prefixName @ m)"
  by (simp_all add: IsMACID_def)

lemma IsMACID_MACOfID: "IsMACID i \<Longrightarrow> i = prefixMAC @ MACOfID i"
  by (auto simp: IsMACID_def MACOfID_def has_prefix_iff)

text \<open>The three forms of a derived identifier.\<close>

lemma DeriveID_cases:
  obtains (mac) m where "DeriveID k inst txt = prefixMAC @ m" "is_mac m"
    | (short) "DeriveID k inst txt = prefixShortID @ to_lower (regInstanceLabel inst)"
        "length (macFromName (regInstanceLabel inst)) = 6"
    | (name) "DeriveID k inst txt = prefixName @ to_lower (regInstanceLabel inst)"
proof -
  consider
    "length (NormaliseMAC (txt_get txt ''mac'')) = 12"
  | "length (NormaliseMAC (txt_get txt ''mac'')) \<noteq> 12" "length (macFromName (txt_get txt ''id'')) = 12"
  | "length (NormaliseMAC (txt_get txt ''mac'')) \<noteq> 12" "length (macFromName (txt_get txt ''id'')) \<noteq> 12"
    by blast
  then show thesis
  proof cases
    case 1
    then show ?thesis
      by (intro mac [of "NormaliseMAC (txt_get txt ''mac'')"])
         (simp_all add: DeriveID_def is_mac_def NormaliseMAC_hex)
  next
    case 2
    then show ?thesis
      by (intro mac [of "macFromName (txt_get txt ''id'')"])
         (simp_all add: DeriveID_def macFromName_is_mac)
  next
    case 3
    then show ?thesis
      using mac [of "macFromName (regInstanceLabel inst)"] short name
      by (cases "length (macFromName (regInstanceLabel inst)) = 12";
          cases "length (macFromName (regInstanceLabel inst)) = 6")
         (simp_all add: DeriveID_def Let_def macFromName_is_mac)
  qed
qed

lemma DeriveID_nonempty [simp]: "DeriveID k inst txt \<noteq> []"
  by (cases rule: DeriveID_cases [of k inst "txt"])
     (simp_all add: prefixMAC_def prefixShortID_def prefixName_def)

lemma IsMACID_DeriveID: "IsMACID (DeriveID k inst txt) \<Longrightarrow> is_mac (MACOfID (DeriveID k inst txt))"
  by (cases rule: DeriveID_cases [of k inst "txt"]) simp_all

lemma DeriveID_txt_mac:
  "is_mac (NormaliseMAC (txt_get txt ''mac'')) \<Longrightarrow>
     DeriveID k inst txt = prefixMAC @ NormaliseMAC (txt_get txt ''mac'')"
  by (simp add: DeriveID_def is_mac_def)

lemma DeriveID_not_static: "\<not> has_prefix (DeriveID k inst txt) prefixStatic"
  by (cases rule: DeriveID_cases [of k inst "txt"])
     (simp_all add: has_prefix_def prefixMAC_def prefixShortID_def prefixName_def prefixStatic_def)

end
