(* ===== verification/AddressPolicy.thy ===== *)
theory AddressPolicy
  imports Netip
begin

text \<open>
  \<^verbatim>\<open>internal/registry/address.go\<close>: which of a device's observed addresses are dialled,
  and in which order.  The candidates come from a Go map, so their order is arbitrary; the lemmas
  here say what of the result depends on it.
\<close>

record AddressPolicy =
  pol_AllowIPv6 :: bool
  pol_Allow :: "netip_prefix list"
  pol_Deny :: "netip_prefix list"

record AddressCandidate =
  cand_Addr :: netip_addr
  cand_Trusted :: bool

text \<open>
  \<^verbatim>\<open>NewAddressPolicy\<close> parses the configured CIDRs in order and stops at the first one
  that does not parse; the parser \<^verbatim>\<open>netip.ParsePrefix\<close> is the argument
  \<open>parsePrefix\<close>.
\<close>

fun parse_all :: "(string \<Rightarrow> 'e + netip_prefix) \<Rightarrow> string list \<Rightarrow> 'e + netip_prefix list" where
  "parse_all parsePrefix [] = Inr []"
| "parse_all parsePrefix (s # ss) =
     (case parsePrefix s of
        Inl e \<Rightarrow> Inl e
      | Inr p \<Rightarrow> (case parse_all parsePrefix ss of
                   Inl e \<Rightarrow> Inl e
                 | Inr ps \<Rightarrow> Inr (prefix_masked p # ps)))"

definition NewAddressPolicy ::
  "(string \<Rightarrow> 'e + netip_prefix) \<Rightarrow> bool \<Rightarrow> string list \<Rightarrow> string list \<Rightarrow> 'e + AddressPolicy" where
  "NewAddressPolicy parsePrefix allowIPv6 allow deny =
     (case parse_all parsePrefix allow of
        Inl e \<Rightarrow> Inl e
      | Inr as \<Rightarrow> (case parse_all parsePrefix deny of
                   Inl e \<Rightarrow> Inl e
                 | Inr ds \<Rightarrow> Inr \<lparr>pol_AllowIPv6 = allowIPv6, pol_Allow = as, pol_Deny = ds\<rparr>))"

definition score :: "AddressPolicy \<Rightarrow> netip_addr \<Rightarrow> int" where
  "score p addr0 =
     (if \<not> is_valid addr0 then -1
      else let addr = unmap addr0 in
        if is_loopback addr \<or> is_multicast addr \<or> is_unspecified addr then -1
        else if is_link_local_unicast addr \<or> is_link_local_multicast addr then -1
        else if is_interface_local_multicast addr then -1
        else if list_ex (\<lambda>d. prefix_contains d addr) (pol_Deny p) then -1
        else if is6 addr \<and> \<not> pol_AllowIPv6 p then -1
        else let inAllow = (pol_Allow p = [] \<or> list_ex (\<lambda>a. prefix_contains a addr) (pol_Allow p)) in
          if \<not> inAllow then (if is4 addr then 10 else 5)
          else if is4 addr \<and> pol_Allow p \<noteq> [] then 100
          else if is4 addr then 80
          else 40)"

definition Usable :: "AddressPolicy \<Rightarrow> netip_addr \<Rightarrow> bool" where
  "Usable p addr \<longleftrightarrow> 0 \<le> score p addr"

text \<open>First occurrences, in order (\<^verbatim>\<open>dedupe\<close>).\<close>

fun dedupe_from :: "netip_addr list \<Rightarrow> netip_addr list \<Rightarrow> netip_addr list" where
  "dedupe_from seen [] = []"
| "dedupe_from seen (a # as) =
     (if a \<in> set seen then dedupe_from seen as else a # dedupe_from (a # seen) as)"

definition dedupe :: "netip_addr list \<Rightarrow> netip_addr list" where
  "dedupe addrs = dedupe_from [] addrs"

text \<open>Moving an element to the front, if it is present (\<^verbatim>\<open>slices.Index\<close>,
  \<^verbatim>\<open>slices.Delete\<close>, \<^verbatim>\<open>slices.Insert\<close>).\<close>

definition move_front :: "'a \<Rightarrow> 'a list \<Rightarrow> 'a list" where
  "move_front x xs = (if x \<in> set xs then x # remove1 x xs else xs)"

fun scored_from :: "AddressPolicy \<Rightarrow> netip_addr list \<Rightarrow> netip_addr list \<Rightarrow> (netip_addr \<times> int) list" where
  "scored_from p seen [] = []"
| "scored_from p seen (c # cs) =
     (let c' = unmap c in
      if c' \<in> set seen then scored_from p seen cs
      else let s = score p c' in
        (if 0 \<le> s then (c', s) # scored_from p (c' # seen) cs
         else scored_from p (c' # seen) cs))"

text \<open>The comparison of the sort: descending score, then the address order.\<close>

definition scored_le :: "netip_addr \<times> int \<Rightarrow> netip_addr \<times> int \<Rightarrow> bool" where
  "scored_le a b \<longleftrightarrow> (if snd a \<noteq> snd b then snd b \<le> snd a else fst a \<le> fst b)"

fun insert_scored :: "netip_addr \<times> int \<Rightarrow> (netip_addr \<times> int) list \<Rightarrow> (netip_addr \<times> int) list" where
  "insert_scored x [] = [x]"
| "insert_scored x (y # ys) = (if scored_le x y then x # y # ys else y # insert_scored x ys)"

fun sort_scored :: "(netip_addr \<times> int) list \<Rightarrow> (netip_addr \<times> int) list" where
  "sort_scored [] = []"
| "sort_scored (x # xs) = insert_scored x (sort_scored xs)"

definition Order :: "AddressPolicy \<Rightarrow> netip_addr list \<Rightarrow> netip_addr \<Rightarrow> netip_addr list" where
  "Order p candidates pinned =
     (let addrs = map fst (sort_scored (scored_from p [] candidates))
      in if is_valid pinned then move_front (unmap pinned) addrs else addrs)"

definition OrderCandidates ::
  "AddressPolicy \<Rightarrow> AddressCandidate list \<Rightarrow> netip_addr \<Rightarrow> netip_addr list \<times> netip_addr list" where
  "OrderCandidates p candidates pinned =
     (let trusted = map (\<lambda>c. unmap (cand_Addr c)) (filter cand_Trusted candidates);
          rest = filter (\<lambda>c. \<not> cand_Trusted c) candidates;
          discovered = map (\<lambda>c. unmap (cand_Addr c)) (filter (\<lambda>c. Usable p (cand_Addr c)) rest);
          rejected = map (\<lambda>c. unmap (cand_Addr c)) (filter (\<lambda>c. \<not> Usable p (cand_Addr c)) rest);
          ordered = dedupe trusted @ Order p discovered pinned
      in (if is_valid pinned then move_front (unmap pinned) ordered else ordered, rejected))"

section \<open>De-duplication and the front\<close>

lemma set_dedupe_from: "set (dedupe_from seen as) = set as - set seen"
  by (induction as arbitrary: seen) auto

lemma distinct_dedupe_from: "distinct (dedupe_from seen as)"
  by (induction as arbitrary: seen) (auto simp: set_dedupe_from)

lemma set_dedupe [simp]: "set (dedupe as) = set as"
  by (simp add: dedupe_def set_dedupe_from)

lemma distinct_dedupe [simp]: "distinct (dedupe as)"
  by (simp add: dedupe_def distinct_dedupe_from)

lemma set_move_front [simp]: "set (move_front x xs) = set xs"
proof -
  have "x \<in> set xs \<Longrightarrow> insert x (set (remove1 x xs)) = set xs"
    by (induction xs) auto
  then show ?thesis by (simp add: move_front_def)
qed

lemma mset_move_front [simp]: "mset (move_front x xs) = mset xs"
  by (simp add: move_front_def)

lemma distinct_move_front [simp]: "distinct (move_front x xs) = distinct xs"
  by (metis mset_eq_imp_distinct_iff mset_move_front)

lemma hd_move_front: "x \<in> set xs \<Longrightarrow> hd (move_front x xs) = x"
  by (simp add: move_front_def)

section \<open>Ordering\<close>

lemma scored_le_refl [simp]: "scored_le a a"
  by (simp add: scored_le_def)

lemma scored_le_trans: "scored_le a b \<Longrightarrow> scored_le b c \<Longrightarrow> scored_le a c"
  by (auto simp: scored_le_def split: if_splits)

lemma scored_le_antisym: "scored_le a b \<Longrightarrow> scored_le b a \<Longrightarrow> a = b"
  by (auto simp: scored_le_def prod_eq_iff split: if_splits)

lemma scored_le_total: "scored_le a b \<or> scored_le b a"
  by (auto simp: scored_le_def)

lemma mset_sort_scored [simp]: "mset (sort_scored xs) = mset xs"
proof -
  have "mset (insert_scored x ys) = add_mset x (mset ys)" for x ys
    by (induction ys) auto
  then show ?thesis by (induction xs) auto
qed

lemma set_sort_scored [simp]: "set (sort_scored xs) = set xs"
  by (metis mset_eq_setD mset_sort_scored)

lemma sorted_sort_scored: "sorted_wrt scored_le (sort_scored xs)"
proof -
  have set_ins: "set (insert_scored x ys) = insert x (set ys)" for x ys
    by (induction ys) auto
  have "sorted_wrt scored_le ys \<Longrightarrow> sorted_wrt scored_le (insert_scored x ys)" for x ys
    by (induction ys) (auto simp: set_ins intro: scored_le_trans, metis scored_le_total)
  then show ?thesis by (induction xs) auto
qed

lemma sorted_scored_unique:
  "sorted_wrt scored_le xs \<Longrightarrow> sorted_wrt scored_le ys \<Longrightarrow> mset xs = mset ys \<Longrightarrow> xs = ys"
proof (induction xs arbitrary: ys)
  case (Cons x xs)
  then obtain y ys' where ys: "ys = y # ys'"
    by (cases ys) auto
  have sets: "insert x (set xs) = insert y (set ys')"
    using Cons.prems(3) ys by (metis list.simps(15) mset_eq_setD)
  have "scored_le x y"
    using Cons.prems(1) sets
    by (metis insertI1 insert_iff scored_le_refl sorted_wrt.simps(2))
  moreover have "scored_le y x"
    using Cons.prems(2) sets ys by (metis insertI1 insert_iff scored_le_refl sorted_wrt.simps(2))
  ultimately have "x = y" by (rule scored_le_antisym)
  with Cons ys show ?case by auto
qed auto

lemma set_scored_from:
  "set (scored_from p seen cs)
     = {(a, score p a) | a. a \<in> unmap ` set cs \<and> a \<notin> set seen \<and> 0 \<le> score p a}"
  by (induction cs arbitrary: seen) (auto simp: Let_def)

lemma fst_set_scored_from:
  "fst ` set (scored_from p seen cs)
     = {a \<in> unmap ` set cs. a \<notin> set seen \<and> 0 \<le> score p a}"
  by (force simp: set_scored_from)

lemma distinct_scored_from: "distinct (map fst (scored_from p seen cs))"
proof (induction cs arbitrary: seen)
  case (Cons c cs)
  then show ?case
    using fst_set_scored_from [of p "unmap c # seen" cs] by (auto simp: Let_def)
qed simp

lemma scored_from_mset_cong:
  assumes "unmap ` set cs = unmap ` set cs'"
  shows "mset (scored_from p [] cs) = mset (scored_from p [] cs')"
proof -
  have "distinct (scored_from p [] cs)" "distinct (scored_from p [] cs')"
    by (rule distinct_map [THEN iffD1, THEN conjunct1, OF distinct_scored_from])+
  moreover have "set (scored_from p [] cs) = set (scored_from p [] cs')"
    by (simp add: set_scored_from assms)
  ultimately show ?thesis by (simp add: set_eq_iff_mset_eq_distinct)
qed

lemma Order_cong:
  assumes "unmap ` set cs = unmap ` set cs'"
  shows "Order p cs pin = Order p cs' pin"
proof -
  have "sort_scored (scored_from p [] cs) = sort_scored (scored_from p [] cs')"
    by (rule sorted_scored_unique)
       (simp_all add: sorted_sort_scored scored_from_mset_cong [OF assms])
  then show ?thesis by (simp add: Order_def)
qed

lemma score_unmap [simp]: "score p (unmap a) = score p a"
  by (simp add: score_def)

lemma set_Order: "set (Order p cs pin) = {a \<in> unmap ` set cs. Usable p a}"
  using fst_set_scored_from [of p "[]" cs] by (auto simp: Order_def Let_def Usable_def)

lemma distinct_Order: "distinct (Order p cs pin)"
proof -
  have "distinct (map fst (sort_scored (scored_from p [] cs)))"
    using distinct_scored_from
    by (metis mset_eq_imp_distinct_iff mset_map mset_sort_scored)
  then show ?thesis by (simp add: Order_def Let_def)
qed

lemma hd_Order_pinned:
  "is_valid pin \<Longrightarrow> unmap pin \<in> unmap ` set cs \<Longrightarrow> Usable p pin \<Longrightarrow> hd (Order p cs pin) = unmap pin"
  using set_Order [of p cs NoAddr] score_unmap [of p pin]
  by (auto simp: Order_def Let_def Usable_def simp del: score_unmap intro!: hd_move_front)

text \<open>Without a pinned address, the list is sorted: descending score, ascending address.\<close>

lemma sorted_Order:
  assumes "\<not> is_valid pin"
  shows "sorted_wrt (\<lambda>a b. score p b < score p a \<or> (score p a = score p b \<and> a < b)) (Order p cs pin)"
proof -
  let ?xs = "sort_scored (scored_from p [] cs)"
  have snd: "\<And>x. x \<in> set ?xs \<Longrightarrow> snd x = score p (fst x)"
    by (auto simp: set_scored_from)
  have "distinct (map fst ?xs)"
    using distinct_Order [of p cs NoAddr] by (simp add: Order_def)
  with sorted_sort_scored [of "scored_from p [] cs"]
  have "sorted_wrt (\<lambda>x y. scored_le x y \<and> fst x \<noteq> fst y) ?xs"
    by (auto simp: sorted_wrt_iff_nth_less distinct_conv_nth)
  then have "sorted_wrt (\<lambda>x y. score p (fst y) < score p (fst x)
      \<or> (score p (fst x) = score p (fst y) \<and> fst x < fst y)) ?xs"
    by (rule sorted_wrt_mono_rel [rotated]) (auto simp: scored_le_def snd split: if_splits)
  with assms show ?thesis by (simp add: Order_def Let_def sorted_wrt_map)
qed

section \<open>The candidates of a device\<close>

lemma set_OrderCandidates:
  "set (fst (OrderCandidates p cs pin))
     = {unmap (cand_Addr c) | c. c \<in> set cs \<and> (cand_Trusted c \<or> Usable p (cand_Addr c))}"
  by (auto simp: OrderCandidates_def Let_def set_Order Usable_def image_iff)

lemma set_rejected:
  "set (snd (OrderCandidates p cs pin))
     = {unmap (cand_Addr c) | c. c \<in> set cs \<and> \<not> cand_Trusted c \<and> \<not> Usable p (cand_Addr c)}"
  by (auto simp: OrderCandidates_def Let_def)

lemma OrderCandidates_pinned_first:
  "is_valid pin \<Longrightarrow> unmap pin \<in> set (fst (OrderCandidates p cs pin)) \<Longrightarrow>
     hd (fst (OrderCandidates p cs pin)) = unmap pin"
  by (auto simp: OrderCandidates_def Let_def intro!: hd_move_front)

lemma dedupe_from_single: "set as \<subseteq> {a} \<Longrightarrow> dedupe_from [a] as = []"
  by (induction as) auto

lemma dedupe_single: "set as \<subseteq> {a} \<Longrightarrow> dedupe as = (if as = [] then [] else [a])"
  by (cases as) (auto simp: dedupe_def dedupe_from_single)

text \<open>
  The order in which the runtime iterates the endpoints does not reach the result, as long as
  the operator vouched for at most one address of the device.
\<close>

lemma OrderCandidates_perm:
  assumes perm: "mset cs = mset cs'"
    and one: "\<And>c. c \<in> set cs \<Longrightarrow> cand_Trusted c \<Longrightarrow> unmap (cand_Addr c) = t"
  shows "fst (OrderCandidates p cs pin) = fst (OrderCandidates p cs' pin)"
proof -
  have sets: "set cs = set cs'" using perm by (rule mset_eq_setD)
  let ?tr = "\<lambda>cs. map (\<lambda>c. unmap (cand_Addr c)) (filter cand_Trusted cs)"
  let ?di = "\<lambda>cs. map (\<lambda>c. unmap (cand_Addr c))
    (filter (\<lambda>c. Usable p (cand_Addr c)) (filter (\<lambda>c. \<not> cand_Trusted c) cs))"
  have "?tr cs = [] \<longleftrightarrow> ?tr cs' = []"
    using sets by (auto simp: filter_empty_conv)
  moreover have "set (?tr cs) \<subseteq> {t}" "set (?tr cs') \<subseteq> {t}"
    using one sets by auto
  ultimately have "dedupe (?tr cs) = dedupe (?tr cs')"
    using dedupe_single [of "?tr cs" t] dedupe_single [of "?tr cs'" t] by simp
  moreover have "Order p (?di cs) pin = Order p (?di cs') pin"
    by (rule Order_cong) (simp add: sets)
  ultimately show ?thesis by (simp add: OrderCandidates_def Let_def)
qed

end
