(* ===== verification/Config.thy ===== *)
theory Config
  imports Complex_Main Prelude
begin

text \<open>
  \<^verbatim>\<open>internal/config\<close>: the configuration records and their defaults
  (\<^verbatim>\<open>config.go\<close>), secrets (\<^verbatim>\<open>secret.go\<close>) and the validation that
  \<^verbatim>\<open>Load\<close> runs (\<^verbatim>\<open>load.go\<close>).  Floating-point settings are real numbers.
  An error that the code formats is a constructor of \<open>ConfigError\<close>; the address, prefix and
  URL parsers and the file system are arguments.
\<close>

section \<open>Secrets\<close>

type_synonym Secret = string

definition redacted :: string where "redacted = ''<secret>''"

definition redactedIfSet :: "Secret \<Rightarrow> string" where
  "redactedIfSet s = (if s = [] then [] else redacted)"

definition Secret_String :: "Secret \<Rightarrow> string" where "Secret_String s = redactedIfSet s"
definition Secret_GoString :: "Secret \<Rightarrow> string" where "Secret_GoString s = redactedIfSet s"
definition Secret_MarshalYAML :: "Secret \<Rightarrow> string" where "Secret_MarshalYAML s = redactedIfSet s"

definition Secret_MarshalJSON :: "Secret \<Rightarrow> string" where
  "Secret_MarshalJSON s =
     (if s = [] then [CHR 34, CHR 34] else [CHR 34] @ redacted @ [CHR 34])"

definition Reveal :: "Secret \<Rightarrow> string" where "Reveal s = s"
definition IsSet :: "Secret \<Rightarrow> bool" where "IsSet s \<longleftrightarrow> s \<noteq> []"

section \<open>Configuration\<close>

record LogConfig =
  log_Level :: string
  log_Format :: string

record ServerConfig =
  srv_Listen :: string
  srv_ReadHeaderTimeout :: duration
  srv_ShutdownTimeout :: duration
  srv_MaxRequests :: int
  srv_WebConfigFile :: string
  srv_Pprof :: bool

record CloudDiscoveryConfig =
  cd_Interval :: duration
  cd_IncludeOffline :: bool

record AvahiConfig =
  av_DBusAddress :: string
  av_Required :: bool
  av_StartupTimeout :: duration
  av_ReconnectMin :: duration
  av_ReconnectMax :: duration
  av_ResolveTimeout :: duration
  av_ResolveConcurrency :: int
  av_HealthCheckInterval :: duration
  av_RebrowseInterval :: duration

record StaticEntry =
  se_ID :: string
  se_Kind :: string
  se_Address :: string
  se_Port :: nat

record DiscoveryConfig =
  dc_Sources :: "string list"
  dc_ServiceTypes :: "string list"
  dc_IPv6 :: bool
  dc_AllowCIDRs :: "string list"
  dc_DenyCIDRs :: "string list"
  dc_StaleAfter :: duration
  dc_Avahi :: AvahiConfig
  dc_Static :: "StaticEntry list"
  dc_ShellyCloud :: CloudDiscoveryConfig

record RegistryConfig =
  rc_RefreshInterval :: duration
  rc_EndpointTTL :: duration
  rc_DeviceTTL :: duration
  rc_RemoveGrace :: duration
  rc_SnapshotCoalesce :: duration

record BackoffConfig =
  bc_FailuresBeforeOpen :: int
  bc_Initial :: duration
  bc_Max :: duration
  bc_AuthInitial :: duration
  bc_AuthMax :: duration
  bc_Factor :: real
  bc_Jitter :: real

record ProbeConfig =
  pc_DefaultTimeout :: duration
  pc_TimeoutOffset :: duration
  pc_MaxTimeout :: duration
  pc_MinTimeout :: duration
  pc_MaxConcurrent :: int
  pc_CacheTTL :: duration
  pc_Retries :: int
  pc_Backoff :: BackoffConfig

record ShellyAuthMatch =
  sm_DeviceID :: string
  sm_MAC :: string
  sm_Hostname :: string
  sm_Gen :: int

record ShellyAuthOverride =
  so_Match :: ShellyAuthMatch
  so_Username :: string
  so_Password :: Secret
  so_PasswordFile :: string

record ShellyAuth =
  sa_Username :: string
  sa_Password :: Secret
  sa_PasswordFile :: string
  sa_Overrides :: "ShellyAuthOverride list"

record ShellyCloudConfig =
  sc_Server :: string
  sc_AuthKey :: Secret
  sc_AuthKeyFile :: string
  sc_Names :: bool
  sc_RefreshInterval :: duration
  sc_Timeout :: duration

record ShellyConfig =
  sh_Auth :: ShellyAuth
  sh_Cloud :: ShellyCloudConfig
  sh_DialTimeout :: duration
  sh_ResponseHeaderTimeout :: duration
  sh_IdentityTTL :: duration
  sh_FetchConfig :: bool
  sh_GenericFallback :: bool
  sh_MaxBodyBytes :: int

record ESPHomeConfig =
  eh_EncryptionKey :: Secret
  eh_EncryptionKeyFile :: string
  eh_RequireEncryption :: bool
  eh_Password :: Secret
  eh_PasswordFile :: string
  eh_Port :: nat
  eh_DialTimeout :: duration
  eh_HandshakeTimeout :: duration
  eh_ListEntitiesTimeout :: duration
  eh_ConnectBudget :: duration
  eh_PingInterval :: duration
  eh_PingTimeout :: duration
  eh_PingFailThreshold :: int
  eh_ReadDeadline :: duration
  eh_RefreshInterval :: duration
  eh_MaxConcurrentConnects :: int
  eh_MaxEntitiesPerDevice :: int
  eh_MaxOrphanStates :: int
  eh_MaxStateAge :: duration

record MetricsConfig =
  mc_PercentAsRatio :: bool
  mc_TextSensors :: bool
  mc_LightChannels :: bool
  mc_MaxTextValues :: int
  mc_MaxTextValueBytes :: int

record Config =
  cfg_Log :: LogConfig
  cfg_Server :: ServerConfig
  cfg_Discovery :: DiscoveryConfig
  cfg_Registry :: RegistryConfig
  cfg_Probe :: ProbeConfig
  cfg_Shelly :: ShellyConfig
  cfg_ESPHome :: ESPHomeConfig
  cfg_Metrics :: MetricsConfig

definition millisecond :: duration where "millisecond = 1000000"

definition Default :: Config where
  "Default = \<lparr>
     cfg_Log = \<lparr>log_Level = ''info'', log_Format = ''json''\<rparr>,
     cfg_Server = \<lparr>srv_Listen = '':9826'', srv_ReadHeaderTimeout = 5 * second,
       srv_ShutdownTimeout = 10 * second, srv_MaxRequests = 64, srv_WebConfigFile = [], srv_Pprof = False\<rparr>,
     cfg_Discovery = \<lparr>dc_Sources = [''avahi'', ''static''],
       dc_ServiceTypes = [''_esphomelib._tcp'', ''_shelly._tcp'', ''_http._tcp''],
       dc_IPv6 = False, dc_AllowCIDRs = [], dc_DenyCIDRs = [''169.254.0.0/16'', ''fe80::/10''],
       dc_StaleAfter = 24 * hour,
       dc_Avahi = \<lparr>av_DBusAddress = [], av_Required = True, av_StartupTimeout = 30 * second,
         av_ReconnectMin = second, av_ReconnectMax = 60 * second, av_ResolveTimeout = 5 * second,
         av_ResolveConcurrency = 8, av_HealthCheckInterval = 30 * second,
         av_RebrowseInterval = 30 * minute\<rparr>,
       dc_Static = [], dc_ShellyCloud = \<lparr>cd_Interval = 5 * minute, cd_IncludeOffline = True\<rparr>\<rparr>,
     cfg_Registry = \<lparr>rc_RefreshInterval = 5 * minute, rc_EndpointTTL = 45 * minute,
       rc_DeviceTTL = 90 * minute, rc_RemoveGrace = 5 * minute,
       rc_SnapshotCoalesce = 250 * millisecond\<rparr>,
     cfg_Probe = \<lparr>pc_DefaultTimeout = 10 * second, pc_TimeoutOffset = 500 * millisecond,
       pc_MaxTimeout = 30 * second, pc_MinTimeout = second, pc_MaxConcurrent = 32,
       pc_CacheTTL = 2 * second, pc_Retries = 1,
       pc_Backoff = \<lparr>bc_FailuresBeforeOpen = 3, bc_Initial = 15 * second, bc_Max = 5 * minute,
         bc_AuthInitial = minute, bc_AuthMax = 15 * minute, bc_Factor = 2, bc_Jitter = 1 / 5\<rparr>\<rparr>,
     cfg_Shelly = \<lparr>
       sh_Auth = \<lparr>sa_Username = ''admin'', sa_Password = [], sa_PasswordFile = [], sa_Overrides = []\<rparr>,
       sh_Cloud = \<lparr>sc_Server = [], sc_AuthKey = [], sc_AuthKeyFile = [], sc_Names = False,
         sc_RefreshInterval = 15 * minute, sc_Timeout = 30 * second\<rparr>,
       sh_DialTimeout = 2 * second, sh_ResponseHeaderTimeout = 5 * second, sh_IdentityTTL = 6 * hour,
       sh_FetchConfig = True, sh_GenericFallback = True, sh_MaxBodyBytes = 2 ^ 20\<rparr>,
     cfg_ESPHome = \<lparr>eh_EncryptionKey = [], eh_EncryptionKeyFile = [], eh_RequireEncryption = False,
       eh_Password = [], eh_PasswordFile = [], eh_Port = 6053, eh_DialTimeout = 5 * second,
       eh_HandshakeTimeout = 5 * second, eh_ListEntitiesTimeout = 20 * second,
       eh_ConnectBudget = 45 * second, eh_PingInterval = 20 * second, eh_PingTimeout = 10 * second,
       eh_PingFailThreshold = 3, eh_ReadDeadline = 90 * second, eh_RefreshInterval = 5 * minute,
       eh_MaxConcurrentConnects = 16, eh_MaxEntitiesPerDevice = 2000, eh_MaxOrphanStates = 256,
       eh_MaxStateAge = 0\<rparr>,
     cfg_Metrics = \<lparr>mc_PercentAsRatio = True, mc_TextSensors = True, mc_LightChannels = False,
       mc_MaxTextValues = 10, mc_MaxTextValueBytes = 64\<rparr>\<rparr>"

end
