(* ===== verification/Registry.thy ===== *)
theory Registry
  imports Identity AddressPolicy Config
begin

text \<open>
  \<^verbatim>\<open>internal/registry/device.go\<close> and \<^verbatim>\<open>registry.go\<close>: the device
  records and the operations of the registry actor on them.  Every handler of the actor is here:
  additions (with identity resolution, promotion and merging), remove hints, source resets,
  scrape results and expiry.  Each handler returns the new state and the flag by which the actor
  decides to publish a new snapshot.  Log output has no effect on the state and is left out.
\<close>

section \<open>Devices and endpoints\<close>

record Device =
  dev_ID :: string
  dev_Kind :: kind
  dev_Name :: string
  dev_Hostname :: string
  dev_Addrs :: "netip_addr list"
  dev_RejectedAddrs :: "netip_addr list"
  dev_Port :: "16 word"
  dev_TXT :: txt_map
  dev_FirstSeen :: time
  dev_LastSeen :: time
  dev_Static :: bool
  dev_Epoch :: "64 word"
  dev_Unverified :: bool

definition Primary :: "('a) Device_scheme \<Rightarrow> netip_addr option" where
  "Primary d = (case dev_Addrs d of [] \<Rightarrow> None | a # _ \<Rightarrow> Some a)"

definition Stale :: "('a) Device_scheme \<Rightarrow> time \<Rightarrow> duration \<Rightarrow> bool" where
  "Stale d now after \<longleftrightarrow> 0 < after \<and> after < time_sub now (dev_LastSeen d)"

record endpointState = Endpoint +
  es_unverified :: bool
  es_removeHintAt :: time
  es_source :: string

record deviceState = Device +
  ds_endpoints :: "(EndpointKey \<times> endpointState) list"
  ds_pinned :: netip_addr
  ds_hasPinned :: bool
  ds_lastDiscovery :: time
  ds_lastSuccess :: time
  ds_sources :: "string set"
  ds_provisionalName :: bool

record Stats =
  st_Merges :: nat
  st_Promotions :: nat
  st_Expirations :: "string \<Rightarrow> nat"
  st_AddressChanges :: "string \<Rightarrow> nat"
  st_EventsDropped :: nat

record Registry =
  r_cfg :: RegistryConfig
  r_policy :: AddressPolicy
  r_devices :: "(string \<times> deviceState) list"
  r_aliases :: "string \<Rightarrow> string option"
  r_stats :: Stats

record ScrapeResult =
  sr_DeviceID :: string
  sr_Addr :: netip_addr
  sr_Success :: bool
  sr_At :: time

definition sourceStatic :: string where "sourceStatic = ''static''"

definition New :: "RegistryConfig \<Rightarrow> AddressPolicy \<Rightarrow> Registry" where
  "New cfg policy =
     \<lparr>r_cfg = cfg, r_policy = policy, r_devices = [], r_aliases = Map.empty,
      r_stats = \<lparr>st_Merges = 0, st_Promotions = 0, st_Expirations = (\<lambda>_. 0),
        st_AddressChanges = (\<lambda>_. 0), st_EventsDropped = 0\<rparr>\<rparr>"

abbreviation device_of :: "Registry \<Rightarrow> string \<Rightarrow> deviceState option" where
  "device_of r \<equiv> map_of (r_devices r)"

definition put_device :: "string \<Rightarrow> deviceState \<Rightarrow> Registry \<Rightarrow> Registry" where
  "put_device i d r = r\<lparr>r_devices := AList.update i d (r_devices r)\<rparr>"

section \<open>Helpers\<close>

definition mergeTXT :: "txt_map \<Rightarrow> txt_map \<Rightarrow> txt_map" where
  "mergeTXT dst src = dst ++ src"

definition laterOf :: "time \<Rightarrow> time \<Rightarrow> time" where
  "laterOf a b = (if b < a then a else b)"

definition allUnverified :: "deviceState \<Rightarrow> bool" where
  "allUnverified dev \<longleftrightarrow>
     ds_endpoints dev \<noteq> [] \<and> list_all (\<lambda>(k, ep). es_unverified ep) (ds_endpoints dev)"

definition touch :: "deviceState \<Rightarrow> deviceState" where
  "touch dev = dev\<lparr>dev_LastSeen := laterOf (ds_lastDiscovery dev) (ds_lastSuccess dev)\<rparr>"

definition candidates_of :: "deviceState \<Rightarrow> AddressCandidate list" where
  "candidates_of dev =
     map (\<lambda>(k, ep). \<lparr>cand_Addr = ep_Addr ep, cand_Trusted = ep_Trusted ep\<rparr>) (ds_endpoints dev)"

definition port_of :: "deviceState \<Rightarrow> 16 word" where
  "port_of dev =
     foldl (\<lambda>port (k, ep). if port = 0 \<and> ep_Port ep \<noteq> 0 then ep_Port ep else port)
       (dev_Port dev) (ds_endpoints dev)"

definition recomputeAddrs :: "AddressPolicy \<Rightarrow> deviceState \<Rightarrow> deviceState \<times> bool" where
  "recomputeAddrs policy dev =
     (let dev1 = dev\<lparr>dev_Port := port_of dev\<rparr>;
          pinned = (if ds_hasPinned dev then ds_pinned dev else NoAddr)
      in case OrderCandidates policy (candidates_of dev) pinned of (nxt, rejected) \<Rightarrow>
        (let dev2 = dev1\<lparr>dev_RejectedAddrs := rejected\<rparr>
         in if nxt \<noteq> dev_Addrs dev
            then (dev2\<lparr>dev_Addrs := nxt, dev_Epoch := dev_Epoch dev + 1\<rparr>, True)
            else (dev2, False)))"

definition bump :: "string \<Rightarrow> (string \<Rightarrow> nat) \<Rightarrow> string \<Rightarrow> nat" where
  "bump k f = f(k := Suc (f k))"

definition count_addr_change :: "string \<Rightarrow> bool \<Rightarrow> Registry \<Rightarrow> Registry" where
  "count_addr_change reason changed r =
     (if changed
      then r\<lparr>r_stats := (r_stats r)\<lparr>st_AddressChanges := bump reason (st_AddressChanges (r_stats r))\<rparr>\<rparr>
      else r)"

section \<open>Identity resolution\<close>

definition eventHandles :: "Event \<Rightarrow> string list" where
  "eventHandles ev =
     (let label = regInstanceLabel (ev_Instance ev);
          mac = NormaliseMAC (txt_get (ep_TXT (ev_Endpoint ev)) ''mac'');
          txtid = txt_get (ep_TXT (ev_Endpoint ev)) ''id'';
          derived = DeriveID (ev_Kind ev) (ev_Instance ev) (ep_TXT (ev_Endpoint ev))
      in (if label \<noteq> [] then [prefixName @ lower label] else [])
       @ (if length mac = 12 then [prefixMAC @ mac] else [])
       @ (if txtid \<noteq> [] then [prefixName @ lower txtid] else [])
       @ (if derived \<noteq> [] then [derived] else []))"

definition bindAliases :: "string \<Rightarrow> Event \<Rightarrow> Registry \<Rightarrow> Registry" where
  "bindAliases i ev r =
     r\<lparr>r_aliases := (foldl (\<lambda>al h. al(h \<mapsto> i)) (r_aliases r) (eventHandles ev))(i \<mapsto> i)\<rparr>"

definition rebind :: "string \<Rightarrow> string \<Rightarrow> (string \<Rightarrow> string option) \<Rightarrow> string \<Rightarrow> string option" where
  "rebind oldID newID al =
     (\<lambda>h. case al h of Some i \<Rightarrow> Some (if i = oldID then newID else i) | None \<Rightarrow> None)"

definition merge_devices :: "deviceState \<Rightarrow> deviceState \<Rightarrow> deviceState" where
  "merge_devices target old =
     (let t1 = target\<lparr>ds_endpoints := foldl (\<lambda>es (k, ep). AList.update k ep es)
                 (ds_endpoints target) (ds_endpoints old)\<rparr>;
          t2 = t1\<lparr>dev_TXT := mergeTXT (dev_TXT t1) (dev_TXT old)\<rparr>;
          t3 = t2\<lparr>ds_sources := ds_sources t2 \<union> ds_sources old\<rparr>;
          t4 = (if ds_lastDiscovery t3 < ds_lastDiscovery old
                then t3\<lparr>ds_lastDiscovery := ds_lastDiscovery old\<rparr> else t3);
          t5 = (if ds_lastSuccess t4 < ds_lastSuccess old
                then t4\<lparr>ds_lastSuccess := ds_lastSuccess old\<rparr> else t4);
          t6 = (if dev_FirstSeen old < dev_FirstSeen t5
                then t5\<lparr>dev_FirstSeen := dev_FirstSeen old\<rparr> else t5)
      in if ds_provisionalName t6 \<and> \<not> ds_provisionalName old
         then t6\<lparr>dev_Name := dev_Name old, ds_provisionalName := False\<rparr> else t6)"

definition promote :: "string \<Rightarrow> string \<Rightarrow> Registry \<Rightarrow> Registry \<times> string" where
  "promote oldID newID r =
     (if oldID = newID then (r, newID)
      else case device_of r oldID of
        None \<Rightarrow> (r, newID)
      | Some old \<Rightarrow>
          (let rest = AList.delete oldID (r_devices r);
               (target, stats) =
                 (case device_of r newID of
                    None \<Rightarrow> (old\<lparr>dev_ID := newID\<rparr>,
                             (r_stats r)\<lparr>st_Promotions := Suc (st_Promotions (r_stats r))\<rparr>)
                  | Some t \<Rightarrow> (merge_devices t old,
                              (r_stats r)\<lparr>st_Merges := Suc (st_Merges (r_stats r))\<rparr>));
               (target', changed) = recomputeAddrs (r_policy r) target;
               r' = r\<lparr>r_devices := AList.update newID target' rest,
                      r_aliases := (rebind oldID newID (r_aliases r))(oldID \<mapsto> newID),
                      r_stats := stats\<rparr>
           in (count_addr_change ''merge'' changed r', newID)))"

text \<open>
  The loops of \<^verbatim>\<open>matchShortID\<close>: the single device that qualifies, or the empty
  string when there is none or a second one.
\<close>

fun only_match :: "string \<Rightarrow> string list \<Rightarrow> string" where
  "only_match match [] = match"
| "only_match match (i # is) = (if match \<noteq> [] then [] else only_match i is)"

definition short_candidates :: "string \<Rightarrow> (string \<times> deviceState) list \<Rightarrow> string list" where
  "short_candidates sfx devs =
     map fst (filter (\<lambda>(i, dev). dev_Kind dev = KindShelly \<and> has_prefix i prefixShortID
       \<and> has_suffix i sfx) devs)"

definition mac_candidates :: "string \<Rightarrow> (string \<times> deviceState) list \<Rightarrow> string list" where
  "mac_candidates sfx devs =
     map fst (filter (\<lambda>(i, dev). dev_Kind dev = KindShelly \<and> IsMACID i \<and> has_suffix i sfx) devs)"

definition matchShortID :: "kind \<Rightarrow> string \<Rightarrow> Registry \<Rightarrow> Registry \<times> string" where
  "matchShortID k derived r =
     (if k \<noteq> KindShelly then (r, [])
      else if IsMACID derived then
        (let match = only_match [] (short_candidates (''-'' @ drop 6 (MACOfID derived)) (r_devices r))
         in if match = [] then (r, []) else promote match derived r)
      else if has_prefix derived prefixShortID then
        (case last_index derived (CHR ''-'') of
           None \<Rightarrow> (r, [])
         | Some i \<Rightarrow> (r, only_match [] (mac_candidates (drop (Suc i) derived) (r_devices r))))
      else (r, []))"

text \<open>The first bound handle of an event, in order.\<close>

fun first_alias :: "(string \<Rightarrow> string option) \<Rightarrow> string list \<Rightarrow> string option" where
  "first_alias al [] = None"
| "first_alias al (h # hs) = (case al h of Some i \<Rightarrow> Some i | None \<Rightarrow> first_alias al hs)"

definition resolveID :: "Event \<Rightarrow> Registry \<Rightarrow> Registry \<times> string" where
  "resolveID ev r =
     (if ev_DeviceID ev \<noteq> [] then (r, ev_DeviceID ev)
      else let derived = DeriveID (ev_Kind ev) (ev_Instance ev) (ep_TXT (ev_Endpoint ev))
      in if derived = [] then (r, [])
      else case first_alias (r_aliases r) (eventHandles ev) of
        Some i \<Rightarrow> (if IsMACID derived \<and> \<not> IsMACID i then promote i derived r else (r, i))
      | None \<Rightarrow>
          (case r_aliases r derived of
             Some i \<Rightarrow> (r, i)
           | None \<Rightarrow>
               (case matchShortID (ev_Kind ev) derived r of (r', i) \<Rightarrow>
                  if i \<noteq> [] then (r', i) else (r', derived))))"

section \<open>Handlers\<close>

definition new_device :: "string \<Rightarrow> Event \<Rightarrow> time \<Rightarrow> deviceState" where
  "new_device i ev now =
     \<lparr>dev_ID = i, dev_Kind = ev_Kind ev, dev_Name = regInstanceLabel (ev_Instance ev),
      dev_Hostname = [], dev_Addrs = [], dev_RejectedAddrs = [], dev_Port = 0,
      dev_TXT = Map.empty, dev_FirstSeen = now, dev_LastSeen = zero_time, dev_Static = False,
      dev_Epoch = 0, dev_Unverified = False,
      ds_endpoints = [], ds_pinned = NoAddr, ds_hasPinned = False,
      ds_lastDiscovery = zero_time, ds_lastSuccess = zero_time, ds_sources = {},
      ds_provisionalName = ev_Unnamed ev\<rparr>"

definition rename_device :: "Event \<Rightarrow> deviceState \<Rightarrow> deviceState" where
  "rename_device ev dev =
     (if ds_provisionalName dev \<and> \<not> ev_Unnamed ev
      then let name = regInstanceLabel (ev_Instance ev)
           in if name \<noteq> [] then dev\<lparr>dev_Name := name, ds_provisionalName := False\<rparr> else dev
      else dev)"

definition new_endpoint :: "Event \<Rightarrow> endpointState" where
  "new_endpoint ev =
     Endpoint.extend (ev_Endpoint ev)
       \<lparr>es_unverified = False, es_removeHintAt = zero_time, es_source = ev_Source ev\<rparr>"

definition observe :: "Event \<Rightarrow> deviceState \<Rightarrow> deviceState" where
  "observe ev dev =
     (let ep = ev_Endpoint ev;
          d1 = (if ev_Source ev = sourceStatic then dev\<lparr>dev_Static := True\<rparr> else dev);
          d2 = (if dev_Kind d1 = KindUnknown \<and> ev_Kind ev \<noteq> KindUnknown
                then d1\<lparr>dev_Kind := ev_Kind ev\<rparr> else d1);
          d3 = (if ep_Host ep \<noteq> [] then d2\<lparr>dev_Hostname := ep_Host ep\<rparr> else d2);
          d4 = d3\<lparr>ds_sources := insert (ev_Source ev) (ds_sources d3)\<rparr>;
          d5 = d4\<lparr>ds_endpoints := AList.update (ep_Key ep) (new_endpoint ev) (ds_endpoints d4)\<rparr>;
          d6 = d5\<lparr>dev_TXT := mergeTXT (dev_TXT d5) (ep_TXT ep), ds_lastDiscovery := ev_At ev,
                   dev_Unverified := False\<rparr>
      in if ep_Port ep \<noteq> 0 then d6\<lparr>dev_Port := ep_Port ep\<rparr> else d6)"

definition applyAdd :: "Event \<Rightarrow> time \<Rightarrow> Registry \<Rightarrow> Registry \<times> bool" where
  "applyAdd ev now r =
     (case resolveID ev r of (r1, i) \<Rightarrow>
        (if i = [] then (r1, False)
         else let dev0 = (case device_of r1 i of
                            None \<Rightarrow> new_device i ev now
                          | Some d \<Rightarrow> rename_device ev d);
                  r2 = bindAliases i ev r1;
                  (dev1, changed) = recomputeAddrs (r_policy r) (observe ev dev0)
              in (put_device i (touch dev1) (count_addr_change ''discovery'' changed r2), True)))"

definition hint_endpoint :: "Event \<Rightarrow> EndpointKey \<Rightarrow> endpointState \<Rightarrow> bool" where
  "hint_endpoint ev k ep \<longleftrightarrow>
     es_source ep = ev_Source ev
     \<and> (ep_Key (ev_Endpoint ev) = zero_key \<or> k = ep_Key (ev_Endpoint ev))
     \<and> \<not> es_unverified ep"

definition mark_unverified :: "time \<Rightarrow> endpointState \<Rightarrow> endpointState" where
  "mark_unverified tm ep = ep\<lparr>es_unverified := True, es_removeHintAt := tm\<rparr>"

text \<open>Marking the endpoints that satisfy a predicate, with the flag whether there was one.\<close>

definition mark_endpoints ::
  "(EndpointKey \<Rightarrow> endpointState \<Rightarrow> bool) \<Rightarrow> time \<Rightarrow> deviceState \<Rightarrow> deviceState \<times> bool" where
  "mark_endpoints P tm dev =
     (if list_ex (\<lambda>(k, ep). P k ep) (ds_endpoints dev)
      then let dev' = dev\<lparr>ds_endpoints :=
                 map (\<lambda>(k, ep). (k, if P k ep then mark_unverified tm ep else ep)) (ds_endpoints dev)\<rparr>
           in (dev'\<lparr>dev_Unverified := allUnverified dev'\<rparr>, True)
      else (dev, False))"

definition remove_target :: "Event \<Rightarrow> Registry \<Rightarrow> string option" where
  "remove_target ev r =
     (case r_aliases r (DeriveID (ev_Kind ev) (ev_Instance ev) (ep_TXT (ev_Endpoint ev))) of
        Some i \<Rightarrow> Some i
      | None \<Rightarrow> r_aliases r (prefixName @ lower (regInstanceLabel (ev_Instance ev))))"

definition applyRemoveHint :: "Event \<Rightarrow> Registry \<Rightarrow> Registry \<times> bool" where
  "applyRemoveHint ev r =
     (case remove_target ev r of
        None \<Rightarrow> (r, False)
      | Some i \<Rightarrow>
          (case device_of r i of
             None \<Rightarrow> (r, False)
           | Some dev \<Rightarrow>
               (case mark_endpoints (hint_endpoint ev) (ev_At ev) dev of (dev', changed) \<Rightarrow>
                  (if changed then put_device i dev' r else r, changed))))"

definition markSourceUnverified :: "string \<Rightarrow> time \<Rightarrow> Registry \<Rightarrow> Registry \<times> bool" where
  "markSourceUnverified source tm r =
     (let mark = (\<lambda>dev. mark_endpoints (\<lambda>k ep. es_source ep = source \<and> \<not> es_unverified ep) tm dev)
      in (r\<lparr>r_devices := map (\<lambda>(i, dev). (i, fst (mark dev))) (r_devices r)\<rparr>,
          list_ex (\<lambda>(i, dev). snd (mark dev)) (r_devices r)))"

definition pin_address :: "AddressPolicy \<Rightarrow> ScrapeResult \<Rightarrow> deviceState \<Rightarrow> deviceState \<times> bool" where
  "pin_address policy res dev =
     (if is_valid (sr_Addr res) \<and> (\<not> ds_hasPinned dev \<or> ds_pinned dev \<noteq> sr_Addr res)
      then recomputeAddrs policy (dev\<lparr>ds_pinned := sr_Addr res, ds_hasPinned := True\<rparr>)
      else (dev, False))"

definition confirm_endpoints :: "ScrapeResult \<Rightarrow> deviceState \<Rightarrow> deviceState" where
  "confirm_endpoints res dev =
     dev\<lparr>ds_endpoints := map (\<lambda>(k, ep). (k,
       if ep_Addr ep = sr_Addr res
       then ep\<lparr>es_unverified := False, ep_ObservedAt := sr_At res\<rparr> else ep)) (ds_endpoints dev)\<rparr>"

definition applyScrapeResult :: "ScrapeResult \<Rightarrow> Registry \<Rightarrow> Registry \<times> bool" where
  "applyScrapeResult res r =
     (case device_of r (sr_DeviceID res) of
        None \<Rightarrow> (r, False)
      | Some dev \<Rightarrow>
          (if \<not> sr_Success res then (r, False)
           else let (dev1, changed) =
                      pin_address (r_policy r) res (dev\<lparr>ds_lastSuccess := sr_At res\<rparr>);
                    dev2 = confirm_endpoints res dev1;
                    dev3 = touch (dev2\<lparr>dev_Unverified := allUnverified dev2\<rparr>)
                in (put_device (sr_DeviceID res) dev3
                      (count_addr_change ''scrape_success'' changed r), True)))"

definition endpoint_gone :: "RegistryConfig \<Rightarrow> time \<Rightarrow> deviceState \<Rightarrow> endpointState \<Rightarrow> bool" where
  "endpoint_gone cfg now dev ep \<longleftrightarrow>
     rc_EndpointTTL cfg < time_sub now (ep_ObservedAt ep)
     \<or> (es_unverified ep \<and> \<not> is_zero (es_removeHintAt ep)
        \<and> rc_RemoveGrace cfg < time_sub now (es_removeHintAt ep)
        \<and> ds_lastSuccess dev < es_removeHintAt ep)"

definition expire_endpoints ::
  "RegistryConfig \<Rightarrow> AddressPolicy \<Rightarrow> time \<Rightarrow> deviceState \<Rightarrow> deviceState \<times> bool \<times> bool" where
  "expire_endpoints cfg policy now dev =
     (let kept = filter (\<lambda>(k, ep). \<not> endpoint_gone cfg now dev ep) (ds_endpoints dev)
      in if list_ex (\<lambda>(k, ep). endpoint_gone cfg now dev ep) (ds_endpoints dev)
         then (case recomputeAddrs policy (dev\<lparr>ds_endpoints := kept\<rparr>) of (dev', changed) \<Rightarrow>
                (touch dev', True, changed))
         else (dev, False, False))"

definition forget :: "string \<Rightarrow> string \<Rightarrow> Registry \<Rightarrow> Registry" where
  "forget i reason r =
     r\<lparr>r_devices := AList.delete i (r_devices r),
       r_aliases := (\<lambda>h. if r_aliases r h = Some i then None else r_aliases r h),
       r_stats := (r_stats r)\<lparr>st_Expirations := bump reason (st_Expirations (r_stats r))\<rparr>\<rparr>"

definition expire_device :: "time \<Rightarrow> Registry \<times> bool \<Rightarrow> string \<times> deviceState \<Rightarrow> Registry \<times> bool" where
  "expire_device now acc entry =
     (case (acc, entry) of ((r, changed), (i, dev)) \<Rightarrow>
        (if dev_Static dev then (r, changed)
         else let (dev', devChanged, addrChanged) =
                    expire_endpoints (r_cfg r) (r_policy r) now dev;
                  r1 = (if devChanged
                        then put_device i dev' (count_addr_change ''expiry'' addrChanged r) else r)
              in if rc_DeviceTTL (r_cfg r) < time_sub now (dev_LastSeen dev')
                 then (forget i ''ttl'' r1, True)
                 else (r1, changed \<or> devChanged)))"

definition expire :: "time \<Rightarrow> Registry \<Rightarrow> Registry \<times> bool" where
  "expire now r = foldl (expire_device now) (r, False) (r_devices r)"

definition applyEvent :: "Event \<Rightarrow> time \<Rightarrow> Registry \<Rightarrow> Registry \<times> bool" where
  "applyEvent ev0 now r =
     (let ev = (if is_zero (ev_At ev0) then ev0\<lparr>ev_At := now\<rparr> else ev0)
      in case ev_Type ev of
           EventSourceReset \<Rightarrow> markSourceUnverified (ev_Source ev) (ev_At ev) r
         | EventRemove \<Rightarrow> applyRemoveHint ev r
         | EventAdd \<Rightarrow> applyAdd ev now r)"

text \<open>
  \<^verbatim>\<open>ReportScrape\<close> stamps the result with the clock when it carries no time; whether the
  buffered channel takes it is up to the scheduler.
\<close>

definition ReportScrape :: "time \<Rightarrow> ScrapeResult \<Rightarrow> ScrapeResult" where
  "ReportScrape now res = (if is_zero (sr_At res) then res\<lparr>sr_At := now\<rparr> else res)"

definition StatsSnapshot :: "Registry \<Rightarrow> Stats" where
  "StatsSnapshot r =
     \<lparr>st_Merges = st_Merges (r_stats r), st_Promotions = st_Promotions (r_stats r),
      st_Expirations = st_Expirations (r_stats r),
      st_AddressChanges = st_AddressChanges (r_stats r),
      st_EventsDropped = st_EventsDropped (r_stats r)\<rparr>"

end
