(* ===== verification/RegistryInv.thy ===== *)
theory RegistryInv
  imports Registry
begin

text \<open>
  The well-formedness invariant of the registry and its preservation, handler by handler: device
  identifiers and endpoint keys agree with the maps that hold them, every alias leads to a device
  that exists, the published address list is exactly what the policy makes of the current
  endpoints, and the last-seen time is the later of the two liveness signals.
\<close>

section \<open>The invariant\<close>

definition pinned_of :: "deviceState \<Rightarrow> netip_addr" where
  "pinned_of dev = (if ds_hasPinned dev then ds_pinned dev else NoAddr)"

definition eps_ok :: "(EndpointKey \<times> endpointState) list \<Rightarrow> bool" where
  "eps_ok es \<longleftrightarrow> wf_alist es \<and> (\<forall>k ep. map_of es k = Some ep \<longrightarrow> ep_Key ep = k)"

definition dev_ok :: "string \<Rightarrow> deviceState \<Rightarrow> bool" where
  "dev_ok i dev \<longleftrightarrow> dev_ID dev = i \<and> eps_ok (ds_endpoints dev)"

definition addrs_ok :: "AddressPolicy \<Rightarrow> deviceState \<Rightarrow> bool" where
  "addrs_ok policy dev \<longleftrightarrow>
     dev_Addrs dev = fst (OrderCandidates policy (candidates_of dev) (pinned_of dev))"

definition seen_ok :: "deviceState \<Rightarrow> bool" where
  "seen_ok dev \<longleftrightarrow> dev_LastSeen dev = laterOf (ds_lastDiscovery dev) (ds_lastSuccess dev)"

text \<open>\<open>X\<close> are the devices whose last-seen time is about to be recomputed.\<close>

definition devs_ok :: "AddressPolicy \<Rightarrow> string set \<Rightarrow> (string \<times> deviceState) list \<Rightarrow> bool" where
  "devs_ok policy X devs \<longleftrightarrow> wf_alist devs \<and>
     (\<forall>i dev. map_of devs i = Some dev \<longrightarrow>
        i \<noteq> [] \<and> dev_ok i dev \<and> addrs_ok policy dev \<and> (i \<notin> X \<longrightarrow> seen_ok dev))"

definition aliases_ok :: "string set \<Rightarrow> (string \<Rightarrow> string option) \<Rightarrow> bool" where
  "aliases_ok K al \<longleftrightarrow> (\<forall>h i. al h = Some i \<longrightarrow> i \<in> K)"

definition reg_inv :: "Registry \<Rightarrow> bool" where
  "reg_inv r \<longleftrightarrow> devs_ok (r_policy r) {} (r_devices r) \<and> aliases_ok (keys (r_devices r)) (r_aliases r)"

lemma reg_inv_New: "reg_inv (New cfg policy)"
  by (simp add: reg_inv_def New_def devs_ok_def aliases_ok_def)

lemma New_simps [simp]:
  "r_cfg (New cfg policy) = cfg" "r_policy (New cfg policy) = policy"
  "r_devices (New cfg policy) = []" "r_aliases (New cfg policy) = Map.empty"
  by (simp_all add: New_def)

lemma devs_ok_mono: "devs_ok p X devs \<Longrightarrow> X \<subseteq> Y \<Longrightarrow> devs_ok p Y devs"
  unfolding devs_ok_def by blast

lemma devs_ok_update:
  "devs_ok p X devs \<Longrightarrow> i \<noteq> [] \<Longrightarrow> dev_ok i dev \<Longrightarrow> addrs_ok p dev \<Longrightarrow> (i \<notin> Y \<longrightarrow> seen_ok dev)
     \<Longrightarrow> X \<subseteq> insert i Y \<Longrightarrow> devs_ok p Y (AList.update i dev devs)"
  by (auto simp: devs_ok_def wf_alist_update)

lemma devs_ok_delete: "devs_ok p X devs \<Longrightarrow> devs_ok p X (AList.delete i devs)"
  by (auto simp: devs_ok_def wf_alist_delete)

section \<open>Frame facts of the helpers\<close>

lemma count_addr_change_simps [simp]:
  "r_devices (count_addr_change reason c r) = r_devices r"
  "r_aliases (count_addr_change reason c r) = r_aliases r"
  "r_policy (count_addr_change reason c r) = r_policy r"
  "r_cfg (count_addr_change reason c r) = r_cfg r"
  by (simp_all add: count_addr_change_def)

lemma put_device_simps [simp]:
  "r_devices (put_device i d r) = AList.update i d (r_devices r)"
  "r_aliases (put_device i d r) = r_aliases r"
  "r_policy (put_device i d r) = r_policy r"
  "r_cfg (put_device i d r) = r_cfg r"
  by (simp_all add: put_device_def)

lemma bindAliases_simps [simp]:
  "r_devices (bindAliases i ev r) = r_devices r"
  "r_policy (bindAliases i ev r) = r_policy r"
  "r_cfg (bindAliases i ev r) = r_cfg r"
  by (simp_all add: bindAliases_def)

lemma forget_simps [simp]:
  "r_devices (forget i reason r) = AList.delete i (r_devices r)"
  "r_policy (forget i reason r) = r_policy r"
  "r_cfg (forget i reason r) = r_cfg r"
  by (simp_all add: forget_def)

lemma touch_simps [simp]:
  "dev_ID (touch d) = dev_ID d" "ds_endpoints (touch d) = ds_endpoints d"
  "dev_Addrs (touch d) = dev_Addrs d" "ds_pinned (touch d) = ds_pinned d"
  "ds_hasPinned (touch d) = ds_hasPinned d" "dev_Static (touch d) = dev_Static d"
  "ds_lastSuccess (touch d) = ds_lastSuccess d" "ds_lastDiscovery (touch d) = ds_lastDiscovery d"
  "dev_Epoch (touch d) = dev_Epoch d" "dev_LastSeen (touch d) = laterOf (ds_lastDiscovery d) (ds_lastSuccess d)"
  "candidates_of (touch d) = candidates_of d" "pinned_of (touch d) = pinned_of d"
  "dev_Kind (touch d) = dev_Kind d" "dev_Port (touch d) = dev_Port d"
  by (simp_all add: touch_def candidates_of_def pinned_of_def)

text \<open>\<open>recomputeAddrs\<close> changes the port, the two address lists and the epoch only.\<close>

lemma recomputeAddrs_simps [simp]:
  "dev_ID (fst (recomputeAddrs p d)) = dev_ID d"
  "ds_endpoints (fst (recomputeAddrs p d)) = ds_endpoints d"
  "ds_pinned (fst (recomputeAddrs p d)) = ds_pinned d"
  "ds_hasPinned (fst (recomputeAddrs p d)) = ds_hasPinned d"
  "dev_Static (fst (recomputeAddrs p d)) = dev_Static d"
  "ds_lastSuccess (fst (recomputeAddrs p d)) = ds_lastSuccess d"
  "ds_lastDiscovery (fst (recomputeAddrs p d)) = ds_lastDiscovery d"
  "dev_LastSeen (fst (recomputeAddrs p d)) = dev_LastSeen d"
  "dev_Kind (fst (recomputeAddrs p d)) = dev_Kind d"
  "dev_Name (fst (recomputeAddrs p d)) = dev_Name d"
  "dev_TXT (fst (recomputeAddrs p d)) = dev_TXT d"
  "dev_FirstSeen (fst (recomputeAddrs p d)) = dev_FirstSeen d"
  "ds_provisionalName (fst (recomputeAddrs p d)) = ds_provisionalName d"
  "dev_Port (fst (recomputeAddrs p d)) = port_of d"
  by (simp_all add: recomputeAddrs_def Let_def split: prod.split)

lemma recomputeAddrs_Addrs [simp]:
  "dev_Addrs (fst (recomputeAddrs p d)) = fst (OrderCandidates p (candidates_of d) (pinned_of d))"
  by (auto simp: recomputeAddrs_def Let_def pinned_of_def split: prod.split)

lemma recomputeAddrs_rejected:
  "dev_RejectedAddrs (fst (recomputeAddrs p d)) = snd (OrderCandidates p (candidates_of d) (pinned_of d))"
  by (auto simp: recomputeAddrs_def Let_def pinned_of_def split: prod.split)

lemma recomputeAddrs_epoch:
  "dev_Epoch (fst (recomputeAddrs p d))
     = (if dev_Addrs (fst (recomputeAddrs p d)) \<noteq> dev_Addrs d then dev_Epoch d + 1 else dev_Epoch d)"
  by (auto simp: recomputeAddrs_def Let_def split: prod.split)

lemma recomputeAddrs_changed:
  "snd (recomputeAddrs p d) \<longleftrightarrow> dev_Addrs (fst (recomputeAddrs p d)) \<noteq> dev_Addrs d"
  by (auto simp: recomputeAddrs_def Let_def split: prod.split)

lemma dev_ok_recompute [simp]: "dev_ok i (fst (recomputeAddrs p d)) = dev_ok i d"
  by (simp add: dev_ok_def)

lemma addrs_ok_recompute [simp]: "addrs_ok p (fst (recomputeAddrs p d))"
proof -
  have "candidates_of (fst (recomputeAddrs p d)) = candidates_of d"
    "pinned_of (fst (recomputeAddrs p d)) = pinned_of d"
    by (simp_all add: candidates_of_def pinned_of_def)
  then show ?thesis by (simp add: addrs_ok_def)
qed

lemma touch_ok [simp]:
  "dev_ok i (touch d) = dev_ok i d" "addrs_ok p (touch d) = addrs_ok p d" "seen_ok (touch d)"
  by (simp_all add: dev_ok_def addrs_ok_def seen_ok_def)

lemma eps_ok_Nil [simp]: "eps_ok []"
  by (simp add: eps_ok_def)

lemma eps_ok_update: "eps_ok es \<Longrightarrow> ep_Key ep = k \<Longrightarrow> eps_ok (AList.update k ep es)"
  by (simp add: eps_ok_def wf_alist_update)

lemma eps_ok_filter: "eps_ok es \<Longrightarrow> eps_ok (filter (\<lambda>(k, ep). P k ep) es)"
  by (auto simp: eps_ok_def wf_alist_filter map_of_filter split: option.splits if_splits)

lemma eps_ok_map:
  "eps_ok es \<Longrightarrow> (\<And>k ep. ep_Key (f k ep) = ep_Key ep) \<Longrightarrow> eps_ok (map (\<lambda>(k, ep). (k, f k ep)) es)"
  by (auto simp: eps_ok_def wf_alist_map_snd map_of_map_snd)

lemma eps_ok_set: "eps_ok es \<Longrightarrow> (k, ep) \<in> set es \<Longrightarrow> ep_Key ep = k"
  by (auto simp: eps_ok_def wf_alist_map_of)

section \<open>Promotion and merging\<close>

lemma foldl_update_endpoints:
  "eps_ok es \<Longrightarrow> (\<And>k ep. (k, ep) \<in> set fs \<Longrightarrow> ep_Key ep = k)
     \<Longrightarrow> eps_ok (foldl (\<lambda>es (k, ep). AList.update k ep es) es fs)"
proof (induction fs arbitrary: es)
  case (Cons f fs)
  obtain k ep where f: "f = (k, ep)" by force
  have "eps_ok (AList.update k ep es)"
    using Cons.prems by (intro eps_ok_update) (simp_all add: f)
  then have "eps_ok (foldl (\<lambda>es (k, ep). AList.update k ep es) (AList.update k ep es) fs)"
    by (rule Cons.IH) (use Cons.prems(2) in auto)
  then show ?case by (simp add: f)
qed simp

lemma merge_devices_simps [simp]:
  "dev_ID (merge_devices t old) = dev_ID t"
  "ds_endpoints (merge_devices t old)
     = foldl (\<lambda>es (k, ep). AList.update k ep es) (ds_endpoints t) (ds_endpoints old)"
  "dev_Static (merge_devices t old) = dev_Static t"
  by (simp_all add: merge_devices_def Let_def)

lemma merge_devices_ok: "dev_ok i t \<Longrightarrow> dev_ok j old \<Longrightarrow> dev_ok i (merge_devices t old)"
  using foldl_update_endpoints [of "ds_endpoints t" "ds_endpoints old"] eps_ok_set
  by (auto simp: dev_ok_def)

lemma promote_id [simp]: "snd (promote oldID newID r) = newID"
  by (simp add: promote_def Let_def split: option.split prod.split)

text \<open>The target of a promotion and the state it produces.\<close>

definition promoted :: "Registry \<Rightarrow> string \<Rightarrow> deviceState \<Rightarrow> deviceState" where
  "promoted r newID old =
     fst (recomputeAddrs (r_policy r)
       (case device_of r newID of None \<Rightarrow> old\<lparr>dev_ID := newID\<rparr> | Some t \<Rightarrow> merge_devices t old))"

lemma promote_Some:
  assumes "oldID \<noteq> newID" "device_of r oldID = Some old"
  shows "r_devices (fst (promote oldID newID r))
           = AList.update newID (promoted r newID old) (AList.delete oldID (r_devices r))"
    and "r_aliases (fst (promote oldID newID r)) = (rebind oldID newID (r_aliases r))(oldID \<mapsto> newID)"
    and "r_policy (fst (promote oldID newID r)) = r_policy r"
    and "r_cfg (fst (promote oldID newID r)) = r_cfg r"
  using assms
  by (simp_all add: promote_def promoted_def Let_def split: option.split prod.split)

lemma promote_same:
  "oldID = newID \<or> device_of r oldID = None \<Longrightarrow> fst (promote oldID newID r) = r"
  by (auto simp: promote_def)

lemma promoted_ok:
  assumes "devs_ok (r_policy r) {} (r_devices r)" "device_of r oldID = Some old"
  shows "dev_ok newID (promoted r newID old) \<and> addrs_ok (r_policy r) (promoted r newID old)"
proof (cases "device_of r newID")
  case None
  have "dev_ok oldID old" using assms by (auto simp: devs_ok_def)
  then show ?thesis by (simp add: promoted_def None) (simp add: dev_ok_def)
next
  case (Some t)
  have "dev_ok oldID old" "dev_ok newID t" using assms Some by (auto simp: devs_ok_def)
  then show ?thesis by (simp add: promoted_def Some merge_devices_ok)
qed

text \<open>What identity resolution keeps: everything but the last-seen time of the device found.\<close>

definition resolved :: "string \<Rightarrow> Registry \<Rightarrow> bool" where
  "resolved i r \<longleftrightarrow> devs_ok (r_policy r) {i} (r_devices r)
     \<and> aliases_ok (keys (r_devices r)) (r_aliases r)"

lemma reg_inv_resolved: "reg_inv r \<Longrightarrow> resolved i r"
  by (auto simp: reg_inv_def resolved_def intro: devs_ok_mono)

lemma promote_resolved:
  assumes "reg_inv r" "newID \<noteq> []"
  shows "resolved newID (fst (promote oldID newID r))"
proof (cases "oldID = newID \<or> device_of r oldID = None")
  case True
  then show ?thesis using assms by (simp add: promote_same reg_inv_resolved)
next
  case False
  then obtain old where old: "device_of r oldID = Some old" and ne: "oldID \<noteq> newID" by auto
  have inv: "devs_ok (r_policy r) {} (r_devices r)" "aliases_ok (keys (r_devices r)) (r_aliases r)"
    using assms by (auto simp: reg_inv_def)
  have "devs_ok (r_policy r) {newID}
      (AList.update newID (promoted r newID old) (AList.delete oldID (r_devices r)))"
    using promoted_ok [OF inv(1) old, of newID] assms(2)
    by (intro devs_ok_update [OF devs_ok_delete [OF inv(1)]]) auto
  moreover have "aliases_ok (insert newID (keys (r_devices r) - {oldID}))
      ((rebind oldID newID (r_aliases r))(oldID \<mapsto> newID))"
    using inv(2) by (auto simp: aliases_ok_def rebind_def split: option.splits)
  ultimately show ?thesis
    by (simp add: resolved_def promote_Some [OF ne old])
qed

lemma first_alias_Some: "first_alias al hs = Some i \<Longrightarrow> \<exists>h \<in> set hs. al h = Some i"
  by (induction hs) (auto split: option.splits)

lemma matchShortID_cases:
  obtains (same) "fst (matchShortID k derived r) = r"
    | (promoted) m where "m \<noteq> []" "matchShortID k derived r = promote m derived r"
  by (cases "fst (matchShortID k derived r) = r")
     (auto simp: matchShortID_def Let_def split: option.splits if_splits)

lemma resolveID_cases:
  fixes ev r
  defines "d \<equiv> DeriveID (ev_Kind ev) (ev_Instance ev) (ep_TXT (ev_Endpoint ev))"
  obtains (same) "fst (resolveID ev r) = r"
    | (promoted) m where "resolveID ev r = promote m d r"
proof -
  have nonempty: "d \<noteq> []" by (simp add: d_def)
  show thesis
  proof (cases "ev_DeviceID ev \<noteq> [] \<or> first_alias (r_aliases r) (eventHandles ev) \<noteq> None
      \<or> r_aliases r d \<noteq> None")
    case True
    consider "ev_DeviceID ev \<noteq> []"
      | i where "ev_DeviceID ev = []" "first_alias (r_aliases r) (eventHandles ev) = Some i"
      | i where "ev_DeviceID ev = []" "first_alias (r_aliases r) (eventHandles ev) = None"
          "r_aliases r d = Some i"
      using True by auto
    then show ?thesis
    proof cases
      case (2 i)
      then have "resolveID ev r = (if IsMACID d \<and> \<not> IsMACID i then promote i d r else (r, i))"
        using nonempty by (simp add: resolveID_def Let_def d_def)
      then show ?thesis using same promoted by (cases "IsMACID d \<and> \<not> IsMACID i") auto
    qed (use same nonempty in \<open>simp_all add: resolveID_def Let_def d_def\<close>)
  next
    case False
    then have *: "resolveID ev r = (case matchShortID (ev_Kind ev) d r of (r', i) \<Rightarrow>
        if i \<noteq> [] then (r', i) else (r', d))"
      using nonempty unfolding d_def by (simp add: resolveID_def Let_def)
    show ?thesis
    proof (cases rule: matchShortID_cases [of "ev_Kind ev" d r])
      case same
      then show ?thesis by (intro that(1)) (auto simp: * split: prod.split)
    next
      case (promoted m)
      have "snd (promote m d r) \<noteq> []" by (simp add: nonempty)
      moreover have "resolveID ev r = promote m d r"
        using \<open>snd (promote m d r) \<noteq> []\<close> unfolding * promoted(2)
        by (cases "promote m d r") (auto split: if_splits)
      ultimately show ?thesis by (intro that(2) [of m]) simp
    qed
  qed
qed

lemma resolveID_resolved:
  assumes "reg_inv r"
  shows "resolved (snd (resolveID ev r)) (fst (resolveID ev r))"
  using assms
  by (cases rule: resolveID_cases [of ev r]) (simp_all add: reg_inv_resolved promote_resolved)

lemma promote_frame [simp]:
  "r_policy (fst (promote oldID newID r)) = r_policy r"
  "r_cfg (fst (promote oldID newID r)) = r_cfg r"
  using promote_Some [of oldID newID r] promote_same [of oldID newID r]
  by (cases "device_of r oldID"; cases "oldID = newID"; simp)+

lemma resolveID_frame [simp]:
  "r_policy (fst (resolveID ev r)) = r_policy r" "r_cfg (fst (resolveID ev r)) = r_cfg r"
  by (cases rule: resolveID_cases [of ev r]; simp)+

section \<open>Additions\<close>

lemma rename_device_simps [simp]:
  "dev_ID (rename_device ev d) = dev_ID d" "ds_endpoints (rename_device ev d) = ds_endpoints d"
  "dev_Static (rename_device ev d) = dev_Static d"
  by (simp_all add: rename_device_def Let_def)

lemma observe_simps [simp]:
  "dev_ID (observe ev d) = dev_ID d"
  "ds_endpoints (observe ev d)
     = AList.update (ep_Key (ev_Endpoint ev)) (new_endpoint ev) (ds_endpoints d)"
  "ds_lastDiscovery (observe ev d) = ev_At ev"
  "dev_Static (observe ev d) = (dev_Static d \<or> ev_Source ev = sourceStatic)"
  "dev_Addrs (observe ev d) = dev_Addrs d"
  "dev_Epoch (observe ev d) = dev_Epoch d"
  "ds_lastSuccess (observe ev d) = ds_lastSuccess d"
  by (simp_all add: observe_def Let_def)

lemma new_endpoint_simps [simp]:
  "ep_Key (new_endpoint ev) = ep_Key (ev_Endpoint ev)"
  "ep_Addr (new_endpoint ev) = ep_Addr (ev_Endpoint ev)"
  "ep_ObservedAt (new_endpoint ev) = ep_ObservedAt (ev_Endpoint ev)"
  "ep_Trusted (new_endpoint ev) = ep_Trusted (ev_Endpoint ev)"
  "es_unverified (new_endpoint ev) = False"
  "es_source (new_endpoint ev) = ev_Source ev"
  by (simp_all add: new_endpoint_def Endpoint.extend_def)

definition base_device :: "Event \<Rightarrow> time \<Rightarrow> string \<Rightarrow> Registry \<Rightarrow> deviceState" where
  "base_device ev now i r =
     (case device_of r i of None \<Rightarrow> new_device i ev now | Some d \<Rightarrow> rename_device ev d)"

lemma dev_ok_observe: "dev_ok i d \<Longrightarrow> dev_ok i (observe ev d)"
  by (simp add: dev_ok_def eps_ok_update)

lemma base_device_ok: "resolved i r \<Longrightarrow> dev_ok i (base_device ev now i r)"
  by (auto simp: base_device_def resolved_def devs_ok_def dev_ok_def new_device_def split: option.split)

lemma aliases_ok_upd: "aliases_ok K al \<Longrightarrow> i \<in> K \<Longrightarrow> aliases_ok K (al(h \<mapsto> i))"
  by (auto simp: aliases_ok_def)

lemma aliases_ok_mono: "aliases_ok K al \<Longrightarrow> K \<subseteq> K' \<Longrightarrow> aliases_ok K' al"
  by (auto simp: aliases_ok_def)

lemma aliases_ok_foldl:
  "aliases_ok K al \<Longrightarrow> i \<in> K \<Longrightarrow> aliases_ok K (foldl (\<lambda>al h. al(h \<mapsto> i)) al hs)"
  by (induction hs arbitrary: al) (simp_all add: aliases_ok_upd)

lemma bindAliases_ok:
  "aliases_ok K (r_aliases r) \<Longrightarrow> aliases_ok (insert i K) (r_aliases (bindAliases i ev r))"
  by (auto simp: bindAliases_def intro!: aliases_ok_upd aliases_ok_foldl elim: aliases_ok_mono)

text \<open>The device an addition stores, and the whole effect of an addition.\<close>

definition added :: "Event \<Rightarrow> time \<Rightarrow> Registry \<Rightarrow> deviceState" where
  "added ev now r =
     touch (fst (recomputeAddrs (r_policy r)
       (observe ev (base_device ev now (snd (resolveID ev r)) (fst (resolveID ev r))))))"

lemma resolveID_nonempty: "snd (resolveID ev r) \<noteq> []" if "reg_inv r"
proof (cases rule: resolveID_cases [of ev r])
  case same
  have "first_alias (r_aliases r) hs = Some i \<Longrightarrow> i \<noteq> []" for hs i
    using that first_alias_Some [of "r_aliases r" hs i]
    by (auto simp: reg_inv_def devs_ok_def aliases_ok_def)
       (metis list.distinct(1) map_of_eq_None_keys option.exhaust image_eqI fst_conv)
  moreover have "r_aliases r h = Some i \<Longrightarrow> i \<noteq> []" for h i
    using calculation [of "[h]" i] by simp
  ultimately show ?thesis
    by (auto simp: resolveID_def Let_def split: option.splits prod.splits)
qed simp

lemma applyAdd_eq:
  assumes "reg_inv r"
  shows "r_devices (fst (applyAdd ev now r))
           = AList.update (snd (resolveID ev r)) (added ev now r) (r_devices (fst (resolveID ev r)))"
    and "r_aliases (fst (applyAdd ev now r))
           = r_aliases (bindAliases (snd (resolveID ev r)) ev (fst (resolveID ev r)))"
    and "r_policy (fst (applyAdd ev now r)) = r_policy r"
    and "r_cfg (fst (applyAdd ev now r)) = r_cfg r"
    and "snd (applyAdd ev now r)"
  using resolveID_nonempty [OF assms, of ev] resolveID_frame [of ev r]
  by (simp_all add: applyAdd_def added_def base_device_def Let_def case_prod_beta)

lemma applyAdd_inv [wf_intros]: "reg_inv r \<Longrightarrow> reg_inv (fst (applyAdd ev now r))"
proof -
  assume inv: "reg_inv r"
  let ?i = "snd (resolveID ev r)" and ?r = "fst (resolveID ev r)"
  have res: "resolved ?i ?r" by (rule resolveID_resolved [OF inv])
  have "dev_ok ?i (added ev now r)"
    using dev_ok_observe [OF base_device_ok [OF res]] by (simp add: added_def)
  moreover have "addrs_ok (r_policy r) (added ev now r)" "seen_ok (added ev now r)"
    by (simp_all add: added_def)
  ultimately have "devs_ok (r_policy r) {} (AList.update ?i (added ev now r) (r_devices ?r))"
    using res resolveID_nonempty [OF inv, of ev]
    by (intro devs_ok_update [of _ "{?i}"]) (auto simp: resolved_def)
  moreover have "aliases_ok (insert ?i (keys (r_devices ?r))) (r_aliases (bindAliases ?i ev ?r))"
    using res by (auto simp: resolved_def intro: bindAliases_ok)
  ultimately show ?thesis
    by (simp add: reg_inv_def applyAdd_eq [OF inv])
qed

section \<open>Hints and resets\<close>

lemma mark_endpoints_simps [simp]:
  "dev_ID (fst (mark_endpoints P tm d)) = dev_ID d"
  "dev_Addrs (fst (mark_endpoints P tm d)) = dev_Addrs d"
  "dev_Epoch (fst (mark_endpoints P tm d)) = dev_Epoch d"
  "dev_LastSeen (fst (mark_endpoints P tm d)) = dev_LastSeen d"
  "dev_Static (fst (mark_endpoints P tm d)) = dev_Static d"
  "ds_lastDiscovery (fst (mark_endpoints P tm d)) = ds_lastDiscovery d"
  "ds_lastSuccess (fst (mark_endpoints P tm d)) = ds_lastSuccess d"
  "ds_pinned (fst (mark_endpoints P tm d)) = ds_pinned d"
  "ds_hasPinned (fst (mark_endpoints P tm d)) = ds_hasPinned d"
  by (simp_all add: mark_endpoints_def Let_def)

lemma mark_endpoints_endpoints:
  "ds_endpoints (fst (mark_endpoints P tm d))
     = map (\<lambda>(k, ep). (k, if P k ep then mark_unverified tm ep else ep)) (ds_endpoints d)"
  by (auto simp: mark_endpoints_def Let_def list_ex_iff intro!: map_idI [symmetric])

lemma mark_endpoints_unchanged: "\<not> snd (mark_endpoints P tm d) \<Longrightarrow> fst (mark_endpoints P tm d) = d"
  by (cases "list_ex (\<lambda>(k, ep). P k ep) (ds_endpoints d)") (simp_all add: mark_endpoints_def Let_def)

lemma mark_unverified_simps [simp]:
  "ep_Key (mark_unverified tm ep) = ep_Key ep" "ep_Addr (mark_unverified tm ep) = ep_Addr ep"
  "ep_Trusted (mark_unverified tm ep) = ep_Trusted ep"
  "ep_ObservedAt (mark_unverified tm ep) = ep_ObservedAt ep"
  by (simp_all add: mark_unverified_def)

lemma candidates_map:
  assumes "ds_endpoints d' = map (\<lambda>(k, ep). (k, f k ep)) (ds_endpoints d)"
    and "\<And>k ep. ep_Addr (f k ep) = ep_Addr ep" "\<And>k ep. ep_Trusted (f k ep) = ep_Trusted ep"
  shows "candidates_of d' = candidates_of d"
  using assms by (simp add: candidates_of_def case_prod_beta)

lemma mark_endpoints_ok: "dev_ok i d \<Longrightarrow> dev_ok i (fst (mark_endpoints P tm d))"
  by (simp add: dev_ok_def mark_endpoints_endpoints eps_ok_map)

lemma mark_endpoints_addrs: "addrs_ok p d \<Longrightarrow> addrs_ok p (fst (mark_endpoints P tm d))"
proof -
  have "candidates_of (fst (mark_endpoints P tm d)) = candidates_of d"
    by (rule candidates_map [OF mark_endpoints_endpoints]) simp_all
  then show "addrs_ok p d \<Longrightarrow> addrs_ok p (fst (mark_endpoints P tm d))"
    by (simp add: addrs_ok_def pinned_of_def)
qed

lemma mark_endpoints_seen: "seen_ok d \<Longrightarrow> seen_ok (fst (mark_endpoints P tm d))"
  by (simp add: seen_ok_def)

lemma insert_keys_id: "map_of al k = Some v \<Longrightarrow> insert k (keys al) = keys al"
  by (auto dest: map_of_Some_keys)

lemma reg_inv_device:
  "reg_inv r \<Longrightarrow> device_of r i = Some d \<Longrightarrow>
     i \<noteq> [] \<and> dev_ok i d \<and> addrs_ok (r_policy r) d \<and> seen_ok d"
  by (simp add: reg_inv_def devs_ok_def)

text \<open>Replacing a known device by a well-formed one keeps the invariant.\<close>

lemma reg_inv_put_known:
  assumes "reg_inv r" "device_of r i = Some d"
    and "dev_ok i d'" "addrs_ok (r_policy r) d'" "seen_ok d'"
  shows "reg_inv (put_device i d' r)"
  using assms reg_inv_device [OF assms(1,2)]
  by (auto simp: reg_inv_def insert_keys_id intro: devs_ok_update)

lemma reg_inv_count [simp]: "reg_inv (count_addr_change reason c r) = reg_inv r"
  by (simp add: reg_inv_def)

lemma applyRemoveHint_inv [wf_intros]:
  assumes "reg_inv r"
  shows "reg_inv (fst (applyRemoveHint ev r))"
proof -
  have "reg_inv (put_device i (fst (mark_endpoints P tm d)) r)"
    if "device_of r i = Some d" for i d P tm
    using reg_inv_device [OF assms that]
    by (intro reg_inv_put_known [OF assms that])
       (auto intro: mark_endpoints_ok mark_endpoints_addrs mark_endpoints_seen)
  then show ?thesis
    using assms
    by (auto simp: applyRemoveHint_def split: option.split prod.split) (metis fst_conv)
qed

lemma markSourceUnverified_devices:
  "r_devices (fst (markSourceUnverified source tm r))
     = map (\<lambda>(i, dev). (i, fst (mark_endpoints (\<lambda>k ep. es_source ep = source \<and> \<not> es_unverified ep) tm dev)))
         (r_devices r)"
  "r_aliases (fst (markSourceUnverified source tm r)) = r_aliases r"
  "r_policy (fst (markSourceUnverified source tm r)) = r_policy r"
  "r_cfg (fst (markSourceUnverified source tm r)) = r_cfg r"
  by (simp_all add: markSourceUnverified_def Let_def)

lemma devs_ok_map:
  assumes "devs_ok p {} devs"
    and "\<And>i d. dev_ok i d \<Longrightarrow> addrs_ok p d \<Longrightarrow> seen_ok d \<Longrightarrow>
      dev_ok i (f i d) \<and> addrs_ok p (f i d) \<and> seen_ok (f i d)"
  shows "devs_ok p {} (map (\<lambda>(i, d). (i, f i d)) devs)"
  using assms by (auto simp: devs_ok_def wf_alist_map_snd map_of_map_snd)

lemma markSourceUnverified_inv [wf_intros]:
  "reg_inv r \<Longrightarrow> reg_inv (fst (markSourceUnverified source tm r))"
  by (auto simp: reg_inv_def markSourceUnverified_devices
      intro!: devs_ok_map mark_endpoints_ok mark_endpoints_addrs mark_endpoints_seen)

section \<open>Scrape results\<close>

lemma confirm_endpoints_simps [simp]:
  "dev_ID (confirm_endpoints res d) = dev_ID d" "dev_Addrs (confirm_endpoints res d) = dev_Addrs d"
  "ds_pinned (confirm_endpoints res d) = ds_pinned d"
  "ds_hasPinned (confirm_endpoints res d) = ds_hasPinned d"
  "ds_lastSuccess (confirm_endpoints res d) = ds_lastSuccess d"
  "ds_lastDiscovery (confirm_endpoints res d) = ds_lastDiscovery d"
  "dev_Static (confirm_endpoints res d) = dev_Static d"
  "dev_Epoch (confirm_endpoints res d) = dev_Epoch d"
  by (simp_all add: confirm_endpoints_def)

lemma confirm_endpoints_eps: "eps_ok (ds_endpoints d) \<Longrightarrow> eps_ok (ds_endpoints (confirm_endpoints res d))"
  by (auto simp: confirm_endpoints_def intro!: eps_ok_map)

lemma candidates_confirm [simp]: "candidates_of (confirm_endpoints res d) = candidates_of d"
  by (rule candidates_map [of _ "\<lambda>k ep. if ep_Addr ep = sr_Addr res
        then ep\<lparr>es_unverified := False, ep_ObservedAt := sr_At res\<rparr> else ep"])
     (simp_all add: confirm_endpoints_def)

lemma pin_address_simps [simp]:
  "dev_ID (fst (pin_address p res d)) = dev_ID d"
  "ds_endpoints (fst (pin_address p res d)) = ds_endpoints d"
  "ds_lastSuccess (fst (pin_address p res d)) = ds_lastSuccess d"
  "ds_lastDiscovery (fst (pin_address p res d)) = ds_lastDiscovery d"
  "dev_Static (fst (pin_address p res d)) = dev_Static d"
  by (simp_all add: pin_address_def)

lemma pin_address_ok: "addrs_ok p d \<Longrightarrow> addrs_ok p (fst (pin_address p res d))"
  by (simp add: pin_address_def)

text \<open>The device a successful result stores.\<close>

definition confirmed :: "AddressPolicy \<Rightarrow> ScrapeResult \<Rightarrow> deviceState \<Rightarrow> deviceState" where
  "confirmed policy res dev =
     (let dev2 = confirm_endpoints res (fst (pin_address policy res (dev\<lparr>ds_lastSuccess := sr_At res\<rparr>)))
      in touch (dev2\<lparr>dev_Unverified := allUnverified dev2\<rparr>))"

lemma applyScrapeResult_eq:
  "applyScrapeResult res r =
     (case device_of r (sr_DeviceID res) of
        None \<Rightarrow> (r, False)
      | Some dev \<Rightarrow>
          (if sr_Success res
           then (put_device (sr_DeviceID res) (confirmed (r_policy r) res dev)
                  (count_addr_change ''scrape_success''
                     (snd (pin_address (r_policy r) res (dev\<lparr>ds_lastSuccess := sr_At res\<rparr>))) r), True)
           else (r, False)))"
  by (auto simp: applyScrapeResult_def confirmed_def Let_def split: option.split prod.split)

lemma confirm_unverified [simp]:
  "candidates_of (d\<lparr>dev_Unverified := b\<rparr>) = candidates_of d"
  "pinned_of (d\<lparr>dev_Unverified := b\<rparr>) = pinned_of d"
  "pinned_of (confirm_endpoints res d) = pinned_of d"
  by (simp_all add: candidates_of_def pinned_of_def)

lemma confirmed_ok:
  assumes "dev_ok i d" "addrs_ok p d"
  shows "dev_ok i (confirmed p res d) \<and> addrs_ok p (confirmed p res d) \<and> seen_ok (confirmed p res d)"
proof -
  let ?d0 = "d\<lparr>ds_lastSuccess := sr_At res\<rparr>"
  let ?d1 = "fst (pin_address p res ?d0)"
  have "dev_ok i ?d0" "addrs_ok p ?d0"
    using assms by (simp_all add: dev_ok_def addrs_ok_def candidates_of_def pinned_of_def)
  then have "dev_ok i (confirm_endpoints res ?d1)" "addrs_ok p ?d1"
    by (simp_all add: dev_ok_def confirm_endpoints_eps pin_address_ok)
  then show ?thesis
    by (simp add: confirmed_def Let_def dev_ok_def addrs_ok_def)
qed

lemma applyScrapeResult_inv [wf_intros]: "reg_inv r \<Longrightarrow> reg_inv (fst (applyScrapeResult res r))"
  using reg_inv_device [of r "sr_DeviceID res"]
  by (auto simp: applyScrapeResult_eq confirmed_ok intro!: reg_inv_put_known split: option.split)

end
