(* ===== verification/RegistryExpire.thy ===== *)
theory RegistryExpire
  imports RegistryInv
begin

text \<open>
  Expiry in closed form: the loop of \<^verbatim>\<open>expire\<close> over the device map treats each device on
  its own, so its effect is a function on single devices, \<open>survivor\<close>.  With it come the
  preservation of the invariant by \<^verbatim>\<open>expire\<close> and \<^verbatim>\<open>applyEvent\<close>.
\<close>

section \<open>One device\<close>

definition survivor :: "RegistryConfig \<Rightarrow> AddressPolicy \<Rightarrow> time \<Rightarrow> deviceState \<Rightarrow> deviceState option" where
  "survivor cfg policy now dev =
     (if dev_Static dev then Some dev
      else let dev' = fst (expire_endpoints cfg policy now dev)
      in if rc_DeviceTTL cfg < time_sub now (dev_LastSeen dev') then None else Some dev')"

definition expiry_changes :: "RegistryConfig \<Rightarrow> AddressPolicy \<Rightarrow> time \<Rightarrow> deviceState \<Rightarrow> bool" where
  "expiry_changes cfg policy now dev \<longleftrightarrow> \<not> dev_Static dev \<and>
     (list_ex (\<lambda>(k, ep). endpoint_gone cfg now dev ep) (ds_endpoints dev)
      \<or> survivor cfg policy now dev = None)"

lemma expire_endpoints_flag:
  "fst (snd (expire_endpoints cfg p now d)) =
     list_ex (\<lambda>(k, ep). endpoint_gone cfg now d ep) (ds_endpoints d)"
  by (simp add: expire_endpoints_def Let_def split: prod.split)

lemma expire_endpoints_same:
  "\<not> list_ex (\<lambda>(k, ep). endpoint_gone cfg now d ep) (ds_endpoints d)
     \<Longrightarrow> expire_endpoints cfg p now d = (d, False, False)"
  by (simp add: expire_endpoints_def Let_def)

lemma expire_endpoints_simps [simp]:
  "dev_ID (fst (expire_endpoints cfg p now d)) = dev_ID d"
  "dev_Static (fst (expire_endpoints cfg p now d)) = dev_Static d"
  "ds_lastSuccess (fst (expire_endpoints cfg p now d)) = ds_lastSuccess d"
  "ds_lastDiscovery (fst (expire_endpoints cfg p now d)) = ds_lastDiscovery d"
  by (simp_all add: expire_endpoints_def Let_def split: prod.split) (simp_all add: prod_eq_iff)

lemma expire_endpoints_endpoints:
  "ds_endpoints (fst (expire_endpoints cfg p now d))
     = filter (\<lambda>(k, ep). \<not> endpoint_gone cfg now d ep) (ds_endpoints d)"
proof (cases "list_ex (\<lambda>(k, ep). endpoint_gone cfg now d ep) (ds_endpoints d)")
  case False
  then show ?thesis
    by (subst filter_True) (auto simp: expire_endpoints_same list_ex_iff)
qed (simp add: expire_endpoints_def Let_def case_prod_beta)

lemma expire_endpoints_LastSeen:
  "seen_ok d \<Longrightarrow> dev_LastSeen (fst (expire_endpoints cfg p now d)) = dev_LastSeen d"
  by (simp add: expire_endpoints_def Let_def case_prod_beta seen_ok_def)

lemma expire_endpoints_ok:
  "dev_ok i d \<Longrightarrow> addrs_ok p d \<Longrightarrow> seen_ok d \<Longrightarrow>
     dev_ok i (fst (expire_endpoints cfg p now d)) \<and> addrs_ok p (fst (expire_endpoints cfg p now d))
     \<and> seen_ok (fst (expire_endpoints cfg p now d))"
  by (simp add: expire_endpoints_def Let_def case_prod_beta dev_ok_def eps_ok_filter)

text \<open>A device survives exactly when it is static or was seen within its time to live.\<close>

lemma survivor_None:
  "seen_ok d \<Longrightarrow> survivor cfg p now d = None \<longleftrightarrow>
     \<not> dev_Static d \<and> rc_DeviceTTL cfg < time_sub now (dev_LastSeen d)"
  by (simp add: survivor_def Let_def expire_endpoints_LastSeen)

lemma survivor_Some:
  "survivor cfg p now d = Some d' \<Longrightarrow>
     d' = (if dev_Static d then d else fst (expire_endpoints cfg p now d))"
  by (auto simp: survivor_def Let_def split: if_splits)

section \<open>The loop\<close>

lemma expire_device_eq:
  "expire_device now (r, c) (i, d) =
     (let s = survivor (r_cfg r) (r_policy r) now d;
          gone = \<not> dev_Static d \<and> list_ex (\<lambda>(k, ep). endpoint_gone (r_cfg r) now d ep) (ds_endpoints d);
          r1 = (if gone
                then put_device i (fst (expire_endpoints (r_cfg r) (r_policy r) now d))
                       (count_addr_change ''expiry''
                          (snd (snd (expire_endpoints (r_cfg r) (r_policy r) now d))) r)
                else r)
      in (if s = None then forget i ''ttl'' r1 else r1, c \<or> expiry_changes (r_cfg r) (r_policy r) now d))"
  by (auto simp: expire_device_def survivor_def expiry_changes_def Let_def
      expire_endpoints_flag case_prod_beta)

lemma expire_device_frame [simp]:
  "r_policy (fst (expire_device now acc e)) = r_policy (fst acc)"
  "r_cfg (fst (expire_device now acc e)) = r_cfg (fst acc)"
  by (cases acc; cases e; simp add: expire_device_eq Let_def)+

lemma expire_fold_frame [simp]:
  "r_policy (fst (foldl (expire_device now) acc xs)) = r_policy (fst acc)"
  "r_cfg (fst (foldl (expire_device now) acc xs)) = r_cfg (fst acc)"
  by (induction xs arbitrary: acc) simp_all

lemma expire_device_devices:
  assumes "device_of r i = Some d"
  shows "device_of (fst (expire_device now (r, c) (i, d))) j =
    (if j = i then survivor (r_cfg r) (r_policy r) now d else device_of r j)"
proof (cases "survivor (r_cfg r) (r_policy r) now d")
  case None
  then show ?thesis by (simp add: expire_device_eq Let_def)
next
  case (Some d')
  have "\<not> list_ex (\<lambda>(k, ep). endpoint_gone (r_cfg r) now d ep) (ds_endpoints d) \<Longrightarrow> d' = d"
    using survivor_Some [OF Some] by (simp add: expire_endpoints_same)
  then show ?thesis
    using survivor_Some [OF Some] assms by (auto simp: expire_device_eq Let_def Some)
qed

lemma expire_fold:
  assumes "distinct (map fst xs)" "\<And>i d. (i, d) \<in> set xs \<Longrightarrow> device_of r i = Some d"
  shows "device_of (fst (foldl (expire_device now) (r, c) xs)) i =
      (case map_of xs i of None \<Rightarrow> device_of r i | Some d \<Rightarrow> survivor (r_cfg r) (r_policy r) now d)
    \<and> (snd (foldl (expire_device now) (r, c) xs) \<longleftrightarrow>
        c \<or> list_ex (\<lambda>(i, d). expiry_changes (r_cfg r) (r_policy r) now d) xs)"
  using assms
proof (induction xs arbitrary: r c)
  case (Cons x xs)
  obtain k d where x: "x = (k, d)" by force
  obtain r' c' where s: "expire_device now (r, c) (k, d) = (r', c')" by force
  have known: "device_of r k = Some d" using Cons.prems(2) x by simp
  have dev: "device_of r' j = (if j = k then survivor (r_cfg r) (r_policy r) now d else device_of r j)" for j
    using expire_device_devices [OF known, of now c j] by (simp add: s)
  have fr: "r_cfg r' = r_cfg r" "r_policy r' = r_policy r"
    using expire_device_frame [of now "(r, c)" "(k, d)"] by (simp_all add: s)
  have c': "c' \<longleftrightarrow> c \<or> expiry_changes (r_cfg r) (r_policy r) now d"
    using s by (auto simp: expire_device_eq Let_def)
  have "device_of r' i = Some d'" if "(i, d') \<in> set xs" for i d'
  proof -
    have "i \<noteq> k" using that Cons.prems(1) x by force
    then show ?thesis using Cons.prems(2) [of i d'] that by (simp add: dev)
  qed
  moreover have "map_of xs k = None" using Cons.prems(1) x by (simp add: map_of_eq_None_keys)
  moreover have "distinct (map fst xs)" using Cons.prems(1) by simp
  ultimately show ?case
    using Cons.IH [of r' c'] by (simp add: x s dev fr c' disj_assoc split: option.split)
qed simp

lemma reg_inv_wf: "reg_inv r \<Longrightarrow> wf_alist (r_devices r)"
  by (simp add: reg_inv_def devs_ok_def)

lemma reg_inv_alist:
  assumes "reg_inv r"
  shows "distinct (map fst (r_devices r))"
    and "(i, d) \<in> set (r_devices r) \<Longrightarrow> device_of r i = Some d"
  using reg_inv_wf [OF assms] wf_alist_map_of [OF reg_inv_wf [OF assms]]
  by (simp_all add: wf_alist_def)

lemma expire_closed:
  assumes "reg_inv r"
  shows "device_of (fst (expire now r)) i =
      (case device_of r i of None \<Rightarrow> None | Some d \<Rightarrow> survivor (r_cfg r) (r_policy r) now d)"
    and "snd (expire now r) \<longleftrightarrow>
      list_ex (\<lambda>(i, d). expiry_changes (r_cfg r) (r_policy r) now d) (r_devices r)"
proof -
  note * = expire_fold [OF reg_inv_alist [OF assms], of now False]
  show "device_of (fst (expire now r)) i =
      (case device_of r i of None \<Rightarrow> None | Some d \<Rightarrow> survivor (r_cfg r) (r_policy r) now d)"
    using * [of i] by (simp add: expire_def split: option.split)
  show "snd (expire now r) \<longleftrightarrow>
      list_ex (\<lambda>(i, d). expiry_changes (r_cfg r) (r_policy r) now d) (r_devices r)"
    using * [of i] by (simp add: expire_def)
qed

lemma forget_inv: "reg_inv r \<Longrightarrow> reg_inv (forget i reason r)"
  by (auto simp: reg_inv_def aliases_ok_def forget_def intro!: devs_ok_delete split: if_splits)

lemma expire_device_inv:
  assumes "reg_inv r" "device_of r i = Some d"
  shows "reg_inv (fst (expire_device now (r, c) (i, d)))"
proof -
  have "reg_inv (put_device i (fst (expire_endpoints (r_cfg r) (r_policy r) now d))
      (count_addr_change ''expiry'' b r))" for b
    using expire_endpoints_ok [of i d "r_policy r"] reg_inv_device [OF assms] assms
    by (intro reg_inv_put_known) (simp_all)
  then show ?thesis using assms(1) by (simp add: expire_device_eq Let_def forget_inv)
qed

lemma expire_fold_inv:
  assumes "distinct (map fst xs)" "\<And>i d. (i, d) \<in> set xs \<Longrightarrow> device_of r i = Some d" "reg_inv r"
  shows "reg_inv (fst (foldl (expire_device now) (r, c) xs))"
  using assms
proof (induction xs arbitrary: r c)
  case (Cons x xs)
  obtain k d where x: "x = (k, d)" by force
  have known: "device_of r k = Some d" using Cons.prems(2) x by simp
  obtain r' c' where s: "expire_device now (r, c) (k, d) = (r', c')" by force
  have "reg_inv r'" using expire_device_inv [OF Cons.prems(3) known, of now c] by (simp add: s)
  moreover have "device_of r' i = Some d'" if "(i, d') \<in> set xs" for i d'
  proof -
    have "i \<noteq> k" using that Cons.prems(1) x by force
    then show ?thesis
      using expire_device_devices [OF known, of now c i] Cons.prems(2) [of i d'] that by (simp add: s)
  qed
  moreover have "distinct (map fst xs)" using Cons.prems(1) by simp
  ultimately show ?case using Cons.IH [of r' c'] by (simp add: x s)
qed simp

lemma expire_inv [wf_intros]: "reg_inv r \<Longrightarrow> reg_inv (fst (expire now r))"
  unfolding expire_def by (rule expire_fold_inv [OF reg_inv_alist])

lemma expire_frame [simp]:
  "r_policy (fst (expire now r)) = r_policy r" "r_cfg (fst (expire now r)) = r_cfg r"
  by (simp_all add: expire_def)

section \<open>Events\<close>

lemma applyEvent_inv [wf_intros]: "reg_inv r \<Longrightarrow> reg_inv (fst (applyEvent ev now r))"
  by (simp add: applyEvent_def Let_def applyAdd_inv applyRemoveHint_inv markSourceUnverified_inv
      split: EventType.split)

end
