(* ===== verification/Snapshot.thy ===== *)
theory Snapshot
  imports Registry
begin

text \<open>
  \<^verbatim>\<open>internal/registry/snapshot.go\<close>: the immutable view the readers hold.  A nil
  receiver is \<open>None\<close>.  \<^verbatim>\<open>slices.SortFunc\<close> is an insertion by identifier; the
  identifiers the registry publishes are distinct, so its instability cannot show.
\<close>

record Snapshot =
  sn_At :: time
  sn_Devices :: "Device list"
  sn_byID :: "string \<Rightarrow> nat option"

definition sort_devices :: "Device list \<Rightarrow> Device list" where
  "sort_devices ds = sort_key dev_ID ds"

definition index_by_id :: "Device list \<Rightarrow> string \<Rightarrow> nat option" where
  "index_by_id ds = foldl (\<lambda>m (i, d). m(dev_ID d \<mapsto> i)) Map.empty (enumerate 0 ds)"

definition newSnapshot :: "time \<Rightarrow> Device list \<Rightarrow> Snapshot" where
  "newSnapshot tm devices =
     (let ds = sort_devices devices
      in \<lparr>sn_At = tm, sn_Devices = ds, sn_byID = index_by_id ds\<rparr>)"

definition Snapshot_Get :: "Snapshot option \<Rightarrow> string \<Rightarrow> Device option" where
  "Snapshot_Get so i =
     (case so of None \<Rightarrow> None
      | Some s \<Rightarrow> (case sn_byID s i of None \<Rightarrow> None | Some n \<Rightarrow> Some (sn_Devices s ! n)))"

definition Snapshot_List :: "Snapshot option \<Rightarrow> kind \<Rightarrow> Device list" where
  "Snapshot_List so k =
     (case so of None \<Rightarrow> []
      | Some s \<Rightarrow> if k = [] then sn_Devices s else filter (\<lambda>d. dev_Kind d = k) (sn_Devices s))"

definition Snapshot_Len :: "Snapshot option \<Rightarrow> nat" where
  "Snapshot_Len so = (case so of None \<Rightarrow> 0 | Some s \<Rightarrow> length (sn_Devices s))"

definition CountByKind :: "Snapshot option \<Rightarrow> kind \<Rightarrow> nat" where
  "CountByKind so =
     (case so of None \<Rightarrow> (\<lambda>_. 0)
      | Some s \<Rightarrow> foldl (\<lambda>out d. out(dev_Kind d := Suc (out (dev_Kind d)))) (\<lambda>_. 0) (sn_Devices s))"

text \<open>The part of a device state that \<^verbatim>\<open>publish\<close> copies.\<close>

definition published_devices :: "Registry \<Rightarrow> Device list" where
  "published_devices r = map (\<lambda>(i, dev). Device.truncate dev) (r_devices r)"

definition publish :: "time \<Rightarrow> Registry \<Rightarrow> Snapshot" where
  "publish now r = newSnapshot now (published_devices r)"

section \<open>Indexing\<close>

lemma set_sort_devices [simp]: "set (sort_devices ds) = set ds"
  by (simp add: sort_devices_def)

lemma length_sort_devices [simp]: "length (sort_devices ds) = length ds"
  by (simp add: sort_devices_def)

lemma sorted_sort_devices: "sorted (map dev_ID (sort_devices ds))"
  by (simp add: sort_devices_def)

lemma distinct_sort_devices:
  "distinct (map dev_ID (sort_devices ds)) = distinct (map dev_ID ds)"
  unfolding sort_devices_def
  by (metis distinct_count_atmost_1 mset_map mset_sort set_map set_sort
      mset_eq_imp_distinct_iff)

lemma filter_same_id:
  "distinct (map f xs) \<Longrightarrow> k \<in> set xs \<Longrightarrow> filter (\<lambda>x. f k = f x) xs = [k]"
  by (induction xs) (auto simp: filter_empty_conv image_iff)

lemma sort_devices_perm:
  assumes "mset ds = mset es" "distinct (map dev_ID ds)"
  shows "sort_devices ds = sort_devices es"
  unfolding sort_devices_def [of ds]
proof (rule properties_for_sort_key)
  have "mset (map dev_ID ds) = mset (map dev_ID es)" using assms(1) by simp
  then have "distinct (map dev_ID es)" using assms(2) mset_eq_imp_distinct_iff by blast
  moreover fix k assume "k \<in> set (sort_devices es)"
  moreover have "set es = set ds" using assms(1) mset_eq_setD by metis
  ultimately show "filter (\<lambda>x. dev_ID k = dev_ID x) (sort_devices es)
      = filter (\<lambda>x. dev_ID k = dev_ID x) ds"
    using assms(2) distinct_sort_devices [of es] by (simp add: filter_same_id)
qed (use assms in \<open>simp_all add: sort_devices_def\<close>)

lemma index_by_id_gen:
  "foldl (\<lambda>m (i, d). m(dev_ID d \<mapsto> i)) m0 (enumerate n ds) j = Some k \<Longrightarrow>
     (m0 j = Some k \<and> j \<notin> dev_ID ` set ds) \<or> (n \<le> k \<and> k < n + length ds \<and> dev_ID (ds ! (k - n)) = j)"
proof (induction ds arbitrary: n m0)
  case (Cons d ds)
  show ?case
    using Cons.IH [of "m0(dev_ID d \<mapsto> n)" "Suc n"] Cons.prems
    by (auto simp: nth_Cons' split: if_splits)
qed simp

lemma index_by_id_Some:
  "index_by_id ds j = Some k \<Longrightarrow> k < length ds \<and> dev_ID (ds ! k) = j"
  using index_by_id_gen [of Map.empty 0 ds j k] by (simp add: index_by_id_def)

lemma index_by_id_None_gen:
  "foldl (\<lambda>m (i, d). m(dev_ID d \<mapsto> i)) m0 (enumerate n ds) j = None \<longleftrightarrow>
     m0 j = None \<and> j \<notin> dev_ID ` set ds"
  by (induction ds arbitrary: n m0) auto

lemma index_by_id_None: "index_by_id ds j = None \<longleftrightarrow> j \<notin> dev_ID ` set ds"
  by (simp add: index_by_id_def index_by_id_None_gen)

lemma Get_newSnapshot:
  assumes "distinct (map dev_ID ds)"
  shows "Snapshot_Get (Some (newSnapshot tm ds)) i = Some d \<longleftrightarrow> d \<in> set ds \<and> dev_ID d = i"
proof (cases "index_by_id (sort_devices ds) i")
  case None
  then have "i \<notin> dev_ID ` set ds" by (simp add: index_by_id_None)
  then show ?thesis
    using None by (auto simp: Snapshot_Get_def newSnapshot_def Let_def)
next
  case (Some k)
  then have k: "k < length ds" "dev_ID (sort_devices ds ! k) = i"
    using index_by_id_Some by force+
  then have mem: "sort_devices ds ! k \<in> set ds"
    by (metis length_sort_devices nth_mem set_sort_devices)
  have "inj_on dev_ID (set ds)" using assms by (simp add: distinct_map)
  then show ?thesis
    using k mem by (auto simp: Snapshot_Get_def newSnapshot_def Let_def Some inj_on_def)
qed

lemma CountByKind_filter: "CountByKind (Some s) k = length (filter (\<lambda>d. dev_Kind d = k) (sn_Devices s))"
proof -
  have "foldl (\<lambda>out d. out(dev_Kind d := Suc (out (dev_Kind d)))) f ds k
      = f k + length (filter (\<lambda>d. dev_Kind d = k) ds)" for f and ds :: "Device list"
    by (induction ds arbitrary: f) auto
  then show ?thesis by (simp add: CountByKind_def)
qed

end
