(* ===== verification/RegistryActor.thy ===== *)
theory RegistryActor
  imports RegistryExpire Snapshot
begin

text \<open>
  The registry actor: the goroutine of \<^verbatim>\<open>Registry.Run\<close> that owns the state and
  publishes it.  Each arm of its \<^verbatim>\<open>select\<close> is a message, carrying the clock reading of
  that moment; which message comes next is the scheduler's choice, so the theorems quantify over
  all message sequences.  \<open>ac_publish\<close> is the armed coalescing timer, \<open>None\<close> for the nil
  channel.
\<close>

section \<open>The actor\<close>

record Actor =
  ac_reg :: Registry
  ac_snapshot :: Snapshot
  ac_dirty :: bool
  ac_publish :: "time option"

datatype Msg =
    MEvent Event time
  | MResult ScrapeResult time
  | MExpire time
  | MRefresh time
  | MPublish time

definition actor_init :: "RegistryConfig \<Rightarrow> AddressPolicy \<Rightarrow> time \<Rightarrow> Actor" where
  "actor_init cfg policy now =
     \<lparr>ac_reg = New cfg policy, ac_snapshot = newSnapshot now [], ac_dirty = False, ac_publish = None\<rparr>"

definition markDirty :: "time \<Rightarrow> Actor \<Rightarrow> Actor" where
  "markDirty now a =
     (if ac_dirty a then a
      else a\<lparr>ac_dirty := True, ac_publish := Some (now + rc_SnapshotCoalesce (r_cfg (ac_reg a)))\<rparr>)"

definition after :: "time \<Rightarrow> Registry \<times> bool \<Rightarrow> Actor \<Rightarrow> Actor" where
  "after now res a =
     (let a' = a\<lparr>ac_reg := fst res\<rparr> in if snd res then markDirty now a' else a')"

definition actor_step :: "Msg \<Rightarrow> Actor \<Rightarrow> Actor" where
  "actor_step m a =
     (case m of
        MEvent ev now \<Rightarrow> after now (applyEvent ev now (ac_reg a)) a
      | MResult res now \<Rightarrow> after now (applyScrapeResult res (ac_reg a)) a
      | MExpire now \<Rightarrow> after now (expire now (ac_reg a)) a
      | MRefresh now \<Rightarrow> markDirty now a
      | MPublish now \<Rightarrow>
          a\<lparr>ac_dirty := False, ac_publish := None, ac_snapshot := publish now (ac_reg a)\<rparr>)"

text \<open>The publish channel delivers only once its timer has fired; the other arms always can.\<close>

definition actor_ok :: "Msg \<Rightarrow> Actor \<Rightarrow> bool" where
  "actor_ok m a =
     (case m of MPublish now \<Rightarrow> (case ac_publish a of None \<Rightarrow> False | Some t \<Rightarrow> t \<le> now) | _ \<Rightarrow> True)"

section \<open>Handlers that report no change change nothing\<close>

lemma markSourceUnverified_False:
  assumes "\<not> snd (markSourceUnverified source tm r)"
  shows "fst (markSourceUnverified source tm r) = r"
proof -
  let ?P = "\<lambda>k ep. es_source ep = source \<and> \<not> es_unverified ep"
  have "fst (mark_endpoints ?P tm d) = d" if "(i, d) \<in> set (r_devices r)" for i d
    using assms that
    by (intro mark_endpoints_unchanged) (auto simp: markSourceUnverified_def Let_def list_ex_iff)
  then have "map (\<lambda>(i, d). (i, fst (mark_endpoints ?P tm d))) (r_devices r) = r_devices r"
    by (intro map_idI) auto
  then show ?thesis by (simp add: markSourceUnverified_def Let_def)
qed

lemma applyRemoveHint_False: "\<not> snd (applyRemoveHint ev r) \<Longrightarrow> fst (applyRemoveHint ev r) = r"
  by (simp add: applyRemoveHint_def case_prod_beta split: option.splits if_splits)

lemma applyScrapeResult_False: "\<not> snd (applyScrapeResult res r) \<Longrightarrow> fst (applyScrapeResult res r) = r"
  by (simp add: applyScrapeResult_eq split: option.splits if_splits)

lemma expire_device_unchanged:
  assumes "\<not> expiry_changes (r_cfg r) (r_policy r) now d"
  shows "expire_device now (r, c) (i, d) = (r, c)"
  using assms by (auto simp: expire_device_eq expiry_changes_def Let_def survivor_def)

lemma expire_fold_unchanged:
  "\<not> list_ex (\<lambda>(i, d). expiry_changes (r_cfg r) (r_policy r) now d) xs
     \<Longrightarrow> foldl (expire_device now) (r, c) xs = (r, c)"
  by (induction xs) (auto simp: expire_device_unchanged)

lemma expire_False: "reg_inv r \<Longrightarrow> \<not> snd (expire now r) \<Longrightarrow> fst (expire now r) = r"
  unfolding expire_closed by (simp add: expire_def expire_fold_unchanged)

lemma applyEvent_False:
  "reg_inv r \<Longrightarrow> \<not> snd (applyEvent ev now r) \<Longrightarrow> fst (applyEvent ev now r) = r"
  using applyAdd_eq(5) [of r] markSourceUnverified_False [of _ _ r] applyRemoveHint_False [of _ r]
  by (cases "ev_Type (if is_zero (ev_At ev) then ev\<lparr>ev_At := now\<rparr> else ev)")
     (simp_all add: applyEvent_def Let_def)

section \<open>The invariant of the actor\<close>

definition snapshot_ok :: "Snapshot \<Rightarrow> bool" where
  "snapshot_ok s \<longleftrightarrow> sorted (map dev_ID (sn_Devices s)) \<and> distinct (map dev_ID (sn_Devices s))
     \<and> sn_byID s = index_by_id (sn_Devices s)"

definition actor_inv :: "Actor \<Rightarrow> bool" where
  "actor_inv a \<longleftrightarrow> reg_inv (ac_reg a) \<and> snapshot_ok (ac_snapshot a)
     \<and> (ac_dirty a \<longleftrightarrow> ac_publish a \<noteq> None)
     \<and> (\<not> ac_dirty a \<longrightarrow> sn_Devices (ac_snapshot a) = sort_devices (published_devices (ac_reg a)))"

lemma dev_ID_truncate [simp]: "dev_ID (Device.truncate d) = dev_ID d"
  by (simp add: Device.truncate_def)

lemma published_ids: "reg_inv r \<Longrightarrow> map dev_ID (published_devices r) = map fst (r_devices r)"
  using reg_inv_alist [of r] reg_inv_device [of r]
  by (auto simp: published_devices_def dev_ok_def)

lemma publish_ok: "reg_inv r \<Longrightarrow> snapshot_ok (publish now r)"
  by (simp add: snapshot_ok_def publish_def newSnapshot_def Let_def sorted_sort_devices
      distinct_sort_devices published_ids reg_inv_alist)

lemma publish_devices [simp]: "sn_Devices (publish now r) = sort_devices (published_devices r)"
  by (simp add: publish_def newSnapshot_def Let_def)

lemma actor_init_inv: "actor_inv (actor_init cfg policy now)"
proof -
  have "published_devices (New cfg policy) = []" by (simp add: published_devices_def New_def)
  then show ?thesis
    by (simp add: actor_inv_def actor_init_def reg_inv_New snapshot_ok_def newSnapshot_def Let_def
        sort_devices_def)
qed

lemma markDirty_simps [simp]:
  "ac_reg (markDirty now a) = ac_reg a" "ac_snapshot (markDirty now a) = ac_snapshot a"
  "ac_dirty (markDirty now a)"
  by (simp_all add: markDirty_def)

lemma markDirty_inv: 
  "reg_inv (ac_reg a) \<Longrightarrow> snapshot_ok (ac_snapshot a) \<Longrightarrow> (ac_dirty a \<longleftrightarrow> ac_publish a \<noteq> None)
     \<Longrightarrow> actor_inv (markDirty now a)"
  by (auto simp: actor_inv_def markDirty_def)

lemma after_inv:
  assumes "actor_inv a" "reg_inv (fst res)" "\<not> snd res \<Longrightarrow> fst res = ac_reg a"
  shows "actor_inv (after now res a)"
proof (cases "snd res")
  case True
  then show ?thesis
    using assms by (simp add: after_def Let_def) (rule markDirty_inv; simp add: actor_inv_def)
next
  case False
  then show ?thesis using assms by (simp add: after_def Let_def)
qed

lemma actor_step_inv: "actor_inv a \<Longrightarrow> actor_ok m a \<Longrightarrow> actor_inv (actor_step m a)"
proof (cases m)
  case (MRefresh now)
  assume "actor_inv a"
  then show ?thesis by (simp add: actor_step_def MRefresh) (rule markDirty_inv; simp add: actor_inv_def)
next
  case (MPublish now)
  assume "actor_inv a"
  then show ?thesis by (simp add: actor_step_def MPublish actor_inv_def publish_ok)
qed (auto simp: actor_step_def intro!: after_inv applyEvent_inv applyScrapeResult_inv expire_inv
    applyEvent_False applyScrapeResult_False expire_False, auto simp: actor_inv_def)

text \<open>The actor is a machine of the prelude: started by \<open>New\<close>, driven by its messages.\<close>

definition actor_start :: "Actor \<Rightarrow> bool" where
  "actor_start a \<longleftrightarrow> a = actor_init (r_cfg (ac_reg a)) (r_policy (ac_reg a)) (sn_At (ac_snapshot a))"

interpretation actor: machine actor_start actor_step actor_ok actor_inv
proof
  show "actor_start a \<Longrightarrow> actor_inv a" for a
    unfolding actor_start_def by (metis actor_init_inv)
qed (rule actor_step_inv)

lemma actor_start_init: "actor_start (actor_init cfg policy now)"
  by (simp add: actor_start_def actor_init_def New_def newSnapshot_def Let_def)

text \<open>A burst: any sequence of messages other than publishing.\<close>

definition is_publish :: "Msg \<Rightarrow> bool" where
  "is_publish m \<longleftrightarrow> (case m of MPublish _ \<Rightarrow> True | _ \<Rightarrow> False)"

lemma after_dirty: "ac_dirty a \<Longrightarrow> ac_dirty (after now res a) \<and> ac_publish (after now res a) = ac_publish a
    \<and> ac_snapshot (after now res a) = ac_snapshot a"
  by (simp add: after_def Let_def markDirty_def)

lemma step_dirty:
  assumes "ac_dirty a" "\<not> is_publish m"
  shows "ac_dirty (actor_step m a) \<and> ac_publish (actor_step m a) = ac_publish a
    \<and> ac_snapshot (actor_step m a) = ac_snapshot a"
  using assms after_dirty [OF assms(1)]
  by (cases m) (simp_all add: actor_step_def is_publish_def markDirty_def)

lemma burst_dirty:
  "ac_dirty a \<Longrightarrow> \<forall>m \<in> set ms. \<not> is_publish m \<Longrightarrow>
     ac_dirty (actor.run ms a) \<and> ac_publish (actor.run ms a) = ac_publish a
     \<and> ac_snapshot (actor.run ms a) = ac_snapshot a"
  by (induction ms arbitrary: a) (simp_all add: step_dirty)

end
