(* ===== verification/RegistryFacts.thy ===== *)
theory RegistryFacts
  imports RegistryActor
begin

text \<open>
  Lemmas about single handlers that several properties of the registry share: which identifiers
  promotion can move, what stays of a device across a handler, and how the epoch follows the
  address list.
\<close>

section \<open>Which identifiers move\<close>

lemma has_prefix_mac_short: "has_prefix i prefixShortID \<Longrightarrow> \<not> IsMACID i"
  by (auto simp: has_prefix_iff IsMACID_def prefixShortID_def prefixMAC_def)

lemma only_match_some: "only_match m is = j \<Longrightarrow> j \<noteq> [] \<Longrightarrow> (is = [] \<and> j = m) \<or> (m = [] \<and> j \<in> set is)"
  by (induction m "is" rule: only_match.induct) (auto split: if_splits)

lemma short_candidates_mem: "i \<in> set (short_candidates sfx devs) \<Longrightarrow> has_prefix i prefixShortID"
  by (auto simp: short_candidates_def)

text \<open>Only a device without a MAC identifier is ever moved to another one.\<close>

lemma matchShortID_moves:
  assumes "matchShortID k derived r = (r', i)" "r' \<noteq> r"
  shows "\<exists>m. \<not> IsMACID m \<and> (r', i) = promote m derived r"
proof -
  let ?c = "short_candidates (''-'' @ drop 6 (MACOfID derived)) (r_devices r)"
  from assms have "only_match [] ?c \<noteq> []" "promote (only_match [] ?c) derived r = (r', i)"
    by (auto simp: matchShortID_def Let_def split: if_splits option.splits)
  moreover have "\<not> IsMACID (only_match [] ?c)"
    using only_match_some [of "[]" ?c] calculation(1)
    by (metis has_prefix_mac_short short_candidates_mem)
  ultimately show ?thesis by auto
qed

lemma resolveID_moves:
  fixes ev r
  defines "d \<equiv> DeriveID (ev_Kind ev) (ev_Instance ev) (ep_TXT (ev_Endpoint ev))"
  assumes "fst (resolveID ev r) \<noteq> r"
  shows "\<exists>m. \<not> IsMACID m \<and> resolveID ev r = promote m d r"
proof (cases "first_alias (r_aliases r) (eventHandles ev)")
  case (Some i)
  then show ?thesis
    using assms(2) by (auto simp: resolveID_def Let_def d_def split: if_splits)
next
  case None
  obtain r' i where m: "matchShortID (ev_Kind ev) d r = (r', i)" by force
  with None assms(2) have r': "r' \<noteq> r" "fst (resolveID ev r) = r'" "d \<noteq> []"
    by (auto simp: resolveID_def Let_def d_def split: if_splits option.splits)
  obtain m' where m': "\<not> IsMACID m'" "(r', i) = promote m' d r"
    using matchShortID_moves [OF m r'(1)] by auto
  then have "i = d" by (metis promote_id snd_conv)
  then have "resolveID ev r = (r', i)"
    using r' None m by (auto simp: resolveID_def Let_def d_def split: if_splits option.splits)
  then show ?thesis using m' by auto
qed

section \<open>Devices across a handler\<close>

lemma applyAdd_device:
  assumes "reg_inv r"
  shows "device_of (fst (applyAdd ev now r)) j =
    (if j = snd (resolveID ev r) then Some (added ev now r) else device_of (fst (resolveID ev r)) j)"
  by (simp add: applyAdd_eq [OF assms])

lemma applyScrapeResult_device:
  "device_of (fst (applyScrapeResult res r)) j =
    (case device_of r j of
       Some d \<Rightarrow> Some (if j = sr_DeviceID res \<and> sr_Success res then confirmed (r_policy r) res d else d)
     | None \<Rightarrow> None)"
  by (simp add: applyScrapeResult_eq split: option.split)

lemma markSourceUnverified_device:
  "device_of (fst (markSourceUnverified source tm r)) j =
    map_option (\<lambda>d. fst (mark_endpoints (\<lambda>k ep. es_source ep = source \<and> \<not> es_unverified ep) tm d))
      (device_of r j)"
  by (simp add: markSourceUnverified_devices map_of_map_snd)

lemma applyRemoveHint_device:
  "device_of (fst (applyRemoveHint ev r)) j =
    map_option (\<lambda>d. if remove_target ev r = Some j
        then fst (mark_endpoints (hint_endpoint ev) (ev_At ev) d) else d) (device_of r j)"
proof (cases "remove_target ev r")
  case (Some i)
  show ?thesis
    using mark_endpoints_unchanged [of "hint_endpoint ev" "ev_At ev"]
    by (cases "device_of r i"; cases "device_of r j")
       (auto simp: applyRemoveHint_def Some case_prod_beta)
qed (simp add: applyRemoveHint_def option.map_ident)

lemma promote_device:
  assumes "device_of r oldID = Some old" "oldID \<noteq> newID"
  shows "device_of (fst (promote oldID newID r)) j =
    (if j = newID then Some (promoted r newID old) else if j = oldID then None else device_of r j)"
  using assms by (simp add: promote_Some)

section \<open>Published devices and addresses\<close>

lemma candidates_addrs:
  "x \<in> set (fst (OrderCandidates p (candidates_of d) pin)) \<longleftrightarrow>
    (\<exists>(k, ep) \<in> set (ds_endpoints d). x = unmap (ep_Addr ep) \<and> (ep_Trusted ep \<or> Usable p (ep_Addr ep)))"
proof -
  have "x \<in> set (fst (OrderCandidates p cs pin)) \<longleftrightarrow>
      (\<exists>c \<in> set cs. x = unmap (cand_Addr c) \<and> (cand_Trusted c \<or> Usable p (cand_Addr c)))" for cs
    unfolding set_OrderCandidates by blast
  then show ?thesis by (simp add: candidates_of_def case_prod_beta)
qed

lemma published_lookup:
  assumes "reg_inv r"
  shows "x \<in> set (published_devices r) \<and> dev_ID x = i \<longleftrightarrow>
     map_option Device.truncate (device_of r i) = Some x"
proof
  assume "x \<in> set (published_devices r) \<and> dev_ID x = i"
  then obtain e where e: "e \<in> set (r_devices r)" "x = Device.truncate (snd e)" "dev_ID (snd e) = i"
    unfolding published_devices_def by (metis (mono_tags, lifting) case_prod_beta dev_ID_truncate image_iff set_map)
  have "device_of r (fst e) = Some (snd e)" using reg_inv_alist(2) [OF assms, of "fst e" "snd e"] e(1) by simp
  moreover from this have "dev_ID (snd e) = fst e" using reg_inv_device [OF assms] unfolding dev_ok_def by blast
  ultimately show "map_option Device.truncate (device_of r i) = Some x" using e by simp
next
  assume "map_option Device.truncate (device_of r i) = Some x"
  then obtain d where d: "device_of r i = Some d" "x = Device.truncate d" by blast
  have "(i, d) \<in> set (r_devices r)" using d(1) by (rule map_of_SomeD)
  then have "x \<in> set (published_devices r)"
    unfolding published_devices_def set_map d(2) by (rule rev_image_eqI) simp
  moreover have "dev_ID d = i" using reg_inv_device [OF assms d(1)] unfolding dev_ok_def by blast
  ultimately show "x \<in> set (published_devices r) \<and> dev_ID x = i" using d(2) by simp
qed

section \<open>Static devices\<close>

lemma added_Static:
  "dev_Static (added ev now r) \<longleftrightarrow>
     ev_Source ev = sourceStatic
     \<or> (\<exists>d. device_of (fst (resolveID ev r)) (snd (resolveID ev r)) = Some d \<and> dev_Static d)"
  by (auto simp: added_def base_device_def new_device_def split: option.split)

lemma promoted_Static_known: "device_of r newID = Some t \<Longrightarrow> dev_Static (promoted r newID old) = dev_Static t"
  by (simp add: promoted_def)

lemma confirmed_Static [simp]: "dev_Static (confirmed p res d) = dev_Static d"
  by (simp add: confirmed_def Let_def)

lemma resolveID_static_mac:
  assumes "device_of r i = Some d" "dev_Static d" "IsMACID i"
  shows "\<exists>d'. device_of (fst (resolveID ev r)) i = Some d' \<and> dev_Static d'"
proof (cases "fst (resolveID ev r) = r")
  case False
  then obtain m where m: "\<not> IsMACID m"
    "resolveID ev r = promote m (DeriveID (ev_Kind ev) (ev_Instance ev) (ep_TXT (ev_Endpoint ev))) r"
    using resolveID_moves by blast
  let ?n = "DeriveID (ev_Kind ev) (ev_Instance ev) (ep_TXT (ev_Endpoint ev))"
  have "m \<noteq> i" using m assms by auto
  show ?thesis
  proof (cases "m = ?n \<or> device_of r m = None")
    case True
    then show ?thesis using assms m by (simp add: promote_same)
  next
    case False
    then obtain old where "device_of r m = Some old" "m \<noteq> ?n" by auto
    from promote_device [OF this, of i] show ?thesis
      using assms m(2) \<open>m \<noteq> i\<close> by (auto simp: promoted_Static_known)
  qed
qed (use assms in auto)

definition static_at :: "string \<Rightarrow> Actor \<Rightarrow> bool" where
  "static_at i a \<longleftrightarrow> actor_inv a \<and> IsMACID i
     \<and> (\<exists>d. device_of (ac_reg a) i = Some d \<and> dev_Static d)"

lemma after_reg [simp]: "ac_reg (after now res a) = fst res"
  by (simp add: after_def Let_def)

lemma applyEvent_static:
  assumes "reg_inv r" "device_of r i = Some d" "dev_Static d" "IsMACID i"
  shows "\<exists>d'. device_of (fst (applyEvent ev now r)) i = Some d' \<and> dev_Static d'"
proof -
  let ?ev = "if is_zero (ev_At ev) then ev\<lparr>ev_At := now\<rparr> else ev"
  show ?thesis
  proof (cases "ev_Type ?ev")
    case EventAdd
    then show ?thesis
      using resolveID_static_mac [OF assms(2-4), of ?ev] assms(1)
      by (auto simp: applyEvent_def Let_def applyAdd_device added_Static simp del: split_paired_Ex)
  qed (use assms in \<open>auto simp: applyEvent_def Let_def applyRemoveHint_device
        markSourceUnverified_device\<close>)
qed

lemma static_at_step: "static_at i a \<Longrightarrow> actor_ok m a \<Longrightarrow> static_at i (actor_step m a)"
proof -
  assume a: "static_at i a" and ok: "actor_ok m a"
  then have inv: "actor_inv (actor_step m a)" "reg_inv (ac_reg a)" "IsMACID i"
    using actor_step_inv [of a m] by (simp_all add: static_at_def actor_inv_def)
  obtain d where d: "device_of (ac_reg a) i = Some d" "dev_Static d"
    using a by (auto simp: static_at_def)
  have "\<exists>d'. device_of (ac_reg (actor_step m a)) i = Some d' \<and> dev_Static d'"
  proof (cases m)
    case (MEvent ev now)
    then show ?thesis
      using applyEvent_static [OF inv(2) d inv(3)] by (simp add: actor_step_def)
  next
    case (MExpire now)
    then show ?thesis using inv d by (simp add: actor_step_def expire_closed survivor_def)
  qed (use d in \<open>auto simp: actor_step_def applyScrapeResult_device\<close>)
  then show ?thesis using inv by (simp add: static_at_def)
qed

interpretation static_run: machine "static_at i" actor_step actor_ok "static_at i" for i
  by unfold_locales (auto intro: static_at_step)

end
