(* ===== verification/RegistryProps.thy ===== *)
theory RegistryProps
  imports RegistryFacts
begin

text \<open>
  The properties of the registry: its invariant in every reachable state of the actor, what each
  handler promises, and the freshness of the published snapshots.  Each property with a hypothesis
  is followed by a witness on a small concrete fleet.
\<close>

section \<open>A concrete fleet for the witnesses\<close>

definition ex_cfg :: RegistryConfig where
  "ex_cfg = \<lparr>rc_RefreshInterval = minute, rc_EndpointTTL = 30 * minute, rc_DeviceTTL = 24 * hour,
     rc_RemoveGrace = 10 * minute, rc_SnapshotCoalesce = 500000000\<rparr>"

definition ex_policy :: AddressPolicy where
  "ex_policy = \<lparr>pol_AllowIPv6 = False, pol_Allow = [], pol_Deny = []\<rparr>"

definition ex_endpoint :: Endpoint where
  "ex_endpoint = \<lparr>ep_Key = \<lparr>key_ServiceType = ServiceShelly, key_Interface = 2, key_Protocol = ProtoIPv4\<rparr>,
     ep_Host = ''plug.local'', ep_Addr = Addr4 0xC0A80105, ep_Port = 80, ep_TXT = Map.empty,
     ep_Cached = False, ep_Trusted = False, ep_ObservedAt = 1000\<rparr>"

definition ex_id :: string where
  "ex_id = ''mac:a8032ab1c2d3''"

definition ex_add :: Event where
  "ex_add = \<lparr>ev_Type = EventAdd, ev_Source = ''static'', ev_DeviceID = ex_id,
     ev_Instance = ''plug'', ev_Unnamed = False, ev_Domain = ''local'', ev_Kind = KindShelly,
     ev_Endpoint = ex_endpoint, ev_At = 1000\<rparr>"

definition ex_reg :: Registry where
  "ex_reg = fst (applyEvent ex_add 1000 (New ex_cfg ex_policy))"

definition ex_actor :: Actor where
  "ex_actor = actor_step (MEvent ex_add 1000) (actor_init ex_cfg ex_policy 0)"

lemma ex_applyEvent: "applyEvent ex_add now r = applyAdd ex_add now r"
  by (simp add: applyEvent_def ex_add_def is_zero_def)

lemma ex_resolve: "resolveID ex_add r = (r, ex_id)"
  by (simp add: resolveID_def ex_add_def ex_id_def)

lemma ex_reg_inv: "reg_inv ex_reg"
  by (simp add: ex_reg_def applyEvent_inv reg_inv_New)

lemma ex_reg_device: "device_of ex_reg ex_id = Some (added ex_add 1000 (New ex_cfg ex_policy))"
  by (simp add: ex_reg_def ex_applyEvent applyAdd_device reg_inv_New ex_resolve)

lemma ex_reg_alias: "r_aliases ex_reg ex_id = Some ex_id"
  by (simp add: ex_reg_def ex_applyEvent applyAdd_eq reg_inv_New ex_resolve bindAliases_def)

lemma ex_reg_frame: "r_cfg ex_reg = ex_cfg" "r_policy ex_reg = ex_policy"
  by (simp_all add: ex_reg_def ex_applyEvent applyAdd_eq reg_inv_New)

lemma ex_added:
  "added ex_add 1000 (New ex_cfg ex_policy) =
     touch (fst (recomputeAddrs ex_policy (observe ex_add (new_device ex_id ex_add 1000))))"
  by (simp add: added_def ex_resolve base_device_def)

lemma ex_added_simps:
  "ds_endpoints (added ex_add 1000 (New ex_cfg ex_policy)) = [(ep_Key ex_endpoint, new_endpoint ex_add)]"
  "dev_Static (added ex_add 1000 (New ex_cfg ex_policy))"
  "ds_lastDiscovery (added ex_add 1000 (New ex_cfg ex_policy)) = 1000"
  by (simp_all add: ex_added new_device_def) (simp_all add: ex_add_def sourceStatic_def)

lemma ex_actor_reg: "ac_reg ex_actor = ex_reg"
  by (simp add: ex_actor_def actor_step_def ex_reg_def actor_init_def)

lemma ex_actor_reachable: "actor.reachable ex_actor"
  unfolding ex_actor_def
  by (intro actor.reachable.move actor.reachable.start actor_start_init) (simp add: actor_ok_def)

lemma ex_reg_known: "device_of ex_reg ex_id \<noteq> None"
  by (simp add: ex_reg_device)

section \<open>Every reachable state\<close>

text \<open>C1. In every state the actor can reach, whatever the order of its messages, every alias
  leads to a device that exists and is filed under its own identifier: resolution never ends in a
  dangling handle, even after promotions, merges and expiries.\<close>

theorem aliases_never_dangle:
  assumes "actor.reachable a" "r_aliases (ac_reg a) h = Some i"
  shows "\<exists>d. device_of (ac_reg a) i = Some d \<and> dev_ID d = i"
proof -
  have inv: "reg_inv (ac_reg a)" using actor.reachable_invar [OF assms(1)] by (simp add: actor_inv_def)
  then have "i \<in> keys (r_devices (ac_reg a))" using assms(2) by (auto simp: reg_inv_def aliases_ok_def)
  then obtain d where "device_of (ac_reg a) i = Some d"
    by (metis map_of_eq_None_keys not_None_eq)
  then show ?thesis using reg_inv_device [OF inv] by (auto simp: dev_ok_def)
qed

theorem aliases_never_dangle_witness:
  "\<exists>d. device_of (ac_reg ex_actor) ex_id = Some d \<and> dev_ID d = ex_id"
  by (rule aliases_never_dangle [OF ex_actor_reachable, of ex_id])
     (simp add: ex_actor_reg ex_reg_alias)

text \<open>C2. Whenever no publication is pending, the snapshot the readers hold answers every lookup
  exactly as the registry state would: coalescing delays publication but loses no change.\<close>

theorem clean_snapshot_is_current:
  assumes "actor.reachable a" "\<not> ac_dirty a"
  shows "Snapshot_Get (Some (ac_snapshot a)) i = map_option Device.truncate (device_of (ac_reg a) i)"
proof -
  have inv: "actor_inv a" by (rule actor.reachable_invar [OF assms(1)])
  let ?ds = "published_devices (ac_reg a)"
  have reg: "reg_inv (ac_reg a)" using inv by (simp add: actor_inv_def)
  have dist: "distinct (map dev_ID ?ds)" using reg by (simp add: published_ids reg_inv_alist)
  have "Snapshot_Get (Some (ac_snapshot a)) i = Snapshot_Get (Some (newSnapshot 0 ?ds)) i"
    using inv assms(2) by (simp add: actor_inv_def snapshot_ok_def Snapshot_Get_def newSnapshot_def Let_def
        split: option.split)
  moreover have "Snapshot_Get (Some (newSnapshot 0 ?ds)) i = Some x
      \<longleftrightarrow> map_option Device.truncate (device_of (ac_reg a) i) = Some x" for x
    unfolding Get_newSnapshot [OF dist] published_lookup [OF reg] ..
  ultimately show ?thesis by (metis not_None_eq)
qed

theorem clean_snapshot_is_current_witness:
  "Snapshot_Get (Some (ac_snapshot (actor_step (MPublish 9000000000) ex_actor))) ex_id
     = map_option Device.truncate (device_of ex_reg ex_id)"
proof -
  have d: "ac_publish ex_actor = Some 500001000"
    by (simp add: ex_actor_def actor_step_def after_def markDirty_def actor_init_def ex_applyEvent
        applyAdd_eq reg_inv_New) (simp add: ex_cfg_def)
  have "actor.reachable (actor_step (MPublish 9000000000) ex_actor)"
    by (rule actor.reachable.move [OF ex_actor_reachable]) (simp add: actor_ok_def d)
  from clean_snapshot_is_current [OF this, of ex_id] show ?thesis
    by (simp add: actor_step_def ex_actor_reg)
qed

text \<open>A burst of messages never postpones publication: while a publication is pending, no
  message other than the publication itself moves its deadline or the snapshot.\<close>

theorem burst_keeps_deadline:
  assumes "ac_dirty a" "\<forall>m \<in> set ms. \<not> is_publish m"
  shows "ac_publish (actor.run ms a) = ac_publish a \<and> ac_snapshot (actor.run ms a) = ac_snapshot a"
  using burst_dirty [OF assms] by simp

theorem burst_keeps_deadline_witness:
  "ac_publish (actor.run [MRefresh 5, MEvent ex_add 9, MExpire 12] (markDirty 3 (actor_init ex_cfg ex_policy 0)))
     = Some 500000003"
  using burst_keeps_deadline [of "markDirty 3 (actor_init ex_cfg ex_policy 0)"
      "[MRefresh 5, MEvent ex_add 9, MExpire 12]"]
  by (simp add: is_publish_def) (simp add: markDirty_def actor_init_def ex_cfg_def)

text \<open>The address list a device publishes is exactly the set of addresses its current
  endpoints report and the policy admits: a trusted address always, a discovered one when it is
  usable.  Nothing stale survives in it and nothing usable is missing.\<close>

theorem published_addresses_exact:
  assumes "actor.reachable a" "device_of (ac_reg a) i = Some d"
  shows "x \<in> set (dev_Addrs d) \<longleftrightarrow>
    (\<exists>(k, ep) \<in> set (ds_endpoints d). x = unmap (ep_Addr ep)
       \<and> (ep_Trusted ep \<or> Usable (r_policy (ac_reg a)) (ep_Addr ep)))"
proof -
  have "reg_inv (ac_reg a)" using actor.reachable_invar [OF assms(1)] by (simp add: actor_inv_def)
  from reg_inv_device [OF this assms(2)] show ?thesis
    by (simp add: addrs_ok_def candidates_addrs)
qed

theorem published_addresses_exact_witness:
  "Addr4 0xC0A80105 \<in> set (dev_Addrs (added ex_add 1000 (New ex_cfg ex_policy)))"
proof -
  have "Usable ex_policy (Addr4 0xC0A80105)"
    by (simp add: Usable_def score_def ex_policy_def)
  then show ?thesis
    using published_addresses_exact [OF ex_actor_reachable, of ex_id "added ex_add 1000 (New ex_cfg ex_policy)"
        "Addr4 0xC0A80105"]
    by (simp add: ex_actor_reg ex_reg_device ex_reg_frame ex_added_simps)
       (simp add: ex_add_def ex_endpoint_def)
qed

end
