(* ===== verification/RegistryLifecycle.thy ===== *)
theory RegistryLifecycle
  imports RegistryProps
begin

text \<open>
  The life of a device in the registry: what a scrape, a hint, a promotion and an expiry do to it,
  and how its epoch, which the collectors key their caches by, follows its addresses.
\<close>

section \<open>Scrapes and expiry\<close>

lemma confirmed_endpoints:
  "ds_endpoints (confirmed p res d) = map (\<lambda>(k, ep). (k, if ep_Addr ep = sr_Addr res
      then ep\<lparr>es_unverified := False, ep_ObservedAt := sr_At res\<rparr> else ep)) (ds_endpoints d)"
  by (simp add: confirmed_def Let_def confirm_endpoints_def)

lemma confirmed_times [simp]:
  "ds_lastSuccess (confirmed p res d) = sr_At res"
  "ds_lastDiscovery (confirmed p res d) = ds_lastDiscovery d"
  by (simp_all add: confirmed_def Let_def)

lemma pinned_recompute [simp]: "pinned_of (fst (recomputeAddrs p d)) = pinned_of d"
  by (simp add: pinned_of_def)

lemma confirmed_pinned:
  "is_valid (sr_Addr res) \<Longrightarrow> pinned_of (confirmed p res d) = sr_Addr res"
  by (simp add: confirmed_def Let_def pin_address_def) (simp add: pinned_of_def)

lemma expire_endpoints_pinned [simp]:
  "pinned_of (fst (expire_endpoints cfg p now d)) = pinned_of d"
  by (simp add: expire_endpoints_def Let_def case_prod_beta) (simp add: pinned_of_def)

lemma applyScrapeResult_frame [simp]:
  "r_cfg (fst (applyScrapeResult res r)) = r_cfg r"
  "r_policy (fst (applyScrapeResult res r)) = r_policy r"
  by (simp_all add: applyScrapeResult_eq split: option.split)

lemma survivor_endpoint:
  assumes "eps_ok (ds_endpoints d)" "map_of (ds_endpoints d) k = Some ep"
    and "survivor cfg p now d = Some d'" "\<not> endpoint_gone cfg now d ep"
  shows "map_of (ds_endpoints d') k = Some ep"
proof (cases "dev_Static d")
  case False
  have "map_of (filter (\<lambda>(k, ep). \<not> endpoint_gone cfg now d ep) (ds_endpoints d)) k = Some ep"
    using assms by (simp add: eps_ok_def map_of_filter)
  then show ?thesis
    using survivor_Some [OF assms(3)] False by (simp add: expire_endpoints_endpoints)
qed (use survivor_Some [OF assms(3)] assms(2) in simp)

lemma survivor_pinned: "survivor cfg p now d = Some d' \<Longrightarrow> pinned_of d' = pinned_of d"
  using survivor_Some [of cfg p now d d'] by simp

text \<open>C11. A device expires exactly when it is not static and was last heard of, by discovery or
  by a successful scrape, longer ago than the device TTL; every other device stays.\<close>

theorem expire_exactly_stale:
  assumes "reg_inv r" "device_of r i = Some d"
  shows "device_of (fst (expire now r)) i = None \<longleftrightarrow>
    \<not> dev_Static d \<and> rc_DeviceTTL (r_cfg r) < time_sub now (laterOf (ds_lastDiscovery d) (ds_lastSuccess d))"
  using reg_inv_device [OF assms] assms by (simp add: expire_closed survivor_None seen_ok_def)

theorem expire_exactly_stale_witness:
  "device_of (fst (expire (48 * hour) ex_reg)) ex_id \<noteq> None"
  using expire_exactly_stale [OF ex_reg_inv ex_reg_device, of "48 * hour"] by (simp add: ex_added_simps)

text \<open>C5. A successful scrape keeps a device reachable: until the smaller of the two TTLs has
  passed since the scrape, the expiry sweep neither drops the device nor the endpoint that
  answered, and the address that answered stays the one dialled first.\<close>

theorem scrape_keeps_device_reachable:
  assumes "reg_inv r" "device_of r (sr_DeviceID res) = Some d" "sr_Success res" "is_valid (sr_Addr res)"
    and "map_of (ds_endpoints d) k = Some ep" "ep_Addr ep = sr_Addr res"
    and "ep_Trusted ep \<or> Usable (r_policy r) (ep_Addr ep)"
    and "0 \<le> rc_EndpointTTL (r_cfg r)" "0 \<le> rc_DeviceTTL (r_cfg r)"
    and "now - sr_At res \<le> rc_EndpointTTL (r_cfg r)" "now - sr_At res \<le> rc_DeviceTTL (r_cfg r)"
  shows "\<exists>d'. device_of (fst (expire now (fst (applyScrapeResult res r)))) (sr_DeviceID res) = Some d'
    \<and> (\<exists>ep'. map_of (ds_endpoints d') k = Some ep' \<and> ep_Addr ep' = sr_Addr res)
    \<and> dev_Addrs d' \<noteq> [] \<and> hd (dev_Addrs d') = unmap (sr_Addr res)"
proof -
  let ?r1 = "fst (applyScrapeResult res r)" and ?c = "confirmed (r_policy r) res d"
  let ?ep = "ep\<lparr>es_unverified := False, ep_ObservedAt := sr_At res\<rparr>"
  have inv1: "reg_inv ?r1" and inv2: "reg_inv (fst (expire now ?r1))"
    by (simp_all add: assms(1) applyScrapeResult_inv expire_inv)
  have c: "device_of ?r1 (sr_DeviceID res) = Some ?c"
    by (simp add: applyScrapeResult_device assms)
  have ok: "dev_ok (sr_DeviceID res) ?c" "seen_ok ?c" using reg_inv_device [OF inv1 c] by simp_all
  have ep: "map_of (ds_endpoints ?c) k = Some ?ep"
    using assms(5,6) by (simp add: confirmed_endpoints map_of_map_snd)
  have "\<not> rc_DeviceTTL (r_cfg r) < time_sub now (laterOf (ds_lastDiscovery d) (sr_At res))"
    using time_sub_le_diff [of "rc_DeviceTTL (r_cfg r)" now "laterOf (ds_lastDiscovery d) (sr_At res)"] assms(9,11)
    by (cases "sr_At res < ds_lastDiscovery d") (simp_all add: laterOf_def not_less)
  then obtain d' where d': "survivor (r_cfg r) (r_policy r) now ?c = Some d'"
    using survivor_None [OF ok(2)] ok(2) by (force simp: seen_ok_def)
  have "\<not> endpoint_gone (r_cfg r) now ?c ?ep"
    using time_sub_le_diff [of "rc_EndpointTTL (r_cfg r)" now "sr_At res"] assms(8,10)
    by (simp add: endpoint_gone_def)
  with d' ok(1) ep have k: "map_of (ds_endpoints d') k = Some ?ep"
    unfolding dev_ok_def by (blast intro: survivor_endpoint)
  have dev: "device_of (fst (expire now ?r1)) (sr_DeviceID res) = Some d'"
    by (simp add: expire_closed [OF inv1] c d')
  have pin: "pinned_of d' = sr_Addr res" using survivor_pinned [OF d'] confirmed_pinned [OF assms(4)] by simp
  have "\<exists>(k, ep) \<in> set (ds_endpoints d'). unmap (sr_Addr res) = unmap (ep_Addr ep)
      \<and> (ep_Trusted ep \<or> Usable (r_policy r) (ep_Addr ep))"
    using map_of_SomeD [OF k] assms(6,7) by (intro bexI [of _ "(k, ?ep)"]) simp_all
  then have mem: "unmap (sr_Addr res) \<in> set (dev_Addrs d')"
    using reg_inv_device [OF inv2 dev] by (simp add: addrs_ok_def candidates_addrs)
  then have "hd (dev_Addrs d') = unmap (sr_Addr res)"
    using reg_inv_device [OF inv2 dev] OrderCandidates_pinned_first [OF assms(4)] pin
    by (simp add: addrs_ok_def)
  then show ?thesis using dev k mem assms(6) by auto
qed

definition ex_res :: ScrapeResult where
  "ex_res = \<lparr>sr_DeviceID = ex_id, sr_Addr = Addr4 0xC0A80105, sr_Success = True, sr_At = 5000\<rparr>"

lemma ex_reg_ep:
  "map_of (ds_endpoints (added ex_add 1000 (New ex_cfg ex_policy))) (ep_Key ex_endpoint)
     = Some (new_endpoint ex_add)"
  "ep_Addr (new_endpoint ex_add) = Addr4 0xC0A80105"
  by (simp_all add: ex_added_simps) (simp add: ex_add_def ex_endpoint_def)

lemma ex_usable: "Usable ex_policy (Addr4 0xC0A80105)"
  by (simp add: Usable_def score_def ex_policy_def)

theorem scrape_keeps_device_reachable_witness:
  "\<exists>d'. device_of (fst (expire minute (fst (applyScrapeResult ex_res ex_reg)))) ex_id = Some d'
    \<and> hd (dev_Addrs d') = Addr4 0xC0A80105"
  using scrape_keeps_device_reachable [of ex_reg ex_res "added ex_add 1000 (New ex_cfg ex_policy)"
      "ep_Key ex_endpoint" "new_endpoint ex_add" minute] ex_reg_inv ex_reg_device ex_reg_ep ex_usable
  by (auto simp: ex_res_def ex_reg_frame) (auto simp: ex_cfg_def minute_def hour_def second_def)

section \<open>Static devices\<close>

text \<open>C26. A static device filed under its MAC is permanent: no sequence of messages, in any order
  and at any time, removes it or takes its exemption from expiry away.\<close>

theorem static_mac_device_is_permanent:
  assumes "actor_inv a" "device_of (ac_reg a) i = Some d" "dev_Static d" "IsMACID i" "actor.oks ms a"
  shows "\<exists>d'. device_of (ac_reg (actor.run ms a)) i = Some d' \<and> dev_Static d'"
proof -
  have "static_at i a" using assms by (auto simp: static_at_def)
  then have "static_at i (actor.run ms a)" using assms(5) by (rule static_run.run_invar)
  then show ?thesis by (simp add: static_at_def)
qed

theorem static_mac_device_is_permanent_witness:
  "\<exists>d'. device_of (ac_reg (actor.run [MExpire (9999 * hour), MEvent ex_add 7, MRefresh 8] ex_actor)) ex_id = Some d'
    \<and> dev_Static d'"
proof (rule static_mac_device_is_permanent)
  show "actor_inv ex_actor" by (rule actor.reachable_invar [OF ex_actor_reachable])
  show "device_of (ac_reg ex_actor) ex_id = Some (added ex_add 1000 (New ex_cfg ex_policy))"
    by (simp add: ex_actor_reg ex_reg_device)
  show "IsMACID ex_id" by code_simp
qed (simp_all add: ex_added_simps actor_ok_def)

section \<open>Hints\<close>

definition hint_core :: "deviceState \<Rightarrow> netip_addr list \<times> 64 word \<times> time \<times> bool \<times> (EndpointKey \<times> Endpoint) list" where
  "hint_core d = (dev_Addrs d, dev_Epoch d, dev_LastSeen d, dev_Static d,
     map (\<lambda>(k, ep). (k, Endpoint.truncate ep)) (ds_endpoints d))"

lemma hint_core_mark: "hint_core (fst (mark_endpoints P tm d)) = hint_core d"
  by (simp add: hint_core_def mark_endpoints_endpoints case_prod_beta)
     (simp add: mark_unverified_def Endpoint.truncate_def)

text \<open>A goodbye or a restarting discovery source never removes anything: the devices, their
  addresses and order, their epochs, their endpoints with addresses, ports and observation times
  and their last-seen times are untouched; only verification marks change.\<close>

theorem hints_remove_nothing:
  assumes "ev_Type ev \<noteq> EventAdd"
  shows "map_option hint_core (device_of (fst (applyEvent ev now r)) i) = map_option hint_core (device_of r i)"
proof -
  let ?ev = "if is_zero (ev_At ev) then ev\<lparr>ev_At := now\<rparr> else ev"
  have "ev_Type ?ev \<noteq> EventAdd" using assms by simp
  then show ?thesis
    by (cases "ev_Type ?ev"; cases "device_of r i")
       (simp_all add: applyEvent_def Let_def applyRemoveHint_device markSourceUnverified_device hint_core_mark)
qed

theorem hints_remove_nothing_witness:
  "device_of (fst (applyEvent (ex_add\<lparr>ev_Type := EventRemove\<rparr>) 2000 ex_reg)) ex_id \<noteq> None"
proof -
  have "ev_Type (ex_add\<lparr>ev_Type := EventRemove\<rparr>) \<noteq> EventAdd" by simp
  from hints_remove_nothing [OF this, of 2000 ex_reg ex_id] show ?thesis
    by (auto simp: ex_reg_device)
qed

section \<open>Epochs\<close>

text \<open>An address list may change only together with the epoch.\<close>

definition epoch_follows :: "deviceState \<Rightarrow> deviceState \<Rightarrow> bool" where
  "epoch_follows d d' \<longleftrightarrow> (dev_Addrs d' = dev_Addrs d \<and> dev_Epoch d' = dev_Epoch d)
     \<or> dev_Epoch d' = dev_Epoch d + 1 \<or> dev_Epoch d' = dev_Epoch d + 2"

lemma epoch_follows_refl [simp]: "epoch_follows d d"
  by (simp add: epoch_follows_def)

lemma recompute_epoch_follows:
  "dev_Addrs d = dev_Addrs d0 \<Longrightarrow> dev_Epoch d = dev_Epoch d0 \<Longrightarrow> epoch_follows d0 (fst (recomputeAddrs p d))"
  by (auto simp: epoch_follows_def recomputeAddrs_epoch)

lemma epoch_one_or_same:
  "(dev_Addrs (fst (recomputeAddrs p d)) = dev_Addrs d \<and> dev_Epoch (fst (recomputeAddrs p d)) = dev_Epoch d)
   \<or> dev_Epoch (fst (recomputeAddrs p d)) = dev_Epoch d + 1"
  by (auto simp: recomputeAddrs_epoch)

lemma recompute_twice_epoch_follows:
  assumes "dev_Addrs d1 = dev_Addrs d0" "dev_Epoch d1 = dev_Epoch d0"
    and "dev_Addrs d2 = dev_Addrs (fst (recomputeAddrs p d1))"
    and "dev_Epoch d2 = dev_Epoch (fst (recomputeAddrs p d1))"
  shows "epoch_follows d0 (fst (recomputeAddrs q d2))"
  using epoch_one_or_same [of p d1] epoch_one_or_same [of q d2] assms
  by (auto simp: epoch_follows_def add.assoc simp del: recomputeAddrs_Addrs)

lemma rename_addr_simps [simp]:
  "dev_Addrs (rename_device ev d) = dev_Addrs d" "dev_Epoch (rename_device ev d) = dev_Epoch d"
  by (simp_all add: rename_device_def Let_def)

lemma merge_addr_simps [simp]:
  "dev_Addrs (merge_devices t old) = dev_Addrs t" "dev_Epoch (merge_devices t old) = dev_Epoch t"
  by (simp_all add: merge_devices_def Let_def)

lemma touch_epoch: "epoch_follows d (touch d') = epoch_follows d d'"
  by (simp add: epoch_follows_def)

lemma confirmed_epoch_follows: "epoch_follows d (confirmed p res d)"
  by (auto simp: confirmed_def Let_def touch_epoch pin_address_def epoch_follows_def recomputeAddrs_epoch)

lemma expire_epoch_follows: "epoch_follows d (fst (expire_endpoints cfg p now d))"
  by (auto simp: expire_endpoints_def Let_def case_prod_beta touch_epoch intro!: recompute_epoch_follows)

lemma added_epoch_follows:
  assumes "device_of r j = Some d" "j = snd (resolveID ev r)"
  shows "epoch_follows d (added ev now r)"
proof (cases "fst (resolveID ev r) = r")
  case True
  then show ?thesis
    using assms by (simp add: added_def base_device_def touch_epoch recompute_epoch_follows)
next
  case False
  then obtain m where m: "resolveID ev r
      = promote m (DeriveID (ev_Kind ev) (ev_Instance ev) (ep_TXT (ev_Endpoint ev))) r"
    using resolveID_moves by blast
  let ?n = "DeriveID (ev_Kind ev) (ev_Instance ev) (ep_TXT (ev_Endpoint ev))"
  have j: "j = ?n" using assms m by simp
  have "m \<noteq> ?n" "device_of r m \<noteq> None" using False m promote_same [of m ?n r] by auto
  then obtain old where old: "device_of r m = Some old" "m \<noteq> ?n" by auto
  have "device_of (fst (resolveID ev r)) ?n = Some (promoted r ?n old)"
    by (simp add: m promote_device [OF old])
  moreover have "promoted r ?n old = fst (recomputeAddrs (r_policy r) (merge_devices d old))"
    using assms(1) by (simp add: promoted_def j)
  ultimately show ?thesis
    using assms(2) j
    by (simp add: added_def base_device_def touch_epoch del: recomputeAddrs_Addrs)
       (rule recompute_twice_epoch_follows [of "merge_devices d old" d _ "r_policy r"]; simp)
qed

lemma resolve_other_device:
  assumes "device_of (fst (resolveID ev r)) j = Some d'" "j \<noteq> snd (resolveID ev r)" "device_of r j = Some d"
  shows "d' = d"
proof (cases "fst (resolveID ev r) = r")
  case False
  then obtain m n where m: "resolveID ev r = promote m n r" using resolveID_moves by blast
  have "m \<noteq> n" "device_of r m \<noteq> None" using False m promote_same [of m n r] by auto
  then obtain old where old: "device_of r m = Some old" "m \<noteq> n" by auto
  from promote_device [OF old, of j] show ?thesis using assms m by (auto split: if_splits)
qed (use assms in simp)

lemma hint_epoch_follows: "hint_core d = hint_core d' \<Longrightarrow> epoch_follows d d'"
  by (simp add: hint_core_def epoch_follows_def)

lemma applyEvent_epoch:
  assumes "reg_inv r" "device_of r i = Some d" "device_of (fst (applyEvent ev now r)) i = Some d'"
  shows "epoch_follows d d'"
proof -
  let ?ev = "if is_zero (ev_At ev) then ev\<lparr>ev_At := now\<rparr> else ev"
  show ?thesis
  proof (cases "ev_Type ?ev")
    case EventAdd
    then have "device_of (fst (applyAdd ?ev now r)) i = Some d'"
      using assms(3) by (simp add: applyEvent_def Let_def)
    then show ?thesis
      using added_epoch_follows [OF assms(2), of ?ev now] resolve_other_device [of ?ev r i d' d] assms(1,2)
      by (cases "i = snd (resolveID ?ev r)") (simp_all add: applyAdd_device del: if_split)
  qed (use assms in \<open>auto simp: applyEvent_def Let_def applyRemoveHint_device
      markSourceUnverified_device hint_core_mark intro!: hint_epoch_follows\<close>)
qed

text \<open>C22. No message changes the address list of a device without changing its epoch, so a cache
  keyed by the epoch never serves an address list it was not filled for.\<close>

theorem address_change_bumps_epoch:
  assumes "actor_inv a" "actor_ok m a" "device_of (ac_reg a) i = Some d"
    and "device_of (ac_reg (actor_step m a)) i = Some d'" "dev_Addrs d' \<noteq> dev_Addrs d"
  shows "dev_Epoch d' \<noteq> dev_Epoch d"
proof -
  have inv: "reg_inv (ac_reg a)" using assms(1) by (simp add: actor_inv_def)
  have "epoch_follows d d'"
  proof (cases m)
    case (MEvent ev now)
    then show ?thesis using applyEvent_epoch [OF inv assms(3)] assms(4) by (simp add: actor_step_def)
  next
    case (MResult res now)
    then show ?thesis
      using assms(3,4) confirmed_epoch_follows [of d "r_policy (ac_reg a)" res]
      by (simp add: actor_step_def applyScrapeResult_device split: if_splits)
  next
    case (MExpire now)
    then have "survivor (r_cfg (ac_reg a)) (r_policy (ac_reg a)) now d = Some d'"
      using assms(3,4) by (simp add: actor_step_def expire_closed [OF inv])
    from survivor_Some [OF this] show ?thesis by (simp add: expire_epoch_follows)
  qed (use assms(3,4) in \<open>simp_all add: actor_step_def\<close>)
  then show ?thesis using assms(5) by (auto simp: epoch_follows_def)
qed

definition ex_move :: Event where
  "ex_move = ex_add\<lparr>ev_Endpoint := ex_endpoint\<lparr>ep_Addr := Addr4 0xC0A80109\<rparr>\<rparr>"

lemma ex_move_resolve: "resolveID ex_move r = (r, ex_id)"
  by (simp add: resolveID_def ex_move_def ex_add_def ex_id_def)

lemma ex_move_apply: "applyEvent ex_move now r = applyAdd ex_move now r"
  by (simp add: applyEvent_def ex_move_def ex_add_def is_zero_def)

lemma ex_move_key: "ep_Key (ev_Endpoint ex_move) = ep_Key ex_endpoint"
  "ep_Addr (new_endpoint ex_move) = Addr4 0xC0A80109"
  by (simp_all add: ex_move_def)

lemma added_endpoints:
  "ds_endpoints (added ev now r) = AList.update (ep_Key (ev_Endpoint ev)) (new_endpoint ev)
     (case device_of (fst (resolveID ev r)) (snd (resolveID ev r)) of None \<Rightarrow> [] | Some d \<Rightarrow> ds_endpoints d)"
  by (simp add: added_def base_device_def new_device_def split: option.split)

lemma added_addrs:
  "x \<in> set (dev_Addrs (added ev now r)) \<longleftrightarrow>
    (\<exists>(k, ep) \<in> set (ds_endpoints (added ev now r)). x = unmap (ep_Addr ep)
       \<and> (ep_Trusted ep \<or> Usable (r_policy r) (ep_Addr ep)))"
  by (simp add: added_def candidates_addrs)

theorem address_change_bumps_epoch_witness:
  "dev_Epoch (added ex_move 2000 ex_reg) \<noteq> dev_Epoch (added ex_add 1000 (New ex_cfg ex_policy))"
proof (rule address_change_bumps_epoch)
  show "actor_inv ex_actor" by (rule actor.reachable_invar [OF ex_actor_reachable])
  show "actor_ok (MEvent ex_move 2000) ex_actor" by (simp add: actor_ok_def)
  show "device_of (ac_reg ex_actor) ex_id = Some (added ex_add 1000 (New ex_cfg ex_policy))"
    by (simp add: ex_actor_reg ex_reg_device)
  show "device_of (ac_reg (actor_step (MEvent ex_move 2000) ex_actor)) ex_id = Some (added ex_move 2000 ex_reg)"
    by (simp add: actor_step_def ex_actor_reg ex_move_apply applyAdd_device ex_reg_inv ex_move_resolve)
  have "Addr4 0xC0A80105 \<in> set (dev_Addrs (added ex_add 1000 (New ex_cfg ex_policy)))"
    using ex_reg_ep ex_usable by (simp add: added_addrs ex_added_simps)
  moreover have "ds_endpoints (added ex_move 2000 ex_reg) = [(ep_Key ex_endpoint, new_endpoint ex_move)]"
    by (simp add: added_endpoints [of ex_move] ex_move_resolve ex_reg_device ex_added_simps ex_move_key)
  then have "Addr4 0xC0A80105 \<notin> set (dev_Addrs (added ex_move 2000 ex_reg))"
    by (simp add: added_addrs) (simp add: ex_move_def)
  ultimately show "dev_Addrs (added ex_move 2000 ex_reg) \<noteq> dev_Addrs (added ex_add 1000 (New ex_cfg ex_policy))"
    by auto
qed

section \<open>Additions and promotion\<close>

text \<open>An announcement replaces the endpoint of its (service, interface, protocol) key and
  leaves the other endpoints of the device and every other device as identity resolution left
  them: a device re-announced at a new address never accumulates the old one.\<close>

theorem announcement_replaces_endpoint:
  assumes "reg_inv r" "resolveID ev r = (r1, i)"
  shows "\<exists>d. device_of (fst (applyAdd ev now r)) i = Some d \<and> wf_alist (ds_endpoints d)
    \<and> map_of (ds_endpoints d) = (case device_of r1 i of None \<Rightarrow> Map.empty | Some d0 \<Rightarrow> map_of (ds_endpoints d0))
          (ep_Key (ev_Endpoint ev) \<mapsto> new_endpoint ev)
    \<and> (\<forall>j. j \<noteq> i \<longrightarrow> device_of (fst (applyAdd ev now r)) j = device_of r1 j)"
proof -
  have a: "device_of (fst (applyAdd ev now r)) j = (if j = i then Some (added ev now r) else device_of r1 j)" for j
    using applyAdd_device [OF assms(1), of ev now j] by (simp add: assms(2))
  have "dev_ok i (added ev now r)"
    using reg_inv_device [OF applyAdd_inv [OF assms(1)], of ev now i] a by simp
  then have "wf_alist (ds_endpoints (added ev now r))" by (simp add: dev_ok_def eps_ok_def)
  moreover have "map_of (ds_endpoints (added ev now r))
      = (case device_of r1 i of None \<Rightarrow> Map.empty | Some d0 \<Rightarrow> map_of (ds_endpoints d0))
          (ep_Key (ev_Endpoint ev) \<mapsto> new_endpoint ev)"
    by (simp add: added_def assms(2) base_device_def new_device_def split: option.split)
  ultimately show ?thesis using a by simp
qed

theorem announcement_replaces_endpoint_witness:
  "\<exists>d. device_of (fst (applyAdd ex_move 2000 ex_reg)) ex_id = Some d
     \<and> map_of (ds_endpoints d) = [ep_Key ex_endpoint \<mapsto> new_endpoint ex_move]"
  using announcement_replaces_endpoint [OF ex_reg_inv ex_move_resolve, of 2000]
  by (auto simp: ex_reg_device ex_added_simps ex_move_key)

lemma foldl_update_map_of:
  "wf_alist fs \<Longrightarrow> map_of (foldl (\<lambda>es (k, ep). AList.update k ep es) es fs) = map_of es ++ map_of fs"
proof (induction fs arbitrary: es)
  case (Cons f fs)
  obtain k ep where f: "f = (k, ep)" by force
  have "map_of (foldl (\<lambda>es (k, ep). AList.update k ep es) (AList.update k ep es) fs)
      = (map_of es)(k \<mapsto> ep) ++ map_of fs"
    using Cons by (simp add: wf_alist_def)
  moreover have "map_of fs k = None" using Cons.prems by (simp add: wf_alist_def map_of_eq_None_keys f)
  then have "(map_of es)(k \<mapsto> ep) ++ map_of fs = (map_of es ++ map_of fs)(k \<mapsto> ep)"
    by (simp add: map_add_upd_left map_of_eq_None_keys dom_map_of_conv_image_fst)
  ultimately show ?case by (simp add: f fun_upd_def [symmetric] map_add_upd)
qed simp

text \<open>C23. Promotion makes two views of one device converge: the weak identity is gone, the strong
  one holds the endpoints of both (the moved ones win), every alias of the weak identity and that
  identity itself now lead to the strong one, and no other device or alias changes.\<close>

theorem promotion_converges:
  assumes "reg_inv r" "device_of r oldID = Some old" "oldID \<noteq> newID"
  shows "device_of (fst (promote oldID newID r)) oldID = None
    \<and> (\<exists>d. device_of (fst (promote oldID newID r)) newID = Some d \<and> dev_ID d = newID
          \<and> map_of (ds_endpoints d) = (case device_of r newID of None \<Rightarrow> Map.empty
                                      | Some t \<Rightarrow> map_of (ds_endpoints t)) ++ map_of (ds_endpoints old))
    \<and> (\<forall>j. j \<noteq> oldID \<longrightarrow> j \<noteq> newID \<longrightarrow> device_of (fst (promote oldID newID r)) j = device_of r j)
    \<and> (\<forall>h. r_aliases (fst (promote oldID newID r)) h
          = (if h = oldID \<or> r_aliases r h = Some oldID then Some newID else r_aliases r h))"
proof -
  have old: "wf_alist (ds_endpoints old)"
    using reg_inv_device [OF assms(1,2)] by (simp add: dev_ok_def eps_ok_def)
  have "map_of (ds_endpoints (promoted r newID old)) = (case device_of r newID of None \<Rightarrow> Map.empty
      | Some t \<Rightarrow> map_of (ds_endpoints t)) ++ map_of (ds_endpoints old)"
    by (simp add: promoted_def foldl_update_map_of [OF old] split: option.split)
  moreover have "dev_ID (promoted r newID old) = newID"
    using promoted_ok [of r oldID old newID] assms by (simp add: reg_inv_def dev_ok_def)
  moreover have "r_aliases (fst (promote oldID newID r)) h
      = (if h = oldID \<or> r_aliases r h = Some oldID then Some newID else r_aliases r h)" for h
    using assms by (simp add: promote_Some rebind_def split: option.split)
  ultimately show ?thesis using promote_device [OF assms(2,3)] assms(3) by simp
qed

theorem promotion_converges_witness:
  "device_of (fst (promote ex_id ''mac:000000000001'' ex_reg)) ex_id = None"
  using promotion_converges [OF ex_reg_inv ex_reg_device, of "''mac:000000000001''"]
  by (simp add: ex_id_def)

section \<open>Resolution\<close>

lemma aliases_foldl_all:
  "h \<in> set hs \<Longrightarrow> foldl (\<lambda>al h. al(h \<mapsto> i)) al hs h = Some i"
proof (induction hs arbitrary: al)
  case (Cons x hs)
  have keep: "al h = Some i \<Longrightarrow> foldl (\<lambda>al h. al(h \<mapsto> i)) al hs h = Some i" for al hs
    by (induction hs arbitrary: al) auto
  show ?case
  proof (cases "h \<in> set hs")
    case True
    then show ?thesis using Cons.IH by simp
  next
    case False
    then have "h = x" using Cons.prems by simp
    then show ?thesis unfolding foldl_Cons by (intro keep) simp
  qed
qed simp

lemma first_alias_all:
  "hs \<noteq> [] \<Longrightarrow> (\<And>h. h \<in> set hs \<Longrightarrow> al h = Some i) \<Longrightarrow> first_alias al hs = Some i"
  by (cases hs) simp_all

lemma first_alias_None: "first_alias al hs = None \<longleftrightarrow> (\<forall>h \<in> set hs. al h = None)"
  by (induction hs) (auto split: option.split)

lemma derived_handle:
  "DeriveID (ev_Kind ev) (ev_Instance ev) (ep_TXT (ev_Endpoint ev)) \<in> set (eventHandles ev)"
  by (simp add: eventHandles_def Let_def)

lemma matchShortID_mac:
  "IsMACID d \<Longrightarrow> snd (matchShortID k d r) = [] \<or> snd (matchShortID k d r) = d"
  by (simp add: matchShortID_def Let_def)

lemma resolveID_mac:
  assumes "ev_DeviceID ev = []"
    and "IsMACID (DeriveID (ev_Kind ev) (ev_Instance ev) (ep_TXT (ev_Endpoint ev)))"
  shows "IsMACID (snd (resolveID ev r))"
proof -
  let ?d = "DeriveID (ev_Kind ev) (ev_Instance ev) (ep_TXT (ev_Endpoint ev))"
  show ?thesis
  proof (cases "first_alias (r_aliases r) (eventHandles ev)")
    case None
    then have "r_aliases r ?d = None" using derived_handle [of ev] by (simp add: first_alias_None)
    then show ?thesis
      using assms None matchShortID_mac [OF assms(2), of "ev_Kind ev" r]
      by (auto simp: resolveID_def Let_def case_prod_beta)
  qed (use assms in \<open>simp add: resolveID_def Let_def\<close>)
qed

text \<open>C24. A device announced again is recognised: after an announcement, the same record
  resolves, without creating, promoting or merging anything, to the device it was filed under.\<close>

theorem announcement_is_recognised:
  assumes "reg_inv r"
  shows "resolveID ev (fst (applyAdd ev now r)) = (fst (applyAdd ev now r), snd (resolveID ev r))"
proof (cases "ev_DeviceID ev = []")
  case True
  let ?i = "snd (resolveID ev r)" and ?r' = "fst (applyAdd ev now r)"
  have "r_aliases ?r' h = Some ?i" if "h \<in> set (eventHandles ev)" for h
    using that by (simp add: applyAdd_eq [OF assms] bindAliases_def aliases_foldl_all)
  moreover have "eventHandles ev \<noteq> []" using derived_handle [of ev] by auto
  ultimately have "first_alias (r_aliases ?r') (eventHandles ev) = Some ?i"
    by (intro first_alias_all) auto
  then show ?thesis using True resolveID_mac [OF True] by (auto simp: resolveID_def Let_def)
qed (simp add: resolveID_def)

theorem announcement_is_recognised_witness:
  "resolveID ex_add (fst (applyAdd ex_add 3000 ex_reg)) = (fst (applyAdd ex_add 3000 ex_reg), ex_id)"
  using announcement_is_recognised [OF ex_reg_inv, of ex_add 3000] by (simp add: ex_resolve)

lemma only_match_unique:
  "[] \<notin> set is \<Longrightarrow> only_match [] is = (case is of [x] \<Rightarrow> x | _ \<Rightarrow> [])"
  by (cases "is" rule: remdups_adj.cases) auto

lemma wf_filter_singleton:
  assumes "wf_alist al"
  shows "map fst (filter (\<lambda>(k, v). P k v) al) = [i]
     \<longleftrightarrow> {k. \<exists>v. map_of al k = Some v \<and> P k v} = {i}"
proof -
  let ?ks = "map fst (filter (\<lambda>(k, v). P k v) al)"
  have "distinct ?ks" using assms wf_alist_filter [OF assms, of "\<lambda>(k, v). P k v"] by (simp add: wf_alist_def)
  then have "?ks = [i] \<longleftrightarrow> set ?ks = {i}" by (cases ?ks rule: remdups_adj.cases) auto
  moreover have "set ?ks = {k. \<exists>v. map_of al k = Some v \<and> P k v}"
    using wf_alist_map_of [OF assms] by force
  ultimately show ?thesis by simp
qed

text \<open>A Gen1 Shelly seen under its short identity joins a device known by its full MAC
  exactly when a single such device has that suffix; an ambiguous suffix joins nothing, and the
  iteration order of the device map cannot decide.\<close>

theorem short_identity_joins_only_unique:
  assumes "reg_inv r" "has_prefix derived prefixShortID" "last_index derived (CHR ''-'') = Some n" "i \<noteq> []"
  shows "matchShortID KindShelly derived r = (r, i) \<longleftrightarrow>
    {j. \<exists>d. device_of r j = Some d \<and> dev_Kind d = KindShelly \<and> IsMACID j
        \<and> has_suffix j (drop (Suc n) derived)} = {i}"
proof -
  let ?c = "mac_candidates (drop (Suc n) derived) (r_devices r)"
  have ne: "[] \<notin> set ?c"
    using IsMACID_def by (auto simp: mac_candidates_def IsMACID_def has_prefix_def prefixMAC_def)
  have "matchShortID KindShelly derived r = (r, only_match [] ?c)"
    using assms(2,3) has_prefix_mac_short [OF assms(2)] by (simp add: matchShortID_def)
  moreover have "only_match [] ?c = i \<longleftrightarrow> ?c = [i]"
    unfolding only_match_unique [OF ne] using assms(4) by (auto split: list.splits)
  moreover have "?c = [i] \<longleftrightarrow> {j. \<exists>d. device_of r j = Some d \<and> dev_Kind d = KindShelly \<and> IsMACID j
        \<and> has_suffix j (drop (Suc n) derived)} = {i}"
    unfolding mac_candidates_def wf_filter_singleton [OF reg_inv_wf [OF assms(1)]] ..
  ultimately show ?thesis by simp
qed

lemma ex_reg_only: "device_of ex_reg j = Some d \<Longrightarrow> j = ex_id"
  by (simp add: ex_reg_def ex_applyEvent applyAdd_device reg_inv_New ex_resolve split: if_splits)

lemma ex_kind: "dev_Kind (added ex_add 1000 (New ex_cfg ex_policy)) = KindShelly"
  by (simp add: ex_added) (simp add: observe_def new_device_def ex_add_def Let_def KindShelly_def KindUnknown_def)

theorem short_identity_joins_only_unique_witness:
  "matchShortID KindShelly ''shortid:shelly1-b1c2d3'' ex_reg = (ex_reg, ex_id)"
proof -
  let ?d = "''shortid:shelly1-b1c2d3''"
  have "{j. \<exists>d. device_of ex_reg j = Some d \<and> dev_Kind d = KindShelly \<and> IsMACID j
        \<and> has_suffix j (drop (Suc 15) ?d)} = {ex_id}"
  proof -
    have "IsMACID ex_id" "has_suffix ex_id (drop (Suc 15) ?d)" by code_simp+
    then show ?thesis using ex_reg_only ex_reg_device ex_kind by blast
  qed
  moreover have "has_prefix ?d prefixShortID" "last_index ?d (CHR ''-'') = Some 15" "ex_id \<noteq> []"
    by code_simp+
  ultimately show ?thesis
    using short_identity_joins_only_unique [OF ex_reg_inv, of ?d 15 ex_id] by blast
qed

text \<open>The published snapshot does not depend on the order in which the runtime iterates the
  device map: it is sorted, and equal for every order of the same devices.\<close>

theorem snapshot_order_deterministic:
  assumes "reg_inv r" "mset devs = mset (r_devices r)"
  shows "publish now (r\<lparr>r_devices := devs\<rparr>) = publish now r
    \<and> sorted (map dev_ID (sn_Devices (publish now r)))"
proof -
  have "mset (published_devices (r\<lparr>r_devices := devs\<rparr>)) = mset (published_devices r)"
    using assms(2) by (simp add: published_devices_def)
  moreover have dist: "distinct (map dev_ID (published_devices r))"
    using assms(1) by (simp add: published_ids reg_inv_alist)
  ultimately have "sort_devices (published_devices (r\<lparr>r_devices := devs\<rparr>)) = sort_devices (published_devices r)"
    using sort_devices_perm by metis
  then show ?thesis by (simp add: publish_def newSnapshot_def Let_def sorted_sort_devices)
qed

theorem snapshot_order_deterministic_witness:
  "publish 7 (ex_reg\<lparr>r_devices := rev (r_devices ex_reg)\<rparr>) = publish 7 ex_reg"
  using snapshot_order_deterministic [OF ex_reg_inv, of "rev (r_devices ex_reg)"] by simp

end
