(* ===== verification/ConfigLoad.thy ===== *)
theory ConfigLoad
  imports Config
begin

text \<open>
  \<^verbatim>\<open>internal/config/load.go\<close>: resolving secrets from files and validating the merged
  configuration.  Layering and decoding are done by the koanf and mapstructure packages and are
  not modelled.  The validators collect every problem, in the order of the code; the parsers of
  the standard library are arguments: \<open>parsePrefix\<close>, \<open>parseAddr\<close> (does the string parse),
  \<open>parseURL\<close> (scheme and host, or no URL).
\<close>

section \<open>Secrets from files\<close>

datatype SecretError = BothSet string | ReadFailed string string

definition is_eol :: "char \<Rightarrow> bool" where
  "is_eol c \<longleftrightarrow> char_code c = 10 \<or> char_code c = 13"

definition trim_eol :: "string \<Rightarrow> string" where
  "trim_eol s = rev (dropWhile is_eol (rev s))"

definition resolveSecret ::
  "(string \<Rightarrow> string option) \<Rightarrow> string \<Rightarrow> Secret \<Rightarrow> string \<Rightarrow> SecretError + Secret" where
  "resolveSecret readFile name inline file =
     (if IsSet inline \<and> file \<noteq> [] then Inl (BothSet name)
      else if file \<noteq> [] then
        (case readFile file of None \<Rightarrow> Inl (ReadFailed name file) | Some b \<Rightarrow> Inr (trim_eol b))
      else Inr inline)"

definition override_name :: "nat \<Rightarrow> string" where
  "override_name i = ''shelly.auth.overrides['' @ itoa i @ ''].password''"

fun resolve_overrides ::
  "(string \<Rightarrow> string option) \<Rightarrow> nat \<Rightarrow> ShellyAuthOverride list \<Rightarrow> SecretError + ShellyAuthOverride list" where
  "resolve_overrides readFile i [] = Inr []"
| "resolve_overrides readFile i (x # xs) =
     (case resolveSecret readFile (override_name i) (so_Password x) (so_PasswordFile x) of
        Inl e \<Rightarrow> Inl e
      | Inr p \<Rightarrow> (case resolve_overrides readFile (Suc i) xs of
                   Inl e \<Rightarrow> Inl e
                 | Inr ys \<Rightarrow> Inr (x\<lparr>so_Password := p\<rparr> # ys)))"

text \<open>
  The method assigns through its receiver, but \<^verbatim>\<open>Load\<close> drops the configuration when it
  fails, so only the configuration of the successful run is returned.
\<close>

definition resolveSecrets :: "(string \<Rightarrow> string option) \<Rightarrow> Config \<Rightarrow> SecretError + Config" where
  "resolveSecrets readFile c =
     (let auth = sh_Auth (cfg_Shelly c); cloud = sh_Cloud (cfg_Shelly c); esp = cfg_ESPHome c
      in case resolveSecret readFile ''shelly.auth.password'' (sa_Password auth) (sa_PasswordFile auth) of
        Inl e \<Rightarrow> Inl e
      | Inr p \<Rightarrow>
     (case resolve_overrides readFile 0 (sa_Overrides auth) of
        Inl e \<Rightarrow> Inl e
      | Inr os \<Rightarrow>
     (case resolveSecret readFile ''shelly.cloud.auth_key'' (sc_AuthKey cloud) (sc_AuthKeyFile cloud) of
        Inl e \<Rightarrow> Inl e
      | Inr k \<Rightarrow>
     (case resolveSecret readFile ''esphome.encryption_key'' (eh_EncryptionKey esp) (eh_EncryptionKeyFile esp) of
        Inl e \<Rightarrow> Inl e
      | Inr ek \<Rightarrow>
     (case resolveSecret readFile ''esphome.password'' (eh_Password esp) (eh_PasswordFile esp) of
        Inl e \<Rightarrow> Inl e
      | Inr ep \<Rightarrow>
          Inr (c\<lparr>cfg_Shelly := (cfg_Shelly c)\<lparr>sh_Auth := auth\<lparr>sa_Password := p, sa_Overrides := os\<rparr>,
                                              sh_Cloud := cloud\<lparr>sc_AuthKey := k\<rparr>\<rparr>,
                 cfg_ESPHome := esp\<lparr>eh_EncryptionKey := ek, eh_Password := ep\<rparr>\<rparr>))))))"

section \<open>Validation\<close>

datatype ConfigError =
    LogLevelError string
  | LogFormatError string
  | ListenEmpty
  | SourcesEmpty
  | SourceUnknown string
  | SourceDuplicate string
  | ServiceTypesEmpty
  | CIDRError string string
  | StaticIDEmpty nat
  | StaticKindError nat string
  | StaticAddressError nat string
  | MaxConcurrentError
  | CacheTTLError duration
  | TimeoutOrderError duration duration
  | FactorError
  | JitterError
  | TTLOrderError duration duration
  | AvahiTTLError duration duration
  | CloudServerError string
  | CloudKeyError
  | CloudRefreshError duration
  | CloudIntervalError duration
  | CloudTTLError duration duration
  | AuthUsernameError
  | OverrideMatchEmpty nat
  | OverrideGenError nat int
  | EncryptionError
  | PingError duration duration

definition parseLogLevel :: "string \<Rightarrow> string option" where
  "parseLogLevel s =
     (if to_lower (trim_space s) \<in> {''debug'', ''info'', ''warn'', ''warning'', ''error'', ''''}
      then Some s else None)"

definition known_sources :: "string list" where
  "known_sources = [''avahi'', ''zeroconf'', ''static'', ''shelly_cloud'']"

fun check_sources :: "string list \<Rightarrow> string list \<Rightarrow> ConfigError list" where
  "check_sources seen [] = []"
| "check_sources seen (s # ss) =
     (if s \<in> set known_sources then [] else [SourceUnknown s])
     @ (if s \<in> set seen then [SourceDuplicate s] else [])
     @ check_sources (s # seen) ss"

definition check_cidrs :: "(string \<Rightarrow> bool) \<Rightarrow> string \<Rightarrow> string list \<Rightarrow> ConfigError list" where
  "check_cidrs parsePrefix name cidrs = map (CIDRError name) (filter (\<lambda>s. \<not> parsePrefix s) cidrs)"

fun check_static :: "(string \<Rightarrow> bool) \<Rightarrow> nat \<Rightarrow> StaticEntry list \<Rightarrow> ConfigError list" where
  "check_static parseAddr i [] = []"
| "check_static parseAddr i (s # ss) =
     (if se_ID s = [] then [StaticIDEmpty i] else [])
     @ (if se_Kind s \<noteq> ''esphome'' \<and> se_Kind s \<noteq> ''shelly'' then [StaticKindError i (se_Kind s)] else [])
     @ (if parseAddr (se_Address s) then [] else [StaticAddressError i (se_Address s)])
     @ check_static parseAddr (Suc i) ss"

definition empty_match :: ShellyAuthMatch where
  "empty_match = \<lparr>sm_DeviceID = [], sm_MAC = [], sm_Hostname = [], sm_Gen = 0\<rparr>"

fun check_overrides :: "nat \<Rightarrow> ShellyAuthOverride list \<Rightarrow> ConfigError list" where
  "check_overrides i [] = []"
| "check_overrides i (x # xs) =
     (if so_Match x = empty_match then [OverrideMatchEmpty i] else [])
     @ (let g = sm_Gen (so_Match x)
        in if g \<noteq> 0 \<and> g \<noteq> 1 \<and> g \<noteq> 2 \<and> g \<noteq> 3 then [OverrideGenError i g] else [])
     @ check_overrides (Suc i) xs"

definition cloud_server_ok :: "(string \<Rightarrow> (string \<times> string) option) \<Rightarrow> string \<Rightarrow> bool" where
  "cloud_server_ok parseURL s \<longleftrightarrow> s \<noteq> [] \<and>
     (case parseURL s of None \<Rightarrow> False
      | Some (scheme, host) \<Rightarrow> (scheme = ''https'' \<or> scheme = ''http'') \<and> host \<noteq> [])"

definition check_cloud ::
  "(string \<Rightarrow> (string \<times> string) option) \<Rightarrow> Config \<Rightarrow> ConfigError list" where
  "check_cloud parseURL c =
     (let cloud = sh_Cloud (cfg_Shelly c);
          source = ''shelly_cloud'' \<in> set (dc_Sources (cfg_Discovery c))
      in if source \<or> sc_Names cloud
         then (if cloud_server_ok parseURL (sc_Server cloud) then [] else [CloudServerError (sc_Server cloud)])
            @ (if IsSet (sc_AuthKey cloud) then [] else [CloudKeyError])
            @ (if sc_Names cloud \<and> sc_RefreshInterval cloud < minute
               then [CloudRefreshError (sc_RefreshInterval cloud)] else [])
         else [])"

definition check_cloud_source :: "Config \<Rightarrow> ConfigError list" where
  "check_cloud_source c =
     (if ''shelly_cloud'' \<in> set (dc_Sources (cfg_Discovery c))
      then let iv = cd_Interval (dc_ShellyCloud (cfg_Discovery c)); ttl = rc_EndpointTTL (cfg_Registry c)
           in (if iv < minute then [CloudIntervalError iv] else [])
            @ (if ttl \<le> iv then [CloudTTLError ttl iv] else [])
      else [])"

definition check_probe :: "ProbeConfig \<Rightarrow> ConfigError list" where
  "check_probe p =
     (if pc_MaxConcurrent p < 1 then [MaxConcurrentError] else [])
     @ (if 5 * second < pc_CacheTTL p then [CacheTTLError (pc_CacheTTL p)] else [])
     @ (if pc_MaxTimeout p < pc_MinTimeout p then [TimeoutOrderError (pc_MinTimeout p) (pc_MaxTimeout p)] else [])
     @ (if bc_Factor (pc_Backoff p) \<le> 1 then [FactorError] else [])
     @ (if bc_Jitter (pc_Backoff p) < 0 \<or> 1 \<le> bc_Jitter (pc_Backoff p) then [JitterError] else [])"

definition check_registry :: "Config \<Rightarrow> ConfigError list" where
  "check_registry c =
     (let r = cfg_Registry c; rebrowse = av_RebrowseInterval (dc_Avahi (cfg_Discovery c))
      in (if rc_DeviceTTL r < rc_EndpointTTL r then [TTLOrderError (rc_DeviceTTL r) (rc_EndpointTTL r)] else [])
       @ (if ''avahi'' \<in> set (dc_Sources (cfg_Discovery c)) \<and> rc_EndpointTTL r \<le> rebrowse
          then [AvahiTTLError (rc_EndpointTTL r) rebrowse] else []))"

definition Validate ::
  "(string \<Rightarrow> bool) \<Rightarrow> (string \<Rightarrow> bool) \<Rightarrow> (string \<Rightarrow> (string \<times> string) option) \<Rightarrow> Config \<Rightarrow> ConfigError list" where
  "Validate parsePrefix parseAddr parseURL c =
     (let d = cfg_Discovery c; auth = sh_Auth (cfg_Shelly c); esp = cfg_ESPHome c;
          fmt = to_lower (log_Format (cfg_Log c))
      in (if parseLogLevel (log_Level (cfg_Log c)) = None then [LogLevelError (log_Level (cfg_Log c))] else [])
       @ (if fmt \<noteq> ''json'' \<and> fmt \<noteq> ''text'' \<and> fmt \<noteq> ''logfmt'' then [LogFormatError (log_Format (cfg_Log c))] else [])
       @ (if srv_Listen (cfg_Server c) = [] then [ListenEmpty] else [])
       @ (if dc_Sources d = [] then [SourcesEmpty] else [])
       @ check_sources [] (dc_Sources d)
       @ (if dc_ServiceTypes d = [] then [ServiceTypesEmpty] else [])
       @ check_cidrs parsePrefix ''discovery.allow_cidrs'' (dc_AllowCIDRs d)
       @ check_cidrs parsePrefix ''discovery.deny_cidrs'' (dc_DenyCIDRs d)
       @ check_static parseAddr 0 (dc_Static d)
       @ check_probe (cfg_Probe c)
       @ check_registry c
       @ check_cloud parseURL c
       @ check_cloud_source c
       @ (if IsSet (sa_Password auth) \<and> sa_Username auth = [] then [AuthUsernameError] else [])
       @ check_overrides 0 (sa_Overrides auth)
       @ (if eh_RequireEncryption esp \<and> \<not> IsSet (eh_EncryptionKey esp) then [EncryptionError] else [])
       @ (if eh_ReadDeadline esp \<le> eh_PingTimeout esp
          then [PingError (eh_PingTimeout esp) (eh_ReadDeadline esp)] else []))"

text \<open>The checked tail of \<^verbatim>\<open>Load\<close>: secrets first, then validation.\<close>

datatype LoadError = LoadSecret SecretError | LoadInvalid "ConfigError list"

definition finish_load ::
  "(string \<Rightarrow> string option) \<Rightarrow> (string \<Rightarrow> bool) \<Rightarrow> (string \<Rightarrow> bool) \<Rightarrow> (string \<Rightarrow> (string \<times> string) option)
     \<Rightarrow> Config \<Rightarrow> LoadError + Config" where
  "finish_load readFile parsePrefix parseAddr parseURL cfg =
     (case resolveSecrets readFile cfg of
        Inl e \<Rightarrow> Inl (LoadSecret e)
      | Inr c \<Rightarrow> (let errs = Validate parsePrefix parseAddr parseURL c
                  in if errs = [] then Inr c else Inl (LoadInvalid errs)))"

definition MustExist :: "(string \<Rightarrow> bool) \<Rightarrow> string \<Rightarrow> bool" where
  "MustExist exists_file path \<longleftrightarrow> path = [] \<or> exists_file path"

section \<open>What a validated configuration guarantees\<close>

lemma check_sources_seen:
  "check_sources seen ss = [] \<Longrightarrow> set ss \<subseteq> set known_sources \<and> distinct ss \<and> set ss \<inter> set seen = {}"
proof (induction ss arbitrary: seen)
  case (Cons s ss)
  then have "check_sources (s # seen) ss = []" "s \<in> set known_sources" "s \<notin> set seen"
    by (simp_all split: if_splits)
  with Cons.IH [of "s # seen"] show ?case by auto
qed simp

lemma check_static_ok:
  "check_static parseAddr i ss = [] \<Longrightarrow> s \<in> set ss \<Longrightarrow>
     se_ID s \<noteq> [] \<and> se_Kind s \<in> {''esphome'', ''shelly''} \<and> parseAddr (se_Address s)"
  by (induction ss arbitrary: i) (auto split: if_splits)

lemma check_overrides_ok:
  "check_overrides i xs = [] \<Longrightarrow> x \<in> set xs \<Longrightarrow> so_Match x \<noteq> empty_match \<and> sm_Gen (so_Match x) \<in> {0, 1, 2, 3}"
  by (induction xs arbitrary: i) (auto simp: Let_def split: if_splits)

lemma check_probe_ok:
  "check_probe p = [] \<Longrightarrow> 1 \<le> pc_MaxConcurrent p \<and> pc_CacheTTL p \<le> 5 * second
     \<and> pc_MinTimeout p \<le> pc_MaxTimeout p \<and> 1 < bc_Factor (pc_Backoff p)
     \<and> 0 \<le> bc_Jitter (pc_Backoff p) \<and> bc_Jitter (pc_Backoff p) < 1"
  by (auto simp: check_probe_def not_less not_le split: if_splits)

lemma check_registry_ok:
  "check_registry c = [] \<Longrightarrow> rc_EndpointTTL (cfg_Registry c) \<le> rc_DeviceTTL (cfg_Registry c)
     \<and> (''avahi'' \<in> set (dc_Sources (cfg_Discovery c)) \<longrightarrow>
          av_RebrowseInterval (dc_Avahi (cfg_Discovery c)) < rc_EndpointTTL (cfg_Registry c))"
  by (auto simp: check_registry_def Let_def not_less not_le split: if_splits)

lemma check_cloud_source_ok:
  "check_cloud_source c = [] \<Longrightarrow> ''shelly_cloud'' \<in> set (dc_Sources (cfg_Discovery c)) \<Longrightarrow>
     minute \<le> cd_Interval (dc_ShellyCloud (cfg_Discovery c))
     \<and> cd_Interval (dc_ShellyCloud (cfg_Discovery c)) < rc_EndpointTTL (cfg_Registry c)"
  by (auto simp: check_cloud_source_def Let_def not_less not_le split: if_splits)

lemma Validate_parts:
  assumes "Validate parsePrefix parseAddr parseURL c = []"
  shows "check_sources [] (dc_Sources (cfg_Discovery c)) = []" "dc_Sources (cfg_Discovery c) \<noteq> []"
    "check_cidrs parsePrefix ''discovery.allow_cidrs'' (dc_AllowCIDRs (cfg_Discovery c)) = []"
    "check_cidrs parsePrefix ''discovery.deny_cidrs'' (dc_DenyCIDRs (cfg_Discovery c)) = []"
    "check_static parseAddr 0 (dc_Static (cfg_Discovery c)) = []"
    "check_probe (cfg_Probe c) = []" "check_registry c = []" "check_cloud parseURL c = []"
    "check_cloud_source c = []" "check_overrides 0 (sa_Overrides (sh_Auth (cfg_Shelly c))) = []"
  using assms by (simp_all add: Validate_def Let_def split: if_splits)

lemma trim_eol_id: "\<forall>c \<in> set s. \<not> is_eol c \<Longrightarrow> trim_eol s = s"
  by (cases "rev s") (auto simp: trim_eol_def)

end
