(* ===== verification/ConfigProps.thy ===== *)
theory ConfigProps
  imports ConfigLoad
begin

text \<open>The properties of the configuration: what loading guarantees to the rest of the program.\<close>

text \<open>A configuration that loads satisfies the timing relations the other components rely
  on: a device outlives its endpoints, every configured source re-observes a device before its
  endpoint expires, and the probe and backoff parameters are in range.\<close>

theorem loaded_config_is_consistent:
  assumes "finish_load readFile parsePrefix parseAddr parseURL c0 = Inr c"
  shows "rc_EndpointTTL (cfg_Registry c) \<le> rc_DeviceTTL (cfg_Registry c)
    \<and> (''avahi'' \<in> set (dc_Sources (cfg_Discovery c)) \<longrightarrow>
         av_RebrowseInterval (dc_Avahi (cfg_Discovery c)) < rc_EndpointTTL (cfg_Registry c))
    \<and> (''shelly_cloud'' \<in> set (dc_Sources (cfg_Discovery c)) \<longrightarrow>
         minute \<le> cd_Interval (dc_ShellyCloud (cfg_Discovery c))
         \<and> cd_Interval (dc_ShellyCloud (cfg_Discovery c)) < rc_EndpointTTL (cfg_Registry c))
    \<and> distinct (dc_Sources (cfg_Discovery c)) \<and> dc_Sources (cfg_Discovery c) \<noteq> []
    \<and> pc_MinTimeout (cfg_Probe c) \<le> pc_MaxTimeout (cfg_Probe c) \<and> 1 \<le> pc_MaxConcurrent (cfg_Probe c)
    \<and> 1 < bc_Factor (pc_Backoff (cfg_Probe c))
    \<and> 0 \<le> bc_Jitter (pc_Backoff (cfg_Probe c)) \<and> bc_Jitter (pc_Backoff (cfg_Probe c)) < 1"
proof -
  have v: "Validate parsePrefix parseAddr parseURL c = []"
    using assms by (auto simp: finish_load_def Let_def split: sum.splits if_splits)
  note p = Validate_parts [OF v]
  show ?thesis
    using check_sources_seen [OF p(1)] p(2) check_probe_ok [OF p(6)] check_registry_ok [OF p(7)]
      check_cloud_source_ok [OF p(9)] by simp
qed

lemma resolveSecret_inline [simp]: "resolveSecret readFile name s [] = Inr s"
  by (simp add: resolveSecret_def)

lemma Default_resolves: "resolveSecrets readFile Default = Inr Default"
  by (simp add: resolveSecrets_def Default_def)

lemma parseLogLevel_info: "parseLogLevel ''info'' = Some ''info''"
  by code_simp

lemma lower_json: "to_lower ''json'' = ''json''"
  by code_simp

lemmas time_units = second_def minute_def hour_def millisecond_def

lemma Default_valid:
  "parsePrefix ''169.254.0.0/16'' \<Longrightarrow> parsePrefix ''fe80::/10'' \<Longrightarrow>
     Validate parsePrefix parseAddr parseURL Default = []"
  by (simp add: Validate_def Default_def parseLogLevel_info lower_json check_cidrs_def check_probe_def
      check_registry_def check_cloud_def check_cloud_source_def known_sources_def IsSet_def time_units)

theorem loaded_config_is_consistent_witness:
  "rc_EndpointTTL (cfg_Registry Default) \<le> rc_DeviceTTL (cfg_Registry Default)"
proof -
  have "finish_load (\<lambda>_. None) (\<lambda>_. True) (\<lambda>_. True) (\<lambda>_. None) Default = Inr Default"
    by (simp add: finish_load_def Default_resolves Default_valid Let_def)
  from loaded_config_is_consistent [OF this] show ?thesis by simp
qed

text \<open>The built-in defaults load: with the two built-in prefixes parsing, validation finds
  nothing wrong, whatever the other parsers and the file system do.\<close>

theorem defaults_load:
  assumes "parsePrefix ''169.254.0.0/16''" "parsePrefix ''fe80::/10''"
  shows "finish_load readFile parsePrefix parseAddr parseURL Default = Inr Default"
  by (simp add: finish_load_def Default_resolves Default_valid [OF assms] Let_def)

theorem defaults_load_witness:
  "finish_load (\<lambda>_. None) (\<lambda>s. s \<in> {''169.254.0.0/16'', ''fe80::/10''}) (\<lambda>_. False) (\<lambda>_. None) Default = Inr Default"
  by (rule defaults_load) simp_all

text \<open>A secret never leaves through formatting or serialisation: every rendering of two set
  secrets is the same, and tells only that one is set.\<close>

theorem secrets_never_leak:
  "Secret_String s = (if IsSet s then redacted else []) \<and> Secret_GoString s = Secret_String s
   \<and> Secret_MarshalYAML s = Secret_String s
   \<and> Secret_MarshalJSON s = [CHR 34] @ Secret_String s @ [CHR 34]"
  by (simp add: Secret_String_def Secret_GoString_def Secret_MarshalYAML_def Secret_MarshalJSON_def
      redactedIfSet_def IsSet_def)

text \<open>A secret comes from exactly one place: the inline value when no file is named, the file's
  contents without trailing line ends when it is the only one given, and an error when both are.\<close>

theorem secret_has_one_source:
  "resolveSecret readFile name inline file =
     (if file = [] then Inr inline
      else if IsSet inline then Inl (BothSet name)
      else case readFile file of None \<Rightarrow> Inl (ReadFailed name file) | Some b \<Rightarrow> Inr (trim_eol b))
   \<and> trim_eol (s @ [CHR 0x0D, CHR 0x0A]) = trim_eol s"
  by (auto simp: resolveSecret_def IsSet_def trim_eol_def is_eol_def char_code_def)

end
