(* ===== verification/Probe.thy ===== *)
theory Probe
  imports Config
begin

text \<open>
  \<^verbatim>\<open>internal/probe\<close>: the outcome of a probe and its reasons
  (\<^verbatim>\<open>prober.go\<close>), the per-device backoff (\<^verbatim>\<open>backoff.go\<close>) and the gate
  every probe passes (\<^verbatim>\<open>limiter.go\<close>).  A clock reading or a random number is an
  argument of the operation that takes it.
\<close>

section \<open>Results\<close>

datatype Reason =
    ReasonNone | ReasonTimeout | ReasonConnRefused | ReasonNoRoute | ReasonNoAddress | ReasonAuth
  | ReasonHTTPStatus | ReasonDecode | ReasonMACMismatch | ReasonBackoff | ReasonInFlightLimit
  | ReasonNotConnected

definition reason_string :: "Reason \<Rightarrow> string" where
  "reason_string r = (case r of
     ReasonNone \<Rightarrow> '''' | ReasonTimeout \<Rightarrow> ''timeout'' | ReasonConnRefused \<Rightarrow> ''conn_refused''
   | ReasonNoRoute \<Rightarrow> ''no_route'' | ReasonNoAddress \<Rightarrow> ''no_address'' | ReasonAuth \<Rightarrow> ''auth''
   | ReasonHTTPStatus \<Rightarrow> ''http_status'' | ReasonDecode \<Rightarrow> ''decode''
   | ReasonMACMismatch \<Rightarrow> ''mac_mismatch'' | ReasonBackoff \<Rightarrow> ''backoff''
   | ReasonInFlightLimit \<Rightarrow> ''in_flight_limit'' | ReasonNotConnected \<Rightarrow> ''not_connected'')"

definition AllReasons :: "Reason list" where
  "AllReasons = [ReasonTimeout, ReasonConnRefused, ReasonNoRoute, ReasonNoAddress, ReasonAuth,
     ReasonHTTPStatus, ReasonDecode, ReasonMACMismatch, ReasonBackoff, ReasonInFlightLimit,
     ReasonNotConnected]"

definition IsDeviceFault :: "Reason \<Rightarrow> bool" where
  "IsDeviceFault r = (case r of ReasonNone \<Rightarrow> False | ReasonInFlightLimit \<Rightarrow> False
     | ReasonBackoff \<Rightarrow> False | _ \<Rightarrow> True)"

definition IsAuth :: "Reason \<Rightarrow> bool" where
  "IsAuth r \<longleftrightarrow> r = ReasonAuth"

record Result =
  res_Success :: bool
  res_Reason :: Reason
  res_HTTPStatus :: int

definition Success :: "int \<Rightarrow> Result" where
  "Success status = \<lparr>res_Success = True, res_Reason = ReasonNone, res_HTTPStatus = status\<rparr>"

definition Fail :: "Reason \<Rightarrow> int \<Rightarrow> Result" where
  "Fail r status = \<lparr>res_Success = False, res_Reason = r, res_HTTPStatus = status\<rparr>"

section \<open>Backoff\<close>

record deviceBackoff =
  db_failures :: nat
  db_nextAttempt :: time
  db_lastReason :: Reason

record Backoff =
  bo_cfg :: BackoffConfig
  bo_state :: "(string \<times> deviceBackoff) list"

definition NewBackoff :: "BackoffConfig \<Rightarrow> Backoff" where
  "NewBackoff cfg = \<lparr>bo_cfg = cfg, bo_state = []\<rparr>"

definition Allow :: "time \<Rightarrow> string \<Rightarrow> Backoff \<Rightarrow> bool \<times> duration" where
  "Allow now d b =
     (case map_of (bo_state b) d of
        None \<Rightarrow> (True, 0)
      | Some st \<Rightarrow> if is_zero (db_nextAttempt st) then (True, 0)
                   else if \<not> now < db_nextAttempt st then (True, 0)
                   else (False, time_sub (db_nextAttempt st) now))"

text \<open>
  The wait, in nanoseconds: the conversion of the product to \<^verbatim>\<open>time.Duration\<close> drops the
  fraction.  The float64 products are real numbers here.  A power that overflows to infinity is,
  as a real, above every configured maximum, so both take the same branch.
\<close>

definition ladder :: "BackoffConfig \<Rightarrow> nat \<Rightarrow> Reason \<Rightarrow> real" where
  "ladder cfg failures reason =
     (let initial = (if IsAuth reason then bc_AuthInitial cfg else bc_Initial cfg);
          maxDelay = (if IsAuth reason then bc_AuthMax cfg else bc_Max cfg);
          steps = int failures - bc_FailuresBeforeOpen cfg;
          d = real_of_int initial * (bc_Factor cfg) powi steps
      in if real_of_int maxDelay < d then real_of_int maxDelay else d)"

definition truncate_dur :: "real \<Rightarrow> duration" where
  "truncate_dur d = (if 0 \<le> d then \<lfloor>d\<rfloor> else \<lceil>d\<rceil>)"

definition delay :: "BackoffConfig \<Rightarrow> real \<Rightarrow> nat \<Rightarrow> Reason \<Rightarrow> duration" where
  "delay cfg rand failures reason =
     (let d = ladder cfg failures reason; j = bc_Jitter cfg
      in truncate_dur (if 0 < j then d * (1 - j + 2 * j * rand) else d))"

definition Record :: "time \<Rightarrow> real \<Rightarrow> string \<Rightarrow> Result \<Rightarrow> Backoff \<Rightarrow> Backoff" where
  "Record now rand d res b =
     (if res_Success res then b\<lparr>bo_state := AList.delete d (bo_state b)\<rparr>
      else if \<not> IsDeviceFault (res_Reason res) then b
      else let st0 = (case map_of (bo_state b) d of
                        None \<Rightarrow> \<lparr>db_failures = 0, db_nextAttempt = zero_time, db_lastReason = ReasonNone\<rparr>
                      | Some st \<Rightarrow> st);
               st1 = st0\<lparr>db_failures := Suc (db_failures st0), db_lastReason := res_Reason res\<rparr>;
               st2 = (if int (db_failures st1) < bc_FailuresBeforeOpen (bo_cfg b)
                      then st1\<lparr>db_nextAttempt := zero_time\<rparr>
                      else st1\<lparr>db_nextAttempt :=
                             now + delay (bo_cfg b) rand (db_failures st1) (res_Reason res)\<rparr>)
           in b\<lparr>bo_state := AList.update d st2 (bo_state b)\<rparr>)"

definition Reset :: "string \<Rightarrow> Backoff \<Rightarrow> Backoff" where
  "Reset d b = b\<lparr>bo_state := AList.delete d (bo_state b)\<rparr>"

definition Failures :: "string \<Rightarrow> Backoff \<Rightarrow> nat" where
  "Failures d b = (case map_of (bo_state b) d of Some st \<Rightarrow> db_failures st | None \<Rightarrow> 0)"

definition Open :: "time \<Rightarrow> Backoff \<Rightarrow> nat" where
  "Open now b = length (filter (\<lambda>(d, st). \<not> is_zero (db_nextAttempt st) \<and> now < db_nextAttempt st) (bo_state b))"

section \<open>The gate\<close>

text \<open>
  The metrics of a probe are of a type of their own, \<open>'m\<close>.  The semaphore and the
  single-flight group are packages of the Go project; a call of \<^verbatim>\<open>Do\<close> takes from them
  what the code takes: whether the token was acquired before the context ended, and, when another
  call for the same device is in flight, that call's outcome.
\<close>

record 'm cachedResult =
  cr_metrics :: "'m list"
  cr_result :: Result
  cr_at :: time

record 'm Limiter =
  lm_cfg :: ProbeConfig
  lm_backoff :: Backoff
  lm_cache :: "string \<Rightarrow> 'm cachedResult option"
  lm_inFlight :: int
  lm_shared :: int
  lm_skipped :: "(Reason \<times> nat) list"

definition NewLimiter :: "ProbeConfig \<Rightarrow> 'm Limiter" where
  "NewLimiter cfg = \<lparr>lm_cfg = cfg, lm_backoff = NewBackoff (pc_Backoff cfg), lm_cache = Map.empty,
     lm_inFlight = 0, lm_shared = 0, lm_skipped = []\<rparr>"

definition Skipped :: "Reason \<Rightarrow> 'm Limiter \<Rightarrow> nat" where
  "Skipped r l = (case map_of (lm_skipped l) r of Some n \<Rightarrow> n | None \<Rightarrow> 0)"

definition SkippedByReason :: "'m Limiter \<Rightarrow> string \<Rightarrow> nat option" where
  "SkippedByReason l =
     map_of (map (\<lambda>(r, n). (reason_string r, n)) (filter (\<lambda>(r, n). 0 < n) (lm_skipped l)))"

definition countSkip :: "Reason \<Rightarrow> 'm Limiter \<Rightarrow> 'm Limiter" where
  "countSkip r l = l\<lparr>lm_skipped := AList.update r (Suc (Skipped r l)) (lm_skipped l)\<rparr>"

definition lookup_cache :: "time \<Rightarrow> string \<Rightarrow> 'm Limiter \<Rightarrow> 'm cachedResult option" where
  "lookup_cache now d l =
     (if pc_CacheTTL (lm_cfg l) \<le> 0 then None
      else case lm_cache l d of
             None \<Rightarrow> None
           | Some c \<Rightarrow> if pc_CacheTTL (lm_cfg l) < time_sub now (cr_at c) then None else Some c)"

definition store_cache :: "time \<Rightarrow> string \<Rightarrow> 'm list \<Rightarrow> Result \<Rightarrow> 'm Limiter \<Rightarrow> 'm Limiter" where
  "store_cache now d ms res l =
     (if pc_CacheTTL (lm_cfg l) \<le> 0 then l
      else l\<lparr>lm_cache := (lm_cache l)(d \<mapsto> \<lparr>cr_metrics = ms, cr_result = res, cr_at = now\<rparr>)\<rparr>)"

definition Limiter_Forget :: "string \<Rightarrow> 'm Limiter \<Rightarrow> 'm Limiter" where
  "Limiter_Forget d l = l\<lparr>lm_cache := (lm_cache l)(d := None), lm_backoff := Reset d (lm_backoff l)\<rparr>"

text \<open>
  What one call meets on its way: the clock at the four points where it is read, a random number,
  the token, the flight it joins, and whether other calls joined its own flight.  The probe
  function acts on the outside world, of type \<open>'w\<close>.
\<close>

record 'm env =
  env_allow :: time
  env_lookup :: time
  env_record :: time
  env_store :: time
  env_rand :: real
  env_token :: bool
  env_joined :: "('m list \<times> Result) option"
  env_dups :: bool

definition flight ::
  "'m env \<Rightarrow> string \<Rightarrow> ('w \<Rightarrow> 'm list \<times> Result \<times> 'w) \<Rightarrow> 'w \<Rightarrow> 'm Limiter
     \<Rightarrow> 'm list \<times> Result \<times> 'w \<times> 'm Limiter" where
  "flight e d fn w l =
     (if \<not> env_token e then ([], Fail ReasonInFlightLimit 0, w, countSkip ReasonInFlightLimit l)
      else let l1 = l\<lparr>lm_inFlight := lm_inFlight l + 1\<rparr>
      in case fn w of (ms, res, w') \<Rightarrow>
           (let l2 = l1\<lparr>lm_backoff := Record (env_record e) (env_rand e) d res (lm_backoff l1)\<rparr>;
                l3 = store_cache (env_store e) d ms res l2
            in (ms, res, w', l3\<lparr>lm_inFlight := lm_inFlight l3 - 1\<rparr>)))"

definition count_shared :: "bool \<Rightarrow> 'm Limiter \<Rightarrow> 'm Limiter" where
  "count_shared s l = (if s then l\<lparr>lm_shared := lm_shared l + 1\<rparr> else l)"

definition Do ::
  "'m env \<Rightarrow> string \<Rightarrow> ('w \<Rightarrow> 'm list \<times> Result \<times> 'w) \<Rightarrow> 'w \<Rightarrow> 'm Limiter
     \<Rightarrow> 'm list \<times> Result \<times> duration \<times> 'w \<times> 'm Limiter" where
  "Do e d fn w l =
     (case Allow (env_allow e) d (lm_backoff l) of (allowed, remaining) \<Rightarrow>
        (if \<not> allowed then ([], Fail ReasonBackoff 0, remaining, w, countSkip ReasonBackoff l)
         else case lookup_cache (env_lookup e) d l of
           Some c \<Rightarrow> (cr_metrics c, cr_result c, 0, w, count_shared True l)
         | None \<Rightarrow>
             (case env_joined e of
                Some (ms, res) \<Rightarrow> (ms, res, 0, w, count_shared True l)
              | None \<Rightarrow> (case flight e d fn w l of (ms, res, w', l') \<Rightarrow>
                          (ms, res, 0, w', count_shared (env_dups e) l')))))"

end
