(* ===== verification/ProbeProps.thy ===== *)
theory ProbeProps
  imports Probe
begin

text \<open>
  The properties of the backoff ladder and of the gate: bounds of the delay, when a device is
  skipped, and what one call of \<^verbatim>\<open>Do\<close> does to the device and to the shared state.
\<close>

section \<open>The ladder\<close>

lemmas time_defs = second_def minute_def hour_def

definition backoff_cfg_ok :: "BackoffConfig \<Rightarrow> bool" where
  "backoff_cfg_ok c \<longleftrightarrow> 1 < bc_Factor c \<and> 0 \<le> bc_Jitter c \<and> bc_Jitter c < 1
     \<and> 0 \<le> bc_Initial c \<and> bc_Initial c \<le> bc_Max c \<and> 0 \<le> bc_AuthInitial c \<and> bc_AuthInitial c \<le> bc_AuthMax c"

definition ladder_min :: "BackoffConfig \<Rightarrow> Reason \<Rightarrow> duration" where
  "ladder_min c r = (if IsAuth r then bc_AuthInitial c else bc_Initial c)"

definition ladder_max :: "BackoffConfig \<Rightarrow> Reason \<Rightarrow> duration" where
  "ladder_max c r = (if IsAuth r then bc_AuthMax c else bc_Max c)"

lemma ladder_eq:
  "ladder c n r = min (real_of_int (ladder_max c r))
     (real_of_int (ladder_min c r) * bc_Factor c powi (int n - bc_FailuresBeforeOpen c))"
  by (simp add: ladder_def Let_def ladder_min_def ladder_max_def min_def)

lemma powi_ge_one: "1 < x \<Longrightarrow> 0 \<le> k \<Longrightarrow> (1::real) \<le> x powi k"
  by (simp add: power_int_def one_le_power)

lemma powi_mono: "1 < (x::real) \<Longrightarrow> j \<le> k \<Longrightarrow> x powi j \<le> x powi k"
  by (rule power_int_increasing) simp_all

lemma ladder_bounds:
  assumes "backoff_cfg_ok c" "bc_FailuresBeforeOpen c \<le> int n"
  shows "real_of_int (ladder_min c r) \<le> ladder c n r" "ladder c n r \<le> real_of_int (ladder_max c r)"
proof -
  have "0 \<le> real_of_int (ladder_min c r)" "ladder_min c r \<le> ladder_max c r"
    using assms(1) by (simp_all add: backoff_cfg_ok_def ladder_min_def ladder_max_def)
  moreover have "1 \<le> bc_Factor c powi (int n - bc_FailuresBeforeOpen c)"
    using assms by (intro powi_ge_one) (simp_all add: backoff_cfg_ok_def)
  ultimately show "real_of_int (ladder_min c r) \<le> ladder c n r"
    by (simp add: ladder_eq mult_le_cancel_left1)
  show "ladder c n r \<le> real_of_int (ladder_max c r)" by (simp add: ladder_eq)
qed

lemma ladder_mono:
  assumes "backoff_cfg_ok c" "m \<le> n"
  shows "ladder c m r \<le> ladder c n r"
proof -
  have "0 \<le> real_of_int (ladder_min c r)"
    using assms(1) by (simp add: backoff_cfg_ok_def ladder_min_def)
  moreover have "bc_Factor c powi (int m - bc_FailuresBeforeOpen c)
      \<le> bc_Factor c powi (int n - bc_FailuresBeforeOpen c)"
    using assms by (intro powi_mono) (simp_all add: backoff_cfg_ok_def)
  ultimately show ?thesis
    unfolding ladder_eq by (intro min.mono mult_left_mono) simp_all
qed

lemma jitter_factor:
  assumes "0 \<le> j" "0 \<le> x" "x \<le> (1::real)"
  shows "1 - j \<le> 1 - j + 2 * j * x" "1 - j + 2 * j * x \<le> 1 + j"
  using assms mult_left_le [of x j] by auto

lemma delay_eq:
  "0 \<le> bc_Jitter c \<Longrightarrow> delay c x n r
     = truncate_dur (ladder c n r * (1 - bc_Jitter c + 2 * bc_Jitter c * x))"
  by (cases "bc_Jitter c = 0") (simp_all add: delay_def Let_def)

text \<open>C34. Every wait lies within the jitter of its rung, and the rung between the configured first
  wait and the configured maximum: the wait is never negative, never more than the jitter above
  the maximum, and never near zero once the ladder has been climbed.\<close>

theorem backoff_delay_bounds:
  assumes "backoff_cfg_ok c" "bc_FailuresBeforeOpen c \<le> int n" "0 \<le> x" "x \<le> 1"
  shows "real_of_int (ladder_min c r) * (1 - bc_Jitter c) - 1 < real_of_int (delay c x n r)
    \<and> 0 \<le> delay c x n r
    \<and> real_of_int (delay c x n r) \<le> real_of_int (ladder_max c r) * (1 + bc_Jitter c)"
proof -
  let ?j = "bc_Jitter c" and ?l = "ladder c n r"
  let ?f = "1 - ?j + 2 * ?j * x" and ?lo = "real_of_int (ladder_min c r)" and ?hi = "real_of_int (ladder_max c r)"
  have j: "0 \<le> ?j" "?j < 1" using assms(1) by (simp_all add: backoff_cfg_ok_def)
  have lo: "0 \<le> ?lo" using assms(1) by (simp add: backoff_cfg_ok_def ladder_min_def)
  note lb = ladder_bounds [OF assms(1,2), of r] and f = jitter_factor [OF j(1) assms(3,4)]
  have f0: "0 \<le> ?f" using f(1) j(2) by linarith
  have l0: "0 \<le> ?l" using lo lb(1) by linarith
  have "0 \<le> ?l * ?f" by (rule mult_nonneg_nonneg [OF l0 f0])
  moreover have "?lo * (1 - ?j) \<le> ?l * ?f"
    using lb(1) f(1) j(2) l0 by (intro mult_mono) simp_all
  moreover have "?l * ?f \<le> ?hi * (1 + ?j)"
    using lb l0 lo f(2) f0 by (intro mult_mono) linarith+
  ultimately show ?thesis
    unfolding delay_eq [OF j(1)] truncate_dur_def by simp linarith
qed

definition ex_backoff :: BackoffConfig where
  "ex_backoff = pc_Backoff (cfg_Probe Default)"

lemma ex_backoff_ok: "backoff_cfg_ok ex_backoff"
  by (simp add: backoff_cfg_ok_def ex_backoff_def Default_def second_def minute_def)

lemma ex_backoff_open: "bc_FailuresBeforeOpen ex_backoff = 3"
  by (simp add: ex_backoff_def Default_def)

theorem backoff_delay_bounds_witness:
  "0 \<le> delay ex_backoff (1 / 2) 7 ReasonTimeout"
  using backoff_delay_bounds [OF ex_backoff_ok, of 7 "1 / 2" ReasonTimeout] by (simp add: ex_backoff_open)

section \<open>Recording\<close>

definition is_fault :: "Result \<Rightarrow> bool" where
  "is_fault res \<longleftrightarrow> \<not> res_Success res \<and> IsDeviceFault (res_Reason res)"

definition record_all :: "string \<Rightarrow> (time \<times> real \<times> Result) list \<Rightarrow> Backoff \<Rightarrow> Backoff" where
  "record_all d rs b = foldl (\<lambda>b (now, x, res). Record now x d res b) b rs"

lemma Record_cfg [simp]: "bo_cfg (Record now x d res b) = bo_cfg b"
  by (simp add: Record_def Let_def)

lemma Record_other: "d' \<noteq> d \<Longrightarrow> map_of (bo_state (Record now x d res b)) d' = map_of (bo_state b) d'"
  by (simp add: Record_def Let_def)

lemma Record_success: "res_Success res \<Longrightarrow> map_of (bo_state (Record now x d res b)) d = None"
  by (simp add: Record_def)

lemma Record_fault:
  assumes "is_fault res"
  shows "Failures d (Record now x d res b) = Suc (Failures d b)"
    and "\<exists>st. map_of (bo_state (Record now x d res b)) d = Some st \<and> db_failures st = Suc (Failures d b)
      \<and> db_nextAttempt st = (if int (Suc (Failures d b)) < bc_FailuresBeforeOpen (bo_cfg b) then zero_time
            else now + delay (bo_cfg b) x (Suc (Failures d b)) (res_Reason res))"
  using assms by (auto simp: Record_def is_fault_def Failures_def Let_def split: option.split)

lemma Record_neutral: "\<not> res_Success res \<Longrightarrow> \<not> is_fault res \<Longrightarrow> Record now x d res b = b"
  by (simp add: Record_def is_fault_def)

lemma record_all_Cons [simp]:
  "record_all d [] b = b"
  "record_all d ((now, x, res) # rs) b = record_all d rs (Record now x d res b)"
  by (simp_all add: record_all_def)

lemma record_all_cfg [simp]: "bo_cfg (record_all d rs b) = bo_cfg b"
  by (induction rs arbitrary: b) auto

lemma record_all_failures:
  "\<forall>(now, x, res) \<in> set rs. \<not> res_Success res \<Longrightarrow>
     Failures d (record_all d rs b) = Failures d b + length (filter (\<lambda>(now, x, res). is_fault res) rs)"
  by (induction rs arbitrary: b) (auto simp: Record_fault Record_neutral)

lemma record_all_append:
  "record_all d (rs @ ss) b = record_all d ss (record_all d rs b)"
  by (simp add: record_all_def)

lemma fewer_faults_zero:
  assumes "\<forall>(now, x, res) \<in> set rs. \<not> res_Success res"
    and "int (length (filter (\<lambda>(now, x, res). is_fault res) rs)) < bc_FailuresBeforeOpen (bo_cfg b)"
    and "map_of (bo_state b) d = None"
  shows "case map_of (bo_state (record_all d rs b)) d of None \<Rightarrow> True | Some st \<Rightarrow> db_nextAttempt st = zero_time"
  using assms
proof (induction rs rule: rev_induct)
  case (snoc r rs)
  obtain now x res where r: "r = (now, x, res)" by (cases r)
  let ?b = "record_all d rs b"
  have IH: "case map_of (bo_state ?b) d of None \<Rightarrow> True | Some st \<Rightarrow> db_nextAttempt st = zero_time"
    using snoc r by (cases "is_fault res") auto
  show ?case
  proof (cases "is_fault res")
    case True
    have "Failures d ?b = length (filter (\<lambda>(now, x, res). is_fault res) rs)"
      using snoc.prems record_all_failures [of rs d b] by (simp add: Failures_def)
    then show ?thesis
      using Record_fault(2) [OF True, of now x d ?b] snoc.prems True by (auto simp: record_all_append r)
  qed (use snoc.prems IH r in \<open>simp add: record_all_append Record_neutral\<close>)
qed simp

text \<open>A device is skipped only after the configured number of device faults with no success
  between them: failures that are the exporter's own (no free slot, already in backoff) never
  count, and below the threshold every probe is admitted.\<close>

theorem backoff_needs_enough_faults:
  assumes "\<forall>(now, x, res) \<in> set rs. \<not> res_Success res"
    and "int (length (filter (\<lambda>(now, x, res). is_fault res) rs)) < bc_FailuresBeforeOpen cfg"
  shows "Allow t d (record_all d rs (NewBackoff cfg)) = (True, 0)"
  using fewer_faults_zero [of rs "NewBackoff cfg" d] assms
  by (auto simp: NewBackoff_def Allow_def is_zero_def split: option.splits)

theorem backoff_needs_enough_faults_witness:
  "Allow 9 ''d'' (record_all ''d'' [(1, 0, Fail ReasonTimeout 0), (2, 0, Fail ReasonInFlightLimit 0),
      (3, 0, Fail ReasonBackoff 0), (4, 0, Fail ReasonAuth 401)] (NewBackoff ex_backoff)) = (True, 0)"
  by (rule backoff_needs_enough_faults)
     (simp_all add: Fail_def is_fault_def IsDeviceFault_def ex_backoff_open)

text \<open>Once open, the gate stays shut for exactly the computed wait, and one success clears the
  device completely, whatever came before, while no other device is touched.\<close>

theorem backoff_opens_and_closes:
  assumes "is_fault res" "bc_FailuresBeforeOpen (bo_cfg b) \<le> int (Suc (Failures d b))"
    and "now + delay (bo_cfg b) x (Suc (Failures d b)) (res_Reason res) \<noteq> zero_time"
  shows "(fst (Allow t d (Record now x d res b))
      \<longleftrightarrow> now + delay (bo_cfg b) x (Suc (Failures d b)) (res_Reason res) \<le> t)
    \<and> Allow t d (Record now' x' d (Success status) (Record now x d res b)) = (True, 0)
    \<and> (d' \<noteq> d \<longrightarrow> Allow t d' (Record now x d res b) = Allow t d' b)"
proof -
  let ?nx = "now + delay (bo_cfg b) x (Suc (Failures d b)) (res_Reason res)"
  obtain st where st: "map_of (bo_state (Record now x d res b)) d = Some st" "db_nextAttempt st = ?nx"
    using Record_fault(2) [OF assms(1), of now x d b] assms(2) by auto
  then have "fst (Allow t d (Record now x d res b)) \<longleftrightarrow> ?nx \<le> t"
    using assms(3) by (simp add: Allow_def is_zero_def not_less)
  moreover have "Allow t d (Record now' x' d (Success status) b') = (True, 0)" for b'
    by (simp add: Allow_def Record_success Success_def)
  moreover have "d' \<noteq> d \<Longrightarrow> Allow t d' (Record now x d res b) = Allow t d' b"
    by (simp add: Allow_def Record_other)
  ultimately show ?thesis by blast
qed

definition ex_open :: Backoff where
  "ex_open = record_all ''d'' [(1, 0, Fail ReasonTimeout 0), (2, 0, Fail ReasonTimeout 0)] (NewBackoff ex_backoff)"

lemma ex_open_simps: "Failures ''d'' ex_open = 2" "bo_cfg ex_open = ex_backoff"
  unfolding ex_open_def
  by (subst record_all_failures)
     (simp_all add: Fail_def is_fault_def IsDeviceFault_def Failures_def NewBackoff_def del: record_all_Cons)

theorem backoff_opens_and_closes_witness:
  "\<not> fst (Allow 5 ''d'' (Record 3 0 ''d'' (Fail ReasonTimeout 0) ex_open))"
proof -
  have f: "is_fault (Fail ReasonTimeout 0)" "res_Reason (Fail ReasonTimeout 0) = ReasonTimeout"
    by (simp_all add: Fail_def is_fault_def IsDeviceFault_def)
  have d: "delay ex_backoff 0 3 ReasonTimeout = 12000000000"
    by (simp add: delay_def ladder_def truncate_dur_def Let_def IsAuth_def ex_backoff_def Default_def time_defs)
  show ?thesis
    using backoff_opens_and_closes [OF f(1), of ex_open "''d''" 3 0 5]
    by (simp add: ex_open_simps ex_backoff_open d f(2))
qed

section \<open>The gate\<close>

definition limiter_inv :: "'m Limiter \<Rightarrow> bool" where
  "limiter_inv l \<longleftrightarrow> lm_inFlight l = 0
     \<and> (\<forall>d c. lm_cache l d = Some c \<longrightarrow> 0 < pc_CacheTTL (lm_cfg l)
          \<and> (res_Success (cr_result c) \<longrightarrow> map_of (bo_state (lm_backoff l)) d = None)
          \<and> (is_fault (cr_result c) \<longrightarrow> 0 < Failures d (lm_backoff l)))"

datatype ('m, 'w) LimiterMsg =
    MDo "'m env" string "'w \<Rightarrow> 'm list \<times> Result \<times> 'w" 'w
  | MForget string

definition limiter_step :: "('m, 'w) LimiterMsg \<Rightarrow> 'm Limiter \<Rightarrow> 'm Limiter" where
  "limiter_step m l = (case m of
     MDo e d fn w \<Rightarrow> snd (snd (snd (snd (Do e d fn w l))))
   | MForget d \<Rightarrow> Limiter_Forget d l)"

lemma countSkip_simps [simp]:
  "lm_cfg (countSkip r l) = lm_cfg l" "lm_backoff (countSkip r l) = lm_backoff l"
  "lm_cache (countSkip r l) = lm_cache l" "lm_inFlight (countSkip r l) = lm_inFlight l"
  "lm_shared (countSkip r l) = lm_shared l"
  by (simp_all add: countSkip_def)

lemma count_shared_simps [simp]:
  "lm_cfg (count_shared s l) = lm_cfg l" "lm_backoff (count_shared s l) = lm_backoff l"
  "lm_cache (count_shared s l) = lm_cache l" "lm_inFlight (count_shared s l) = lm_inFlight l"
  by (simp_all add: count_shared_def)

lemma limiter_inv_cong:
  "limiter_inv l \<Longrightarrow> lm_cfg l' = lm_cfg l \<Longrightarrow> lm_backoff l' = lm_backoff l \<Longrightarrow> lm_cache l' = lm_cache l
     \<Longrightarrow> lm_inFlight l' = lm_inFlight l \<Longrightarrow> limiter_inv l'"
  by (simp add: limiter_inv_def)

lemma flight_run:
  assumes "env_token e" "fn w = (ms, res, w')" "flight e d fn w l = (ms', res', w'', l')"
  shows "ms' = ms" "res' = res" "w'' = w'" "lm_cfg l' = lm_cfg l" "lm_inFlight l' = lm_inFlight l"
    and "lm_backoff l' = Record (env_record e) (env_rand e) d res (lm_backoff l)"
    and "lm_cache l' = (if pc_CacheTTL (lm_cfg l) \<le> 0 then lm_cache l
       else (lm_cache l)(d \<mapsto> \<lparr>cr_metrics = ms, cr_result = res, cr_at = env_store e\<rparr>))"
  using assms by (auto simp: flight_def store_cache_def Let_def)

lemma flight_inv:
  assumes "limiter_inv l" "flight e d fn w l = (ms, res, w', l')"
  shows "limiter_inv l'"
proof (cases "env_token e")
  case True
  obtain ms0 res0 w0 where fn: "fn w = (ms0, res0, w0)" by (cases "fn w")
  note r = flight_run [OF True fn assms(2)]
  let ?b = "Record (env_record e) (env_rand e) d res0 (lm_backoff l)"
  have same: "res_Success res0 \<longrightarrow> map_of (bo_state ?b) d = None" "is_fault res0 \<longrightarrow> 0 < Failures d ?b"
    by (auto simp: Record_success Record_fault)
  have "Failures i ?b = Failures i (lm_backoff l)" if "i \<noteq> d" for i
    using that by (simp add: Failures_def Record_other)
  then show ?thesis
    using assms(1) same by (auto simp: limiter_inv_def r Record_other split: if_splits)
next
  case False
  then show ?thesis using assms by (auto simp: flight_def intro: limiter_inv_cong)
qed

lemma Do_inv:
  assumes "limiter_inv l"
  shows "limiter_inv (snd (snd (snd (snd (Do e d fn w l)))))"
  using assms flight_inv [OF assms, of e d fn w]
  by (auto simp: Do_def case_prod_beta intro: limiter_inv_cong split: option.split)
     (metis count_shared_simps limiter_inv_cong prod.collapse)+

lemma limiter_step_inv: "limiter_inv l \<Longrightarrow> limiter_inv (limiter_step m l)"
  by (cases m) (auto simp: limiter_step_def Do_inv, auto simp: limiter_inv_def Limiter_Forget_def
      Reset_def Failures_def)

interpretation limiter: machine "\<lambda>l. l = NewLimiter (lm_cfg l)" limiter_step "\<lambda>m l. True" limiter_inv
proof
  fix l :: "'a Limiter"
  assume "l = NewLimiter (lm_cfg l)"
  then show "limiter_inv l" by (metis (no_types, lifting) NewLimiter_def limiter_inv_def Limiter.select_convs option.distinct(1))
qed (rule limiter_step_inv)

lemma limiter_step_cfg: "lm_cfg (limiter_step m l) = lm_cfg l"
  by (cases m) (auto simp: limiter_step_def Limiter_Forget_def Do_def flight_def store_cache_def Let_def
      split: prod.splits option.splits)

lemma limiter_run_cfg: "lm_cfg (limiter.run ms l) = lm_cfg l"
  by (induction ms arbitrary: l) (simp_all add: limiter_step_cfg)

lemma lm_cfg_New: "lm_cfg (NewLimiter cfg) = cfg"
  by (simp add: NewLimiter_def)

lemma limiter_all_oks: "limiter.oks ms l"
  by (induction ms arbitrary: l) simp_all

text \<open>C18. The cache and the backoff never contradict each other: after any sequence of probes and
  resets, a cached success means the device has a clean record, a cached device fault means the
  record counts it, nothing is cached when caching is off, and no slot is left held.\<close>

theorem cache_agrees_with_backoff:
  assumes "lm_cache (limiter.run ms (NewLimiter cfg)) d = Some c"
  shows "0 < pc_CacheTTL cfg
    \<and> (res_Success (cr_result c) \<longrightarrow> fst (Allow t d (lm_backoff (limiter.run ms (NewLimiter cfg)))))
    \<and> (is_fault (cr_result c) \<longrightarrow> 0 < Failures d (lm_backoff (limiter.run ms (NewLimiter cfg))))
    \<and> lm_inFlight (limiter.run ms (NewLimiter cfg)) = 0"
proof -
  have "limiter.oks ms (NewLimiter cfg)" by (rule limiter_all_oks)
  then have "limiter_inv (limiter.run ms (NewLimiter cfg))"
    by (intro limiter.run_invar) (simp_all add: limiter_inv_def NewLimiter_def)
  then show ?thesis
    using assms by (auto simp: limiter_inv_def Allow_def limiter_run_cfg lm_cfg_New)
qed

definition ex_env :: "nat env" where
  "ex_env = \<lparr>env_allow = 1, env_lookup = 1, env_record = 2, env_store = 2, env_rand = 0, env_token = True,
     env_joined = None, env_dups = False\<rparr>"

lemma ex_cached:
  "lm_cache (limiter.run [MDo ex_env ''d'' (\<lambda>w. ([7], Success 200, w)) ()] (NewLimiter (cfg_Probe Default))) ''d''
     = Some \<lparr>cr_metrics = [7], cr_result = Success 200, cr_at = 2\<rparr>"
  by (simp add: limiter_step_def Do_def flight_def ex_env_def NewLimiter_def NewBackoff_def Allow_def
      lookup_cache_def store_cache_def count_shared_def Default_def time_defs Let_def)

theorem cache_agrees_with_backoff_witness:
  "fst (Allow 9 ''d'' (lm_backoff (limiter.run
      [MDo ex_env ''d'' (\<lambda>w. ([7], Success 200, w)) ()] (NewLimiter (cfg_Probe Default)))))"
  using cache_agrees_with_backoff [OF ex_cached, of 9] by (simp add: Success_def)



end
