(* ===== verification/Naming.thy ===== *)
theory Naming
  imports Complex_Main Prelude
begin

text \<open>
  \<^verbatim>\<open>internal/metrics/naming.go\<close>: metric names and the table from device-reported units
  to metric families.  A float64 is a real number, an infinity or not-a-number: rounding is not
  modelled.  Every conversion of the table is an increasing affine function, which \<open>lift\<close>
  extends to the infinities.  Units outside ASCII are their UTF-8 bytes.
\<close>

section \<open>Floating-point readings\<close>

datatype float64 = Fin real | PosInf | NegInf | NaN

definition is_nan :: "float64 \<Rightarrow> bool" where "is_nan v \<longleftrightarrow> v = NaN"

definition is_inf :: "float64 \<Rightarrow> bool" where "is_inf v \<longleftrightarrow> v = PosInf \<or> v = NegInf"

definition lift :: "(real \<Rightarrow> real) \<Rightarrow> float64 \<Rightarrow> float64" where
  "lift f v = (case v of Fin x \<Rightarrow> Fin (f x) | _ \<Rightarrow> v)"

definition identity :: "float64 \<Rightarrow> float64" where "identity v = v"
definition mul :: "real \<Rightarrow> float64 \<Rightarrow> float64" where "mul f = lift (\<lambda>v. v * f)"
definition div_by :: "real \<Rightarrow> float64 \<Rightarrow> float64" where "div_by f = lift (\<lambda>v. v / f)"

definition joulesPerWattHour :: real where "joulesPerWattHour = 3600"
definition joulesPerWattMinute :: real where "joulesPerWattMinute = 60"

definition WattHoursToJoules :: "float64 \<Rightarrow> float64" where
  "WattHoursToJoules = lift (\<lambda>wh. wh * joulesPerWattHour)"

definition WattMinutesToJoules :: "float64 \<Rightarrow> float64" where
  "WattMinutesToJoules = lift (\<lambda>wmin. wmin * joulesPerWattMinute)"

definition KilowattHoursToJoules :: "float64 \<Rightarrow> float64" where
  "KilowattHoursToJoules = lift (\<lambda>kwh. kwh * 1000 * joulesPerWattHour)"

section \<open>Units\<close>

record Quantity =
  q_Family :: string
  q_Scale :: "float64 \<Rightarrow> float64"
  q_Counter :: bool
  q_Unknown :: bool

definition quantity :: "string \<Rightarrow> (float64 \<Rightarrow> float64) \<Rightarrow> bool \<Rightarrow> Quantity" where
  "quantity family scale counter =
     \<lparr>q_Family = family, q_Scale = scale, q_Counter = counter, q_Unknown = False\<rparr>"

definition unitTable :: "(string \<times> Quantity) list" where
  "unitTable = [
   (([CHR 0xC2] @ [CHR 0xB0] @ ''c''), quantity ''temperature_celsius'' identity False),
   (''c'', quantity ''temperature_celsius'' identity False),
   (([CHR 0xC2] @ [CHR 0xB0] @ ''f''), quantity ''temperature_celsius'' (lift (\<lambda>v. (v - 32) * 5 / 9)) False),
   (''k'', quantity ''temperature_celsius'' (lift (\<lambda>v. v - 27315 / 100)) False),
   (''w'', quantity ''power_watts'' identity False),
   (''kw'', quantity ''power_watts'' (mul 1000) False),
   (''mw'', quantity ''power_watts'' (div_by 1000) False),
   (''va'', quantity ''apparent_power_voltamperes'' identity False),
   (''var'', quantity ''reactive_power_voltamperes_reactive'' identity False),
   (''wh'', quantity ''energy_joules'' WattHoursToJoules True),
   (''kwh'', quantity ''energy_joules'' KilowattHoursToJoules True),
   (''mwh'', quantity ''energy_joules'' (lift (\<lambda>v. v * 1000000 * joulesPerWattHour)) True),
   (''j'', quantity ''energy_joules'' identity True),
   (''kj'', quantity ''energy_joules'' (mul 1000) True),
   (''v'', quantity ''voltage_volts'' identity False),
   (''mv'', quantity ''voltage_volts'' (div_by 1000) False),
   (''kv'', quantity ''voltage_volts'' (mul 1000) False),
   (''a'', quantity ''current_amperes'' identity False),
   (''ma'', quantity ''current_amperes'' (div_by 1000) False),
   (([CHR 0xCE] @ [CHR 0xA9]), quantity ''resistance_ohms'' identity False),
   (([CHR 0xCF] @ [CHR 0x89]), quantity ''resistance_ohms'' identity False),
   (''ohm'', quantity ''resistance_ohms'' identity False),
   (''ohms'', quantity ''resistance_ohms'' identity False),
   (''kohm'', quantity ''resistance_ohms'' (mul 1000) False),
   (''volt'', quantity ''voltage_volts'' identity False),
   (''volts'', quantity ''voltage_volts'' identity False),
   (''amp'', quantity ''current_amperes'' identity False),
   (''amps'', quantity ''current_amperes'' identity False),
   (''watt'', quantity ''power_watts'' identity False),
   (''watts'', quantity ''power_watts'' identity False),
   (''sec'', quantity ''duration_seconds'' identity False),
   (''secs'', quantity ''duration_seconds'' identity False),
   (''bytes'', quantity ''bytes'' identity False),
   (''celsius'', quantity ''temperature_celsius'' identity False),
   (''pa'', quantity ''pressure_pascals'' identity False),
   (''hpa'', quantity ''pressure_pascals'' (mul 100) False),
   (''kpa'', quantity ''pressure_pascals'' (mul 1000) False),
   (''mbar'', quantity ''pressure_pascals'' (mul 100) False),
   (''bar'', quantity ''pressure_pascals'' (mul 100000) False),
   (''psi'', quantity ''pressure_pascals'' (mul (6894757 / 1000)) False),
   (''inhg'', quantity ''pressure_pascals'' (mul (3386389 / 1000)) False),
   (''s'', quantity ''duration_seconds'' identity False),
   (''ms'', quantity ''duration_seconds'' (div_by 1000) False),
   (([CHR 0xC2] @ [CHR 0xB5] @ ''s''), quantity ''duration_seconds'' (div_by 1000000) False),
   (''us'', quantity ''duration_seconds'' (div_by 1000000) False),
   (''min'', quantity ''duration_seconds'' (mul 60) False),
   (''h'', quantity ''duration_seconds'' (mul 3600) False),
   (''d'', quantity ''duration_seconds'' (mul 86400) False),
   (''db'', quantity ''signal_dbm'' identity False),
   (''dbm'', quantity ''signal_dbm'' identity False),
   (''b'', quantity ''bytes'' identity False),
   (''kb'', quantity ''bytes'' (mul 1000) False),
   (''mb'', quantity ''bytes'' (mul 1000000) False),
   (''gb'', quantity ''bytes'' (mul 1000000000) False),
   (''kib'', quantity ''bytes'' (mul 1024) False),
   (''mib'', quantity ''bytes'' (mul (1024 * 1024)) False),
   (''gib'', quantity ''bytes'' (mul (1024 * 1024 * 1024)) False),
   (''m'', quantity ''distance_meters'' identity False),
   (''cm'', quantity ''distance_meters'' (div_by 100) False),
   (''mm'', quantity ''distance_meters'' (div_by 1000) False),
   (''km'', quantity ''distance_meters'' (mul 1000) False),
   (''ft'', quantity ''distance_meters'' (mul (3048 / 10000)) False),
   (''in'', quantity ''distance_meters'' (mul (254 / 10000)) False),
   (''l'', quantity ''volume_liters'' identity False),
   (''ml'', quantity ''volume_liters'' (div_by 1000) False),
   ((''m'' @ [CHR 0xC2] @ [CHR 0xB3]), quantity ''volume_liters'' (mul 1000) False),
   (''gal'', quantity ''volume_liters'' (mul (378541 / 100000)) False),
   (''l/min'', quantity ''flow_liters_per_minute'' identity False),
   (''l/h'', quantity ''flow_liters_per_minute'' (div_by 60) False),
   ((''m'' @ [CHR 0xC2] @ [CHR 0xB3] @ ''/h''), quantity ''flow_liters_per_minute'' (mul (1000 / 60)) False),
   (''lx'', quantity ''illuminance_lux'' identity False),
   (''lux'', quantity ''illuminance_lux'' identity False),
   (''hz'', quantity ''frequency_hertz'' identity False),
   (''khz'', quantity ''frequency_hertz'' (mul 1000) False),
   (''mhz'', quantity ''frequency_hertz'' (mul 1000000) False),
   (''rpm'', quantity ''rotation_rpm'' identity False),
   (([CHR 0xC2] @ [CHR 0xB0]), quantity ''angle_degrees'' identity False),
   (''deg'', quantity ''angle_degrees'' identity False),
   (''m/s'', quantity ''speed_meters_per_second'' identity False),
   (''km/h'', quantity ''speed_meters_per_second'' (div_by (36 / 10)) False),
   (''mph'', quantity ''speed_meters_per_second'' (mul (44704 / 100000)) False),
   (([CHR 0xC2] @ [CHR 0xB5] @ ''g/m'' @ [CHR 0xC2] @ [CHR 0xB3]), quantity ''concentration_micrograms_per_cubic_meter'' identity False),
   (''ug/m3'', quantity ''concentration_micrograms_per_cubic_meter'' identity False),
   (([CHR 0xC2] @ [CHR 0xB5] @ ''s/cm''), quantity ''conductivity_microsiemens_per_centimeter'' identity False),
   (''ph'', quantity ''acidity_ph'' identity False),
   (''ppm'', quantity ''concentration_ppm'' identity False),
   (''ppb'', quantity ''concentration_ppb'' identity False)]"

definition percentFamilies :: "(string \<times> string) list" where
  "percentFamilies = [
   (''humidity'', ''humidity_ratio''),
   (''battery'', ''battery_ratio''),
   (''moisture'', ''moisture_ratio''),
   (''illuminance'', ''illuminance_ratio''),
   (''power_factor'', ''power_factor_ratio''),
   (''volatile_organic_compounds'', ''voc_ratio'')]"

definition UnknownFamily :: string where "UnknownFamily = ''sensor_value''"

definition ResolveUnit :: "string \<Rightarrow> string \<Rightarrow> bool \<Rightarrow> Quantity" where
  "ResolveUnit unit deviceClass percentAsRatio =
     (let u = to_lower (trim_space unit)
      in if u = ''%'' \<or> u = ''pct'' \<or> u = ''percent''
         then let fam = (case map_of percentFamilies (to_lower deviceClass) of
                           Some f \<Rightarrow> f | None \<Rightarrow> ''ratio'')
              in if percentAsRatio then quantity fam (div_by 100) False
                 else quantity (trim_suffix fam ''_ratio'' @ ''_percent'') identity False
         else case map_of unitTable u of
                Some q \<Rightarrow> q
              | None \<Rightarrow> (quantity UnknownFamily identity False)\<lparr>q_Unknown := True\<rparr>)"

section \<open>Names\<close>

definition Namespace :: string where "Namespace = ''espressif''"
definition ExporterNamespace :: string where "ExporterNamespace = ''espressif_exporter''"

definition MetricName :: "string \<Rightarrow> bool \<Rightarrow> string" where
  "MetricName family counter =
     (let name = Namespace @ ''_'' @ family
      in if counter \<and> \<not> has_suffix name ''_total'' then name @ ''_total'' else name)"

text \<open>
  The loop of \<^verbatim>\<open>SanitizeName\<close>, byte by byte: every rune outside ASCII falls in the arms
  that write a single underscore, and so does each of its bytes.
\<close>

fun sanitize_from :: "bool \<Rightarrow> string \<Rightarrow> string" where
  "sanitize_from lastUnderscore [] = []"
| "sanitize_from lastUnderscore (c # cs) =
     (if is_lower_char c \<or> is_digit_char c then c # sanitize_from False cs
      else if lastUnderscore then sanitize_from True cs
      else CHR ''_'' # sanitize_from True cs)"

definition trim_underscores :: "string \<Rightarrow> string" where
  "trim_underscores s = rev (dropWhile (\<lambda>c. c = CHR ''_'') (rev (dropWhile (\<lambda>c. c = CHR ''_'') s)))"

definition SanitizeName :: "string \<Rightarrow> string" where
  "SanitizeName s =
     (let out = trim_underscores (sanitize_from True (to_lower s))
      in case out of
           [] \<Rightarrow> ''unknown''
         | c # _ \<Rightarrow> if is_digit_char c then CHR ''_'' # out else out)"

definition StateClassTotalIncreasing :: int where "StateClassTotalIncreasing = 2"

definition IsCounter :: "int \<Rightarrow> bool" where
  "IsCounter stateClass \<longleftrightarrow> stateClass = StateClassTotalIncreasing"

section \<open>Sanitised names\<close>

definition name_char :: "char \<Rightarrow> bool" where
  "name_char c \<longleftrightarrow> is_lower_char c \<or> is_digit_char c \<or> c = CHR ''_''"

definition valid_name :: "string \<Rightarrow> bool" where
  "valid_name s \<longleftrightarrow> s \<noteq> [] \<and> list_all name_char s \<and> \<not> is_digit_char (hd s)"

lemma underscore_class [simp]:
  "\<not> is_digit_char (CHR ''_'')" "\<not> is_lower_char (CHR ''_'')" "name_char (CHR ''_'')"
  by (simp_all add: is_digit_char_def is_lower_char_def char_code_def name_char_def)

lemma sanitize_from_chars: "list_all name_char (sanitize_from b s)"
  by (induction b s rule: sanitize_from.induct) (auto simp: name_char_def)

lemma trim_underscores_chars: "list_all name_char s \<Longrightarrow> list_all name_char (trim_underscores s)"
  by (auto simp: trim_underscores_def list_all_iff dest!: set_dropWhileD)

lemma SanitizeName_valid: "valid_name (SanitizeName s)"
proof -
  let ?o = "trim_underscores (sanitize_from True (to_lower s))"
  have o: "list_all name_char ?o" by (rule trim_underscores_chars [OF sanitize_from_chars])
  show ?thesis
  proof (cases ?o)
    case Nil
    have "list_all name_char ''unknown''" "\<not> is_digit_char (CHR ''u'')" by code_simp+
    then show ?thesis by (simp add: SanitizeName_def Nil valid_name_def)
  next
    case (Cons c cs)
    then show ?thesis using o by (simp add: SanitizeName_def valid_name_def Let_def)
  qed
qed

end
