(* ===== verification/Metrics.thy ===== *)
theory Metrics
  imports Naming
begin

text \<open>
  \<^verbatim>\<open>internal/metrics\<close>: metric families (\<^verbatim>\<open>families.go\<close>), the shared label
  vocabulary (\<^verbatim>\<open>labels.go\<close>), the emitter that collects the metrics of one probe
  (\<^verbatim>\<open>emitter.go\<close>) and the descriptor cache (\<^verbatim>\<open>descs.go\<close>).  A descriptor
  of the Prometheus client is the name, help and label names it is built from.
\<close>

section \<open>Labels\<close>

definition BaseLabels :: "string list" where
  "BaseLabels = [''device'', ''kind'', ''component'', ''id'', ''name'', ''device_class'', ''phase'', ''area'']"

record Labels =
  lb_Device :: string
  lb_Kind :: string
  lb_Component :: string
  lb_ID :: string
  lb_Name :: string
  lb_DeviceClass :: string
  lb_Phase :: string
  lb_Area :: string

definition label_values :: "Labels \<Rightarrow> string list" where
  "label_values l = [lb_Device l, lb_Kind l, lb_Component l, lb_ID l, lb_Name l, lb_DeviceClass l,
     lb_Phase l, lb_Area l]"

definition With :: "Labels \<Rightarrow> string list \<Rightarrow> string list" where
  "With l extra = label_values l @ extra"

definition withLabels :: "string list \<Rightarrow> string list" where
  "withLabels extra = BaseLabels @ extra"

definition PhaseA :: string where "PhaseA = ''a''"
definition PhaseB :: string where "PhaseB = ''b''"
definition PhaseC :: string where "PhaseC = ''c''"
definition PhaseN :: string where "PhaseN = ''n''"
definition PhaseTotal :: string where "PhaseTotal = ''total''"
definition DirectionImport :: string where "DirectionImport = ''import''"
definition DirectionExport :: string where "DirectionExport = ''export''"

section \<open>Families\<close>

record Family =
  fam_Name :: string
  fam_Help :: string
  fam_Counter :: bool
  fam_Extra :: "string list"
  fam_DeviceClass :: string

definition family :: "string \<Rightarrow> string \<Rightarrow> bool \<Rightarrow> string list \<Rightarrow> string \<Rightarrow> Family" where
  "family name help counter extra cls =
     \<lparr>fam_Name = name, fam_Help = help, fam_Counter = counter, fam_Extra = extra, fam_DeviceClass = cls\<rparr>"

definition FamilyLabels :: "Family \<Rightarrow> string list" where
  "FamilyLabels f = withLabels (fam_Extra f)"

definition FQName :: "Family \<Rightarrow> string" where
  "FQName f = MetricName (fam_Name f) (fam_Counter f)"

definition FamilyPower :: string where "FamilyPower = ''power_watts''"
definition FamilyApparentPower :: string where "FamilyApparentPower = ''apparent_power_voltamperes''"
definition FamilyEnergy :: string where "FamilyEnergy = ''energy_joules''"
definition FamilyVoltage :: string where "FamilyVoltage = ''voltage_volts''"
definition FamilyCurrent :: string where "FamilyCurrent = ''current_amperes''"
definition FamilyPowerFactor :: string where "FamilyPowerFactor = ''power_factor''"
definition FamilyFrequency :: string where "FamilyFrequency = ''frequency_hertz''"
definition FamilyTemperature :: string where "FamilyTemperature = ''temperature_celsius''"
definition FamilyHumidity :: string where "FamilyHumidity = ''humidity_ratio''"
definition FamilyBattery :: string where "FamilyBattery = ''battery_ratio''"
definition FamilyIlluminance :: string where "FamilyIlluminance = ''illuminance_lux''"
definition FamilyUptime :: string where "FamilyUptime = ''uptime_seconds''"
definition FamilyWiFiRSSI :: string where "FamilyWiFiRSSI = ''wifi_rssi_dbm''"
definition FamilySwitchOn :: string where "FamilySwitchOn = ''switch_on''"
definition FamilyInputState :: string where "FamilyInputState = ''input_state''"
definition FamilyInputCounts :: string where "FamilyInputCounts = ''input_counts''"
definition FamilyCoverPosition :: string where "FamilyCoverPosition = ''cover_position_ratio''"
definition FamilyLightOn :: string where "FamilyLightOn = ''light_on''"
definition FamilyLightBrightness :: string where "FamilyLightBrightness = ''light_brightness_ratio''"
definition FamilyBinaryState :: string where "FamilyBinaryState = ''binary_state''"
definition FamilyDeviceInfo :: string where "FamilyDeviceInfo = ''device_info''"
definition FamilyEntityInfo :: string where "FamilyEntityInfo = ''entity_info''"
definition FamilyTextInfo :: string where "FamilyTextInfo = ''text_info''"
definition FamilyEntityUnavail :: string where "FamilyEntityUnavail = ''entity_unavailable''"
definition FamilyEntityUpdatedTS :: string where "FamilyEntityUpdatedTS = ''entity_updated_timestamp_seconds''"
definition FamilyComponentError :: string where "FamilyComponentError = ''component_error''"
definition FamilyUpdateAvailable :: string where "FamilyUpdateAvailable = ''update_available''"
definition FamilyRestartRequired :: string where "FamilyRestartRequired = ''restart_required''"
definition FamilyAuthRequired :: string where "FamilyAuthRequired = ''auth_required''"
definition FamilyCloudConnected :: string where "FamilyCloudConnected = ''cloud_connected''"
definition FamilyMQTTConnected :: string where "FamilyMQTTConnected = ''mqtt_connected''"
definition FamilyWiFiConnected :: string where "FamilyWiFiConnected = ''wifi_connected''"
definition FamilyRAMBytes :: string where "FamilyRAMBytes = ''ram_bytes''"
definition FamilyFSBytes :: string where "FamilyFSBytes = ''fs_bytes''"
definition FamilyWebsocketConn :: string where "FamilyWebsocketConn = ''websocket_connected''"
definition FamilyEthernetUp :: string where "FamilyEthernetUp = ''ethernet_up''"
definition FamilyExternalPower :: string where "FamilyExternalPower = ''external_power_present''"
definition FamilySmokeAlarm :: string where "FamilySmokeAlarm = ''smoke_alarm''"
definition FamilySmokeMuted :: string where "FamilySmokeMuted = ''smoke_muted''"

definition trimRatio :: "string \<Rightarrow> string" where
  "trimRatio s = (if length ''_ratio'' < length s \<and> drop (length s - length ''_ratio'') s = ''_ratio''
     then take (length s - length ''_ratio'') s else s)"

definition helpForUnitFamily :: "string \<Rightarrow> string" where
  "helpForUnitFamily f =
     (if f = UnknownFamily
      then ''A reading whose unit the exporter does not recognise; see the unit label.''
      else ''Device reading, in the unit named by this metric.'')"

definition curated_families :: "Family list" where
  "curated_families = [
   family FamilyPower ''Instantaneous active power.'' False [] ''power'',
   family FamilyApparentPower ''Instantaneous apparent power.'' False [] ''apparent_power'',
   family FamilyEnergy ''Cumulative active energy.'' True [''direction''] ''energy'',
   family FamilyVoltage ''RMS voltage.'' False [] ''voltage'',
   family FamilyCurrent ''RMS current.'' False [] ''current'',
   family FamilyPowerFactor ''Power factor, from -1 to 1.'' False [] ''power_factor'',
   family FamilyFrequency ''Mains frequency.'' False [] ''frequency'',
   family FamilyTemperature (''Temperature. component='' @ [CHR 34] @ ''switch'' @ [CHR 34] @ '' is the device'' @ [CHR 39] @ ''s internal temperature, not ambient.'') False [] ''temperature'',
   family FamilyHumidity ''Relative humidity, as a ratio from 0 to 1.'' False [] ''humidity'',
   family FamilyBattery ''Battery charge, as a ratio from 0 to 1.'' False [] ''battery'',
   family FamilyIlluminance ''Ambient illuminance.'' False [] ''illuminance'',
   family FamilyUptime ''Time since the device last booted.'' False [] ''duration'',
   family FamilyWiFiRSSI ''WiFi signal strength. Logarithmic; do not average naively.'' False [] ''signal_strength'',
   family FamilySwitchOn ''Whether a switch output is on.'' False [] '''',
   family FamilyInputState ''Whether an input is asserted.'' False [] '''',
   family FamilyInputCounts ''Input pulse count.'' True [''counter''] '''',
   family FamilyCoverPosition ''Cover position, as a ratio from 0 (closed) to 1 (open).'' False [''target''] '''',
   family FamilyLightOn ''Whether a light is on.'' False [] '''',
   family FamilyLightBrightness ''Light brightness, as a ratio from 0 to 1.'' False [] '''',
   family FamilyBinaryState ''Binary sensor state.'' False [] '''',
   family FamilyDeviceInfo ''Device identity and firmware metadata. Always 1.'' False [''mac'', ''model'', ''manufacturer'', ''fw_version'', ''gen'', ''ip'', ''transport'', ''device_name''] '''',
   family FamilyEntityInfo ''Entity metadata. Always 1.'' False [''unit'', ''state_class'', ''entity_category'', ''icon''] '''',
   family FamilyTextInfo ''A string-valued reading, carried as a label. Always 1.'' False [''value''] '''',
   family FamilyEntityUnavail ''Set when an entity has no usable reading.'' False [''reason''] '''',
   family FamilyEntityUpdatedTS (''When this entity's value last changed, in seconds since the epoch.'') False [] '''',
   family FamilyComponentError ''Set while a component reports an error.'' False [''error''] '''',
   family FamilyUpdateAvailable ''Whether a firmware update is available.'' False [''channel''] '''',
   family FamilyRestartRequired ''Whether the device needs a restart to apply its configuration.'' False [] '''',
   family FamilyAuthRequired ''Whether the device has authentication enabled.'' False [] '''',
   family FamilyCloudConnected ''Whether the device is connected to the vendor cloud.'' False [] '''',
   family FamilyMQTTConnected ''Whether the device is connected to its MQTT broker.'' False [] '''',
   family FamilyWiFiConnected ''Whether the device is associated with a WiFi network.'' False [] '''',
   family FamilyRAMBytes ''Device RAM.'' False [''state''] ''data_size'',
   family FamilyFSBytes ''Device filesystem space.'' False [''state''] ''data_size'',
   family FamilyWebsocketConn (''Whether the device'' @ [CHR 39] @ ''s outbound websocket is connected.'') False [] '''',
   family FamilyEthernetUp (''Whether the device'' @ [CHR 39] @ ''s ethernet interface has an address.'') False [] '''',
   family FamilyExternalPower ''Whether external power is present on a battery device.'' False [] '''',
   family FamilySmokeAlarm ''Whether a smoke alarm is sounding.'' False [] '''',
   family FamilySmokeMuted ''Whether a smoke alarm has been muted.'' False [] '''']"

text \<open>
  The three loops that add what the unit tables can name and the curated list lacks.  The code
  keeps the names it has \<^verbatim>\<open>seen\<close> in a set beside the list; the set is always the names of
  the list.
\<close>

definition add_family :: "Family \<Rightarrow> Family list \<Rightarrow> Family list" where
  "add_family f fs = (if fam_Name f \<in> set (map fam_Name fs) then fs else fs @ [f])"

definition unit_family :: "Quantity \<Rightarrow> Family" where
  "unit_family q = family (q_Family q) (helpForUnitFamily (q_Family q)) (q_Counter q)
     (if q_Counter q then [''direction''] else []) ''''"

definition plain_family :: "string \<Rightarrow> Family" where
  "plain_family n = family n (helpForUnitFamily n) False (if n = UnknownFamily then [''unit''] else []) ''''"

definition builtinFamilies :: "Family list" where
  "builtinFamilies =
     (let fs1 = foldl (\<lambda>fs (u, q). add_family (unit_family q) fs) curated_families unitTable;
          fs2 = foldl (\<lambda>fs (c, name). add_family (plain_family (trimRatio name @ ''_percent''))
                  (add_family (plain_family name) fs)) fs1 percentFamilies
      in foldl (\<lambda>fs n. add_family (plain_family n) fs) fs2 [''ratio'', ''percent'', UnknownFamily])"

section \<open>The family registry\<close>

type_synonym families = "string \<Rightarrow> Family option"

datatype RegisterError = Redefined string

definition Register :: "Family \<Rightarrow> families \<Rightarrow> RegisterError + families" where
  "Register f fams =
     (case fams (fam_Name f) of
        Some e \<Rightarrow> if fam_Help e \<noteq> fam_Help f \<or> fam_Counter e \<noteq> fam_Counter f
                  then Inl (Redefined (fam_Name f)) else Inr fams
      | None \<Rightarrow> Inr (fams(fam_Name f \<mapsto> f)))"

text \<open>\<^verbatim>\<open>MustRegister\<close> panics on an error: \<open>None\<close>.\<close>

fun register_all :: "Family list \<Rightarrow> families \<Rightarrow> families option" where
  "register_all [] fams = Some fams"
| "register_all (f # fs) fams = (case Register f fams of Inl _ \<Rightarrow> None | Inr fams' \<Rightarrow> register_all fs fams')"

definition NewMetricsRegistry :: "families option" where
  "NewMetricsRegistry = register_all builtinFamilies Map.empty"

section \<open>Descriptors\<close>

record Desc =
  desc_Name :: string
  desc_Help :: string
  desc_Labels :: "string list"

fun join :: "string \<Rightarrow> string list \<Rightarrow> string" where
  "join sep [] = []"
| "join sep [s] = s"
| "join sep (s # t # ss) = s @ sep @ join sep (t # ss)"

definition desc_key :: "string \<Rightarrow> string list \<Rightarrow> string" where
  "desc_key fqName labels = fqName @ [CHR 0x00] @ join '','' labels"

type_synonym desc_cache = "string \<Rightarrow> Desc option"

definition DescCache_Get :: "string \<Rightarrow> string \<Rightarrow> string list \<Rightarrow> desc_cache \<Rightarrow> Desc \<times> desc_cache" where
  "DescCache_Get fqName help labels m =
     (case m (desc_key fqName labels) of
        Some d \<Rightarrow> (d, m)
      | None \<Rightarrow> (let d = \<lparr>desc_Name = fqName, desc_Help = help, desc_Labels = labels\<rparr>
                in (d, m(desc_key fqName labels \<mapsto> d))))"

section \<open>The emitter\<close>

datatype ValueType = GaugeValue | CounterValue

record Metric =
  m_Desc :: Desc
  m_Type :: ValueType
  m_Value :: float64
  m_Labels :: "string list"

datatype EmitError = Unregistered string | WrongExtra string nat nat

text \<open>
  The parts that the emitters of one probe share: the registry with its descriptor cache, the
  metrics so far and the errors so far.  The labels are those of the emitter used.
\<close>

record Emit =
  em_families :: families
  em_descs :: desc_cache
  em_metrics :: "Metric list"
  em_errs :: "EmitError list"

definition NewEmitter :: "families \<Rightarrow> desc_cache \<Rightarrow> Emit" where
  "NewEmitter fams descs = \<lparr>em_families = fams, em_descs = descs, em_metrics = [], em_errs = []\<rparr>"

definition WithComponent :: "string \<Rightarrow> string \<Rightarrow> string \<Rightarrow> Labels \<Rightarrow> Labels" where
  "WithComponent component i name l = l\<lparr>lb_Component := component, lb_ID := i, lb_Name := name\<rparr>"

definition fail_emit :: "EmitError \<Rightarrow> Emit \<Rightarrow> Emit" where
  "fail_emit err e = e\<lparr>em_errs := em_errs e @ [err]\<rparr>"

definition emit :: "Labels \<Rightarrow> Family \<Rightarrow> ValueType \<Rightarrow> float64 \<Rightarrow> string list \<Rightarrow> Emit \<Rightarrow> Emit" where
  "emit labels f kind v extra e =
     (if length extra \<noteq> length (fam_Extra f)
      then fail_emit (WrongExtra (fam_Name f) (length (fam_Extra f)) (length extra)) e
      else let l = (if lb_DeviceClass labels = [] then labels\<lparr>lb_DeviceClass := fam_DeviceClass f\<rparr> else labels)
      in case DescCache_Get (FQName f) (fam_Help f) (FamilyLabels f) (em_descs e) of (d, m) \<Rightarrow>
        e\<lparr>em_descs := m,
          em_metrics := em_metrics e @ [\<lparr>m_Desc = d, m_Type = kind, m_Value = v, m_Labels = With l extra\<rparr>]\<rparr>)"

definition Value :: "Labels \<Rightarrow> string \<Rightarrow> float64 \<Rightarrow> string list \<Rightarrow> Emit \<Rightarrow> Emit" where
  "Value labels fam v extra e =
     (case em_families e fam of
        None \<Rightarrow> fail_emit (Unregistered fam) e
      | Some f \<Rightarrow> emit labels f (if fam_Counter f then CounterValue else GaugeValue) v extra e)"

definition Bool :: "Labels \<Rightarrow> string \<Rightarrow> bool \<Rightarrow> string list \<Rightarrow> Emit \<Rightarrow> Emit" where
  "Bool labels fam b extra e = Value labels fam (if b then Fin 1 else Fin 0) extra e"

definition Info :: "Labels \<Rightarrow> string \<Rightarrow> string list \<Rightarrow> Emit \<Rightarrow> Emit" where
  "Info labels fam extra e = Value labels fam (Fin 1) extra e"

definition Enum :: "Labels \<Rightarrow> string \<Rightarrow> string \<Rightarrow> string list \<Rightarrow> Emit \<Rightarrow> Emit" where
  "Enum labels fam active alls e = foldl (\<lambda>e v. Bool labels fam (v = active) [v] e) e alls"

end
