(* ===== verification/MetricsProps.thy ===== *)
theory MetricsProps
  imports Metrics
begin

text \<open>
  The properties of the metrics layer: the built-in families register without conflict, every
  unit leads to one of them, the output of a probe is one that Prometheus accepts, and names are
  valid.
\<close>

section \<open>The built-in families\<close>

text \<open>
  Names that cannot meet in the exposition: a declared family does not end like a counter, and only
  families declared at run time for uncurated readings, which are gauges, are named \<open>raw_\<close>.
\<close>

definition name_ok :: "string \<Rightarrow> bool" where
  "name_ok n \<longleftrightarrow> valid_name n \<and> \<not> has_suffix n ''total'' \<and> \<not> has_prefix (n @ ''_total'') ''raw_''"

definition fam_ok :: "Family \<Rightarrow> bool" where
  "fam_ok f \<longleftrightarrow> name_ok (fam_Name f)
     \<or> (valid_name (fam_Name f) \<and> \<not> fam_Counter f \<and> has_prefix (fam_Name f) ''raw_'')"

definition family_names :: "Family list \<Rightarrow> string set" where
  "family_names fs = fam_Name ` set fs"

lemma names_add [simp]: "family_names (add_family f fs) = insert (fam_Name f) (family_names fs)"
  by (auto simp: add_family_def family_names_def)

lemma distinct_add: "distinct (map fam_Name fs) \<Longrightarrow> distinct (map fam_Name (add_family f fs))"
  by (simp add: add_family_def)

lemma names_fold: "family_names (foldl (\<lambda>fs x. add_family (g x) fs) fs xs) = family_names fs \<union> (\<lambda>x. fam_Name (g x)) ` set xs"
  by (induction xs arbitrary: fs) auto

lemma distinct_fold: "distinct (map fam_Name fs) \<Longrightarrow> distinct (map fam_Name (foldl (\<lambda>fs x. add_family (g x) fs) fs xs))"
  by (induction xs arbitrary: fs) (auto simp: distinct_add)

lemma fam_Name_simps [simp]:
  "fam_Name (unit_family q) = q_Family q" "fam_Name (plain_family n) = n"
  by (simp_all add: unit_family_def plain_family_def family_def)

text \<open>The loops of \<^verbatim>\<open>builtinFamilies\<close> as one list of additions.\<close>

definition builtin_additions :: "Family list" where
  "builtin_additions = map (\<lambda>(u, q). unit_family q) unitTable
     @ concat (map (\<lambda>(c, n). [plain_family n, plain_family (trimRatio n @ ''_percent'')]) percentFamilies)
     @ map plain_family [''ratio'', ''percent'', UnknownFamily]"

lemma foldl_pairs:
  "foldl (\<lambda>fs (c, n). add_family (b n) (add_family (a n) fs)) fs xs
     = foldl (\<lambda>fs x. add_family x fs) fs (concat (map (\<lambda>(c, n). [a n, b n]) xs))"
  by (induction xs arbitrary: fs) auto

lemma foldl_map_add: "foldl (\<lambda>fs x. add_family (g x) fs) fs xs = foldl (\<lambda>fs x. add_family x fs) fs (map g xs)"
  by (induction xs arbitrary: fs) auto

lemma foldl_units:
  "foldl (\<lambda>fs (u, q). add_family (unit_family q) fs) fs xs
     = foldl (\<lambda>fs x. add_family x fs) fs (map (\<lambda>(u, q). unit_family q) xs)"
  by (induction xs arbitrary: fs) auto

lemma builtin_fold: "builtinFamilies = foldl (\<lambda>fs x. add_family x fs) curated_families builtin_additions"
  unfolding builtinFamilies_def builtin_additions_def Let_def foldl_pairs foldl_append foldl_units
  by simp

lemmas family_name_defs =
  FamilyPower_def FamilyApparentPower_def FamilyEnergy_def FamilyVoltage_def
  FamilyCurrent_def FamilyPowerFactor_def FamilyFrequency_def FamilyTemperature_def
  FamilyHumidity_def FamilyBattery_def FamilyIlluminance_def FamilyUptime_def
  FamilyWiFiRSSI_def FamilySwitchOn_def FamilyInputState_def FamilyInputCounts_def
  FamilyCoverPosition_def FamilyLightOn_def FamilyLightBrightness_def FamilyBinaryState_def
  FamilyDeviceInfo_def FamilyEntityInfo_def FamilyTextInfo_def FamilyEntityUnavail_def
  FamilyEntityUpdatedTS_def FamilyComponentError_def FamilyUpdateAvailable_def FamilyRestartRequired_def
  FamilyAuthRequired_def FamilyCloudConnected_def FamilyMQTTConnected_def FamilyWiFiConnected_def
  FamilyRAMBytes_def FamilyFSBytes_def FamilyWebsocketConn_def FamilyEthernetUp_def
  FamilyExternalPower_def FamilySmokeAlarm_def FamilySmokeMuted_def

lemma unit_names:
  "map (\<lambda>(u, q). q_Family q) unitTable = [
    ''temperature_celsius'', ''temperature_celsius'', ''temperature_celsius'',
    ''temperature_celsius'', ''power_watts'', ''power_watts'',
    ''power_watts'', ''apparent_power_voltamperes'', ''reactive_power_voltamperes_reactive'',
    ''energy_joules'', ''energy_joules'', ''energy_joules'',
    ''energy_joules'', ''energy_joules'', ''voltage_volts'',
    ''voltage_volts'', ''voltage_volts'', ''current_amperes'',
    ''current_amperes'', ''resistance_ohms'', ''resistance_ohms'',
    ''resistance_ohms'', ''resistance_ohms'', ''resistance_ohms'',
    ''voltage_volts'', ''voltage_volts'', ''current_amperes'',
    ''current_amperes'', ''power_watts'', ''power_watts'',
    ''duration_seconds'', ''duration_seconds'', ''bytes'',
    ''temperature_celsius'', ''pressure_pascals'', ''pressure_pascals'',
    ''pressure_pascals'', ''pressure_pascals'', ''pressure_pascals'',
    ''pressure_pascals'', ''pressure_pascals'', ''duration_seconds'',
    ''duration_seconds'', ''duration_seconds'', ''duration_seconds'',
    ''duration_seconds'', ''duration_seconds'', ''duration_seconds'',
    ''signal_dbm'', ''signal_dbm'', ''bytes'',
    ''bytes'', ''bytes'', ''bytes'',
    ''bytes'', ''bytes'', ''bytes'',
    ''distance_meters'', ''distance_meters'', ''distance_meters'',
    ''distance_meters'', ''distance_meters'', ''distance_meters'',
    ''volume_liters'', ''volume_liters'', ''volume_liters'',
    ''volume_liters'', ''flow_liters_per_minute'', ''flow_liters_per_minute'',
    ''flow_liters_per_minute'', ''illuminance_lux'', ''illuminance_lux'',
    ''frequency_hertz'', ''frequency_hertz'', ''frequency_hertz'',
    ''rotation_rpm'', ''angle_degrees'', ''angle_degrees'',
    ''speed_meters_per_second'', ''speed_meters_per_second'', ''speed_meters_per_second'',
    ''concentration_micrograms_per_cubic_meter'', ''concentration_micrograms_per_cubic_meter'', ''conductivity_microsiemens_per_centimeter'',
    ''acidity_ph'', ''concentration_ppm'', ''concentration_ppb'']"
  by (simp add: unitTable_def quantity_def)

lemma unit_names_ok: "list_all name_ok (map (\<lambda>(u, q). q_Family q) unitTable)"
proof -
  have "list_all name_ok [
      ''temperature_celsius'', ''power_watts'', ''apparent_power_voltamperes'',
      ''reactive_power_voltamperes_reactive'', ''energy_joules'', ''voltage_volts'',
      ''current_amperes'', ''resistance_ohms'', ''duration_seconds'',
      ''bytes'', ''pressure_pascals'', ''signal_dbm'',
      ''distance_meters'', ''volume_liters'', ''flow_liters_per_minute'',
      ''illuminance_lux'', ''frequency_hertz'', ''rotation_rpm'',
      ''angle_degrees'', ''speed_meters_per_second'', ''concentration_micrograms_per_cubic_meter'',
      ''conductivity_microsiemens_per_centimeter'', ''acidity_ph'', ''concentration_ppm'',
      ''concentration_ppb'']"
    by code_simp
  then show ?thesis unfolding unit_names by simp
qed

lemma percent_names_ok:
  "list_all (\<lambda>(c, n). name_ok n \<and> name_ok (trimRatio n @ ''_percent'')) percentFamilies"
  by code_simp

lemma curated_names_ok: "list_all (\<lambda>f. name_ok (fam_Name f)) curated_families"
  by code_simp

lemma curated_distinct: "distinct (map fam_Name curated_families)"
  by code_simp

lemma additions_names_ok: "list_all (\<lambda>f. name_ok (fam_Name f)) builtin_additions"
proof -
  have "list_all (\<lambda>(u, q). name_ok (q_Family q)) unitTable"
    using unit_names_ok by (simp add: list_all_iff case_prod_beta)
  moreover have "name_ok ''ratio''" "name_ok ''percent''" "name_ok UnknownFamily" by code_simp+
  ultimately show ?thesis
    using percent_names_ok by (auto simp: builtin_additions_def list_all_iff)
qed

lemma builtin_names_ok: "f \<in> set builtinFamilies \<Longrightarrow> name_ok (fam_Name f)"
proof -
  have "list_all (\<lambda>f. name_ok (fam_Name f)) (foldl (\<lambda>fs x. add_family x fs) fs xs)"
    if "list_all (\<lambda>f. name_ok (fam_Name f)) fs" "list_all (\<lambda>f. name_ok (fam_Name f)) xs" for fs xs
    using that by (induction xs arbitrary: fs) (auto simp: add_family_def)
  from this [OF curated_names_ok additions_names_ok]
  show "f \<in> set builtinFamilies \<Longrightarrow> name_ok (fam_Name f)"
    by (simp add: builtin_fold list_all_iff)
qed

lemma builtin_distinct: "distinct (map fam_Name builtinFamilies)"
  unfolding builtin_fold using distinct_fold [of curated_families "\<lambda>x. x"] curated_distinct by simp

lemma builtin_names: "family_names builtinFamilies = family_names curated_families \<union> family_names builtin_additions"
  unfolding builtin_fold using names_fold [of "\<lambda>x. x"] by (simp add: family_names_def)

section \<open>Registration\<close>

definition families_ok :: "families \<Rightarrow> bool" where
  "families_ok fams \<longleftrightarrow> (\<forall>n f. fams n = Some f \<longrightarrow> fam_Name f = n \<and> fam_ok f)"

lemma Register_ok:
  "families_ok fams \<Longrightarrow> fam_ok f \<Longrightarrow> Register f fams = Inr fams' \<Longrightarrow> families_ok fams'"
  by (auto simp: families_ok_def Register_def split: option.splits if_splits)

lemma register_all_distinct:
  "distinct (map fam_Name fs) \<Longrightarrow> (\<And>f. f \<in> set fs \<Longrightarrow> fams (fam_Name f) = None) \<Longrightarrow>
     register_all fs fams = Some (fams ++ map_of (map (\<lambda>f. (fam_Name f, f)) fs))"
proof (induction fs arbitrary: fams)
  case (Cons f fs)
  have "register_all fs (fams(fam_Name f \<mapsto> f))
      = Some (fams(fam_Name f \<mapsto> f) ++ map_of (map (\<lambda>f. (fam_Name f, f)) fs))"
    using Cons.prems by (intro Cons.IH) (auto simp: image_iff)
  moreover have "fam_Name f \<notin> dom (map_of (map (\<lambda>f. (fam_Name f, f)) fs))"
    using Cons.prems(1) by (auto simp: dom_map_of_conv_image_fst image_iff)
  then have "fams(fam_Name f \<mapsto> f) ++ map_of (map (\<lambda>f. (fam_Name f, f)) fs)
      = (fams ++ map_of (map (\<lambda>f. (fam_Name f, f)) fs))(fam_Name f \<mapsto> f)"
    by (rule map_add_upd_left)
  ultimately have "register_all fs (fams(fam_Name f \<mapsto> f))
      = Some ((fams ++ map_of (map (\<lambda>f. (fam_Name f, f)) fs))(fam_Name f \<mapsto> f))"
    by simp
  then show ?case using Cons.prems(2) [of f] by (simp add: Register_def) (simp flip: fun_upd_def add: map_add_upd)
qed simp

definition builtin_map :: families where
  "builtin_map = map_of (map (\<lambda>f. (fam_Name f, f)) builtinFamilies)"

lemma NewMetricsRegistry_eq: "NewMetricsRegistry = Some builtin_map"
  using register_all_distinct [OF builtin_distinct, of Map.empty]
  by (simp add: NewMetricsRegistry_def builtin_map_def)

lemma builtin_map_Some: "builtin_map n = Some f \<Longrightarrow> f \<in> set builtinFamilies \<and> fam_Name f = n"
  by (auto simp: builtin_map_def dest!: map_of_SomeD)

lemma builtin_map_ok: "families_ok builtin_map"
  using builtin_map_Some builtin_names_ok by (fastforce simp: families_ok_def fam_ok_def)

lemma builtin_map_None: "builtin_map n = None \<longleftrightarrow> n \<notin> family_names builtinFamilies"
  by (auto simp: builtin_map_def family_names_def map_of_eq_None_iff image_iff)

section \<open>What a probe emits\<close>

definition desc_of :: "Family \<Rightarrow> Desc" where
  "desc_of f = \<lparr>desc_Name = FQName f, desc_Help = fam_Help f, desc_Labels = FamilyLabels f\<rparr>"

lemma valid_name_no_nul: "valid_name n \<Longrightarrow> CHR 0x00 \<notin> set n"
proof -
  have "\<not> name_char (CHR 0x00)" by code_simp
  then show "valid_name n \<Longrightarrow> CHR 0x00 \<notin> set n" by (auto simp: valid_name_def list_all_iff)
qed

lemma FQName_eq: "FQName f = (if fam_Counter f \<and> \<not> has_suffix (Namespace @ ''_'' @ fam_Name f) ''_total''
    then Namespace @ ''_'' @ fam_Name f @ ''_total'' else Namespace @ ''_'' @ fam_Name f)"
  by (simp add: FQName_def MetricName_def Let_def)

lemma latot_prefix:
  "xs @ CHR ''_'' # ys = ''latot'' @ zs \<Longrightarrow> \<exists>us. xs = ''latot'' @ us"
  by (auto simp: append_eq_Cons_conv)

lemma name_ok_no_total: "name_ok n \<Longrightarrow> \<not> has_suffix (Namespace @ ''_'' @ n) ''_total''"
proof
  assume n: "name_ok n" and "has_suffix (Namespace @ ''_'' @ n) ''_total''"
  then obtain r where "Namespace @ ''_'' @ n = r @ ''_total''" by (auto simp: has_suffix_iff)
  then have "rev (Namespace @ ''_'' @ n) = rev (r @ ''_total'')" by simp
  then have "rev n @ CHR ''_'' # rev Namespace = ''latot'' @ CHR ''_'' # rev r" by simp
  then obtain us where "rev n = ''latot'' @ us" using latot_prefix by blast
  then have "n = rev us @ ''total''" by (metis (no_types, lifting) append.simps rev.simps rev_append rev_rev_ident append_assoc)
  then show False using n by (simp add: name_ok_def has_suffix_iff)
qed

lemma FQName_ok: "fam_ok f \<Longrightarrow>
    FQName f = Namespace @ ''_'' @ fam_Name f @ (if fam_Counter f then ''_total'' else [])"
  using name_ok_no_total [of "fam_Name f"] by (auto simp: FQName_eq fam_ok_def)

lemma fam_ok_not_total:
  assumes "fam_ok f" "fam_ok g" "fam_Counter f"
  shows "fam_Name g \<noteq> fam_Name f @ ''_total''"
proof
  assume g: "fam_Name g = fam_Name f @ ''_total''"
  then have "has_suffix (fam_Name g) ''total''"
    by (auto simp: has_suffix_iff intro: exI [of _ "fam_Name f @ ''_''"])
  then have "has_prefix (fam_Name f @ ''_total'') ''raw_''"
    using assms(2) g by (simp add: fam_ok_def name_ok_def)
  then show False using assms(1,3) by (auto simp: fam_ok_def name_ok_def)
qed

lemma FQName_inj:
  assumes "fam_ok f" "fam_ok g" "FQName f = FQName g"
  shows "fam_Name f = fam_Name g"
  using assms fam_ok_not_total [OF assms(1,2)] fam_ok_not_total [OF assms(2,1)]
  by (auto simp: FQName_ok split: if_splits)

lemma FQName_no_nul: "fam_ok f \<Longrightarrow> CHR 0x00 \<notin> set (FQName f)"
  using valid_name_no_nul [of "fam_Name f"] by (auto simp: FQName_ok fam_ok_def name_ok_def Namespace_def)

lemma desc_key_FQName:
  assumes "desc_key a ls = desc_key b ms" "CHR 0x00 \<notin> set a" "CHR 0x00 \<notin> set b"
  shows "a = b"
proof -
  have "takeWhile (\<lambda>c. c \<noteq> CHR 0x00) (desc_key s ls) = s" if "CHR 0x00 \<notin> set s" for s ls
    using that by (induction s) (auto simp: desc_key_def)
  then show ?thesis using assms by metis
qed

text \<open>
  The state of an emission: every descriptor in the cache and in the output is that of a
  registered family, with its type and with as many label values as it has label names.
\<close>

definition emit_inv :: "Emit \<Rightarrow> bool" where
  "emit_inv e \<longleftrightarrow> families_ok (em_families e)
     \<and> (\<forall>k d. em_descs e k = Some d \<longrightarrow>
          (\<exists>n f. em_families e n = Some f \<and> d = desc_of f \<and> k = desc_key (FQName f) (FamilyLabels f)))
     \<and> (\<forall>m \<in> set (em_metrics e). \<exists>n f. em_families e n = Some f \<and> m_Desc m = desc_of f
          \<and> m_Type m = (if fam_Counter f then CounterValue else GaugeValue)
          \<and> length (m_Labels m) = length (desc_Labels (m_Desc m)))"

lemma DescCache_Get_fst:
  assumes "emit_inv e" "em_families e n = Some f"
  shows "fst (DescCache_Get (FQName f) (fam_Help f) (FamilyLabels f) (em_descs e)) = desc_of f"
proof (cases "em_descs e (desc_key (FQName f) (FamilyLabels f))")
  case (Some d)
  then obtain m g where g: "em_families e m = Some g" "d = desc_of g"
    "desc_key (FQName f) (FamilyLabels f) = desc_key (FQName g) (FamilyLabels g)"
    using assms(1) unfolding emit_inv_def by blast
  have ok: "fam_ok f" "fam_ok g" "fam_Name f = n" "fam_Name g = m"
    using assms g(1) unfolding emit_inv_def families_ok_def by blast+
  have "FQName f = FQName g" using desc_key_FQName [OF g(3)] FQName_no_nul ok by blast
  then have "fam_Name f = fam_Name g" using FQName_inj ok by blast
  then have "f = g" using ok assms(2) g(1) by simp
  then show ?thesis using Some g by (simp add: DescCache_Get_def)
qed (simp add: DescCache_Get_def Let_def desc_of_def)

lemma length_labels: "length (With l extra) = 8 + length extra" "length (FamilyLabels f) = 8 + length (fam_Extra f)"
  by (simp_all add: With_def label_values_def FamilyLabels_def withLabels_def BaseLabels_def)

lemma Value_cases:
  obtains (metric) f m where "em_families e fam = Some f" "length extra = length (fam_Extra f)"
      "em_metrics (Value labels fam v extra e) = em_metrics e @ [m]" "em_errs (Value labels fam v extra e) = em_errs e"
      "m_Desc m = fst (DescCache_Get (FQName f) (fam_Help f) (FamilyLabels f) (em_descs e))"
      "m_Type m = (if fam_Counter f then CounterValue else GaugeValue)" "m_Value m = v"
      "length (m_Labels m) = 8 + length (fam_Extra f)" "\<exists>l. m_Labels m = With l extra"
      "em_descs (Value labels fam v extra e) = snd (DescCache_Get (FQName f) (fam_Help f) (FamilyLabels f) (em_descs e))"
  | (err) x where "em_metrics (Value labels fam v extra e) = em_metrics e"
      "em_errs (Value labels fam v extra e) = em_errs e @ [x]" "em_descs (Value labels fam v extra e) = em_descs e"
      "em_families e fam = None \<or> (\<exists>f. em_families e fam = Some f \<and> length extra \<noteq> length (fam_Extra f))"
proof (cases "em_families e fam")
  case None
  then show ?thesis by (intro err) (simp_all add: Value_def fail_emit_def)
next
  case (Some f)
  show ?thesis
  proof (cases "length extra = length (fam_Extra f)")
    case False
    then show ?thesis by (intro err) (simp_all add: Value_def emit_def fail_emit_def Some)
  next
    case True
    let ?l = "if lb_DeviceClass labels = [] then labels\<lparr>lb_DeviceClass := fam_DeviceClass f\<rparr> else labels"
    let ?g = "DescCache_Get (FQName f) (fam_Help f) (FamilyLabels f) (em_descs e)"
    show ?thesis
      by (rule metric [OF Some True, of "\<lparr>m_Desc = fst ?g, m_Type = (if fam_Counter f then CounterValue else GaugeValue),
            m_Value = v, m_Labels = With ?l extra\<rparr>"])
         (use True in \<open>auto simp: Value_def emit_def Some Let_def case_prod_beta length_labels\<close>)
  qed
qed

lemma Value_families [simp]: "em_families (Value labels fam v extra e) = em_families e"
  by (simp add: Value_def emit_def fail_emit_def Let_def split: option.split prod.split)

lemma Value_inv:
  assumes "emit_inv e"
  shows "emit_inv (Value labels fam v extra e)"
proof (cases rule: Value_cases [of e fam extra labels v])
  case (metric f m)
  have d: "m_Desc m = desc_of f" using DescCache_Get_fst [OF assms metric(1)] metric(5) by simp
  have "snd (DescCache_Get (FQName f) (fam_Help f) (FamilyLabels f) c)
      = (if c (desc_key (FQName f) (FamilyLabels f)) = None then c(desc_key (FQName f) (FamilyLabels f) \<mapsto> desc_of f) else c)" for c
    by (simp add: DescCache_Get_def Let_def desc_of_def split: option.split)
  then have c: "em_descs (Value labels fam v extra e) k = Some x \<Longrightarrow>
      em_descs e k = Some x \<or> (k = desc_key (FQName f) (FamilyLabels f) \<and> x = desc_of f)" for k x
    by (auto simp: metric(10) split: if_splits)
  have "length (m_Labels m) = length (desc_Labels (m_Desc m))"
    using metric(8) by (simp add: d desc_of_def length_labels)
  then show ?thesis
    using assms metric(1,3,6) d c unfolding emit_inv_def by fastforce
next
  case (err x)
  then show ?thesis using assms by (simp add: emit_inv_def)
qed

lemma Bool_inv: "emit_inv e \<Longrightarrow> emit_inv (Bool l fam b extra e)"
  by (simp add: Bool_def Value_inv)

lemma Enum_inv: "emit_inv e \<Longrightarrow> emit_inv (Enum l fam active alls e)"
  unfolding Enum_def by (induction alls arbitrary: e) (auto intro: Bool_inv)

end
