(* ===== verification/MetricsClaims.thy ===== *)
theory MetricsClaims
  imports MetricsProps
begin

text \<open>The properties of the metrics layer, with their witnesses.\<close>

definition emit_all :: "(Labels \<times> string \<times> float64 \<times> string list) list \<Rightarrow> Emit \<Rightarrow> Emit" where
  "emit_all calls e = foldl (\<lambda>e (l, fam, v, extra). Value l fam v extra e) e calls"

lemma emit_all_inv: "emit_inv e \<Longrightarrow> emit_inv (emit_all calls e)"
  unfolding emit_all_def by (induction calls arbitrary: e) (auto intro: Value_inv)

lemma Value_count:
  "length (em_metrics (Value l fam v extra e)) + length (em_errs (Value l fam v extra e))
     = Suc (length (em_metrics e) + length (em_errs e))"
  by (cases rule: Value_cases [of e fam extra l v]) simp_all

lemma emit_all_count:
  "length (em_metrics (emit_all calls e)) + length (em_errs (emit_all calls e))
     = length calls + (length (em_metrics e) + length (em_errs e))"
  unfolding emit_all_def by (induction calls arbitrary: e) (auto simp: Value_count)

lemma emit_all_families [simp]: "em_families (emit_all calls e) = em_families e"
  unfolding emit_all_def by (induction calls arbitrary: e) auto

lemma NewEmitter_inv: "families_ok fams \<Longrightarrow> emit_inv (NewEmitter fams Map.empty)"
  by (simp add: emit_inv_def NewEmitter_def)


definition ex_labels :: Labels where
  "ex_labels = \<lparr>lb_Device = ''mac:a8032ab1c2d3'', lb_Kind = ''shelly'', lb_Component = ''switch'', lb_ID = ''0'',
     lb_Name = ''Kettle'', lb_DeviceClass = [], lb_Phase = [], lb_Area = []\<rparr>"

lemma fold_add_mono: "set fs \<subseteq> set (foldl (\<lambda>fs x. add_family x fs) fs xs)"
  by (induction xs arbitrary: fs) (fastforce simp: add_family_def)+

lemma builtin_curated: "f \<in> set curated_families \<Longrightarrow> builtin_map (fam_Name f) = Some f"
proof -
  assume "f \<in> set curated_families"
  then have "f \<in> set builtinFamilies" unfolding builtin_fold using fold_add_mono by blast
  then show ?thesis
    unfolding builtin_map_def by (intro map_of_is_SomeI) (auto simp: builtin_distinct comp_def)
qed

text \<open>The families that emit a reading without further labels, and those with one more.\<close>

lemma builtin_power: "\<exists>f. builtin_map FamilyPower = Some f \<and> fam_Extra f = []"
proof -
  have "list_ex (\<lambda>f. fam_Name f = FamilyPower \<and> fam_Extra f = []) curated_families"
    by (simp add: curated_families_def family_def)
  then show ?thesis unfolding list_ex_iff using builtin_curated by metis
qed

lemma builtin_input_counts: "\<exists>f. builtin_map FamilyEntityUnavail = Some f \<and> length (fam_Extra f) = 1"
proof -
  have "list_ex (\<lambda>f. fam_Name f = FamilyEntityUnavail \<and> length (fam_Extra f) = 1) curated_families"
    by (simp add: curated_families_def family_def)
  then show ?thesis unfolding list_ex_iff using builtin_curated by metis
qed

lemma Value_good:
  assumes "em_families e fam = Some f" "length extra = length (fam_Extra f)"
  shows "\<exists>m. em_metrics (Value l fam v extra e) = em_metrics e @ [m] \<and> em_errs (Value l fam v extra e) = em_errs e
    \<and> m_Value m = v \<and> (\<exists>l'. m_Labels m = With l' extra)"
  by (cases rule: Value_cases [of e fam extra l v]) (use assms in auto)


text \<open>An enumeration is complete and unambiguous: every possible value is emitted once, in
  order, the active one at 1 and every other at 0.\<close>

theorem enum_marks_exactly_the_active:
  assumes "em_families e fam = Some f" "length (fam_Extra f) = 1"
  shows "\<exists>ms. em_metrics (Enum l fam active alls e) = em_metrics e @ ms
    \<and> em_errs (Enum l fam active alls e) = em_errs e
    \<and> map (\<lambda>m. last (m_Labels m)) ms = alls
    \<and> map m_Value ms = map (\<lambda>v. if v = active then Fin 1 else Fin 0) alls"
  using assms(1)
proof (induction alls arbitrary: e)
  case Nil
  then show ?case by (simp add: Enum_def)
next
  case (Cons v alls)
  let ?e' = "Bool l fam (v = active) [v] e"
  obtain m where m: "em_metrics ?e' = em_metrics e @ [m]" "em_errs ?e' = em_errs e"
    "m_Value m = (if v = active then Fin 1 else Fin 0)" "last (m_Labels m) = v"
    using Value_good [OF Cons.prems, of "[v]" l "if v = active then Fin 1 else Fin 0"] assms(2)
    by (auto simp: Bool_def With_def)
  then have "em_families ?e' fam = Some f" using Cons.prems by (simp add: Bool_def)
  then obtain ms where "em_metrics (Enum l fam active alls ?e') = em_metrics ?e' @ ms"
    "em_errs (Enum l fam active alls ?e') = em_errs ?e'" "map (\<lambda>m. last (m_Labels m)) ms = alls"
    "map m_Value ms = map (\<lambda>v. if v = active then Fin 1 else Fin 0) alls"
    using Cons.IH by blast
  then show ?case using m by (intro exI [of _ "m # ms"]) (simp add: Enum_def)
qed

theorem enum_marks_exactly_the_active_witness:
  "\<exists>ms. em_metrics (Enum ex_labels FamilyEntityUnavail ''b'' [''a'', ''b''] (NewEmitter builtin_map Map.empty)) = ms
     \<and> map m_Value ms = [Fin 0, Fin 1]"
proof -
  obtain f where f: "builtin_map FamilyEntityUnavail = Some f" "length (fam_Extra f) = 1"
    using builtin_input_counts by blast
  then have "em_families (NewEmitter builtin_map Map.empty) FamilyEntityUnavail = Some f" by (simp add: NewEmitter_def)
  from enum_marks_exactly_the_active [OF this f(2), of ex_labels "''b''" "[''a'', ''b'']"] show ?thesis
    by (auto simp: NewEmitter_def)
qed

lemma additions_names:
  "family_names builtin_additions = (\<lambda>x. q_Family (snd x)) ` set unitTable
      \<union> (\<Union>x \<in> set percentFamilies. {snd x, trimRatio (snd x) @ ''_percent''})
      \<union> {''ratio'', ''percent'', UnknownFamily}"
  unfolding builtin_additions_def family_names_def
  by (simp add: case_prod_beta image_Un image_image image_UN)

lemma every_unit_registered:
  "\<exists>f. builtin_map (q_Family (ResolveUnit unit cls True)) = Some f"
proof -
  let ?n = "q_Family (ResolveUnit unit cls True)"
  have pct: "map_of percentFamilies c = Some n \<Longrightarrow> n \<in> snd ` set percentFamilies" for c n
    by (metis map_of_SomeD image_eqI snd_conv)
  have tab: "map_of unitTable u = Some q \<Longrightarrow> q_Family q \<in> (\<lambda>x. q_Family (snd x)) ` set unitTable" for u q
    by (metis map_of_SomeD image_eqI snd_conv)
  have "?n \<in> family_names builtin_additions"
    unfolding additions_names ResolveUnit_def Let_def
    using pct [of "to_lower cls"] tab [of "to_lower (trim_space unit)"]
    by (auto simp: quantity_def split: option.split)
  then have "builtin_map ?n \<noteq> None" by (simp add: builtin_map_None builtin_names)
  then show ?thesis by auto
qed

text \<open>With percentages stored as ratios, every unit and device class a device can report leads
  to a family that is registered at startup, so no sensor reading is lost for want of a family.\<close>

theorem every_unit_has_a_family:
  "\<exists>fams f. NewMetricsRegistry = Some fams \<and> fams (q_Family (ResolveUnit unit cls True)) = Some f"
  using every_unit_registered by (auto simp: NewMetricsRegistry_eq)

lemma ratio_percent_missing: "''ratio_percent'' \<notin> family_names builtinFamilies"
proof -
  have "''ratio_percent'' \<notin> family_names curated_families"
    by (simp add: family_names_def curated_families_def family_def)
       (simp add: family_name_defs)
  moreover have "''ratio_percent'' \<notin> set (map (\<lambda>(u, q). q_Family q) unitTable)"
    unfolding unit_names by simp
  moreover have "list_all (\<lambda>(c, n). n \<noteq> ''ratio_percent'' \<and> trimRatio n @ ''_percent'' \<noteq> ''ratio_percent'') percentFamilies"
    by code_simp
  ultimately show ?thesis
    unfolding builtin_names additions_names
    by (auto simp: UnknownFamily_def list_all_iff case_prod_beta)
qed

text \<open>With percentages kept as percentages, a percentage without a known device class has no
  family: \<^verbatim>\<open>ResolveUnit\<close> names it \<^verbatim>\<open>ratio_percent\<close>, while the built-in family is
  \<^verbatim>\<open>percent\<close>, so the reading is dropped with an emission error.\<close>

theorem percent_without_class_is_dropped:
  "\<exists>fams. NewMetricsRegistry = Some fams
    \<and> em_metrics (Value l (q_Family (ResolveUnit ''%'' [] False)) v [] (NewEmitter fams Map.empty)) = []
    \<and> em_errs (Value l (q_Family (ResolveUnit ''%'' [] False)) v [] (NewEmitter fams Map.empty))
        = [Unregistered ''ratio_percent'']"
proof -
  have "q_Family (ResolveUnit ''%'' [] False) = ''ratio_percent''" by code_simp
  moreover have "builtin_map ''ratio_percent'' = None" by (simp add: builtin_map_None ratio_percent_missing)
  ultimately show ?thesis
    by (simp add: NewMetricsRegistry_eq Value_def fail_emit_def NewEmitter_def)
qed

text \<open>Whatever a device calls a reading, the name made of it is a valid metric name fragment: not
  empty, only lower-case letters, digits and underscores, and no digit first.\<close>

theorem sanitised_name_is_valid: "valid_name (SanitizeName s)"
  by (rule SanitizeName_valid)

text \<open>Declaring a family is idempotent and never changes one already declared: the first
  definition stays, an identical one is accepted again, and a conflicting one is an error that
  leaves the registry as it was.\<close>

theorem registration_is_stable:
  assumes "Register f fams = Inr fams'"
  shows "Register f fams' = Inr fams' \<and> (\<forall>n g. fams n = Some g \<longrightarrow> fams' n = Some g)
    \<and> (\<exists>g. fams' (fam_Name f) = Some g \<and> fam_Help g = fam_Help f \<and> fam_Counter g = fam_Counter f)"
  using assms by (auto simp: Register_def split: option.splits if_splits)

theorem registration_is_stable_witness:
  "\<exists>fams'. Register (plain_family ''ratio'') Map.empty = Inr fams' \<and> Register (plain_family ''ratio'') fams' = Inr fams'"
proof -
  have "Register (plain_family ''ratio'') Map.empty = Inr [''ratio'' \<mapsto> plain_family ''ratio'']"
    by (simp add: Register_def)
  from registration_is_stable [OF this] this show ?thesis by blast
qed

end
