(* ===== verification/ESPHomeCache.thy ===== *)
theory ESPHomeCache
  imports Naming Netip
begin

text \<open>
  \<^verbatim>\<open>internal/esphome/cache.go\<close> and \<^verbatim>\<open>entities.go\<close>: the state an ESPHome
  connection keeps of its device, and the conversion of the native API's messages into it.  The
  messages are the generated protobuf types of the client library; what the code reads of them are
  the arguments of the constructors here.
\<close>

section \<open>Records\<close>

type_synonym key = "32 word"

record entityRecord =
  en_Key :: key
  en_Domain :: string
  en_ObjectID :: string
  en_Name :: string
  en_Unit :: string
  en_DeviceClass :: string
  en_StateClass :: int
  en_Category :: int
  en_Icon :: string
  en_Options :: "string list"
  en_Modes :: "string list"
  en_Disabled :: bool

record stateRecord =
  sr_Value :: float64
  sr_Text :: string
  sr_IsText :: bool
  sr_Missing :: bool
  sr_UpdatedAt :: time

text \<open>What the code reads of a device's DeviceInfo answer.  A nil answer reads as empty strings.\<close>

record DeviceInfo =
  di_MacAddress :: string
  di_Model :: string
  di_Manufacturer :: string
  di_EsphomeVersion :: string
  di_FriendlyName :: string
  di_CompilationTime :: string
  di_ProjectName :: string
  di_ProjectVersion :: string

definition nil_info :: DeviceInfo where
  "nil_info = \<lparr>di_MacAddress = [], di_Model = [], di_Manufacturer = [], di_EsphomeVersion = [],
     di_FriendlyName = [], di_CompilationTime = [], di_ProjectName = [], di_ProjectVersion = []\<rparr>"

record deviceCache =
  dc_connected :: bool
  dc_connectedSince :: time
  dc_lastMessageAt :: time
  dc_pingSeconds :: real
  dc_info :: DeviceInfo
  dc_transport :: string
  dc_entities :: "(key \<times> entityRecord) list"
  dc_states :: "key \<Rightarrow> stateRecord option"
  dc_generation :: nat
  dc_truncated :: bool
  dc_orphans :: "(key \<times> stateRecord) list"
  dc_maxOrphans :: int
  dc_connectAttempts :: nat
  dc_connectFailures :: "(string \<times> nat) list"
  dc_stateUpdates :: nat
  dc_lastError :: string

record cacheSnapshot =
  cs_Connected :: bool
  cs_ConnectedSince :: time
  cs_LastMessageAt :: time
  cs_PingSeconds :: real
  cs_Info :: DeviceInfo
  cs_Transport :: string
  cs_Addr :: netip_addr
  cs_Entities :: "(key \<times> entityRecord) list"
  cs_States :: "key \<Rightarrow> stateRecord option"
  cs_EntityGeneration :: nat
  cs_ConnectAttempts :: nat
  cs_ConnectFailures :: "(string \<times> nat) list"
  cs_StateUpdates :: nat
  cs_Truncated :: bool
  cs_LastError :: string

definition newDeviceCache :: "int \<Rightarrow> deviceCache" where
  "newDeviceCache maxOrphans = \<lparr>dc_connected = False, dc_connectedSince = zero_time,
     dc_lastMessageAt = zero_time, dc_pingSeconds = 0, dc_info = nil_info, dc_transport = [],
     dc_entities = [], dc_states = Map.empty, dc_generation = 0, dc_truncated = False,
     dc_orphans = [], dc_maxOrphans = maxOrphans, dc_connectAttempts = 0, dc_connectFailures = [],
     dc_stateUpdates = 0, dc_lastError = []\<rparr>"

section \<open>Operations\<close>

definition cache_Snapshot :: "deviceCache \<Rightarrow> cacheSnapshot" where
  "cache_Snapshot c = \<lparr>cs_Connected = dc_connected c, cs_ConnectedSince = dc_connectedSince c,
     cs_LastMessageAt = dc_lastMessageAt c, cs_PingSeconds = dc_pingSeconds c, cs_Info = dc_info c,
     cs_Transport = dc_transport c, cs_Addr = NoAddr, cs_Entities = dc_entities c,
     cs_States = dc_states c, cs_EntityGeneration = dc_generation c,
     cs_ConnectAttempts = dc_connectAttempts c, cs_ConnectFailures = dc_connectFailures c,
     cs_StateUpdates = dc_stateUpdates c, cs_Truncated = dc_truncated c,
     cs_LastError = dc_lastError c\<rparr>"

definition carry_step ::
  "(key \<Rightarrow> stateRecord option) \<Rightarrow> (key \<Rightarrow> stateRecord option) \<times> (key \<times> stateRecord) list
     \<Rightarrow> key \<Rightarrow> (key \<Rightarrow> stateRecord option) \<times> (key \<times> stateRecord) list" where
  "carry_step states acc k =
     (case acc of (carried, orphans) \<Rightarrow>
        (let carried1 = (case states k of Some s \<Rightarrow> carried(k \<mapsto> s) | None \<Rightarrow> carried)
         in case map_of orphans k of
              Some s \<Rightarrow> (carried1(k \<mapsto> s), AList.delete k orphans)
            | None \<Rightarrow> (carried1, orphans)))"

definition swapEntities :: "(key \<times> entityRecord) list \<Rightarrow> bool \<Rightarrow> deviceCache \<Rightarrow> deviceCache" where
  "swapEntities nxt truncated c =
     (case foldl (carry_step (dc_states c)) (Map.empty, dc_orphans c) (map fst nxt) of
        (carried, orphans) \<Rightarrow>
          c\<lparr>dc_orphans := orphans, dc_entities := nxt, dc_states := carried,
            dc_truncated := truncated, dc_generation := Suc (dc_generation c)\<rparr>)"

definition putState :: "key \<Rightarrow> stateRecord \<Rightarrow> deviceCache \<Rightarrow> deviceCache" where
  "putState k s c0 =
     (let c = c0\<lparr>dc_stateUpdates := Suc (dc_stateUpdates c0), dc_lastMessageAt := sr_UpdatedAt s\<rparr>
      in if map_of (dc_entities c) k \<noteq> None then c\<lparr>dc_states := (dc_states c)(k \<mapsto> s)\<rparr>
         else if int (length (dc_orphans c)) < dc_maxOrphans c
              then c\<lparr>dc_orphans := AList.update k s (dc_orphans c)\<rparr>
              else c)"

definition setConnected :: "bool \<Rightarrow> string \<Rightarrow> time \<Rightarrow> deviceCache \<Rightarrow> deviceCache" where
  "setConnected up transport now c =
     (let c1 = c\<lparr>dc_connected := up\<rparr>
      in if up then c1\<lparr>dc_connectedSince := now, dc_transport := transport, dc_lastError := []\<rparr>
         else c1)"

definition setInfo :: "DeviceInfo \<Rightarrow> deviceCache \<Rightarrow> deviceCache" where
  "setInfo info c = c\<lparr>dc_info := info\<rparr>"

definition cache_touch :: "time \<Rightarrow> deviceCache \<Rightarrow> deviceCache" where
  "cache_touch now c = c\<lparr>dc_lastMessageAt := now\<rparr>"

definition setPing :: "real \<Rightarrow> deviceCache \<Rightarrow> deviceCache" where
  "setPing s c = c\<lparr>dc_pingSeconds := s\<rparr>"

definition recordAttempt :: "deviceCache \<Rightarrow> deviceCache" where
  "recordAttempt c = c\<lparr>dc_connectAttempts := Suc (dc_connectAttempts c)\<rparr>"

definition recordFailure :: "string \<Rightarrow> string \<Rightarrow> deviceCache \<Rightarrow> deviceCache" where
  "recordFailure reason detail c =
     c\<lparr>dc_connectFailures := AList.update reason
         (Suc (case map_of (dc_connectFailures c) reason of Some n \<Rightarrow> n | None \<Rightarrow> 0))
         (dc_connectFailures c),
       dc_lastError := detail\<rparr>"

section \<open>Messages\<close>

datatype ClimateMode =
    ClimateOff | ClimateHeatCool | ClimateCool | ClimateHeat | ClimateFanOnly | ClimateDry | ClimateAuto
  | ClimateOther int

definition climateModeName :: "ClimateMode \<Rightarrow> string" where
  "climateModeName m = (case m of
     ClimateOff \<Rightarrow> ''off'' | ClimateHeatCool \<Rightarrow> ''heat_cool'' | ClimateCool \<Rightarrow> ''cool''
   | ClimateHeat \<Rightarrow> ''heat'' | ClimateFanOnly \<Rightarrow> ''fan_only'' | ClimateDry \<Rightarrow> ''dry''
   | ClimateAuto \<Rightarrow> ''auto'' | ClimateOther _ \<Rightarrow> ''unknown'')"

definition climateModeNames :: "ClimateMode list \<Rightarrow> string list" where
  "climateModeNames ms = map climateModeName ms"

text \<open>The fields every listing message has, and the messages with their further ones.\<close>

record listing =
  li_Key :: key
  li_ObjectId :: string
  li_Name :: string
  li_Category :: int
  li_Icon :: string
  li_Disabled :: bool

datatype ListMsg =
    ListSensor listing string string int
  | ListBinarySensor listing string
  | ListTextSensor listing string
  | ListSwitch listing string
  | ListLight listing
  | ListFan listing
  | ListCover listing string
  | ListNumber listing string string
  | ListSelect listing "string list"
  | ListLock listing
  | ListButton listing string
  | ListClimate listing "ClimateMode list"
  | ListOther

definition entity :: "string \<Rightarrow> listing \<Rightarrow> entityRecord" where
  "entity domain m = \<lparr>en_Key = li_Key m, en_Domain = domain, en_ObjectID = li_ObjectId m,
     en_Name = li_Name m, en_Unit = [], en_DeviceClass = [], en_StateClass = 0,
     en_Category = li_Category m, en_Icon = li_Icon m, en_Options = [], en_Modes = [],
     en_Disabled = li_Disabled m\<rparr>"

fun entityFromMessage :: "ListMsg \<Rightarrow> entityRecord option" where
  "entityFromMessage (ListSensor m unit cls sc) =
     Some ((entity ''sensor'' m)\<lparr>en_Unit := unit, en_DeviceClass := cls, en_StateClass := sc\<rparr>)"
| "entityFromMessage (ListBinarySensor m cls) = Some ((entity ''binary_sensor'' m)\<lparr>en_DeviceClass := cls\<rparr>)"
| "entityFromMessage (ListTextSensor m cls) = Some ((entity ''text_sensor'' m)\<lparr>en_DeviceClass := cls\<rparr>)"
| "entityFromMessage (ListSwitch m cls) = Some ((entity ''switch'' m)\<lparr>en_DeviceClass := cls\<rparr>)"
| "entityFromMessage (ListLight m) = Some (entity ''light'' m)"
| "entityFromMessage (ListFan m) = Some (entity ''fan'' m)"
| "entityFromMessage (ListCover m cls) = Some ((entity ''cover'' m)\<lparr>en_DeviceClass := cls\<rparr>)"
| "entityFromMessage (ListNumber m unit cls) =
     Some ((entity ''number'' m)\<lparr>en_Unit := unit, en_DeviceClass := cls\<rparr>)"
| "entityFromMessage (ListSelect m opts) = Some ((entity ''select'' m)\<lparr>en_Options := opts\<rparr>)"
| "entityFromMessage (ListLock m) = Some (entity ''lock'' m)"
| "entityFromMessage (ListButton m cls) = Some ((entity ''button'' m)\<lparr>en_DeviceClass := cls\<rparr>)"
| "entityFromMessage (ListClimate m modes) =
     Some ((entity ''climate'' m)\<lparr>en_Modes := climateModeNames modes\<rparr>)"
| "entityFromMessage ListOther = None"

datatype StateMsg =
    SensorState key float64 bool
  | BinarySensorState key bool bool
  | SwitchState key bool
  | TextSensorState key string bool
  | LightState key bool
  | FanState key bool
  | CoverState key float64
  | NumberState key float64 bool
  | SelectState key string bool
  | LockState key int
  | ClimateState key float64 ClimateMode
  | StateOther

definition boolToFloat :: "bool \<Rightarrow> float64" where
  "boolToFloat b = (if b then Fin 1 else Fin 0)"

definition state_value :: "float64 \<Rightarrow> bool \<Rightarrow> time \<Rightarrow> stateRecord" where
  "state_value v missing now =
     \<lparr>sr_Value = v, sr_Text = [], sr_IsText = False, sr_Missing = missing, sr_UpdatedAt = now\<rparr>"

definition state_text :: "string \<Rightarrow> bool \<Rightarrow> time \<Rightarrow> stateRecord" where
  "state_text s missing now =
     \<lparr>sr_Value = Fin 0, sr_Text = s, sr_IsText = True, sr_Missing = missing, sr_UpdatedAt = now\<rparr>"

fun stateFromMessage :: "StateMsg \<Rightarrow> time \<Rightarrow> (key \<times> stateRecord) option" where
  "stateFromMessage (SensorState k v missing) now =
     Some (k, state_value v (missing \<or> is_nan v \<or> is_inf v) now)"
| "stateFromMessage (BinarySensorState k b missing) now = Some (k, state_value (boolToFloat b) missing now)"
| "stateFromMessage (SwitchState k b) now = Some (k, state_value (boolToFloat b) False now)"
| "stateFromMessage (TextSensorState k s missing) now = Some (k, state_text s missing now)"
| "stateFromMessage (LightState k b) now = Some (k, state_value (boolToFloat b) False now)"
| "stateFromMessage (FanState k b) now = Some (k, state_value (boolToFloat b) False now)"
| "stateFromMessage (CoverState k v) now = Some (k, state_value v False now)"
| "stateFromMessage (NumberState k v missing) now = Some (k, state_value v (missing \<or> is_nan v) now)"
| "stateFromMessage (SelectState k s missing) now = Some (k, state_text s missing now)"
| "stateFromMessage (LockState k v) now = Some (k, state_value (Fin (real_of_int v)) False now)"
| "stateFromMessage (ClimateState k v m) now =
     Some (k, (state_value v False now)\<lparr>sr_Text := climateModeName m\<rparr>)"
| "stateFromMessage StateOther now = None"

section \<open>The carry-over loop\<close>

definition no_keys :: "key list \<Rightarrow> (key \<times> stateRecord) list \<Rightarrow> (key \<times> stateRecord) list" where
  "no_keys ks os = filter (\<lambda>(k, _). k \<notin> set ks) os"

lemma carry_fold:
  assumes "wf_alist os" "distinct ks"
  shows "(\<forall>k. fst (foldl (carry_step st) (c, os) ks) k =
      (if k \<in> set ks then (case map_of os k of Some s \<Rightarrow> Some s
          | None \<Rightarrow> (case st k of Some s \<Rightarrow> Some s | None \<Rightarrow> c k)) else c k))
    \<and> (\<forall>k. map_of (snd (foldl (carry_step st) (c, os) ks)) k = (if k \<in> set ks then None else map_of os k))
    \<and> wf_alist (snd (foldl (carry_step st) (c, os) ks))
    \<and> length (snd (foldl (carry_step st) (c, os) ks)) \<le> length os"
  using assms
proof (induction ks arbitrary: c os)
  case (Cons k ks)
  obtain c' os' where s: "carry_step st (c, os) k = (c', os')" by force
  have os': "map_of os' j = (if j = k then None else map_of os j)" "wf_alist os'" "length os' \<le> length os" for j
    using s Cons.prems(1) length_delete_le [of k os]
    by (auto simp: carry_step_def Let_def wf_alist_delete split: option.splits)
  have c': "c' j = (if j = k then (case map_of os k of Some s \<Rightarrow> Some s
      | None \<Rightarrow> (case st k of Some s \<Rightarrow> Some s | None \<Rightarrow> c k)) else c j)" for j
    using s by (auto simp: carry_step_def Let_def split: option.splits)
  have k: "k \<notin> set ks" "distinct ks" using Cons.prems(2) by simp_all
  note IH = Cons.IH [OF os'(2) k(2), of c']
  have f: "foldl (carry_step st) (c, os) (k # ks) = foldl (carry_step st) (c', os') ks" by (simp add: s)
  show ?case unfolding f
  proof (intro conjI allI)
    fix j
    show "fst (foldl (carry_step st) (c', os') ks) j = (if j \<in> set (k # ks)
        then (case map_of os j of Some s \<Rightarrow> Some s | None \<Rightarrow> (case st j of Some s \<Rightarrow> Some s | None \<Rightarrow> c j)) else c j)"
      using conjunct1 [OF IH] c' [of j] os'(1) [of j] k(1) by (cases "j = k") (simp_all split: option.split)
    show "map_of (snd (foldl (carry_step st) (c', os') ks)) j = (if j \<in> set (k # ks) then None else map_of os j)"
      using IH os'(1) [of j] k(1) by (cases "j = k") simp_all
  qed (use IH os'(3) in simp_all)
qed simp

lemma swapEntities_simps:
  assumes "wf_alist (dc_orphans c)" "wf_alist nxt"
  shows "dc_entities (swapEntities nxt t c) = nxt"
    and "dc_states (swapEntities nxt t c) k = (if k \<in> keys nxt
        then (case map_of (dc_orphans c) k of Some s \<Rightarrow> Some s | None \<Rightarrow> dc_states c k) else None)"
    and "map_of (dc_orphans (swapEntities nxt t c)) k = (if k \<in> keys nxt then None else map_of (dc_orphans c) k)"
    and "wf_alist (dc_orphans (swapEntities nxt t c))"
    and "length (dc_orphans (swapEntities nxt t c)) \<le> length (dc_orphans c)"
    and "dc_maxOrphans (swapEntities nxt t c) = dc_maxOrphans c"
    and "dc_generation (swapEntities nxt t c) = Suc (dc_generation c)"
proof -
  obtain st os where f: "foldl (carry_step (dc_states c)) (Map.empty, dc_orphans c) (map fst nxt) = (st, os)"
    by force
  have d: "distinct (map fst nxt)" using assms(2) by (simp add: wf_alist_def)
  note * = carry_fold [OF assms(1) d, of "dc_states c" Map.empty, unfolded f fst_conv snd_conv set_map]
  have eq: "swapEntities nxt t c = c\<lparr>dc_orphans := os, dc_entities := nxt, dc_states := st,
      dc_truncated := t, dc_generation := Suc (dc_generation c)\<rparr>"
    by (simp add: swapEntities_def f)
  show "dc_entities (swapEntities nxt t c) = nxt" "dc_maxOrphans (swapEntities nxt t c) = dc_maxOrphans c"
    "dc_generation (swapEntities nxt t c) = Suc (dc_generation c)"
    by (simp_all add: eq)
  show "dc_states (swapEntities nxt t c) k = (if k \<in> keys nxt
        then (case map_of (dc_orphans c) k of Some s \<Rightarrow> Some s | None \<Rightarrow> dc_states c k) else None)"
    using * by (simp add: eq split: option.split)
  show "map_of (dc_orphans (swapEntities nxt t c)) k = (if k \<in> keys nxt then None else map_of (dc_orphans c) k)"
    "wf_alist (dc_orphans (swapEntities nxt t c))"
    "length (dc_orphans (swapEntities nxt t c)) \<le> length (dc_orphans c)"
    using * by (simp_all add: eq)
qed

section \<open>The invariant\<close>

definition cache_inv :: "deviceCache \<Rightarrow> bool" where
  "cache_inv c \<longleftrightarrow> wf_alist (dc_entities c) \<and> wf_alist (dc_orphans c)
     \<and> (\<forall>k. dc_states c k \<noteq> None \<longrightarrow> k \<in> keys (dc_entities c))
     \<and> (\<forall>k. k \<in> keys (dc_orphans c) \<longrightarrow> k \<notin> keys (dc_entities c))
     \<and> int (length (dc_orphans c)) \<le> max 0 (dc_maxOrphans c)"

datatype CacheMsg =
    CSwap "(key \<times> entityRecord) list" bool
  | CState key stateRecord
  | CConnected bool string time
  | CInfo DeviceInfo
  | CTouch time
  | CPing real
  | CAttempt
  | CFailure string string

fun cache_step :: "CacheMsg \<Rightarrow> deviceCache \<Rightarrow> deviceCache" where
  "cache_step (CSwap nxt t) c = swapEntities nxt t c"
| "cache_step (CState k s) c = putState k s c"
| "cache_step (CConnected b tr now) c = setConnected b tr now c"
| "cache_step (CInfo i) c = setInfo i c"
| "cache_step (CTouch now) c = cache_touch now c"
| "cache_step (CPing s) c = setPing s c"
| "cache_step CAttempt c = recordAttempt c"
| "cache_step (CFailure r d) c = recordFailure r d c"

text \<open>The entity map handed to a swap is a Go map: its keys are distinct.\<close>

fun cache_ok :: "CacheMsg \<Rightarrow> deviceCache \<Rightarrow> bool" where
  "cache_ok (CSwap nxt t) c = wf_alist nxt"
| "cache_ok _ c = True"

lemma swap_inv: "cache_inv c \<Longrightarrow> wf_alist nxt \<Longrightarrow> cache_inv (swapEntities nxt t c)"
proof -
  assume c: "cache_inv c" and n: "wf_alist nxt"
  then have o: "wf_alist (dc_orphans c)" by (simp add: cache_inv_def)
  note * = swapEntities_simps [OF o n, of t]
  have "k \<notin> keys nxt" if "k \<in> keys (dc_orphans (swapEntities nxt t c))" for k
    using that *(3) [of k] map_of_eq_None_keys [of "dc_orphans (swapEntities nxt t c)" k] by (metis (full_types))
  then show ?thesis
    using c n *(2,4,5) by (simp add: cache_inv_def *(1,6))
qed

lemma length_update_le: "length (AList.update k v al) \<le> Suc (length al)"
  by (induction al) auto

lemma put_inv: "cache_inv c \<Longrightarrow> cache_inv (putState k s c)"
  using length_update_le [of k s "dc_orphans c"]
  by (auto simp: cache_inv_def putState_def Let_def wf_alist_update map_of_eq_None_keys max_def)

lemma cache_step_inv: "cache_inv c \<Longrightarrow> cache_ok m c \<Longrightarrow> cache_inv (cache_step m c)"
  by (cases m) (auto simp: swap_inv put_inv,
      auto simp: cache_inv_def setConnected_def setInfo_def cache_touch_def setPing_def
        recordAttempt_def recordFailure_def Let_def)

lemma newDeviceCache_inv: "cache_inv (newDeviceCache n)"
  by (simp add: cache_inv_def newDeviceCache_def)

interpretation esp_cache: machine "\<lambda>c. \<exists>n. c = newDeviceCache n" cache_step cache_ok cache_inv
  by unfold_locales (auto simp: newDeviceCache_inv cache_step_inv)

end
