(* ===== verification/ESPHomeCollector.thy ===== *)
theory ESPHomeCollector
  imports ESPHomeCache Metrics Probe
begin

text \<open>
  \<^verbatim>\<open>internal/esphome/collector.go\<close> and \<^verbatim>\<open>families.go\<close>: rendering the cached
  state of one ESPHome device as metrics.  The textual form of an address is the argument
  \<open>addrString\<close>; the runtime's order over the entity map is the order of the list.
\<close>

section \<open>Families\<close>

definition familyESPHomeBuild :: string where "familyESPHomeBuild = ''esphome_build_info''"
definition familyConnectedSince :: string where "familyConnectedSince = ''connected_since_timestamp_seconds''"
definition familyLastMessage :: string where "familyLastMessage = ''last_message_timestamp_seconds''"
definition familyPing :: string where "familyPing = ''api_ping_seconds''"
definition familyEntityCount :: string where "familyEntityCount = ''entities''"
definition familyStateUpdates :: string where "familyStateUpdates = ''state_updates''"
definition familyEntityGeneration :: string where "familyEntityGeneration = ''entity_list_generation''"
definition familyConnectAttempts :: string where "familyConnectAttempts = ''connect_attempts''"
definition familyConnectFailures :: string where "familyConnectFailures = ''connect_failures''"
definition familyEntitiesTruncated :: string where "familyEntitiesTruncated = ''entities_truncated''"
definition familyFanOn :: string where "familyFanOn = ''fan_on''"
definition familyLockState :: string where "familyLockState = ''lock_state''"
definition familyClimateMode :: string where "familyClimateMode = ''climate_mode''"
definition familySelectOption :: string where "familySelectOption = ''select_option''"

definition esphome_families :: "Family list" where
  "esphome_families = [
     family familyESPHomeBuild ''ESPHome build metadata. Always 1.'' False
       [''compilation_time'', ''project_name'', ''project_version''] '''',
     family familyConnectedSince ''When the current API connection was established.'' False [] '''',
     family familyLastMessage ''When the device last sent anything, in seconds since the epoch.'' False [] '''',
     family familyPing ''Round-trip time of the last API ping. The clearest signal of a wedged node or poor WiFi.'' False [] ''duration'',
     family familyEntityCount ''Entities the device reports.'' False [] '''',
     family familyStateUpdates ''State updates received from this device.'' True [] '''',
     family familyEntityGeneration ''Increments whenever the entity list is replaced, which happens on every reconnect and after an OTA. A rising rate means a device is crash-looping.'' True [] '''',
     family familyConnectAttempts ''Connection attempts made to this device.'' True [] '''',
     family familyConnectFailures ''Connection failures, by cause.'' True [''reason''] '''',
     family familyEntitiesTruncated ''Set when the entity list exceeded the configured cap.'' False [] '''',
     family familyFanOn ''Whether a fan is running.'' False [] '''',
     family familyLockState ''Lock state as reported by the device.'' False [] '''',
     family familyClimateMode ''Active climate mode.'' False [''mode''] '''',
     family familySelectOption ''Active select option.'' False [''option''] '''']"

definition registerESPHomeFamilies :: "families \<Rightarrow> families option" where
  "registerESPHomeFamilies fams = register_all esphome_families fams"

section \<open>Rendering\<close>

text \<open>\<^verbatim>\<open>Time.Unix\<close>: seconds since 1970, rounded down.\<close>

definition unix :: "time \<Rightarrow> real" where
  "unix t = real_of_int (t div second - 62135596800)"

definition stateClassName :: "int \<Rightarrow> string" where
  "stateClassName sc = (if sc = 1 then ''measurement'' else if sc = 2 then ''total_increasing''
     else if sc = 3 then ''total'' else [])"

definition categoryName :: "int \<Rightarrow> string" where
  "categoryName c = (if c = 1 then ''config'' else if c = 2 then ''diagnostic'' else [])"

definition utf8Start :: "char \<Rightarrow> bool" where
  "utf8Start b \<longleftrightarrow> \<not> (128 \<le> char_code b \<and> char_code b < 192)"

fun cut_back :: "string \<Rightarrow> nat \<Rightarrow> nat" where
  "cut_back s 0 = 0"
| "cut_back s (Suc n) = (if utf8Start (s ! Suc n) then Suc n else cut_back s n)"

definition truncateUTF8 :: "string \<Rightarrow> nat \<Rightarrow> string" where
  "truncateUTF8 s n = (if length s \<le> n then s else take (cut_back s n) s)"

definition emitNumeric :: "MetricsConfig \<Rightarrow> Labels \<Rightarrow> entityRecord \<Rightarrow> stateRecord \<Rightarrow> Emit \<Rightarrow> Emit" where
  "emitNumeric mc l ent st e =
     (let q = ResolveUnit (en_Unit ent) (en_DeviceClass ent) (mc_PercentAsRatio mc);
          v = q_Scale q (sr_Value st)
      in if q_Unknown q then Value l (q_Family q) v [en_Unit ent] e
         else if IsCounter (en_StateClass ent) \<and> q_Counter q then Value l (q_Family q) v [DirectionImport] e
         else if q_Counter q then Value l UnknownFamily v [en_Unit ent] e
         else Value l (q_Family q) v [] e)"

definition emitText :: "MetricsConfig \<Rightarrow> Labels \<Rightarrow> stateRecord \<Rightarrow> Emit \<Rightarrow> Emit" where
  "emitText mc l st e =
     (if \<not> mc_TextSensors mc then e
      else let n = mc_MaxTextValueBytes mc; v = sr_Text st;
               v' = (if 0 < n \<and> n < int (length v) then truncateUTF8 v (nat n) else v)
           in Info l FamilyTextInfo [v'] e)"

definition emit_domain :: "MetricsConfig \<Rightarrow> Labels \<Rightarrow> entityRecord \<Rightarrow> stateRecord \<Rightarrow> Emit \<Rightarrow> Emit" where
  "emit_domain mc l ent st e =
     (let d = en_Domain ent; v = sr_Value st in
      if d = ''sensor'' \<or> d = ''number'' then emitNumeric mc l ent st e
      else if d = ''binary_sensor'' then Value l FamilyBinaryState v [] e
      else if d = ''switch'' then Value l FamilySwitchOn v [] e
      else if d = ''light'' then Value l FamilyLightOn v [] e
      else if d = ''fan'' then Value l familyFanOn v [] e
      else if d = ''cover'' then Value l FamilyCoverPosition v [''current''] e
      else if d = ''lock'' then Value l familyLockState v [] e
      else if d = ''climate'' then
        (let e1 = Value l FamilyTemperature v [] e
         in if en_Modes ent \<noteq> [] then Enum l familyClimateMode (sr_Text st) (en_Modes ent) e1 else e1)
      else if d = ''select'' then
        (if en_Options ent \<noteq> [] then Enum l familySelectOption (sr_Text st) (en_Options ent) e else e)
      else if d = ''text_sensor'' then emitText mc l st e
      else e)"

definition entity_labels :: "string \<Rightarrow> entityRecord \<Rightarrow> Labels" where
  "entity_labels devID ent = \<lparr>lb_Device = devID, lb_Kind = ''esphome'', lb_Component = en_Domain ent,
     lb_ID = en_ObjectID ent, lb_Name = en_Name ent, lb_DeviceClass = en_DeviceClass ent,
     lb_Phase = [], lb_Area = []\<rparr>"

definition emitEntity ::
  "ESPHomeConfig \<Rightarrow> MetricsConfig \<Rightarrow> string \<Rightarrow> time \<Rightarrow> entityRecord \<Rightarrow> stateRecord option \<Rightarrow> Emit \<Rightarrow> Emit" where
  "emitEntity cfg mc devID now ent stopt e =
     (let l = entity_labels devID ent;
          e1 = Info l FamilyEntityInfo
                 [en_Unit ent, stateClassName (en_StateClass ent), categoryName (en_Category ent), en_Icon ent] e
      in case stopt of
           None \<Rightarrow> Value l FamilyEntityUnavail (Fin 1) [''never_reported''] e1
         | Some st \<Rightarrow>
             if sr_Missing st
             then Value l FamilyEntityUpdatedTS (Fin (unix (sr_UpdatedAt st))) []
                    (Value l FamilyEntityUnavail (Fin 1) [''missing_state''] e1)
             else let e2 = Value l FamilyEntityUpdatedTS (Fin (unix (sr_UpdatedAt st))) [] e1
                  in if 0 < eh_MaxStateAge cfg \<and> eh_MaxStateAge cfg < time_sub now (sr_UpdatedAt st)
                     then Value l FamilyEntityUnavail (Fin 1) [''stale''] e2
                     else emit_domain mc l ent st e2)"

definition emit_if :: "bool \<Rightarrow> (Emit \<Rightarrow> Emit) \<Rightarrow> Emit \<Rightarrow> Emit" where
  "emit_if b f e = (if b then f e else e)"

definition emitDeviceMetrics ::
  "(netip_addr \<Rightarrow> string) \<Rightarrow> Labels \<Rightarrow> cacheSnapshot \<Rightarrow> Emit \<Rightarrow> Emit" where
  "emitDeviceMetrics addrString l s e0 =
     (let info = cs_Info s;
          ip = (if is_valid (cs_Addr s) then addrString (cs_Addr s) else []);
          e1 = Info l FamilyDeviceInfo [di_MacAddress info, di_Model info, di_Manufacturer info,
                 di_EsphomeVersion info, [], ip, cs_Transport s, di_FriendlyName info] e0;
          e2 = Info l familyESPHomeBuild [di_CompilationTime info, di_ProjectName info, di_ProjectVersion info] e1;
          e3 = emit_if (\<not> is_zero (cs_ConnectedSince s)) (Value l familyConnectedSince (Fin (unix (cs_ConnectedSince s))) []) e2;
          e4 = emit_if (\<not> is_zero (cs_LastMessageAt s)) (Value l familyLastMessage (Fin (unix (cs_LastMessageAt s))) []) e3;
          e5 = emit_if (0 < cs_PingSeconds s) (Value l familyPing (Fin (cs_PingSeconds s)) []) e4;
          e6 = Value l familyEntityCount (Fin (real (length (cs_Entities s)))) [] e5;
          e7 = Value l familyStateUpdates (Fin (real (cs_StateUpdates s))) [] e6;
          e8 = Value l familyEntityGeneration (Fin (real (cs_EntityGeneration s))) [] e7;
          e9 = Value l familyConnectAttempts (Fin (real (cs_ConnectAttempts s))) [] e8;
          e10 = emit_if (cs_Truncated s) (Bool l familyEntitiesTruncated True []) e9
      in foldl (\<lambda>e (reason, n). Value l familyConnectFailures (Fin (real n)) [reason] e) e10 (cs_ConnectFailures s))"

definition esphome_labels :: "string \<Rightarrow> Labels" where
  "esphome_labels devID = \<lparr>lb_Device = devID, lb_Kind = ''esphome'', lb_Component = [], lb_ID = [],
     lb_Name = [], lb_DeviceClass = [], lb_Phase = [], lb_Area = []\<rparr>"

definition ESPHome_Probe ::
  "(netip_addr \<Rightarrow> string) \<Rightarrow> ESPHomeConfig \<Rightarrow> MetricsConfig \<Rightarrow> families \<Rightarrow> desc_cache \<Rightarrow> time \<Rightarrow> string
     \<Rightarrow> cacheSnapshot option \<Rightarrow> Metric list \<times> Result \<times> EmitError list" where
  "ESPHome_Probe addrString cfg mc fams descs now devID so =
     (case so of
        None \<Rightarrow> ([], Fail ReasonNotConnected 0, [])
      | Some s \<Rightarrow>
          (let e = emitDeviceMetrics addrString (esphome_labels devID) s (NewEmitter fams descs)
           in if \<not> cs_Connected s then (em_metrics e, Fail ReasonNotConnected 0, em_errs e)
              else let e' = foldl (\<lambda>e (k, ent). emitEntity cfg mc devID now ent (cs_States s k) e) e (cs_Entities s)
                   in (em_metrics e', Success 0, em_errs e')))"

end
