(* ===== verification/EmitOk.thy ===== *)
theory EmitOk
  imports MetricsClaims ESPHomeCollector
begin

text \<open>
  When emission cannot fail: a family of the right number of further labels.  The lemmas here find
  that number for every family the unit table can name, and give the registry that the collectors
  work on.
\<close>

definition arity :: "families \<Rightarrow> string \<Rightarrow> nat option" where
  "arity fams n = map_option (\<lambda>f. length (fam_Extra f)) (fams n)"

lemma Value_ok:
  "arity (em_families e) fam = Some (length extra) \<Longrightarrow> em_errs (Value l fam v extra e) = em_errs e"
  using Value_good [of e fam _ extra l v] by (auto simp: arity_def)

lemma Bool_ok: "arity (em_families e) fam = Some (length extra) \<Longrightarrow> em_errs (Bool l fam b extra e) = em_errs e"
  by (simp add: Bool_def Value_ok)

lemma Info_ok: "arity (em_families e) fam = Some (length extra) \<Longrightarrow> em_errs (Info l fam extra e) = em_errs e"
  by (simp add: Info_def Value_ok)

lemma emit_families [simp]:
  "em_families (Bool l fam b extra e) = em_families e" "em_families (Info l fam extra e) = em_families e"
  "em_families (Enum l fam active alls e) = em_families e"
proof -
  show b: "em_families (Bool l fam b extra e) = em_families e" for b extra e by (simp add: Bool_def)
  show "em_families (Info l fam extra e) = em_families e" by (simp add: Info_def)
  show "em_families (Enum l fam active alls e) = em_families e"
    unfolding Enum_def by (induction alls arbitrary: e) (simp_all add: b)
qed

lemma Enum_ok: "arity (em_families e) fam = Some 1 \<Longrightarrow> em_errs (Enum l fam active alls e) = em_errs e"
  unfolding Enum_def by (induction alls arbitrary: e) (auto simp: Bool_ok)

section \<open>The unit families\<close>

definition unit_names_once :: "string list" where
  "unit_names_once = [
     ''temperature_celsius'', ''power_watts'', ''apparent_power_voltamperes'',
     ''reactive_power_voltamperes_reactive'', ''energy_joules'', ''voltage_volts'',
     ''current_amperes'', ''resistance_ohms'', ''duration_seconds'',
     ''bytes'', ''pressure_pascals'', ''signal_dbm'',
     ''distance_meters'', ''volume_liters'', ''flow_liters_per_minute'',
     ''illuminance_lux'', ''frequency_hertz'', ''rotation_rpm'',
     ''angle_degrees'', ''speed_meters_per_second'', ''concentration_micrograms_per_cubic_meter'',
     ''conductivity_microsiemens_per_centimeter'', ''acidity_ph'', ''concentration_ppm'',
     ''concentration_ppb'']"

lemma unit_names_once: "x \<in> set unitTable \<Longrightarrow> q_Family (snd x) \<in> set unit_names_once"
proof -
  have "list_all (\<lambda>n. n \<in> set unit_names_once) (map (\<lambda>(u, q). q_Family q) unitTable)"
    unfolding unit_names unit_names_once_def by simp
  then show "x \<in> set unitTable \<Longrightarrow> q_Family (snd x) \<in> set unit_names_once"
    by (auto simp: list_all_iff case_prod_beta)
qed

lemma unit_counter: "x \<in> set unitTable \<Longrightarrow> q_Counter (snd x) \<longleftrightarrow> q_Family (snd x) = FamilyEnergy"
proof -
  have "list_all (\<lambda>x. q_Counter (snd x) \<longleftrightarrow> q_Family (snd x) = FamilyEnergy) unitTable"
    by (simp add: unitTable_def quantity_def FamilyEnergy_def)
  then show "x \<in> set unitTable \<Longrightarrow> q_Counter (snd x) \<longleftrightarrow> q_Family (snd x) = FamilyEnergy"
    by (simp add: list_all_iff)
qed

definition percent_names :: "string list" where
  "percent_names = concat (map (\<lambda>(c, n). [n, trimRatio n @ ''_percent'']) percentFamilies) @ [''ratio'', ''percent'']"

lemma curated_arity:
  "list_all (\<lambda>f. (fam_Name f \<in> set unit_names_once \<longrightarrow> length (fam_Extra f) = (if fam_Name f = FamilyEnergy then 1 else 0))
     \<and> (fam_Name f \<in> set percent_names \<longrightarrow> fam_Extra f = []) \<and> fam_Name f \<noteq> UnknownFamily) curated_families"
  by code_simp

lemma unknown_not_unit: "UnknownFamily \<notin> set unit_names_once" "UnknownFamily \<notin> set percent_names"
  "FamilyEnergy \<notin> set percent_names"
  by code_simp+

lemma builtin_subset: "set builtinFamilies \<subseteq> set curated_families \<union> set builtin_additions"
proof -
  have "set (foldl (\<lambda>fs x. add_family x fs) fs xs) \<subseteq> set fs \<union> set xs" for fs xs
    by (induction xs arbitrary: fs) (fastforce simp: add_family_def split: if_splits)+
  then show ?thesis unfolding builtin_fold by blast
qed

lemma additions_cases:
  assumes "f \<in> set builtin_additions"
  obtains (unit) x where "x \<in> set unitTable" "f = unit_family (snd x)"
  | (pct) "f = plain_family (fam_Name f)" "fam_Name f \<in> set percent_names"
  | (unknown) "f = plain_family UnknownFamily"
proof -
  have "concat (map (\<lambda>(c, n). [plain_family n, plain_family (trimRatio n @ ''_percent'')]) xs)
      = map plain_family (concat (map (\<lambda>(c, n). [n, trimRatio n @ ''_percent'']) xs))" for xs :: "(string \<times> string) list"
    by (induction xs) auto
  then have "set builtin_additions = (\<lambda>x. unit_family (snd x)) ` set unitTable
      \<union> plain_family ` set percent_names \<union> {plain_family UnknownFamily}"
    unfolding builtin_additions_def percent_names_def by (simp add: case_prod_beta image_Un insert_commute)
  then show thesis using assms that by auto
qed

lemma plain_extra: "fam_Extra (plain_family n) = (if n = UnknownFamily then [''unit''] else [])"
  by (simp add: plain_family_def family_def)

lemma unit_extra: "fam_Extra (unit_family q) = (if q_Counter q then [''direction''] else [])"
  by (simp add: unit_family_def family_def)

lemma builtin_arity:
  assumes "builtin_map n = Some f"
  shows "n \<in> set unit_names_once \<Longrightarrow> length (fam_Extra f) = (if n = FamilyEnergy then 1 else 0)"
    and "n \<in> set percent_names \<Longrightarrow> fam_Extra f = []"
    and "n = UnknownFamily \<Longrightarrow> length (fam_Extra f) = 1"
proof -
  have f: "fam_Name f = n" "f \<in> set builtinFamilies" using builtin_map_Some [OF assms] by simp_all
  consider "f \<in> set curated_families" | "f \<in> set builtin_additions" using f(2) builtin_subset by blast
  then have "(n \<in> set unit_names_once \<longrightarrow> length (fam_Extra f) = (if n = FamilyEnergy then 1 else 0))
    \<and> (n \<in> set percent_names \<longrightarrow> fam_Extra f = []) \<and> (n = UnknownFamily \<longrightarrow> length (fam_Extra f) = 1)"
  proof cases
    case 1
    then show ?thesis using curated_arity f(1) by (auto simp: list_all_iff)
  next
    case 2
    then show ?thesis
    proof (cases rule: additions_cases)
      case (unit x)
      have "n = q_Family (snd x)" using unit(2) f(1) by simp
      then show ?thesis
        using unit unit_counter [OF unit(1)] unit_names_once [OF unit(1)] unknown_not_unit
        by (auto simp: unit_extra)
    next
      case pct
      then have "n \<in> set percent_names" "n \<noteq> UnknownFamily" "n \<noteq> FamilyEnergy"
        using f(1) unknown_not_unit by auto
      moreover have "fam_Extra f = []" using pct(1) calculation(2) f(1) by (metis plain_extra)
      ultimately show ?thesis by simp
    next
      case unknown
      then have "n = UnknownFamily" "fam_Extra f = [''unit'']" using f(1) by (auto simp: plain_extra)
      then show ?thesis using unknown_not_unit by simp
    qed
  qed
  then show "n \<in> set unit_names_once \<Longrightarrow> length (fam_Extra f) = (if n = FamilyEnergy then 1 else 0)"
    "n \<in> set percent_names \<Longrightarrow> fam_Extra f = []" "n = UnknownFamily \<Longrightarrow> length (fam_Extra f) = 1"
    by auto
qed

lemma percent_member: "map_of percentFamilies c = Some n \<Longrightarrow> n \<in> set percent_names"
  unfolding percent_names_def using map_of_SomeD by fastforce

lemma unit_known: "x \<in> set unitTable \<Longrightarrow> \<not> q_Unknown (snd x)"
proof -
  have "list_all (\<lambda>x. \<not> q_Unknown (snd x)) unitTable" by (simp add: unitTable_def quantity_def)
  then show "x \<in> set unitTable \<Longrightarrow> \<not> q_Unknown (snd x)" by (simp add: list_all_iff)
qed

lemma numeric_arity:
  fixes unit cls
  defines "q \<equiv> ResolveUnit unit cls True"
  shows "arity builtin_map (q_Family q) = Some (if q_Unknown q \<or> q_Counter q then 1 else 0)"
proof -
  obtain f where f: "builtin_map (q_Family q) = Some f"
    using every_unit_registered [of unit cls] unfolding q_def by blast
  let ?u = "to_lower (trim_space unit)"
  consider (pct) "q_Family q \<in> set percent_names" "\<not> q_Unknown q" "\<not> q_Counter q"
    | (tab) x where "x \<in> set unitTable" "q = snd x"
    | (unk) "q_Family q = UnknownFamily" "q_Unknown q"
  proof (cases "?u = ''%'' \<or> ?u = ''pct'' \<or> ?u = ''percent''")
    case True
    let ?n = "case map_of percentFamilies (to_lower cls) of Some f \<Rightarrow> f | None \<Rightarrow> ''ratio''"
    have "?n \<in> set percent_names"
      using percent_member [of "to_lower cls"] by (auto simp: percent_names_def split: option.split)
    moreover have "q = quantity ?n (div_by 100) False" using True by (auto simp: q_def ResolveUnit_def Let_def)
    ultimately show ?thesis using pct by (simp add: quantity_def)
  next
    case False
    then have q: "q = (case map_of unitTable ?u of Some q \<Rightarrow> q
        | None \<Rightarrow> (quantity UnknownFamily identity False)\<lparr>q_Unknown := True\<rparr>)"
      by (simp add: q_def ResolveUnit_def Let_def)
    show ?thesis
    proof (cases "map_of unitTable ?u")
      case None
      then show ?thesis using unk by (simp add: q quantity_def)
    next
      case (Some q')
      then show ?thesis using tab [of "(?u, q')"] map_of_SomeD [OF Some] by (simp add: q)
    qed
  qed
  then have "length (fam_Extra f) = (if q_Unknown q \<or> q_Counter q then 1 else 0)"
  proof cases
    case (tab x)
    have "\<not> q_Unknown q" using tab unit_known by blast
    then show ?thesis
      using builtin_arity(1) [OF f] unit_names_once [OF tab(1)] unit_counter [OF tab(1)] tab(2) by simp
  qed (use builtin_arity [OF f] in auto)
  then show ?thesis using f by (simp add: arity_def)
qed

end
