(* ===== verification/ESPHomeEmit.thy ===== *)
theory ESPHomeEmit
  imports ESPHomeProps EmitOk
begin

text \<open>
  Rendering an ESPHome device never fails to emit: with the families the program registers at
  startup, every call of the collector names a registered family and gives it the right number of
  labels.
\<close>

section \<open>The registry the collector works on\<close>

definition esp_map :: families where
  "esp_map = builtin_map ++ map_of (map (\<lambda>f. (fam_Name f, f)) esphome_families)"

lemma esphome_names:
  "list_all (\<lambda>f. fam_Name f \<notin> set (map fam_Name curated_families)) esphome_families"
  "list_all (\<lambda>f. fam_Name f \<notin> set unit_names_once \<and> fam_Name f \<notin> set percent_names \<and> fam_Name f \<noteq> UnknownFamily) esphome_families"
  "distinct (map fam_Name esphome_families)"
  by code_simp+

lemma builtin_name_cases:
  assumes "builtin_map n = Some f"
  shows "n \<in> set (map fam_Name curated_families) \<or> n \<in> set unit_names_once \<or> n \<in> set percent_names \<or> n = UnknownFamily"
proof -
  have f: "fam_Name f = n" "f \<in> set curated_families \<union> set builtin_additions"
    using builtin_map_Some [OF assms] builtin_subset by auto
  show ?thesis
  proof (cases "f \<in> set curated_families")
    case False
    then have "f \<in> set builtin_additions" using f by blast
    then show ?thesis using f(1) unit_names_once by (cases rule: additions_cases) auto
  qed (use f in auto)
qed

lemma esphome_new: "f \<in> set esphome_families \<Longrightarrow> builtin_map (fam_Name f) = None"
  using esphome_names(1,2) builtin_name_cases [of "fam_Name f"]
  by (cases "builtin_map (fam_Name f)") (auto simp: list_all_iff)

lemma registerESPHome: "registerESPHomeFamilies builtin_map = Some esp_map"
  unfolding registerESPHomeFamilies_def esp_map_def
  using esphome_new by (intro register_all_distinct esphome_names(3)) blast

lemma esp_map_builtin: "builtin_map n = Some f \<Longrightarrow> esp_map n = Some f"
proof -
  assume b: "builtin_map n = Some f"
  have "map_of (map (\<lambda>f. (fam_Name f, f)) esphome_families) n = None"
    using esphome_new b by (auto simp: map_of_eq_None_iff)
  then show "esp_map n = Some f" using b by (simp add: esp_map_def map_add_def)
qed

lemma esp_arity_builtin: "arity builtin_map n = Some k \<Longrightarrow> arity esp_map n = Some k"
  by (auto simp: arity_def esp_map_builtin)

lemma esp_map_own: "f \<in> set esphome_families \<Longrightarrow> esp_map (fam_Name f) = Some f"
proof -
  assume "f \<in> set esphome_families"
  then have "map_of (map (\<lambda>f. (fam_Name f, f)) esphome_families) (fam_Name f) = Some f"
    by (intro map_of_is_SomeI) (auto simp: comp_def esphome_names(3))
  then show "esp_map (fam_Name f) = Some f" by (simp add: esp_map_def map_add_def)
qed

lemma esp_arity_list:
  "(n, k) \<in> set (map (\<lambda>f. (fam_Name f, length (fam_Extra f))) (curated_families @ esphome_families))
     \<Longrightarrow> arity esp_map n = Some k"
  using esp_map_builtin [OF builtin_curated] esp_map_own by (auto simp: arity_def)

lemmas esphome_name_defs =
  familyESPHomeBuild_def familyConnectedSince_def familyLastMessage_def familyPing_def
  familyEntityCount_def familyStateUpdates_def familyEntityGeneration_def familyConnectAttempts_def
  familyConnectFailures_def familyEntitiesTruncated_def familyFanOn_def familyLockState_def
  familyClimateMode_def familySelectOption_def

lemma esp_arities:
  "arity esp_map FamilyDeviceInfo = Some 8" "arity esp_map familyESPHomeBuild = Some 3"
  "arity esp_map familyConnectedSince = Some 0" "arity esp_map familyLastMessage = Some 0"
  "arity esp_map familyPing = Some 0" "arity esp_map familyEntityCount = Some 0"
  "arity esp_map familyStateUpdates = Some 0" "arity esp_map familyEntityGeneration = Some 0"
  "arity esp_map familyConnectAttempts = Some 0" "arity esp_map familyEntitiesTruncated = Some 0"
  "arity esp_map familyConnectFailures = Some 1" "arity esp_map FamilyEntityInfo = Some 4"
  "arity esp_map FamilyEntityUnavail = Some 1" "arity esp_map FamilyEntityUpdatedTS = Some 0"
  "arity esp_map FamilyBinaryState = Some 0" "arity esp_map FamilySwitchOn = Some 0"
  "arity esp_map FamilyLightOn = Some 0" "arity esp_map familyFanOn = Some 0"
  "arity esp_map FamilyCoverPosition = Some 1" "arity esp_map familyLockState = Some 0"
  "arity esp_map FamilyTemperature = Some 0" "arity esp_map familyClimateMode = Some 1"
  "arity esp_map familySelectOption = Some 1" "arity esp_map FamilyTextInfo = Some 1"
  by (rule esp_arity_list; simp add: curated_families_def esphome_families_def family_def)+

lemma resolve_empty: "q_Family (ResolveUnit [] [] True) = UnknownFamily \<and> q_Unknown (ResolveUnit [] [] True)"
  by code_simp

lemma esp_arity_unknown: "arity esp_map UnknownFamily = Some 1"
proof -
  have "arity builtin_map (q_Family (ResolveUnit [] [] True)) = Some 1"
    using numeric_arity [of "[]" "[]"] resolve_empty by simp
  then show ?thesis using resolve_empty by (simp add: esp_arity_builtin)
qed

section \<open>No emission fails\<close>

definition clean :: "Emit \<Rightarrow> bool" where
  "clean e \<longleftrightarrow> em_families e = esp_map \<and> em_errs e = []"

lemma clean_simps [simp]:
  "arity esp_map fam = Some (length extra) \<Longrightarrow> clean (Value l fam v extra e) = clean e"
  "arity esp_map fam = Some (length extra) \<Longrightarrow> clean (Info l fam extra e) = clean e"
  "arity esp_map fam = Some (length extra) \<Longrightarrow> clean (Bool l fam b extra e) = clean e"
  by (auto simp: clean_def Value_ok Info_ok Bool_ok)

lemma clean_Enum [simp]: "clean e \<Longrightarrow> arity esp_map fam = Some 1 \<Longrightarrow> clean (Enum l fam active alls e)"
  by (simp add: clean_def Enum_ok)

lemma clean_errs: "clean e \<Longrightarrow> em_errs e = []"
  by (simp add: clean_def)

lemma clean_emit_if: "clean e \<Longrightarrow> (\<And>e. clean (f e) = clean e) \<Longrightarrow> clean (emit_if b f e)"
  by (simp add: emit_if_def)

lemma clean_numeric:
  assumes "clean e" "mc_PercentAsRatio mc"
  shows "clean (emitNumeric mc l ent st e)"
proof -
  let ?q = "ResolveUnit (en_Unit ent) (en_DeviceClass ent) True"
  have "arity esp_map (q_Family ?q) = Some (if q_Unknown ?q \<or> q_Counter ?q then 1 else 0)"
    by (rule esp_arity_builtin [OF numeric_arity])
  then show ?thesis
    using assms esp_arity_unknown by (auto simp: emitNumeric_def Let_def)
qed

lemma clean_domain: "clean e \<Longrightarrow> mc_PercentAsRatio mc \<Longrightarrow> clean (emit_domain mc l ent st e)"
  by (simp add: emit_domain_def Let_def emitText_def clean_numeric esp_arities)

lemma clean_entity: "clean e \<Longrightarrow> mc_PercentAsRatio mc \<Longrightarrow> clean (emitEntity cfg mc d now ent st e)"
  by (simp add: emitEntity_def Let_def clean_domain esp_arities split: option.split)

lemma clean_failures:
  "clean e \<Longrightarrow> clean (foldl (\<lambda>e (reason, n). Value l familyConnectFailures (Fin (real n)) [reason] e) e xs)"
  by (induction xs arbitrary: e) (auto simp: esp_arities)

lemma clean_device: "clean e \<Longrightarrow> clean (emitDeviceMetrics addrString l s e)"
  by (simp add: emitDeviceMetrics_def Let_def clean_failures emit_if_def esp_arities)

lemma clean_entities:
  "clean e \<Longrightarrow> mc_PercentAsRatio mc \<Longrightarrow>
     clean (foldl (\<lambda>e (k, ent). emitEntity cfg mc d now ent (sts k) e) e ents)"
  by (induction ents arbitrary: e) (auto intro: clean_entity)



end
