(* ===== verification/ShellyJson.thy ===== *)
theory ShellyJson
  imports Naming
begin

text \<open>
  \<^verbatim>\<open>internal/shelly/jsonpath.go\<close>: accessors over a decoded JSON document.  The document is
  what \<^verbatim>\<open>encoding/json\<close> decodes into an \<^verbatim>\<open>any\<close>: an object is the list of its
  members in the order in which the runtime iterates over the Go map, and a number is a finite
  float64.  (\<^verbatim>\<open>json.Number\<close> and \<^verbatim>\<open>int\<close>, which \<^verbatim>\<open>num\<close> also
  accepts, never come out of this decoding.)
\<close>

datatype json =
    JNull
  | JBool bool
  | JNum real
  | JStr string
  | JArr "json list"
  | JObj "(string \<times> json) list"

type_synonym jobj = "(string \<times> json) list"

text \<open>\<^verbatim>\<open>json.Unmarshal\<close> into a map: null leaves the map nil, which reads as empty.\<close>

fun as_map :: "json \<Rightarrow> jobj option" where
  "as_map (JObj m) = Some m"
| "as_map JNull = Some []"
| "as_map _ = None"

fun obj :: "jobj \<Rightarrow> string list \<Rightarrow> jobj option" where
  "obj m [] = Some m"
| "obj m (key # path) = (case map_of m key of Some (JObj m') \<Rightarrow> obj m' path | _ \<Rightarrow> None)"

fun leaf :: "jobj \<Rightarrow> string list \<Rightarrow> json option" where
  "leaf m [] = None"
| "leaf m [key] = (case map_of m key of None \<Rightarrow> None | Some JNull \<Rightarrow> None | Some v \<Rightarrow> Some v)"
| "leaf m (key # key' # path) =
     (case obj m [key] of None \<Rightarrow> None | Some m' \<Rightarrow> leaf m' (key' # path))"

definition num :: "jobj \<Rightarrow> string list \<Rightarrow> float64 option" where
  "num m path = (case leaf m path of Some (JNum v) \<Rightarrow> Some (Fin v) | _ \<Rightarrow> None)"

definition boolean :: "jobj \<Rightarrow> string list \<Rightarrow> bool option" where
  "boolean m path = (case leaf m path of Some (JBool b) \<Rightarrow> Some b | _ \<Rightarrow> None)"

definition str :: "jobj \<Rightarrow> string list \<Rightarrow> string option" where
  "str m path = (case leaf m path of Some (JStr s) \<Rightarrow> Some s | _ \<Rightarrow> None)"

definition arr :: "jobj \<Rightarrow> string list \<Rightarrow> json list option" where
  "arr m path = (case leaf m path of Some (JArr xs) \<Rightarrow> Some xs | _ \<Rightarrow> None)"

fun string_members :: "json list \<Rightarrow> string list" where
  "string_members [] = []"
| "string_members (JStr s # xs) = s # string_members xs"
| "string_members (_ # xs) = string_members xs"

definition strs :: "jobj \<Rightarrow> string list \<Rightarrow> string list option" where
  "strs m path = map_option string_members (arr m path)"

section \<open>A null reads like a missing member\<close>

text \<open>\<open>strip\<close> removes every member whose value is null, at every depth of the objects.\<close>

fun strip_value :: "json \<Rightarrow> json" and strip :: "jobj \<Rightarrow> jobj" where
  "strip_value (JObj m) = JObj (strip m)"
| "strip_value JNull = JNull"
| "strip_value (JBool b) = JBool b"
| "strip_value (JNum v) = JNum v"
| "strip_value (JStr s) = JStr s"
| "strip_value (JArr xs) = JArr xs"
| "strip [] = []"
| "strip ((k, v) # m) = (if v = JNull then strip m else (k, strip_value v) # strip m)"

lemma strip_value_null [simp]: "strip_value v = JNull \<longleftrightarrow> v = JNull"
  by (cases v) simp_all

lemma keys_strip: "keys (strip m) \<subseteq> keys m"
proof (induction m)
  case (Cons kv m)
  then show ?case by (cases kv) auto
qed simp

lemma map_of_strip:
  assumes "wf_alist m"
  shows "map_of (strip m) k = (case map_of m k of None \<Rightarrow> None | Some v \<Rightarrow> if v = JNull then None else Some (strip_value v))"
  using assms
proof (induction m)
  case (Cons kv m)
  obtain k' v where kv: "kv = (k', v)" by (cases kv)
  from Cons.prems have m: "wf_alist m" "k' \<notin> keys m" by (auto simp: wf_alist_def kv)
  then have "map_of (strip m) k' = None"
    using keys_strip [of m] by (auto simp: map_of_eq_None_iff)
  then show ?case using Cons.IH [OF m(1)] by (auto simp: kv split: option.splits)
qed simp

text \<open>Documents as the decoder makes them: no object has a member twice.\<close>

fun wf_json :: "json \<Rightarrow> bool" and wf_obj :: "jobj \<Rightarrow> bool" where
  "wf_json (JObj m) = (wf_alist m \<and> wf_obj m)"
| "wf_json JNull = True"
| "wf_json (JBool b) = True"
| "wf_json (JNum v) = True"
| "wf_json (JStr s) = True"
| "wf_json (JArr xs) = list_all wf_json xs"
| "wf_obj [] = True"
| "wf_obj ((k, v) # m) = (wf_json v \<and> wf_obj m)"

lemma wf_obj_member: "wf_obj m \<Longrightarrow> map_of m k = Some v \<Longrightarrow> wf_json v"
  by (induction m) (auto split: if_splits)

lemma leaf_strip:
  "wf_alist m \<Longrightarrow> wf_obj m \<Longrightarrow> leaf (strip m) path = map_option strip_value (leaf m path)"
proof (induction m path rule: leaf.induct)
  case (2 m key)
  then show ?case by (simp add: map_of_strip split: option.split json.split)
next
  case (3 m key key' path)
  show ?case
  proof (cases "map_of m key")
    case (Some v)
    note v = this
    show ?thesis
    proof (cases v)
      case (JObj m')
      then have "wf_json (JObj m')" using 3(3) v wf_obj_member by blast
      then show ?thesis using 3 v JObj by (simp add: map_of_strip)
    qed (use 3 v in \<open>simp_all add: map_of_strip\<close>)
  qed (use 3 in \<open>simp add: map_of_strip\<close>)
qed simp

text \<open>A leaf is never an object that matters to the accessors of scalars and arrays.\<close>

lemma strip_value_scalar: "(\<And>m. v \<noteq> JObj m) \<Longrightarrow> strip_value v = v"
  by (cases v) (blast | simp)+

lemma leaf_strip_cases:
  assumes "wf_json (JObj m)"
  obtains "leaf (strip m) path = leaf m path"
  | m' where "leaf m path = Some (JObj m')" "leaf (strip m) path = Some (JObj (strip m'))"
proof (cases "\<exists>m'. leaf m path = Some (JObj m')")
  case True
  then show thesis using that(2) leaf_strip [of m path] assms by auto
next
  case False
  have "strip_value v = v" if "leaf m path = Some v" for v
    using False that by (intro strip_value_scalar) auto
  then show thesis
    using that(1) leaf_strip [of m path] assms by (cases "leaf m path") simp_all
qed

lemma num_strip: "wf_json (JObj m) \<Longrightarrow> num (strip m) path = num m path"
  by (erule leaf_strip_cases [of m path]) (simp_all add: num_def)

lemma boolean_strip: "wf_json (JObj m) \<Longrightarrow> boolean (strip m) path = boolean m path"
  by (erule leaf_strip_cases [of m path]) (simp_all add: boolean_def)

lemma str_strip: "wf_json (JObj m) \<Longrightarrow> str (strip m) path = str m path"
  by (erule leaf_strip_cases [of m path]) (simp_all add: str_def)

lemma strs_strip: "wf_json (JObj m) \<Longrightarrow> strs (strip m) path = strs m path"
  by (erule leaf_strip_cases [of m path]) (simp_all add: strs_def arr_def)

lemmas accessors_strip = num_strip boolean_strip str_strip strs_strip

end
