(* ===== verification/ShellyGen2.thy ===== *)
theory ShellyGen2
  imports ShellyJson Metrics
begin

text \<open>
  \<^verbatim>\<open>internal/shelly/gen2.go\<close> and \<^verbatim>\<open>generic.go\<close>: rendering the document of
  \<^verbatim>\<open>Shelly.GetStatus\<close> as metrics, one component at a time.  An extractor is the list of
  its statements in the order of the code, each a step of the emitter; \<open>steps\<close> runs them.  The
  labels an emitter carries are an argument here.
\<close>

section \<open>Statements\<close>

type_synonym action = "Emit \<Rightarrow> Emit"

definition steps :: "action list \<Rightarrow> action" where
  "steps acts e = foldl (\<lambda>e act. act e) e acts"

text \<open>\<^verbatim>\<open>if v, ok := num(m, path...); ok { ... }\<close>, and the same for the other accessors.\<close>

definition if_num :: "jobj \<Rightarrow> string list \<Rightarrow> (float64 \<Rightarrow> action) \<Rightarrow> action" where
  "if_num m path act e = (case num m path of Some v \<Rightarrow> act v e | None \<Rightarrow> e)"

definition if_bool :: "jobj \<Rightarrow> string list \<Rightarrow> (bool \<Rightarrow> action) \<Rightarrow> action" where
  "if_bool m path act e = (case boolean m path of Some v \<Rightarrow> act v e | None \<Rightarrow> e)"

definition if_str :: "jobj \<Rightarrow> string list \<Rightarrow> (string \<Rightarrow> action) \<Rightarrow> action" where
  "if_str m path act e = (case str m path of Some v \<Rightarrow> act v e | None \<Rightarrow> e)"

definition withPhase :: "Labels \<Rightarrow> string \<Rightarrow> Labels" where
  "withPhase l phase = l\<lparr>lb_Phase := phase\<rparr>"

section \<open>Readings shared by components\<close>

definition electrical_acts :: "Labels \<Rightarrow> jobj \<Rightarrow> action list" where
  "electrical_acts l m =
     [if_num m [''apower''] (\<lambda>v. Value l FamilyPower v []),
      if_num m [''aprt_power''] (\<lambda>v. Value l FamilyApparentPower v []),
      if_num m [''voltage''] (\<lambda>v. Value l FamilyVoltage v []),
      if_num m [''current''] (\<lambda>v. Value l FamilyCurrent v []),
      if_num m [''pf''] (\<lambda>v. Value l FamilyPowerFactor v []),
      if_num m [''freq''] (\<lambda>v. Value l FamilyFrequency v []),
      if_num m [''aenergy'', ''total''] (\<lambda>v. Value l FamilyEnergy (WattHoursToJoules v) [DirectionImport]),
      if_num m [''ret_aenergy'', ''total''] (\<lambda>v. Value l FamilyEnergy (WattHoursToJoules v) [DirectionExport])]"

definition componentTemperature_acts :: "Labels \<Rightarrow> jobj \<Rightarrow> action list" where
  "componentTemperature_acts l m =
     [if_num m [''temperature'', ''tC''] (\<lambda>v. Value l FamilyTemperature v [])]"

definition componentErrors_acts :: "Labels \<Rightarrow> jobj \<Rightarrow> action list" where
  "componentErrors_acts l m =
     (case strs m [''errors''] of
        Some errs \<Rightarrow> map (\<lambda>name. Value l FamilyComponentError (Fin 1) [name]) errs
      | None \<Rightarrow> [])"

section \<open>Extractors\<close>

type_synonym extractor = "Labels \<Rightarrow> string \<Rightarrow> jobj \<Rightarrow> action list"

definition extractSwitch :: extractor where
  "extractSwitch l i m =
     [if_bool m [''output''] (\<lambda>v. Bool l FamilySwitchOn v [])]
     @ electrical_acts l m @ componentTemperature_acts l m @ componentErrors_acts l m"

definition extractLight :: extractor where
  "extractLight l i m =
     [if_bool m [''output''] (\<lambda>v. Bool l FamilyLightOn v []),
      if_num m [''brightness''] (\<lambda>v. Value l FamilyLightBrightness (div_by 100 v) [])]
     @ electrical_acts l m @ componentTemperature_acts l m @ componentErrors_acts l m"

definition extractCover :: extractor where
  "extractCover l i m =
     [if_num m [''current_pos''] (\<lambda>v. Value l FamilyCoverPosition (div_by 100 v) [''current'']),
      if_num m [''target_pos''] (\<lambda>v. Value l FamilyCoverPosition (div_by 100 v) [''target''])]
     @ electrical_acts l m @ componentTemperature_acts l m @ componentErrors_acts l m"

definition extractInput :: extractor where
  "extractInput l i m =
     [if_bool m [''state''] (\<lambda>v. Bool l FamilyInputState v []),
      if_num m [''percent''] (\<lambda>v. Value l ''ratio'' (div_by 100 v) []),
      if_num m [''counts'', ''total''] (\<lambda>v. Value l FamilyInputCounts v [''total'']),
      if_num m [''counts'', ''xtotal''] (\<lambda>v. Value l FamilyInputCounts v [''xtotal'']),
      if_num m [''freq''] (\<lambda>v. Value l FamilyFrequency v [])]
     @ componentErrors_acts l m"

definition phase_acts :: "Labels \<Rightarrow> jobj \<Rightarrow> string \<Rightarrow> action list" where
  "phase_acts l m phase =
     (let p = withPhase l phase in
     [if_num m [phase @ ''_act_power''] (\<lambda>v. Value p FamilyPower v []),
      if_num m [phase @ ''_aprt_power''] (\<lambda>v. Value p FamilyApparentPower v []),
      if_num m [phase @ ''_voltage''] (\<lambda>v. Value p FamilyVoltage v []),
      if_num m [phase @ ''_current''] (\<lambda>v. Value p FamilyCurrent v []),
      if_num m [phase @ ''_pf''] (\<lambda>v. Value p FamilyPowerFactor v []),
      if_num m [phase @ ''_freq''] (\<lambda>v. Value p FamilyFrequency v [])])"

definition extractEM :: extractor where
  "extractEM l i m =
     concat (map (phase_acts l m) [PhaseA, PhaseB, PhaseC])
     @ (let neutral = withPhase l PhaseN; total = withPhase l PhaseTotal in
     [if_num m [''n_current''] (\<lambda>v. Value neutral FamilyCurrent v []),
      if_num m [''total_act_power''] (\<lambda>v. Value total FamilyPower v []),
      if_num m [''total_aprt_power''] (\<lambda>v. Value total FamilyApparentPower v []),
      if_num m [''total_current''] (\<lambda>v. Value total FamilyCurrent v [])])
     @ componentErrors_acts l m"

definition extractEM1 :: extractor where
  "extractEM1 l i m =
     [if_num m [''act_power''] (\<lambda>v. Value l FamilyPower v []),
      if_num m [''aprt_power''] (\<lambda>v. Value l FamilyApparentPower v [])]
     @ electrical_acts l m @ componentErrors_acts l m"

definition phase_energy_acts :: "Labels \<Rightarrow> jobj \<Rightarrow> string \<Rightarrow> action list" where
  "phase_energy_acts l m phase =
     (let p = withPhase l phase in
     [if_num m [phase @ ''_total_act_energy''] (\<lambda>v. Value p FamilyEnergy (WattHoursToJoules v) [DirectionImport]),
      if_num m [phase @ ''_total_act_ret_energy''] (\<lambda>v. Value p FamilyEnergy (WattHoursToJoules v) [DirectionExport])])"

definition extractEMData :: extractor where
  "extractEMData l0 i m =
     (let l = WithComponent ''em'' i (lb_Name l0) l0; total = withPhase l PhaseTotal in
      concat (map (phase_energy_acts l m) [PhaseA, PhaseB, PhaseC])
      @ [if_num m [''total_act_energy''] (\<lambda>v. Value total FamilyEnergy (WattHoursToJoules v) [DirectionImport]),
         if_num m [''total_act_ret_energy''] (\<lambda>v. Value total FamilyEnergy (WattHoursToJoules v) [DirectionExport])])"

definition extractEM1Data :: extractor where
  "extractEM1Data l0 i m =
     (let l = WithComponent ''em1'' i (lb_Name l0) l0 in
     [if_num m [''total_act_energy''] (\<lambda>v. Value l FamilyEnergy (WattHoursToJoules v) [DirectionImport]),
      if_num m [''total_act_ret_energy''] (\<lambda>v. Value l FamilyEnergy (WattHoursToJoules v) [DirectionExport])])"

definition extractPM1 :: extractor where
  "extractPM1 l i m = electrical_acts l m @ componentErrors_acts l m"

definition extractTemperature :: extractor where
  "extractTemperature l i m =
     [if_num m [''tC''] (\<lambda>v. Value l FamilyTemperature v [])] @ componentErrors_acts l m"

definition extractHumidity :: extractor where
  "extractHumidity l i m =
     [if_num m [''rh''] (\<lambda>v. Value l FamilyHumidity (div_by 100 v) [])] @ componentErrors_acts l m"

definition extractIlluminance :: extractor where
  "extractIlluminance l i m =
     [if_num m [''lux''] (\<lambda>v. Value l FamilyIlluminance v [])] @ componentErrors_acts l m"

definition extractVoltmeter :: extractor where
  "extractVoltmeter l i m =
     [if_num m [''voltage''] (\<lambda>v. Value l FamilyVoltage v []),
      if_num m [''xvoltage''] (\<lambda>v. Value l FamilyVoltage v [])]
     @ componentErrors_acts l m"

definition extractDevicePower :: extractor where
  "extractDevicePower l i m =
     [if_num m [''battery'', ''V''] (\<lambda>v. Value l FamilyVoltage v []),
      if_num m [''battery'', ''percent''] (\<lambda>v. Value l FamilyBattery (div_by 100 v) []),
      if_bool m [''external'', ''present''] (\<lambda>v. Bool l FamilyExternalPower v [])]
     @ componentErrors_acts l m"

definition extractSmoke :: extractor where
  "extractSmoke l i m =
     [if_bool m [''alarm''] (\<lambda>v. Bool l FamilySmokeAlarm v []),
      if_bool m [''mute''] (\<lambda>v. Bool l FamilySmokeMuted v [])]
     @ componentErrors_acts l m"

definition extractSys :: extractor where
  "extractSys l i m =
     [if_num m [''uptime''] (\<lambda>v. Value l FamilyUptime v []),
      if_num m [''ram_size''] (\<lambda>v. Value l FamilyRAMBytes v [''size'']),
      if_num m [''ram_free''] (\<lambda>v. Value l FamilyRAMBytes v [''free'']),
      if_num m [''fs_size''] (\<lambda>v. Value l FamilyFSBytes v [''size'']),
      if_num m [''fs_free''] (\<lambda>v. Value l FamilyFSBytes v [''free'']),
      if_bool m [''restart_required''] (\<lambda>v. Bool l FamilyRestartRequired v [])]
     @ (let updates = (case obj m [''available_updates''] of Some u \<Rightarrow> u | None \<Rightarrow> [])
        in map (\<lambda>channel. Bool l FamilyUpdateAvailable (map_of updates channel \<noteq> None) [channel])
             [''stable'', ''beta''])"

definition extractWiFi :: extractor where
  "extractWiFi l i m =
     [if_num m [''rssi''] (\<lambda>v. Value l FamilyWiFiRSSI v []),
      if_str m [''status''] (\<lambda>v. Bool l FamilyWiFiConnected (v = ''got ip'') [])]"

definition extractCloud :: extractor where
  "extractCloud l i m = [if_bool m [''connected''] (\<lambda>v. Bool l FamilyCloudConnected v [])]"

definition extractMQTT :: extractor where
  "extractMQTT l i m = [if_bool m [''connected''] (\<lambda>v. Bool l FamilyMQTTConnected v [])]"

definition extractWebsocket :: extractor where
  "extractWebsocket l i m = [if_bool m [''connected''] (\<lambda>v. Bool l FamilyWebsocketConn v [])]"

definition extractEth :: extractor where
  "extractEth l i m = [if_str m [''ip''] (\<lambda>ip. Bool l FamilyEthernetUp (ip \<noteq> []) [])]"

definition extractors :: "(string \<times> extractor) list" where
  "extractors = [
     (''switch'', extractSwitch), (''light'', extractLight), (''rgb'', extractLight),
     (''rgbw'', extractLight), (''cct'', extractLight), (''cover'', extractCover),
     (''input'', extractInput), (''em'', extractEM), (''em1'', extractEM1),
     (''emdata'', extractEMData), (''em1data'', extractEM1Data), (''pm1'', extractPM1),
     (''temperature'', extractTemperature), (''humidity'', extractHumidity),
     (''illuminance'', extractIlluminance), (''voltmeter'', extractVoltmeter),
     (''devicepower'', extractDevicePower), (''smoke'', extractSmoke), (''sys'', extractSys),
     (''wifi'', extractWiFi), (''cloud'', extractCloud), (''mqtt'', extractMQTT),
     (''ws'', extractWebsocket), (''eth'', extractEth)]"

definition skipComponents :: "string list" where
  "skipComponents = [''ble'', ''ht_ui'', ''knx'', ''modbus'', ''plugs_ui'', ''matter'', ''script'',
     ''schedule'', ''webhook'']"

section \<open>The generic walk\<close>

definition maxGenericDepth :: nat where "maxGenericDepth = 3"
definition maxGenericLeaves :: nat where "maxGenericLeaves = 40"
definition maxGenericIndex :: nat where "maxGenericIndex = 8"
definition rawFamilyPrefix :: string where "rawFamilyPrefix = ''raw_''"

definition genericDenylist :: "string list" where
  "genericDenylist = [''ts'', ''_ts'', ''minute_ts'', ''id'', ''_updated'', ''cfg_rev'', ''kvs_rev'',
     ''schedule_rev'', ''webhook_rev'']"

definition rawFamilyHelp :: string where
  "rawFamilyHelp = ''Uncurated Shelly reading. Untyped and unitless; '' @ ''the name may change between firmware releases.''"

type_synonym leaves = "(string \<times> float64) list"

definition bool_leaf :: "bool \<Rightarrow> float64" where
  "bool_leaf b = (if b then Fin 1 else Fin 0)"

text \<open>
  The depth stops the recursion whatever the document.  \<^verbatim>\<open>len(out)\<close> is the number of
  distinct names so far: an update of a name does not add one.
\<close>

function collectLeaves :: "jobj \<Rightarrow> string \<Rightarrow> nat \<Rightarrow> leaves \<Rightarrow> leaves" where
  "collectLeaves m pre depth out0 =
     (if maxGenericDepth < depth \<or> 2 * maxGenericLeaves \<le> length out0 then out0
      else foldl (\<lambda>out (key, v).
        (if key \<in> set genericDenylist then out
         else let name = (if pre = [] then key else pre @ ''_'' @ key)
         in case v of
              JNum x \<Rightarrow> AList.update name (Fin x) out
            | JBool b \<Rightarrow> AList.update name (bool_leaf b) out
            | JObj m' \<Rightarrow> collectLeaves m' name (Suc depth) out
            | JArr xs \<Rightarrow>
                foldl (\<lambda>out (i, item).
                  (let indexed = name @ ''_'' @ itoa i
                   in case item of
                        JNum x \<Rightarrow> AList.update indexed (Fin x) out
                      | JObj m' \<Rightarrow> collectLeaves m' indexed (Suc depth) out
                      | _ \<Rightarrow> out)) out (enumerate 0 (take maxGenericIndex xs))
            | _ \<Rightarrow> out)) out0 m)"
  by pat_completeness auto
termination
  by (relation "measure (\<lambda>(m, pre, depth, out). 4 - depth)") (auto simp: maxGenericDepth_def)

declare collectLeaves.simps [simp del]

definition raw_family :: "string \<Rightarrow> Family" where
  "raw_family n = family n rawFamilyHelp False [] []"

text \<open>The result of \<^verbatim>\<open>Register\<close> is ignored: an error leaves the registry as it was.\<close>

definition registerRawFamily :: "string \<Rightarrow> action" where
  "registerRawFamily n e =
     (case Register (raw_family n) (em_families e) of
        Inr fams \<Rightarrow> e\<lparr>em_families := fams\<rparr>
      | Inl _ \<Rightarrow> e)"

definition generic_names :: "leaves \<Rightarrow> string list" where
  "generic_names out =
     (let names = sort (map fst out)
      in if maxGenericLeaves < length names then take maxGenericLeaves names else names)"

definition raw_name :: "string \<Rightarrow> string \<Rightarrow> string" where
  "raw_name component name = rawFamilyPrefix @ SanitizeName (component @ ''_'' @ name)"

definition genericWalk :: "Labels \<Rightarrow> string \<Rightarrow> jobj \<Rightarrow> action" where
  "genericWalk l component m e =
     (let out = collectLeaves m [] 0 []
      in foldl (\<lambda>e name.
           (let fam = raw_name component name;
                v = (case map_of out name of Some v \<Rightarrow> v | None \<Rightarrow> Fin 0)
            in Value l fam v [] (registerRawFamily fam e))) e (generic_names out))"

section \<open>The document\<close>

text \<open>
  One member of the document.  \<open>componentName\<close> is the lookup of the device's configured names;
  the counter of unknown component types is threaded beside the emitter.
\<close>

definition gen2_component ::
  "bool \<Rightarrow> (string \<Rightarrow> string \<Rightarrow> string) \<Rightarrow> Labels \<Rightarrow> Emit \<times> (string \<Rightarrow> nat) \<Rightarrow> string \<times> json \<Rightarrow> Emit \<times> (string \<Rightarrow> nat)" where
  "gen2_component genericFallback componentName l acc entry =
     (case (acc, entry) of ((e, unknown), (key, v)) \<Rightarrow>
        (let (component, rest) = cut key (CHR '':''); i = fst rest
         in case as_map v of
              None \<Rightarrow> (e, unknown)
            | Some m \<Rightarrow>
                (case map_of extractors component of
                   Some ex \<Rightarrow>
                     (steps (ex (WithComponent component i (componentName component i) l) i m) e, unknown)
                 | None \<Rightarrow>
                     (if component \<in> set skipComponents then (e, unknown)
                      else (if genericFallback then genericWalk (WithComponent component i [] l) component m e
                            else e,
                            unknown(component := Suc (unknown component)))))))"

text \<open>\<open>None\<close> when the body is not a JSON object: the error of the decoder.\<close>

definition decodeGen2Status ::
  "bool \<Rightarrow> (string \<Rightarrow> string \<Rightarrow> string) \<Rightarrow> Labels \<Rightarrow> json option \<Rightarrow> Emit \<times> (string \<Rightarrow> nat)
     \<Rightarrow> (Emit \<times> (string \<Rightarrow> nat)) option" where
  "decodeGen2Status genericFallback componentName l body acc =
     (case body of
        None \<Rightarrow> None
      | Some v \<Rightarrow> map_option (foldl (gen2_component genericFallback componentName l) acc) (as_map v))"

end
