(* ===== verification/ShellyGen1.thy ===== *)
theory ShellyGen1
  imports ShellyGen2
begin

text \<open>
  \<^verbatim>\<open>internal/shelly/gen1.go\<close>: rendering \<^verbatim>\<open>GET /status\<close> of a Gen1 device
  onto the families that Gen2 uses.  The records are the structs the body is decoded into; a nil
  pointer is \<open>None\<close>, and the decoding itself is the JSON package's.
\<close>

record gen1Relay =
  g1r_IsOn :: bool
  g1r_HasTimer :: bool
  g1r_Overpower :: bool

record gen1Meter =
  g1m_Power :: float64
  g1m_IsValid :: bool
  g1m_Total :: "float64 option"
  g1m_TotalReturned :: "float64 option"

record gen1EMeter =
  g1e_Power :: "float64 option"
  g1e_Voltage :: "float64 option"
  g1e_Current :: "float64 option"
  g1e_PF :: "float64 option"
  g1e_IsValid :: bool
  g1e_Total :: "float64 option"
  g1e_TotalReturned :: "float64 option"

record gen1Input =
  g1i_Input :: int
  g1i_EventCnt :: int

record gen1Light =
  g1l_IsOn :: bool
  g1l_Brightness :: "float64 option"

text \<open>\<^verbatim>\<open>tmp\<close>, \<^verbatim>\<open>hum\<close> and \<^verbatim>\<open>lux\<close>: a reading and whether it is valid.\<close>

record gen1Reading =
  g1v_Value :: "float64 option"
  g1v_IsValid :: bool

record gen1Bat =
  g1b_Value :: "float64 option"
  g1b_Voltage :: "float64 option"

record gen1Status =
  g1_Relays :: "gen1Relay list"
  g1_Meters :: "gen1Meter list"
  g1_EMeters :: "gen1EMeter list"
  g1_Inputs :: "gen1Input list"
  g1_Lights :: "gen1Light list"
  g1_Temperature :: "float64 option"
  g1_OverTemperature :: bool
  g1_Tmp :: "gen1Reading option"
  g1_Hum :: "gen1Reading option"
  g1_Lux :: "gen1Reading option"
  g1_Bat :: "gen1Bat option"
  g1_ExtTemperature :: "(string \<times> float64 option) list"
  g1_ExtHumidity :: "(string \<times> float64 option) list"
  g1_WiFiConnected :: bool
  g1_WiFiRSSI :: "float64 option"
  g1_CloudConnected :: bool
  g1_MQTTConnected :: bool
  g1_HasUpdate :: bool
  g1_Uptime :: "float64 option"
  g1_RAMTotal :: "float64 option"
  g1_RAMFree :: "float64 option"
  g1_FSSize :: "float64 option"
  g1_FSFree :: "float64 option"

definition if_some :: "'a option \<Rightarrow> ('a \<Rightarrow> action) \<Rightarrow> action" where
  "if_some v act e = (case v of Some x \<Rightarrow> act x e | None \<Rightarrow> e)"

definition if_true :: "bool \<Rightarrow> action \<Rightarrow> action" where
  "if_true b act e = (if b then act e else e)"

definition setIf :: "Labels \<Rightarrow> string \<Rightarrow> float64 option \<Rightarrow> action" where
  "setIf l fam v = if_some v (\<lambda>x. Value l fam x [])"

definition setIfLabelled :: "Labels \<Rightarrow> string \<Rightarrow> float64 option \<Rightarrow> string \<Rightarrow> action" where
  "setIfLabelled l fam v label = if_some v (\<lambda>x. Value l fam x [label])"

section \<open>The loops\<close>

text \<open>\<open>name\<close> resolves the configured name of a component of this device.\<close>

definition at_index :: "(string \<Rightarrow> string \<Rightarrow> string) \<Rightarrow> Labels \<Rightarrow> string \<Rightarrow> nat \<Rightarrow> Labels" where
  "at_index name l component i = WithComponent component (itoa i) (name component (itoa i)) l"

definition relay_acts :: "(string \<Rightarrow> string \<Rightarrow> string) \<Rightarrow> Labels \<Rightarrow> nat \<times> gen1Relay \<Rightarrow> action list" where
  "relay_acts name l ir =
     (case ir of (i, r) \<Rightarrow>
        (let sw = at_index name l ''switch'' i
         in [Bool sw FamilySwitchOn (g1r_IsOn r) [],
             if_true (g1r_Overpower r) (Value sw FamilyComponentError (Fin 1) [''overpower''])]))"

text \<open>The component that meters and the internal temperature belong to.\<close>

definition gen1_output :: "gen1Status \<Rightarrow> string" where
  "gen1_output s = (if g1_Relays s = [] \<and> g1_Lights s \<noteq> [] then ''light'' else ''switch'')"

definition meter_acts :: "(string \<Rightarrow> string \<Rightarrow> string) \<Rightarrow> Labels \<Rightarrow> string \<Rightarrow> nat \<times> gen1Meter \<Rightarrow> action list" where
  "meter_acts name l output im =
     (case im of (i, m) \<Rightarrow>
        (if \<not> g1m_IsValid m then []
         else let sw = at_index name l output i
         in [Value sw FamilyPower (g1m_Power m) [],
             if_some (g1m_Total m) (\<lambda>v. Value sw FamilyEnergy (WattMinutesToJoules v) [DirectionImport]),
             if_some (g1m_TotalReturned m) (\<lambda>v. Value sw FamilyEnergy (WattMinutesToJoules v) [DirectionExport])]))"

definition emeter_acts :: "(string \<Rightarrow> string \<Rightarrow> string) \<Rightarrow> Labels \<Rightarrow> nat \<times> gen1EMeter \<Rightarrow> action list" where
  "emeter_acts name l im =
     (case im of (i, m) \<Rightarrow>
        (let em = at_index name l ''em1'' i
         in [setIf em FamilyPower (g1e_Power m),
             setIf em FamilyVoltage (g1e_Voltage m),
             setIf em FamilyCurrent (g1e_Current m),
             setIf em FamilyPowerFactor (g1e_PF m),
             if_some (g1e_Total m) (\<lambda>v. Value em FamilyEnergy (WattHoursToJoules v) [DirectionImport]),
             if_some (g1e_TotalReturned m) (\<lambda>v. Value em FamilyEnergy (WattHoursToJoules v) [DirectionExport])]))"

definition input_acts :: "(string \<Rightarrow> string \<Rightarrow> string) \<Rightarrow> Labels \<Rightarrow> nat \<times> gen1Input \<Rightarrow> action list" where
  "input_acts name l ix =
     (case ix of (i, x) \<Rightarrow>
        (let input = at_index name l ''input'' i
         in [Bool input FamilyInputState (g1i_Input x \<noteq> 0) [],
             Value input FamilyInputCounts (Fin (real_of_int (g1i_EventCnt x))) [''event'']]))"

definition light_acts :: "(string \<Rightarrow> string \<Rightarrow> string) \<Rightarrow> Labels \<Rightarrow> nat \<times> gen1Light \<Rightarrow> action list" where
  "light_acts name l ix =
     (case ix of (i, x) \<Rightarrow>
        (let light = at_index name l ''light'' i
         in [Bool light FamilyLightOn (g1l_IsOn x) [],
             if_some (g1l_Brightness x) (\<lambda>v. Value light FamilyLightBrightness (div_by 100 v) [])]))"

definition each :: "(nat \<times> 'a \<Rightarrow> action list) \<Rightarrow> 'a list \<Rightarrow> action list" where
  "each f xs = concat (map f (enumerate 0 xs))"

section \<open>Temperatures and sensors\<close>

definition valid_reading :: "gen1Reading option \<Rightarrow> float64 option" where
  "valid_reading r = (case r of None \<Rightarrow> None | Some x \<Rightarrow> if g1v_IsValid x then g1v_Value x else None)"

definition hasOutputs :: "gen1Status \<Rightarrow> bool" where
  "hasOutputs s \<longleftrightarrow> g1_Relays s \<noteq> [] \<or> g1_Lights s \<noteq> [] \<or> g1_Meters s \<noteq> []"

definition internal_temperature :: "gen1Status \<Rightarrow> float64 option" where
  "internal_temperature s =
     (case g1_Temperature s of
        Some v \<Rightarrow> Some v
      | None \<Rightarrow> if hasOutputs s then valid_reading (g1_Tmp s) else None)"

definition temperature_acts :: "(string \<Rightarrow> string \<Rightarrow> string) \<Rightarrow> Labels \<Rightarrow> gen1Status \<Rightarrow> action list" where
  "temperature_acts name l s =
     (let sw = at_index name l (gen1_output s) 0
      in [if_some (internal_temperature s) (\<lambda>v e.
            if_true (g1_OverTemperature s) (Value sw FamilyComponentError (Fin 1) [''overtemp''])
              (Value sw FamilyTemperature v [] e)),
          if_true (\<not> hasOutputs s)
            (if_some (valid_reading (g1_Tmp s))
              (\<lambda>v. Value (WithComponent ''temperature'' ''0'' [] l) FamilyTemperature v []))])"

definition sensor_acts :: "Labels \<Rightarrow> gen1Status \<Rightarrow> action list" where
  "sensor_acts l s =
     [if_some (valid_reading (g1_Hum s))
        (\<lambda>v. Value (WithComponent ''humidity'' ''0'' [] l) FamilyHumidity (div_by 100 v) []),
      if_some (valid_reading (g1_Lux s))
        (\<lambda>v. Value (WithComponent ''illuminance'' ''0'' [] l) FamilyIlluminance v []),
      if_some (g1_Bat s) (\<lambda>b e.
        (let bat = WithComponent ''devicepower'' ''0'' [] l
         in setIf bat FamilyVoltage (g1b_Voltage b)
              (if_some (g1b_Value b) (\<lambda>v. Value bat FamilyBattery (div_by 100 v) []) e)))]
     @ map (\<lambda>(i, t). setIf (WithComponent ''ext_temperature'' i [] l) FamilyTemperature t) (g1_ExtTemperature s)
     @ map (\<lambda>(i, h). if_some h (\<lambda>v. Value (WithComponent ''ext_humidity'' i [] l) FamilyHumidity (div_by 100 v) []))
         (g1_ExtHumidity s)"

definition system_acts :: "Labels \<Rightarrow> gen1Status \<Rightarrow> action list" where
  "system_acts l s =
     (let sys = WithComponent ''sys'' [] [] l; wifi = WithComponent ''wifi'' [] [] l in
     [setIf sys FamilyUptime (g1_Uptime s),
      setIfLabelled sys FamilyRAMBytes (g1_RAMTotal s) ''size'',
      setIfLabelled sys FamilyRAMBytes (g1_RAMFree s) ''free'',
      setIfLabelled sys FamilyFSBytes (g1_FSSize s) ''size'',
      setIfLabelled sys FamilyFSBytes (g1_FSFree s) ''free'',
      Bool sys FamilyUpdateAvailable (g1_HasUpdate s) [''stable''],
      Bool sys FamilyUpdateAvailable False [''beta''],
      setIf wifi FamilyWiFiRSSI (g1_WiFiRSSI s),
      Bool wifi FamilyWiFiConnected (g1_WiFiConnected s) [],
      Bool (WithComponent ''cloud'' [] [] l) FamilyCloudConnected (g1_CloudConnected s) [],
      Bool (WithComponent ''mqtt'' [] [] l) FamilyMQTTConnected (g1_MQTTConnected s) []])"

definition gen1_acts :: "(string \<Rightarrow> string \<Rightarrow> string) \<Rightarrow> Labels \<Rightarrow> gen1Status \<Rightarrow> action list" where
  "gen1_acts name l s =
     each (relay_acts name l) (g1_Relays s)
     @ each (meter_acts name l (gen1_output s)) (g1_Meters s)
     @ each (emeter_acts name l) (g1_EMeters s)
     @ each (input_acts name l) (g1_Inputs s)
     @ each (light_acts name l) (g1_Lights s)
     @ temperature_acts name l s @ sensor_acts l s @ system_acts l s"

definition decodeGen1Status ::
  "(string \<Rightarrow> string \<Rightarrow> string) \<Rightarrow> Labels \<Rightarrow> gen1Status option \<Rightarrow> action option" where
  "decodeGen1Status name l body = map_option (\<lambda>s. steps (gen1_acts name l s)) body"

end
