(* ===== verification/ShellyEmit.thy ===== *)
theory ShellyEmit
  imports ShellyGen1 EmitOk
begin

text \<open>
  Rendering a Shelly document never fails to emit: every statement of the extractors names a
  registered family with the right number of labels, and the families that the generic walk declares
  at run time cannot clash with the curated ones.
\<close>

section \<open>The registry the collector works on\<close>

definition shelly_ok :: "families \<Rightarrow> bool" where
  "shelly_ok fams \<longleftrightarrow> (\<forall>f \<in> set curated_families. arity fams (fam_Name f) = Some (length (fam_Extra f)))
     \<and> arity fams ''ratio'' = Some 0
     \<and> (\<forall>n. has_prefix n rawFamilyPrefix \<longrightarrow> fams n = None \<or> fams n = Some (raw_family n))"

definition emit_clean :: "Emit \<Rightarrow> bool" where
  "emit_clean e \<longleftrightarrow> shelly_ok (em_families e) \<and> em_errs e = []"

definition action_ok :: "action \<Rightarrow> bool" where
  "action_ok act \<longleftrightarrow> (\<forall>e. emit_clean e \<longrightarrow> emit_clean (act e))"

definition takes :: "string \<Rightarrow> nat \<Rightarrow> bool" where
  "takes fam k \<longleftrightarrow> (fam, k) \<in> set ((''ratio'', 0) # map (\<lambda>f. (fam_Name f, length (fam_Extra f))) curated_families)"

lemma takes_arity: "takes fam k \<Longrightarrow> shelly_ok fams \<Longrightarrow> arity fams fam = Some k"
  by (auto simp: takes_def shelly_ok_def)

lemma takes_facts [simp]:
  "takes ''ratio'' 0" "takes FamilyPower 0" "takes FamilyApparentPower 0" "takes FamilyEnergy (Suc 0)"
  "takes FamilyVoltage 0" "takes FamilyCurrent 0" "takes FamilyPowerFactor 0" "takes FamilyFrequency 0"
  "takes FamilyTemperature 0" "takes FamilyHumidity 0" "takes FamilyBattery 0" "takes FamilyIlluminance 0"
  "takes FamilyUptime 0" "takes FamilyWiFiRSSI 0" "takes FamilySwitchOn 0" "takes FamilyInputState 0"
  "takes FamilyInputCounts (Suc 0)" "takes FamilyCoverPosition (Suc 0)" "takes FamilyLightOn 0"
  "takes FamilyLightBrightness 0" "takes FamilyComponentError (Suc 0)" "takes FamilyUpdateAvailable (Suc 0)"
  "takes FamilyRestartRequired 0" "takes FamilyAuthRequired 0" "takes FamilyCloudConnected 0"
  "takes FamilyMQTTConnected 0" "takes FamilyWiFiConnected 0" "takes FamilyRAMBytes (Suc 0)"
  "takes FamilyFSBytes (Suc 0)" "takes FamilyWebsocketConn 0" "takes FamilyEthernetUp 0"
  "takes FamilyExternalPower 0" "takes FamilySmokeAlarm 0" "takes FamilySmokeMuted 0"
  "takes FamilyDeviceInfo 8"
  unfolding takes_def by (simp_all add: curated_families_def family_def)

section \<open>Statements\<close>

lemma Value_action_ok [simp]: "takes fam (length extra) \<Longrightarrow> action_ok (Value l fam v extra)"
  by (simp add: action_ok_def emit_clean_def takes_arity Value_ok)

lemma Bool_action_ok [simp]: "takes fam (length extra) \<Longrightarrow> action_ok (Bool l fam b extra)"
  by (simp add: action_ok_def emit_clean_def takes_arity Bool_ok)

lemma Info_action_ok [simp]: "takes fam (length extra) \<Longrightarrow> action_ok (Info l fam extra)"
  by (simp add: action_ok_def emit_clean_def takes_arity Info_ok)

lemma if_action_ok [simp]:
  "(\<And>v. action_ok (act v)) \<Longrightarrow> action_ok (if_num m p act)"
  "(\<And>v. action_ok (act' v)) \<Longrightarrow> action_ok (if_bool m p act')"
  "(\<And>v. action_ok (act'' v)) \<Longrightarrow> action_ok (if_str m p act'')"
  "(\<And>v. action_ok (act3 v)) \<Longrightarrow> action_ok (if_some x act3)"
  "action_ok act4 \<Longrightarrow> action_ok (if_true b act4)"
  by (auto simp: action_ok_def if_num_def if_bool_def if_str_def if_some_def if_true_def split: option.split)

lemma action_ok_after: "action_ok f \<Longrightarrow> action_ok g \<Longrightarrow> action_ok (\<lambda>e. g (f e))"
  by (simp add: action_ok_def)

lemma setIf_action_ok [simp]:
  "takes fam 0 \<Longrightarrow> action_ok (setIf l fam v)" "takes fam (Suc 0) \<Longrightarrow> action_ok (setIfLabelled l fam v lab)"
  by (simp_all add: setIf_def setIfLabelled_def)

lemma steps_ok: "list_all action_ok acts \<Longrightarrow> action_ok (steps acts)"
proof -
  have "emit_clean (foldl (\<lambda>e act. act e) e acts)" if "list_all action_ok acts" "emit_clean e" for e
    using that by (induction acts arbitrary: e) (auto simp: action_ok_def)
  then show "list_all action_ok acts \<Longrightarrow> action_ok (steps acts)"
    by (simp add: action_ok_def steps_def)
qed

section \<open>The curated extractors\<close>

lemma shared_ok [simp]:
  "list_all action_ok (electrical_acts l m)" "list_all action_ok (componentTemperature_acts l m)"
  "list_all action_ok (componentErrors_acts l m)" "list_all action_ok (phase_acts l m ph)"
  "list_all action_ok (phase_energy_acts l m ph)"
  by (simp_all add: electrical_acts_def componentTemperature_acts_def componentErrors_acts_def
      phase_acts_def phase_energy_acts_def Let_def list.pred_map list.pred_True comp_def split: option.split)

lemmas extract_defs = extractSwitch_def extractLight_def extractCover_def extractInput_def extractEM_def
  extractEM1_def extractEMData_def extractEM1Data_def extractPM1_def extractTemperature_def
  extractHumidity_def extractIlluminance_def extractVoltmeter_def extractDevicePower_def
  extractSmoke_def extractSys_def extractWiFi_def extractCloud_def extractMQTT_def
  extractWebsocket_def extractEth_def

lemma extractors_ok: "map_of extractors c = Some ex \<Longrightarrow> list_all action_ok (ex l i m)"
proof -
  have "list_all (\<lambda>(c, ex). list_all action_ok (ex l i m)) extractors"
    by (simp add: extractors_def extract_defs Let_def)
  then show "map_of extractors c = Some ex \<Longrightarrow> list_all action_ok (ex l i m)"
    using map_of_SomeD [of extractors c ex] by (fastforce simp: list_all_iff [of _ extractors])
qed

section \<open>The generic walk\<close>

lemma curated_not_raw:
  "list_all (\<lambda>f. \<not> has_prefix (fam_Name f) rawFamilyPrefix) curated_families" "\<not> has_prefix ''ratio'' rawFamilyPrefix"
  by code_simp+

lemma raw_name_prefix [simp]: "has_prefix (raw_name c n) rawFamilyPrefix"
  by (simp add: raw_name_def)

lemma registerRawFamily_raw:
  assumes "shelly_ok (em_families e)" "has_prefix n rawFamilyPrefix"
  shows "registerRawFamily n e = e\<lparr>em_families := (em_families e)(n \<mapsto> raw_family n)\<rparr>"
  using assms unfolding shelly_ok_def
  by (cases "em_families e n") (force simp: registerRawFamily_def Register_def raw_family_def family_def map_upd_triv)+

lemma shelly_ok_raw:
  assumes "shelly_ok fams" "has_prefix n rawFamilyPrefix"
  shows "shelly_ok (fams(n \<mapsto> raw_family n))"
  using assms curated_not_raw by (auto simp: shelly_ok_def arity_def list_all_iff)

lemma raw_value_ok:
  assumes n: "has_prefix n rawFamilyPrefix"
  shows "action_ok (\<lambda>e. Value l n v [] (registerRawFamily n e))"
  unfolding action_ok_def emit_clean_def
proof (intro allI impI)
  fix e :: Emit
  assume e: "shelly_ok (em_families e) \<and> em_errs e = []"
  let ?r = "e\<lparr>em_families := (em_families e)(n \<mapsto> raw_family n)\<rparr>"
  have "arity (em_families ?r) n = Some (length ([] :: string list))"
    by (simp add: arity_def raw_family_def family_def)
  from Value_ok [OF this] have "em_errs (Value l n v [] ?r) = []" using e by simp
  then show "shelly_ok (em_families (Value l n v [] (registerRawFamily n e)))
      \<and> em_errs (Value l n v [] (registerRawFamily n e)) = []"
    using e n by (simp add: registerRawFamily_raw shelly_ok_raw)
qed

lemma foldl_ok: "(\<And>x. action_ok (\<lambda>e. f e x)) \<Longrightarrow> action_ok (\<lambda>e. foldl f e xs)"
proof -
  assume f: "\<And>x. action_ok (\<lambda>e. f e x)"
  have "emit_clean (foldl f e xs)" if "emit_clean e" for e
    using that f by (induction xs arbitrary: e) (auto simp: action_ok_def)
  then show ?thesis by (simp add: action_ok_def)
qed

lemma genericWalk_ok: "action_ok (genericWalk l c m)"
  unfolding genericWalk_def Let_def by (intro foldl_ok raw_value_ok) simp

section \<open>The documents\<close>

lemma gen2_component_clean:
  "emit_clean e \<Longrightarrow> emit_clean (fst (gen2_component gf name l (e, u) kv))"
proof -
  obtain k v where kv: "kv = (k, v)" by (cases kv)
  have ex: "emit_clean (steps (ex l' i m) e)" if "emit_clean e" "map_of extractors c = Some ex" for c ex l' i m
    using steps_ok [OF extractors_ok [OF that(2)]] that(1) by (simp add: action_ok_def)
  have walk: "emit_clean (genericWalk l' c m e)" if "emit_clean e" for l' c m
    using genericWalk_ok that by (simp add: action_ok_def)
  show "emit_clean e \<Longrightarrow> ?thesis"
    by (simp add: gen2_component_def kv case_prod_beta Let_def ex walk split: option.split)
qed

lemma gen2_fold_clean:
  "emit_clean (fst acc) \<Longrightarrow> emit_clean (fst (foldl (gen2_component gf name l) acc doc))"
proof (induction doc arbitrary: acc)
  case (Cons kv doc)
  then show ?case using gen2_component_clean [of "fst acc" gf name l "snd acc" kv] by simp
qed simp

lemma each_ok: "(\<And>x. list_all action_ok (f x)) \<Longrightarrow> list_all action_ok (each f xs)"
  by (auto simp: each_def list_all_iff)

lemma gen1_acts_ok: "list_all action_ok (gen1_acts name l s)"
proof -
  have relay: "list_all action_ok (relay_acts name l x)" for x
    by (cases x) (simp add: relay_acts_def Let_def)
  have meter: "list_all action_ok (meter_acts name l out x)" for out x
    by (cases x) (simp add: meter_acts_def Let_def)
  have emeter: "list_all action_ok (emeter_acts name l x)" for x
    by (cases x) (simp add: emeter_acts_def Let_def)
  have input: "list_all action_ok (input_acts name l x)" for x
    by (cases x) (simp add: input_acts_def Let_def)
  have light: "list_all action_ok (light_acts name l x)" for x
    by (cases x) (simp add: light_acts_def Let_def)
  have "list_all action_ok (temperature_acts name l s)"
    by (simp add: temperature_acts_def Let_def action_ok_after)
  moreover have "list_all action_ok (sensor_acts l s)"
    by (simp add: sensor_acts_def Let_def list.pred_map comp_def case_prod_beta list.pred_True action_ok_after)
  moreover have "list_all action_ok (system_acts l s)"
    by (simp add: system_acts_def Let_def)
  ultimately show ?thesis by (simp add: gen1_acts_def each_ok relay meter emeter input light)
qed

end
