(* ===== verification/ShellyProps.thy ===== *)
theory ShellyProps
  imports ShellyEmit ESPHomeEmit
begin

text \<open>
  The properties of the Shelly decoders: no reading is lost for want of a family, a null reads like a
  missing member, both generations name the same series, and what the generic walk may emit.
\<close>

section \<open>No emission fails\<close>

lemma esp_map_no_raw: "has_prefix n rawFamilyPrefix \<Longrightarrow> esp_map n = None"
proof (rule ccontr)
  assume n: "has_prefix n rawFamilyPrefix" and "esp_map n \<noteq> None"
  then have "n \<in> set (map fam_Name esphome_families) \<or> builtin_map n \<noteq> None"
    by (auto simp: esp_map_def map_add_def map_of_eq_None_iff split: option.splits dest!: map_of_SomeD)
  then have "n \<in> set (map fam_Name (curated_families @ esphome_families)) \<union> set unit_names_once
      \<union> set percent_names \<union> {UnknownFamily}"
    using builtin_name_cases [of n] by (cases "builtin_map n") auto
  moreover have "list_all (\<lambda>n. \<not> has_prefix n rawFamilyPrefix)
      (map fam_Name (curated_families @ esphome_families) @ unit_names_once @ percent_names @ [UnknownFamily])"
    by code_simp
  ultimately show False using n by (auto simp: list_all_iff)
qed

lemma shelly_ok_esp_map: "shelly_ok esp_map"
proof -
  have "q_Family (ResolveUnit ''%'' [] True) = ''ratio'' \<and> \<not> q_Unknown (ResolveUnit ''%'' [] True)
      \<and> \<not> q_Counter (ResolveUnit ''%'' [] True)"
    by code_simp
  then have "arity esp_map ''ratio'' = Some 0"
    using numeric_arity [of "''%''" "[]"] by (simp add: esp_arity_builtin)
  then show ?thesis
    using esp_map_no_raw by (auto simp: shelly_ok_def intro!: esp_arity_list)
qed

text \<open>C27. Rendering any Gen2 status document, whatever components, fields and nesting it has, records no
  emission error, and leaves the registry fit for the next probe; so does any Gen1 status.  Every
  reading the code means to export is exported, uncurated components included.\<close>

theorem shelly_status_loses_nothing:
  assumes "shelly_ok (em_families e)" "em_errs e = []"
    and "decodeGen2Status genericFallback name l body (e, unknown) = Some (e', unknown')"
  shows "em_errs e' = [] \<and> shelly_ok (em_families e')
    \<and> (\<forall>s act. decodeGen1Status name l s = Some act \<longrightarrow> em_errs (act e') = [] \<and> shelly_ok (em_families (act e')))"
proof -
  obtain v m where "body = Some v" "as_map v = Some m"
    and e': "foldl (gen2_component genericFallback name l) (e, unknown) m = (e', unknown')"
    using assms(3) by (auto simp: decodeGen2Status_def split: option.splits)
  then have c: "emit_clean e'"
    using gen2_fold_clean [of "(e, unknown)" genericFallback name l m] assms(1,2) by (simp add: emit_clean_def)
  have "emit_clean (act e')" if "decodeGen1Status name l s = Some act" for s act
    using steps_ok [OF gen1_acts_ok] c that by (auto simp: decodeGen1Status_def action_ok_def)
  then show ?thesis using c by (simp add: emit_clean_def)
qed

theorem shelly_status_loses_nothing_witness:
  "case decodeGen2Status True (\<lambda>_ _. []) ex_labels
     (Some (JObj [(''switch:0'', JObj [(''apower'', JNum 5)]), (''new'', JObj [(''x'', JArr [JNum 1])])]))
     (NewEmitter esp_map Map.empty, \<lambda>_. 0) of
     Some (e', u) \<Rightarrow> em_errs e' = [] \<and> shelly_ok (em_families e') | None \<Rightarrow> False"
proof -
  let ?d = "decodeGen2Status True (\<lambda>_ _. []) ex_labels
     (Some (JObj [(''switch:0'', JObj [(''apower'', JNum 5)]), (''new'', JObj [(''x'', JArr [JNum 1])])]))
     (NewEmitter esp_map Map.empty, \<lambda>_. 0)"
  obtain e' u where d: "?d = Some (e', u)" by (cases ?d) (auto simp: decodeGen2Status_def)
  show ?thesis
    using shelly_status_loses_nothing [OF _ _ d] shelly_ok_esp_map d by (simp add: NewEmitter_def)
qed

end
