(* ===== verification/ShellyReadings.thy ===== *)
theory ShellyReadings
  imports ShellyProps
begin

text \<open>
  What the Shelly decoders read: a null is a missing member, both generations name the same series
  with the same values, the generic walk stays inside its quarantine, and two extractors count a
  reading twice.
\<close>

section \<open>Null and missing\<close>

lemma if_strip:
  "wf_json (JObj m) \<Longrightarrow> if_num (strip m) p = if_num m p"
  "wf_json (JObj m) \<Longrightarrow> if_bool (strip m) p = if_bool m p"
  "wf_json (JObj m) \<Longrightarrow> if_str (strip m) p = if_str m p"
  by (simp_all add: if_num_def if_bool_def if_str_def fun_eq_iff accessors_strip)

lemma shared_strip:
  assumes "wf_json (JObj m)"
  shows "electrical_acts l (strip m) = electrical_acts l m"
    "componentTemperature_acts l (strip m) = componentTemperature_acts l m"
    "componentErrors_acts l (strip m) = componentErrors_acts l m"
    "phase_acts l (strip m) = phase_acts l m"
    "phase_energy_acts l (strip m) = phase_energy_acts l m"
  using assms
  by (simp_all only: electrical_acts_def componentTemperature_acts_def componentErrors_acts_def
      phase_acts_def phase_energy_acts_def if_strip accessors_strip fun_eq_iff Let_def simp_thms)

text \<open>A null is a missing reading: for every curated component but the system one, deleting all
  members that are null, at any depth, changes nothing of what is emitted.  A faulted sensor makes
  a gap, never a value.\<close>

theorem null_reads_like_missing:
  assumes "wf_json (JObj m)" "map_of extractors c = Some ex" "c \<noteq> ''sys''"
  shows "ex l i (strip m) = ex l i m"
proof -
  have "list_all (\<lambda>(c, ex). c = ''sys'' \<or> ex l i (strip m) = ex l i m) extractors"
    by (simp add: extractors_def)
      (simp only: extract_defs Let_def if_strip [OF assms(1)] shared_strip [OF assms(1)])
  then show ?thesis using map_of_SomeD [OF assms(2)] assms(3) by (fastforce simp: list_all_iff)
qed

theorem null_reads_like_missing_witness:
  "extractSwitch ex_labels ''0'' (strip [(''output'', JBool True), (''apower'', JNull), (''temperature'', JObj [(''tC'', JNull)])])
     = extractSwitch ex_labels ''0'' [(''output'', JBool True), (''apower'', JNull), (''temperature'', JObj [(''tC'', JNull)])]"
  by (rule null_reads_like_missing [of _ "''switch''"]) (simp_all add: extractors_def wf_alist_def)

section \<open>Both generations\<close>

lemma cut_itoa: "cut (component @ [CHR '':''] @ i) (CHR '':'') = (component, i, True)" if "CHR '':'' \<notin> set component"
  using that by (induction component) (auto simp: cut_def split: if_splits)

text \<open>C38. A Gen1 relay with its meter and a Gen2 switch that report the same state, power and energy
  emit the same metrics, values, labels and order included, although Gen1 counts watt-minutes and
  Gen2 watt-hours: a dashboard sees one series whatever the generation.\<close>

theorem generations_name_the_same_series:
  "steps (relay_acts name l (i, \<lparr>g1r_IsOn = is_on, g1r_HasTimer = timer, g1r_Overpower = False\<rparr>)
     @ meter_acts name l ''switch'' (i, \<lparr>g1m_Power = Fin watts, g1m_IsValid = True,
         g1m_Total = Some (Fin wmin), g1m_TotalReturned = Some (Fin wminret)\<rparr>)) e
   = fst (gen2_component gf name l (e, unknown) (''switch'' @ [CHR '':''] @ itoa i,
       JObj [(''output'', JBool is_on), (''apower'', JNum watts),
             (''aenergy'', JObj [(''total'', JNum (wmin / 60))]),
             (''ret_aenergy'', JObj [(''total'', JNum (wminret / 60))])]))"
proof -
  have ex: "map_of extractors ''switch'' = Some extractSwitch" by (simp add: extractors_def)
  have c: "cut (''switch'' @ [CHR '':''] @ itoa i) (CHR '':'') = (''switch'', itoa i, True)"
    by (rule cut_itoa) simp
  show ?thesis
    unfolding gen2_component_def prod.case c Let_def as_map.simps option.case ex fst_conv snd_conv
    by (simp add: Let_def relay_acts_def meter_acts_def extractSwitch_def
        electrical_acts_def componentTemperature_acts_def componentErrors_acts_def steps_def at_index_def
        if_num_def if_bool_def if_some_def if_true_def num_def boolean_def strs_def arr_def
        WattMinutesToJoules_def WattHoursToJoules_def lift_def joulesPerWattMinute_def joulesPerWattHour_def mult.commute)
qed

section \<open>The quarantine of the generic walk\<close>

definition add_raw :: "string \<Rightarrow> families \<Rightarrow> string \<Rightarrow> families" where
  "add_raw c fams n = fams(raw_name c n \<mapsto> raw_family (raw_name c n))"

definition walk_step :: "Labels \<Rightarrow> string \<Rightarrow> (string \<Rightarrow> float64) \<Rightarrow> Emit \<Rightarrow> string \<Rightarrow> Emit" where
  "walk_step l c val e name = Value l (raw_name c name) (val name) [] (registerRawFamily (raw_name c name) e)"

lemma genericWalk_fold:
  "genericWalk l c m e = foldl (walk_step l c (\<lambda>n. case map_of (collectLeaves m [] 0 []) n of Some v \<Rightarrow> v | None \<Rightarrow> Fin 0)) e
     (generic_names (collectLeaves m [] 0 []))"
  by (simp add: genericWalk_def Let_def walk_step_def [abs_def])

lemma walk_step_effect:
  assumes "emit_clean e"
  shows "\<exists>x. em_metrics (walk_step l c val e n) = em_metrics e @ [x] \<and> m_Type x = GaugeValue \<and> m_Value x = val n
      \<and> em_families (walk_step l c val e n) = add_raw c (em_families e) n"
proof -
  let ?r = "registerRawFamily (raw_name c n) e"
  have r: "?r = e\<lparr>em_families := (em_families e)(raw_name c n \<mapsto> raw_family (raw_name c n))\<rparr>"
    using assms by (intro registerRawFamily_raw) (auto simp: emit_clean_def)
  show ?thesis
    by (cases rule: Value_cases [of ?r "raw_name c n" "[]" l "val n"])
      (auto simp: walk_step_def r raw_family_def family_def add_raw_def)
qed

lemma emit_clean_walk_step: "emit_clean e \<Longrightarrow> emit_clean (walk_step l c val e n)"
  using raw_value_ok [OF raw_name_prefix] by (simp add: action_ok_def walk_step_def)

lemma walk_effect:
  assumes "emit_clean e"
  shows "\<exists>ms. em_metrics (foldl (walk_step l c val) e ns) = em_metrics e @ ms
      \<and> map m_Value ms = map val ns \<and> (\<forall>x \<in> set ms. m_Type x = GaugeValue)
      \<and> em_families (foldl (walk_step l c val) e ns)
          = foldl (add_raw c) (em_families e) ns"
  using assms
proof (induction ns arbitrary: e)
  case (Cons n ns)
  obtain x where x: "em_metrics (walk_step l c val e n) = em_metrics e @ [x]" "m_Type x = GaugeValue"
    "m_Value x = val n"
    "em_families (walk_step l c val e n) = add_raw c (em_families e) n"
    using walk_step_effect [OF Cons.prems] by blast
  obtain ms where ms: "em_metrics (foldl (walk_step l c val) (walk_step l c val e n) ns) = em_metrics (walk_step l c val e n) @ ms"
    "map m_Value ms = map val ns" "\<forall>x \<in> set ms. m_Type x = GaugeValue"
    "em_families (foldl (walk_step l c val) (walk_step l c val e n) ns)
      = foldl (add_raw c) (em_families (walk_step l c val e n)) ns"
    using Cons.IH [OF emit_clean_walk_step [OF Cons.prems]] by blast
  show ?case using x ms by (intro exI [of _ "x # ms"]) simp
qed simp

lemma raw_fold_other:
  "\<not> has_prefix k rawFamilyPrefix \<Longrightarrow>
     foldl (add_raw c) fams ns k = fams k"
proof (induction ns arbitrary: fams)
  case (Cons n ns)
  then have "k \<noteq> raw_name c n" by auto
  then show ?case using Cons by (simp add: add_raw_def)
qed simp

lemma raw_name_valid: "valid_name (raw_name c n)"
proof -
  have "name_char (CHR ''r'') \<and> name_char (CHR ''a'') \<and> name_char (CHR ''w'') \<and> name_char (CHR ''_'')
      \<and> \<not> is_digit_char (CHR ''r'')"
    by code_simp
  then show ?thesis
    using SanitizeName_valid [of "c @ ''_'' @ n"] by (simp add: valid_name_def raw_name_def rawFamilyPrefix_def)
qed

text \<open>C39. An uncurated component cannot flood or pollute the output: whatever its document, the generic
  walk emits at most forty metrics, all gauges, into families whose names are valid and begin with
  raw_, and no other family changes.\<close>

theorem generic_walk_is_quarantined:
  assumes "shelly_ok (em_families e)" "em_errs e = []"
  shows "\<exists>ms. em_metrics (genericWalk l c m e) = em_metrics e @ ms \<and> length ms \<le> 40
    \<and> (\<forall>x \<in> set ms. m_Type x = GaugeValue)
    \<and> (\<forall>n. has_prefix n ''raw_'' \<or> em_families (genericWalk l c m e) n = em_families e n)
    \<and> list_all (\<lambda>n. valid_name (raw_name c n)) (generic_names (collectLeaves m [] 0 []))"
proof -
  let ?ns = "generic_names (collectLeaves m [] 0 [])"
  have short: "length ?ns \<le> 40" by (simp add: generic_names_def Let_def maxGenericLeaves_def)
  obtain ms val where ms: "em_metrics (genericWalk l c m e) = em_metrics e @ ms" "map m_Value ms = map val ?ns"
    "\<forall>x \<in> set ms. m_Type x = GaugeValue" "em_families (genericWalk l c m e) = foldl (add_raw c) (em_families e) ?ns"
    using walk_effect [of e l c _ ?ns] assms unfolding genericWalk_fold emit_clean_def by blast
  have "length ms \<le> 40" using short arg_cong [OF ms(2), of length] by simp
  moreover have "has_prefix n ''raw_'' \<or> em_families (genericWalk l c m e) n = em_families e n" for n
    using raw_fold_other [of n c] unfolding ms(4) rawFamilyPrefix_def by blast
  ultimately show ?thesis using ms(1,3) raw_name_valid by (auto simp: list_all_iff)
qed

theorem generic_walk_is_quarantined_witness:
  "\<exists>ms. em_metrics (genericWalk ex_labels ''fan'' [(''rpm'', JNum 900)] (NewEmitter esp_map Map.empty)) = [] @ ms
     \<and> length ms \<le> 40"
  using generic_walk_is_quarantined [of "NewEmitter esp_map Map.empty" ex_labels "''fan''" "[(''rpm'', JNum 900)]"]
    shelly_ok_esp_map by (auto simp: NewEmitter_def)

section \<open>Readings counted twice\<close>

definition same_series :: "Metric \<Rightarrow> Metric \<Rightarrow> bool" where
  "same_series x y \<longleftrightarrow> m_Desc x = m_Desc y \<and> m_Labels x = m_Labels y"

text \<open>A single-phase energy monitor that reports its apparent power emits the same series twice in
  one scrape, once by the extractor and once by the statements it shares with the other powered
  components; Prometheus rejects the second.\<close>

theorem em1_emits_apparent_power_twice:
  "\<exists>x y. em_metrics (steps (extractEM1 ex_labels ''0'' [(''id'', JNum 0), (''aprt_power'', JNum v)]) (NewEmitter builtin_map Map.empty)) = [x, y]
    \<and> same_series x y"
proof -
  let ?e = "NewEmitter builtin_map Map.empty"
  let ?V = "Value ex_labels FamilyApparentPower (Fin v) []"
  have run: "steps (extractEM1 ex_labels ''0'' [(''id'', JNum 0), (''aprt_power'', JNum v)]) ?e = ?V (?V ?e)"
    by (simp add: extractEM1_def electrical_acts_def componentErrors_acts_def steps_def if_num_def num_def
        strs_def arr_def)
  have "takes FamilyApparentPower 0" by simp
  then have "\<exists>f. builtin_map FamilyApparentPower = Some f \<and> fam_Extra f = []"
    using builtin_curated by (auto simp: takes_def FamilyApparentPower_def)
  then obtain f where f: "builtin_map FamilyApparentPower = Some f" "fam_Extra f = []" by blast
  show ?thesis
    unfolding run same_series_def
    using f by (simp add: Value_def emit_def NewEmitter_def Let_def DescCache_Get_def)
qed

end
