(* ===== verification/ShellyHttp.thy ===== *)
theory ShellyHttp
  imports Identity Probe
begin

text \<open>
  \<^verbatim>\<open>internal/shelly\<close>: classifying the errors of a request (\<^verbatim>\<open>errors.go\<close>),
  choosing a credential (\<^verbatim>\<open>auth.go\<close>) and the cache of HTTP clients
  (\<^verbatim>\<open>client.go\<close>).  The network is an argument; a Go error is the chain of errors it
  wraps, from the outside in, of which \<^verbatim>\<open>errors.Is\<close> and \<^verbatim>\<open>errors.As\<close>
  find a link.
\<close>

section \<open>Errors\<close>

datatype link =
    DeadlineExceeded | Canceled | ECONNREFUSED | EHOSTUNREACH | ENETUNREACH
  | AuthError int
  | StatusError int
  | SyntaxError | UnmarshalTypeError
  | DNSError bool      \<comment> \<open>with its timeout flag\<close>
  | OpError bool
  | OtherNetError bool
  | MacMismatch
  | OtherError string

type_synonym go_error = "link list"

text \<open>The first link that is a \<^verbatim>\<open>net.Error\<close>, with what its \<^verbatim>\<open>Timeout\<close> says.\<close>

fun net_timeout :: "go_error \<Rightarrow> bool option" where
  "net_timeout [] = None"
| "net_timeout (DeadlineExceeded # ls) = Some True"
| "net_timeout (DNSError t # ls) = Some t"
| "net_timeout (OpError t # ls) = Some t"
| "net_timeout (OtherNetError t # ls) = Some t"
| "net_timeout (_ # ls) = net_timeout ls"

fun as_auth :: "go_error \<Rightarrow> int option" where
  "as_auth [] = None"
| "as_auth (AuthError c # ls) = Some c"
| "as_auth (_ # ls) = as_auth ls"

fun as_status :: "go_error \<Rightarrow> int option" where
  "as_status [] = None"
| "as_status (StatusError c # ls) = Some c"
| "as_status (_ # ls) = as_status ls"

definition is_dns :: "link \<Rightarrow> bool" where "is_dns l = (case l of DNSError _ \<Rightarrow> True | _ \<Rightarrow> False)"
definition is_op :: "link \<Rightarrow> bool" where "is_op l = (case l of OpError _ \<Rightarrow> True | _ \<Rightarrow> False)"

definition classify :: "go_error option \<Rightarrow> Reason" where
  "classify err =
     (case err of
        None \<Rightarrow> ReasonNone
      | Some ls \<Rightarrow>
          (if DeadlineExceeded \<in> set ls \<or> Canceled \<in> set ls then ReasonTimeout
           else if ECONNREFUSED \<in> set ls then ReasonConnRefused
           else if EHOSTUNREACH \<in> set ls \<or> ENETUNREACH \<in> set ls then ReasonNoRoute
           else if as_auth ls \<noteq> None then ReasonAuth
           else if SyntaxError \<in> set ls then ReasonDecode
           else if UnmarshalTypeError \<in> set ls then ReasonDecode
           else case as_status ls of
                  Some code \<Rightarrow> (if code = 401 \<or> code = 403 then ReasonAuth else ReasonHTTPStatus)
                | None \<Rightarrow>
                    (if net_timeout ls = Some True then ReasonTimeout
                     else if list_ex is_dns ls then ReasonNoRoute
                     else if list_ex is_op ls then ReasonNoRoute
                     else ReasonDecode)))"

definition statusOf :: "go_error \<Rightarrow> int" where
  "statusOf ls =
     (case as_status ls of
        Some c \<Rightarrow> c
      | None \<Rightarrow> (case as_auth ls of Some c \<Rightarrow> c | None \<Rightarrow> 0))"

section \<open>Credentials\<close>

record Credential =
  cr_Username :: string
  cr_Password :: Secret

record deviceMatch =
  dm_DeviceID :: string
  dm_MAC :: string
  dm_Hostname :: string
  dm_Gen :: int

record authResolver =
  ar_global :: Credential
  ar_overrides :: "ShellyAuthOverride list"

definition newAuthResolver :: "ShellyAuth \<Rightarrow> authResolver" where
  "newAuthResolver cfg =
     \<lparr>ar_global = \<lparr>cr_Username = sa_Username cfg, cr_Password = sa_Password cfg\<rparr>, ar_overrides = sa_Overrides cfg\<rparr>"

definition normaliseMAC :: "string \<Rightarrow> string" where
  "normaliseMAC s = filter is_hex_lower (to_lower (trim_space s))"

definition EqualFold :: "string \<Rightarrow> string \<Rightarrow> bool" where
  "EqualFold a b \<longleftrightarrow> to_lower a = to_lower b"

text \<open>\<open>glob\<close> is \<^verbatim>\<open>path.Match\<close>: \<open>None\<close> for a malformed pattern.\<close>

definition matches :: "(string \<Rightarrow> string \<Rightarrow> bool option) \<Rightarrow> ShellyAuthMatch \<Rightarrow> deviceMatch \<Rightarrow> bool" where
  "matches glob m d =
     (if sm_DeviceID m \<noteq> [] \<and> \<not> EqualFold (sm_DeviceID m) (dm_DeviceID d) then False
      else if sm_MAC m \<noteq> [] \<and> \<not> EqualFold (normaliseMAC (sm_MAC m)) (dm_MAC d) then False
      else if sm_Hostname m \<noteq> [] \<and> glob (to_lower (sm_Hostname m)) (to_lower (dm_Hostname d)) \<noteq> Some True then False
      else if sm_Gen m \<noteq> 0 \<and> sm_Gen m \<noteq> dm_Gen d then False
      else True)"

definition gen2Username :: string where "gen2Username = ''admin''"

definition apply_override :: "ShellyAuthOverride \<Rightarrow> Credential \<Rightarrow> Credential" where
  "apply_override ov cred =
     (let c1 = (if so_Username ov \<noteq> [] then cred\<lparr>cr_Username := so_Username ov\<rparr> else cred)
      in if IsSet (so_Password ov) then c1\<lparr>cr_Password := so_Password ov\<rparr> else c1)"

fun first_override ::
  "(string \<Rightarrow> string \<Rightarrow> bool option) \<Rightarrow> deviceMatch \<Rightarrow> ShellyAuthOverride list \<Rightarrow> Credential \<Rightarrow> Credential" where
  "first_override glob d [] cred = cred"
| "first_override glob d (ov # ovs) cred =
     (if \<not> matches glob (so_Match ov) d then first_override glob d ovs cred else apply_override ov cred)"

definition resolve :: "(string \<Rightarrow> string \<Rightarrow> bool option) \<Rightarrow> authResolver \<Rightarrow> deviceMatch \<Rightarrow> Credential" where
  "resolve glob a d =
     (let cred = first_override glob d (ar_overrides a) (ar_global a)
      in if 2 \<le> dm_Gen d \<and> cr_Username cred \<noteq> gen2Username then cred\<lparr>cr_Username := gen2Username\<rparr> else cred)"

section \<open>Clients\<close>

text \<open>The settings of the two shared transports; no proxy is used.\<close>

record transport_settings =
  ts_DialTimeout :: duration
  ts_KeepAlive :: duration
  ts_MaxIdleConns :: int
  ts_MaxIdleConnsPerHost :: int
  ts_MaxConnsPerHost :: int
  ts_IdleConnTimeout :: duration
  ts_ResponseHeaderTimeout :: duration
  ts_ExpectContinueTimeout :: duration
  ts_DisableCompression :: bool
  ts_ForceAttemptHTTP2 :: bool
  ts_DisableKeepAlives :: bool

definition newBaseTransport :: "ShellyConfig \<Rightarrow> transport_settings" where
  "newBaseTransport cfg =
     \<lparr>ts_DialTimeout = sh_DialTimeout cfg, ts_KeepAlive = 30 * second, ts_MaxIdleConns = 256,
      ts_MaxIdleConnsPerHost = 2, ts_MaxConnsPerHost = 2, ts_IdleConnTimeout = 90 * second,
      ts_ResponseHeaderTimeout = sh_ResponseHeaderTimeout cfg, ts_ExpectContinueTimeout = second,
      ts_DisableCompression = True, ts_ForceAttemptHTTP2 = False, ts_DisableKeepAlives = False\<rparr>"

definition gen1Transport :: "ShellyConfig \<Rightarrow> transport_settings" where
  "gen1Transport cfg = (newBaseTransport cfg)\<lparr>ts_DisableKeepAlives := True, ts_MaxConnsPerHost := 1\<rparr>"

text \<open>A client is the transport it sends through: the shared one, or the Gen1 one, without or with
  an authentication scheme.\<close>

datatype transport =
    BaseTransport
  | Gen1Transport
  | DigestTransport string Secret transport
  | BasicTransport string Secret transport

definition newAuthTransport :: "int \<Rightarrow> Credential \<Rightarrow> transport \<Rightarrow> transport" where
  "newAuthTransport gen cred base =
     (if \<not> IsSet (cr_Password cred) then base
      else if 2 \<le> gen then DigestTransport gen2Username (cr_Password cred) base
      else BasicTransport (cr_Username cred) (cr_Password cred) base)"

type_synonym clientKey = "string \<times> 64 word"
type_synonym clients = "(clientKey \<times> transport) list"

definition clients_get :: "clientKey \<Rightarrow> int \<Rightarrow> Credential \<Rightarrow> clients \<Rightarrow> transport \<times> clients" where
  "clients_get key gen cred cs =
     (case map_of cs key of
        Some cl \<Rightarrow> (cl, cs)
      | None \<Rightarrow>
          (let base = (if gen = 1 then Gen1Transport else BaseTransport);
               cl = newAuthTransport gen cred base;
               cs1 = AList.update key cl cs
           in (cl, filter (\<lambda>(k, v). \<not> (fst k = fst key \<and> snd k \<noteq> snd key)) cs1)))"

definition clients_forget :: "string \<Rightarrow> clients \<Rightarrow> clients" where
  "clients_forget deviceID cs = filter (\<lambda>(k, v). fst k \<noteq> deviceID) cs"

text \<open>
  Rendering a number into a buffer of eight bytes, from its end; \<open>None\<close> is the panic of an index
  below zero.
\<close>

fun itoa_loop :: "nat \<Rightarrow> nat \<Rightarrow> string \<Rightarrow> string option" where
  "itoa_loop i n acc =
     (if n = 0 then Some acc
      else case i of 0 \<Rightarrow> None | Suc i' \<Rightarrow> itoa_loop i' (n div 10) (char_of (48 + n mod 10) # acc))"

declare itoa_loop.simps [simp del]

definition itoa8 :: "int \<Rightarrow> string option" where
  "itoa8 n = (if n = 0 then Some ''0'' else if n < 0 then Some [] else itoa_loop 8 (nat n) [])"

section \<open>One request\<close>

text \<open>What the network answers: an error, or a status with a body that may fail to arrive.\<close>

datatype response = NetFailure go_error | Response int "go_error + string"

definition status_error :: "int \<Rightarrow> go_error option" where
  "status_error code =
     (if code = 401 \<or> code = 403 then Some [AuthError code]
      else if code < 200 \<or> 300 \<le> code then Some [StatusError code]
      else None)"

text \<open>\<^verbatim>\<open>fetch\<close> after the address is known: body and status, or an error.\<close>

definition fetch_body :: "int \<Rightarrow> response \<Rightarrow> go_error + string \<times> int" where
  "fetch_body maxBody r =
     (case r of
        NetFailure err \<Rightarrow> Inl err
      | Response code body \<Rightarrow>
          (case status_error code of
             Some err \<Rightarrow> Inl err
           | None \<Rightarrow> (case body of Inl err \<Rightarrow> Inl err | Inr b \<Rightarrow> Inr (take (nat maxBody) b, code))))"

section \<open>Lemmas\<close>

lemma EqualFold_refl [simp]: "EqualFold s s"
  by (simp add: EqualFold_def)

lemma normaliseMAC_eq: "normaliseMAC = NormaliseMAC"
  by (simp add: fun_eq_iff normaliseMAC_def NormaliseMAC_def)

lemma nat_digits_rec: "10 \<le> n \<Longrightarrow> nat_digits n = nat_digits (n div 10) @ [n mod 10]"
  by (subst nat_digits.simps) simp

lemma itoa_loop_digits:
  "0 < n \<Longrightarrow> itoa_loop i n acc = (if length (nat_digits n) \<le> i then Some (itoa n @ acc) else None)"
proof (induction i arbitrary: n acc)
  case 0
  then show ?case by (simp add: itoa_loop.simps)
next
  case (Suc i)
  show ?case
  proof (cases "n < 10")
    case True
    then have "nat_digits n = [n]" by (simp add: nat_digits.simps)
    then show ?thesis using True Suc.prems by (simp add: itoa_loop.simps itoa_def)
  next
    case False
    then show ?thesis
      using Suc.IH [of "n div 10"] by (simp add: itoa_loop.simps [of "Suc i"] nat_digits_rec itoa_def)
  qed
qed

lemma nat_digits_length: "length (nat_digits n) \<le> Suc k \<longleftrightarrow> n < 10 ^ Suc k"
proof (induction k arbitrary: n)
  case 0
  then show ?case by (subst nat_digits.simps) simp
next
  case (Suc k)
  show ?case
  proof (cases "n < 10")
    case True
    then have "n < 10 ^ Suc (Suc k)" by (rule less_le_trans) simp
    then show ?thesis using True by (simp add: nat_digits.simps)
  next
    case False
    then have "length (nat_digits n) \<le> Suc (Suc k) \<longleftrightarrow> n div 10 < 10 ^ Suc k"
      using Suc.IH [of "n div 10"] by (simp add: nat_digits_rec)
    also have "\<dots> \<longleftrightarrow> n < 10 ^ Suc (Suc k)" by (simp add: div_less_iff_less_mult mult.commute)
    finally show ?thesis .
  qed
qed

lemma itoa8_value: "0 \<le> n \<Longrightarrow> itoa8 n = (if n < 10 ^ 8 then Some (itoa (nat n)) else None)"
proof -
  assume n: "0 \<le> n"
  have "nat n < 10 ^ Suc 7 \<longleftrightarrow> n < 10 ^ 8" using n by (simp add: nat_less_iff)
  moreover have "char_of (48 :: nat) = CHR ''0''" by code_simp
  then have "itoa 0 = ''0''" by (simp add: itoa_def nat_digits.simps)
  ultimately show ?thesis
    using n itoa_loop_digits [of "nat n" 8 "[]"] nat_digits_length [of "nat n" 7]
    by (auto simp: itoa8_def)
qed

end
