(* ===== verification/ShellyIdentity.thy ===== *)
theory ShellyIdentity
  imports ShellyHttp ShellyJson Registry
begin

text \<open>
  \<^verbatim>\<open>internal/shelly/identity.go\<close> and \<^verbatim>\<open>names.go\<close>: what a device says it is,
  the guard against attributing one device's readings to another, and the two caches that are keyed
  by device and epoch.  Both caches meet one contract, the locale \<open>epoch_cache\<close>.  The structs a body
  is decoded into are records; the decoding is the JSON package's.
\<close>

section \<open>The contract of a cache keyed by device and epoch\<close>

locale epoch_cache =
  fixes get :: "string \<Rightarrow> 64 word \<Rightarrow> time \<Rightarrow> 'c \<Rightarrow> 'v option"
    and put :: "string \<Rightarrow> 64 word \<Rightarrow> time \<Rightarrow> 'v \<Rightarrow> 'c \<Rightarrow> 'c"
    and forget_entry :: "string \<Rightarrow> 'c \<Rightarrow> 'c"
    and ttl :: "'c \<Rightarrow> duration"
    and stored :: "'v \<Rightarrow> 64 word \<Rightarrow> time \<Rightarrow> 'v"
  assumes get_put: "get d ep' now (put d ep t v c) =
      (if ep' = ep \<and> \<not> ttl c < time_sub now t then Some (stored v ep t) else None)"
    and get_put_other: "d' \<noteq> d \<Longrightarrow> get d' ep' now (put d ep t v c) = get d' ep' now c"
    and get_forget: "get d' ep' now (forget_entry d c) = (if d' = d then None else get d' ep' now c)"
    and ttl_put: "ttl (put d ep t v c) = ttl c"
    and ttl_forget: "ttl (forget_entry d c) = ttl c"
begin

text \<open>An entry written under one epoch is never read under another: a device that moved is asked again.\<close>

lemma moved_device_misses: "ep' \<noteq> ep \<Longrightarrow> get d ep' now (put d ep t v c) = None"
  by (simp add: get_put)

lemma expired_misses: "ttl c < time_sub now t \<Longrightarrow> get d ep' now (put d ep t v c) = None"
  by (simp add: get_put)

lemma fresh_hits: "0 \<le> ttl c \<Longrightarrow> get d ep t (put d ep t v c) = Some (stored v ep t)"
  by (simp add: get_put)

lemma forgotten_misses: "get d ep now (forget_entry d c) = None"
  by (simp add: get_forget)

lemma last_write_wins: "get d ep now (put d ep t v (put d ep0 t0 v0 c)) = get d ep now (put d ep t v c)"
  by (simp add: get_put ttl_put)

end

section \<open>Identity\<close>

record Identity =
  id_Gen :: int
  id_MAC :: string
  id_Model :: string
  id_App :: string
  id_FWID :: string
  id_Version :: string
  id_ShellyID :: string
  id_Name :: string
  id_AuthEnabled :: bool
  id_fetchedAt :: time
  id_epoch :: "64 word"

record identityCache =
  ic_ttl :: duration
  ic_m :: "(string \<times> Identity) list"

definition newIdentityCache :: "duration \<Rightarrow> identityCache" where
  "newIdentityCache ttl = \<lparr>ic_ttl = ttl, ic_m = []\<rparr>"

definition identity_get :: "string \<Rightarrow> 64 word \<Rightarrow> time \<Rightarrow> identityCache \<Rightarrow> Identity option" where
  "identity_get deviceID epoch now c =
     (case map_of (ic_m c) deviceID of
        None \<Rightarrow> None
      | Some i \<Rightarrow> if id_epoch i \<noteq> epoch \<or> ic_ttl c < time_sub now (id_fetchedAt i) then None else Some i)"

definition identity_put :: "string \<Rightarrow> Identity \<Rightarrow> identityCache \<Rightarrow> identityCache" where
  "identity_put deviceID i c = c\<lparr>ic_m := AList.update deviceID i (ic_m c)\<rparr>"

definition identity_mac :: "string \<Rightarrow> identityCache \<Rightarrow> string" where
  "identity_mac deviceID c = (case map_of (ic_m c) deviceID of None \<Rightarrow> [] | Some i \<Rightarrow> id_MAC i)"

definition identity_forget :: "string \<Rightarrow> identityCache \<Rightarrow> identityCache" where
  "identity_forget deviceID c = c\<lparr>ic_m := AList.delete deviceID (ic_m c)\<rparr>"

definition identity_len :: "identityCache \<Rightarrow> nat" where
  "identity_len c = length (ic_m c)"

text \<open>The way \<^verbatim>\<open>fetchIdentity\<close> stores an identity: stamped with time and epoch.\<close>

definition stamp :: "Identity \<Rightarrow> 64 word \<Rightarrow> time \<Rightarrow> Identity" where
  "stamp i epoch now = i\<lparr>id_fetchedAt := now, id_epoch := epoch\<rparr>"

interpretation identities: epoch_cache identity_get "\<lambda>d ep t i. identity_put d (stamp i ep t)" identity_forget
  ic_ttl stamp
  by unfold_locales
    (auto simp: identity_get_def identity_put_def identity_forget_def stamp_def split: option.splits)

record shellyResponse =
  sr_Gen :: int
  sr_ID :: string
  sr_Model :: string
  sr_App :: string
  sr_Ver :: string
  sr_FWID :: string
  sr_Name :: string
  sr_AuthEn :: "bool option"
  sr_Type :: string
  sr_FW :: string
  sr_Auth :: "bool option"
  sr_MAC :: string

definition gen1Version :: "string \<Rightarrow> string" where
  "gen1Version fw =
     (case cut fw (CHR ''/'') of (_, rest, found) \<Rightarrow>
        if \<not> found then fw else trim_prefix (fst (cut rest (CHR ''-''))) ''v'')"

definition macFromShellyID :: "string \<Rightarrow> string" where
  "macFromShellyID i =
     (case last_index i (CHR ''-'') of
        None \<Rightarrow> []
      | Some k \<Rightarrow> (let mac = normaliseMAC (drop (Suc k) i) in if length mac \<noteq> 12 then [] else mac))"

definition no_identity :: Identity where
  "no_identity = \<lparr>id_Gen = 0, id_MAC = [], id_Model = [], id_App = [], id_FWID = [], id_Version = [],
     id_ShellyID = [], id_Name = [], id_AuthEnabled = False, id_fetchedAt = zero_time, id_epoch = 0\<rparr>"

definition toIdentity :: "shellyResponse \<Rightarrow> go_error + Identity" where
  "toIdentity r =
     (let i0 = no_identity\<lparr>id_MAC := normaliseMAC (sr_MAC r)\<rparr>;
          i1 = (if 0 < sr_Gen r
                then Some (i0\<lparr>id_Gen := sr_Gen r, id_Model := sr_Model r, id_App := sr_App r,
                       id_Version := sr_Ver r, id_FWID := sr_FWID r, id_ShellyID := sr_ID r, id_Name := sr_Name r,
                       id_AuthEnabled := (case sr_AuthEn r of Some b \<Rightarrow> b | None \<Rightarrow> False)\<rparr>)
                else if sr_Type r \<noteq> []
                then Some (i0\<lparr>id_Gen := 1, id_Model := sr_Type r, id_FWID := sr_FW r,
                       id_Version := gen1Version (sr_FW r),
                       id_AuthEnabled := (case sr_Auth r of Some b \<Rightarrow> b | None \<Rightarrow> False)\<rparr>)
                else None)
      in case i1 of
           None \<Rightarrow> Inl [OtherError ''GET /shelly has neither a gen nor a type field'']
         | Some i \<Rightarrow> Inr (if id_MAC i = [] \<and> id_ShellyID i \<noteq> [] then i\<lparr>id_MAC := macFromShellyID (id_ShellyID i)\<rparr> else i))"

definition verifyMAC :: "string \<Rightarrow> Identity \<Rightarrow> bool" where
  "verifyMAC deviceID i \<longleftrightarrow>
     (let expected = MACOfID deviceID
      in expected = [] \<or> id_MAC i = [] \<or> expected = id_MAC i)"

section \<open>Configured names\<close>

record deviceNames =
  dn_device :: string
  dn_components :: "string \<Rightarrow> string option"

record namesEntry =
  ne_names :: deviceNames
  ne_fetchedAt :: time
  ne_epoch :: "64 word"

record namesCache =
  nc_ttl :: duration
  nc_m :: "string \<Rightarrow> namesEntry option"

definition newNamesCache :: "duration \<Rightarrow> namesCache" where
  "newNamesCache ttl = \<lparr>nc_ttl = ttl, nc_m = Map.empty\<rparr>"

definition names_get :: "string \<Rightarrow> 64 word \<Rightarrow> time \<Rightarrow> namesCache \<Rightarrow> deviceNames option" where
  "names_get deviceID epoch now c =
     (case nc_m c deviceID of
        None \<Rightarrow> None
      | Some e \<Rightarrow> if ne_epoch e \<noteq> epoch \<or> nc_ttl c < time_sub now (ne_fetchedAt e) then None else Some (ne_names e))"

definition names_put :: "string \<Rightarrow> 64 word \<Rightarrow> time \<Rightarrow> deviceNames \<Rightarrow> namesCache \<Rightarrow> namesCache" where
  "names_put deviceID epoch now ns c =
     c\<lparr>nc_m := (nc_m c)(deviceID \<mapsto> \<lparr>ne_names = ns, ne_fetchedAt = now, ne_epoch = epoch\<rparr>)\<rparr>"

definition names_forget :: "string \<Rightarrow> namesCache \<Rightarrow> namesCache" where
  "names_forget deviceID c = c\<lparr>nc_m := (nc_m c)(deviceID := None)\<rparr>"

definition names_lookup :: "string \<Rightarrow> string \<Rightarrow> namesCache \<Rightarrow> string" where
  "names_lookup deviceID key c =
     (case nc_m c deviceID of
        None \<Rightarrow> []
      | Some e \<Rightarrow> (case dn_components (ne_names e) key of Some n \<Rightarrow> n | None \<Rightarrow> []))"

interpretation names: epoch_cache names_get names_put names_forget nc_ttl "\<lambda>ns ep t. ns"
  by unfold_locales (auto simp: names_get_def names_put_def names_forget_def split: option.splits)

definition no_names :: deviceNames where
  "no_names = \<lparr>dn_device = [], dn_components = Map.empty\<rparr>"

text \<open>
  One member of \<^verbatim>\<open>Shelly.GetConfig\<close>: a member that is no object, or whose name is no string,
  does not decode and is passed over.
\<close>

definition config_name :: "json \<Rightarrow> string option" where
  "config_name v =
     (case as_map v of
        None \<Rightarrow> None
      | Some m \<Rightarrow> (case map_of m ''name'' of Some (JStr s) \<Rightarrow> if s \<noteq> [] then Some s else None | _ \<Rightarrow> None))"

definition decodeGen2Config :: "json option \<Rightarrow> deviceNames option" where
  "decodeGen2Config body =
     (case body of
        None \<Rightarrow> None
      | Some v \<Rightarrow> map_option (\<lambda>doc. \<lparr>dn_device = [],
          dn_components = foldl (\<lambda>ns (key, msg). case config_name msg of Some s \<Rightarrow> ns(key \<mapsto> s) | None \<Rightarrow> ns) Map.empty doc\<rparr>)
          (as_map v))"

record gen1Settings =
  gs_Name :: string
  gs_Relays :: "string list"
  gs_EMeters :: "string list"
  gs_Inputs :: "string list"
  gs_Lights :: "string list"

definition add_names :: "string \<Rightarrow> string list \<Rightarrow> (string \<Rightarrow> string option) \<Rightarrow> string \<Rightarrow> string option" where
  "add_names component ns0 acc =
     foldl (\<lambda>ns (i, name). if name \<noteq> [] then ns(component @ '':'' @ itoa i \<mapsto> name) else ns) acc (enumerate 0 ns0)"

definition decodeGen1Settings :: "gen1Settings option \<Rightarrow> deviceNames option" where
  "decodeGen1Settings body = map_option (\<lambda>s. \<lparr>dn_device = gs_Name s,
     dn_components = add_names ''light'' (gs_Lights s) (add_names ''input'' (gs_Inputs s)
       (add_names ''em1'' (gs_EMeters s) (add_names ''switch'' (gs_Relays s) Map.empty)))\<rparr>) body"

end
