(* ===== verification/CloudJson.thy ===== *)
theory CloudJson
  imports Naming Netip
begin

text \<open>
  \<^verbatim>\<open>internal/shellycloud/json.go\<close> and the helpers of \<^verbatim>\<open>status.go\<close> and
  \<^verbatim>\<open>names.go\<close>: reading the documents of the Shelly cloud, where one field may arrive with
  several types.  A number keeps its literal beside its value, because an identifier made of digits
  arrives as a number and is read as text.
\<close>

datatype cjson =
    CNull
  | CBool bool
  | CNum string real
  | CStr string
  | CArr "cjson list"
  | CObj "(string \<times> cjson) list"

type_synonym cobj = "(string \<times> cjson) list"

text \<open>Decoding into a map: null leaves it nil.\<close>

fun as_cmap :: "cjson \<Rightarrow> cobj option" where
  "as_cmap (CObj m) = Some m"
| "as_cmap CNull = Some []"
| "as_cmap _ = None"

text \<open>The \<^verbatim>\<open>text\<close> type: a string or the literal of a number, and nothing else.\<close>

fun text_of :: "cjson \<Rightarrow> string" where
  "text_of (CStr s) = s"
| "text_of (CNum lit v) = lit"
| "text_of _ = []"

definition text_member :: "cobj \<Rightarrow> string \<Rightarrow> string" where
  "text_member m k = (case map_of m k of Some v \<Rightarrow> text_of v | None \<Rightarrow> [])"

section \<open>Numbers in strings\<close>

definition upper_char :: "char \<Rightarrow> char" where
  "upper_char c = (if is_lower_char c then char_of (char_code c - 32) else c)"

definition to_upper :: "string \<Rightarrow> string" where
  "to_upper s = map upper_char s"

text \<open>\<^verbatim>\<open>strconv.Atoi\<close>: an optional sign, decimal digits, within 64 bits.\<close>

definition atoi :: "string \<Rightarrow> int option" where
  "atoi s =
     (let (neg, digits) = (case s of
          [] \<Rightarrow> (False, [])
        | c # r \<Rightarrow> if c = CHR ''-'' then (True, r) else if c = CHR ''+'' then (False, r) else (False, s))
      in case parse_nat digits of
           None \<Rightarrow> None
         | Some n \<Rightarrow>
             (let v = (if neg then - int n else int n)
              in if v < - (2 ^ 63) \<or> 2 ^ 63 \<le> v then None else Some v))"

definition real_trunc :: "real \<Rightarrow> int" where
  "real_trunc x = (if 0 \<le> x then \<lfloor>x\<rfloor> else \<lceil>x\<rceil>)"

text \<open>\<open>None\<close> is the absent member, which does not decode.\<close>

definition parseGen :: "cjson option \<Rightarrow> int" where
  "parseGen raw =
     (case raw of
        Some (CNum lit g) \<Rightarrow> real_trunc g
      | Some (CStr g) \<Rightarrow>
          (case atoi (trim_prefix (to_upper (trim_space g)) ''G'') of
             Some n \<Rightarrow> if n < 1 \<or> 9 < n then 0 else n
           | None \<Rightarrow> 0)
      | _ \<Rightarrow> 0)"

definition ParseBool_true :: "string list" where
  "ParseBool_true = [''1'', ''t'', ''T'', ''TRUE'', ''true'', ''True'']"

definition parseBool :: "cjson option \<Rightarrow> bool" where
  "parseBool raw =
     (case raw of
        Some (CBool b) \<Rightarrow> b
      | Some (CNum lit v) \<Rightarrow> v \<noteq> 0
      | Some (CStr s) \<Rightarrow> s \<in> set ParseBool_true
      | _ \<Rightarrow> False)"

section \<open>Addresses of hardware and network\<close>

definition cloud_normaliseMAC :: "string \<Rightarrow> string" where
  "cloud_normaliseMAC s = filter is_hex_lower (to_lower s)"

definition pad_digits :: "string \<Rightarrow> string" where
  "pad_digits mac =
     (if mac \<noteq> [] \<and> length mac < 12 \<and> list_all is_digit_char mac
      then replicate (12 - length mac) (CHR ''0'') @ mac else mac)"

fun statusMAC :: "string list \<Rightarrow> string" where
  "statusMAC [] = []"
| "statusMAC (s # ss) =
     (let mac = pad_digits (cloud_normaliseMAC s) in if length mac = 12 then mac else statusMAC ss)"

text \<open>\<open>parseAddr\<close> is \<^verbatim>\<open>netip.ParseAddr\<close>.\<close>

fun firstAddr :: "(string \<Rightarrow> netip_addr option) \<Rightarrow> string list \<Rightarrow> netip_addr" where
  "firstAddr parseAddr [] = NoAddr"
| "firstAddr parseAddr (s # ss) =
     (case parseAddr (trim_space s) of
        Some a \<Rightarrow> if is_valid a \<and> \<not> is_unspecified a then unmap a else firstAddr parseAddr ss
      | None \<Rightarrow> firstAddr parseAddr ss)"

section \<open>Lemmas\<close>

lemma statusMAC_length: "statusMAC ss = [] \<or> length (statusMAC ss) = 12"
  by (induction ss) (auto simp: Let_def)

lemma pad_digits_hex: "list_all is_hex_lower s \<Longrightarrow> list_all is_hex_lower (pad_digits s)"
proof -
  have "is_hex_lower (CHR ''0'')" by code_simp
  then show "list_all is_hex_lower s \<Longrightarrow> list_all is_hex_lower (pad_digits s)"
    by (auto simp: pad_digits_def list_all_iff)
qed

lemma statusMAC_hex: "list_all is_hex_lower (statusMAC ss)"
proof (induction ss)
  case (Cons s ss)
  have "list_all is_hex_lower (pad_digits (cloud_normaliseMAC s))"
    by (intro pad_digits_hex) (simp add: cloud_normaliseMAC_def list_all_iff)
  then show ?case using Cons by (simp add: Let_def)
qed simp

lemma parse_nat_digits: "digits_value (replicate k (CHR ''0'') @ s) = digits_value s"
proof -
  have z: "char_code (CHR ''0'') = 48" by code_simp
  have "foldl (\<lambda>acc c. 10 * acc + (char_code c - 48)) 0 (replicate k (CHR ''0'')) = 0"
    by (induction k) (simp_all add: z)
  then show ?thesis by (simp add: digits_value_def)
qed

lemma atoi_itoa: "int n < 2 ^ 63 \<Longrightarrow> atoi (itoa n) = Some (int n)"
proof -
  assume n: "int n < 2 ^ 63"
  obtain c s where cs: "itoa n = c # s" by (cases "itoa n") simp_all
  have "is_digit_char c" using itoa_digits [of c n] by (simp add: cs)
  moreover have "\<not> is_digit_char (CHR ''-'')" "\<not> is_digit_char (CHR ''+'')" by code_simp+
  ultimately have "c \<noteq> CHR ''-''" "c \<noteq> CHR ''+''" by auto
  then show ?thesis using parse_nat_itoa [of n] n by (simp add: atoi_def cs)
qed

end
