(* ===== verification/CloudNames.thy ===== *)
theory CloudNames
  imports CloudJson
begin

text \<open>
  \<^verbatim>\<open>internal/shellycloud/names.go\<close>: what the Shelly app calls each device, channel and
  room, and the store that refreshes these names in the background.  A refresh takes what its two
  requests answered; the loop of \<^verbatim>\<open>Run\<close> is a machine whose messages are the refreshes.
\<close>

section \<open>Names\<close>

record Channel =
  ch_Name :: string
  ch_Category :: string

record Names =
  nm_Device :: string
  nm_Room :: string
  nm_Channels :: "int \<Rightarrow> Channel option"

definition Names_Channel :: "Names \<Rightarrow> int \<Rightarrow> Channel option" where
  "Names_Channel n i = nm_Channels n i"

record channel =
  cn_index :: int
  cn_name :: string
  cn_category :: string
  cn_room :: string

definition hiddenRoom :: string where "hiddenRoom = ''-10''"

definition cleanName :: "string \<Rightarrow> string" where
  "cleanName s0 = (let s = trim_space s0 in if to_lower s = ''unnamed'' then [] else s)"

definition splitChannelKey :: "string \<Rightarrow> string \<times> int" where
  "splitChannelKey key0 =
     (let key = to_lower key0
      in case last_index key (CHR ''_'') of
           Some i \<Rightarrow>
             (if 0 < i
              then case atoi (drop (Suc i) key) of
                     Some n \<Rightarrow> if 0 \<le> n then (take i key, n) else (key, 0)
                   | None \<Rightarrow> (key, 0)
              else (key, 0))
         | None \<Rightarrow> (key, 0))"

text \<open>One entry of the device list; an entry that is no object does not decode.\<close>

definition channel_of :: "(string \<Rightarrow> string option) \<Rightarrow> int \<Rightarrow> cobj \<Rightarrow> channel" where
  "channel_of rooms index e =
     \<lparr>cn_index = index, cn_name = cleanName (text_member e ''name''),
      cn_category = to_lower (trim_space (text_member e ''category'')),
      cn_room = (case rooms (trim_space (text_member e ''room_id'')) of Some r \<Rightarrow> r | None \<Rightarrow> [])\<rparr>"

definition group_channel ::
  "(string \<Rightarrow> string option) \<Rightarrow> (string \<times> channel list) list \<Rightarrow> string \<times> cjson \<Rightarrow> (string \<times> channel list) list" where
  "group_channel rooms by kv =
     (case kv of (key, raw) \<Rightarrow>
        (case as_cmap raw of
           None \<Rightarrow> by
         | Some e \<Rightarrow>
             (case splitChannelKey key of (i, index) \<Rightarrow>
                AList.update i ((case map_of by i of Some cs \<Rightarrow> cs | None \<Rightarrow> []) @ [channel_of rooms index e]) by)))"

text \<open>The names of one device from its channels in the order of their index.\<close>

definition add_channel :: "Names \<Rightarrow> channel \<Rightarrow> Names" where
  "add_channel n ch =
     (let n1 = (if cn_name ch \<noteq> []
                then n\<lparr>nm_Channels := (nm_Channels n)(cn_index ch \<mapsto> \<lparr>ch_Name = cn_name ch, ch_Category = cn_category ch\<rparr>)\<rparr>
                else n)
      in if nm_Room n1 = [] then n1\<lparr>nm_Room := cn_room ch\<rparr> else n1)"

definition device_names :: "channel list \<Rightarrow> Names" where
  "device_names chans0 =
     (let chans = sort_key cn_index chans0;
          n = foldl add_channel \<lparr>nm_Device = [], nm_Room = [], nm_Channels = Map.empty\<rparr> chans
      in case chans of
           [ch] \<Rightarrow> if cn_index ch = 0 then n\<lparr>nm_Device := cn_name ch\<rparr> else n
         | _ \<Rightarrow> n)"

definition decodeNames :: "cjson \<Rightarrow> (string \<Rightarrow> string option) \<Rightarrow> (string \<times> Names) list option" where
  "decodeNames data rooms =
     (case as_cmap data of
        None \<Rightarrow> None
      | Some m \<Rightarrow>
          (case (case map_of m ''devices'' of None \<Rightarrow> Some [] | Some v \<Rightarrow> as_cmap v) of
             None \<Rightarrow> None
           | Some devs \<Rightarrow> Some (map (\<lambda>(i, chans). (i, device_names chans)) (foldl (group_channel rooms) [] devs))))"

text \<open>Any room that is no object fails the decoding of the whole list, which then names no room.\<close>

definition decodeRooms :: "cjson \<Rightarrow> string \<Rightarrow> string option" where
  "decodeRooms data =
     (case as_cmap data of
        None \<Rightarrow> Map.empty
      | Some m \<Rightarrow>
          (case (case map_of m ''rooms'' of None \<Rightarrow> Some [] | Some v \<Rightarrow> as_cmap v) of
             None \<Rightarrow> Map.empty
           | Some rooms \<Rightarrow>
               (if list_all (\<lambda>(i, r). as_cmap r \<noteq> None) rooms
                then foldl (\<lambda>out (i, r).
                  (if i \<noteq> hiddenRoom
                   then out(i \<mapsto> trim_space (case as_cmap r of Some e \<Rightarrow> text_member e ''name'' | None \<Rightarrow> []))
                   else out)) Map.empty rooms
                else Map.empty)))"

section \<open>The store\<close>

definition retryInitial :: duration where "retryInitial = 30 * second"
definition retryFactor :: int where "retryFactor = 2"

record NameStore =
  ns_interval :: duration
  ns_rooms :: "string \<Rightarrow> string option"
  ns_names :: "(string \<times> Names) list option"
  ns_loaded :: bool
  ns_up :: bool
  ns_attempted :: bool
  ns_lastSuccess :: time
  ns_retry :: duration      \<comment> \<open>the local variable of \<^verbatim>\<open>Run\<close>\<close>

definition NewNameStore :: "duration \<Rightarrow> NameStore" where
  "NewNameStore interval =
     \<lparr>ns_interval = (if interval \<le> 0 then 15 * minute else interval), ns_rooms = Map.empty, ns_names = None,
      ns_loaded = False, ns_up = False, ns_attempted = False, ns_lastSuccess = zero_time, ns_retry = retryInitial\<rparr>"

definition NameStore_Lookup :: "string \<Rightarrow> NameStore \<Rightarrow> Names option" where
  "NameStore_Lookup mac0 s =
     (case ns_names s of
        None \<Rightarrow> None
      | Some m \<Rightarrow>
          (let mac = cloud_normaliseMAC mac0
           in case map_of m mac of
                Some n \<Rightarrow> Some n
              | None \<Rightarrow> if length mac = 12 then map_of m (drop 6 mac) else None))"

definition NameStore_Health :: "NameStore \<Rightarrow> bool \<times> time" where
  "NameStore_Health s = (ns_up s, ns_lastSuccess s)"

text \<open>
  One refresh: what the device list answered, what the room list answered (asked for only with the
  device list in hand), whether the context had ended by then, and the clock.  The result says
  whether the refresh succeeded.
\<close>

definition refresh ::
  "cjson option \<Rightarrow> cjson option \<Rightarrow> bool \<Rightarrow> time \<Rightarrow> NameStore \<Rightarrow> NameStore \<times> bool" where
  "refresh devices rooms cancelled now s =
     (let s1 = (case devices of
          None \<Rightarrow> s
        | Some d \<Rightarrow> (case rooms of Some r \<Rightarrow> s\<lparr>ns_rooms := decodeRooms r\<rparr> | None \<Rightarrow> s));
          names = (case devices of None \<Rightarrow> None | Some d \<Rightarrow> decodeNames d (ns_rooms s1))
      in if cancelled then (s1, False)
         else let s2 = s1\<lparr>ns_attempted := True, ns_loaded := True\<rparr>
         in case names of
              None \<Rightarrow> (s2\<lparr>ns_up := False\<rparr>, False)
            | Some n \<Rightarrow> (s2\<lparr>ns_names := Some n, ns_up := True, ns_lastSuccess := now\<rparr>, True))"

text \<open>One turn of \<^verbatim>\<open>Run\<close>: a refresh, and the wait before the next.\<close>

definition run_turn ::
  "cjson option \<Rightarrow> cjson option \<Rightarrow> bool \<Rightarrow> time \<Rightarrow> NameStore \<Rightarrow> NameStore \<times> duration" where
  "run_turn devices rooms cancelled now s =
     (case refresh devices rooms cancelled now s of (s', ok) \<Rightarrow>
        (if ok then (s'\<lparr>ns_retry := retryInitial\<rparr>, ns_interval s)
         else (s'\<lparr>ns_retry := min (ns_retry s * retryFactor) (ns_interval s)\<rparr>, min (ns_retry s) (ns_interval s))))"

end
