(* ===== verification/ShellyCollector.thy ===== *)
theory ShellyCollector
  imports ShellyGen1 ShellyIdentity CloudNames
begin

text \<open>
  \<^verbatim>\<open>internal/shelly/collector.go\<close>: one probe of a Shelly device, from its cached
  identity over credential, client, configured names and cloud names to the status document.  The
  network and the JSON decoders are arguments; the requests a probe makes are threaded as a log of
  their paths, so that their number is a fact about the model.
\<close>

text \<open>What the JSON package makes of a body, for the Go types the code decodes into.\<close>

record codec =
  dec_shelly :: "string \<Rightarrow> go_error + shellyResponse"
  dec_json :: "string \<Rightarrow> json option"
  dec_gen1 :: "string \<Rightarrow> gen1Status option"
  dec_settings :: "string \<Rightarrow> gen1Settings option"

text \<open>The network: the answer to a request of a client for a path at an address and port.\<close>

type_synonym network = "transport \<Rightarrow> netip_addr \<Rightarrow> 16 word \<Rightarrow> string \<Rightarrow> response"

record ShellyCollector =
  cl_cfg :: ShellyConfig
  cl_families :: families
  cl_descs :: desc_cache
  cl_clients :: clients
  cl_identities :: identityCache
  cl_auth :: authResolver
  cl_unknown :: "string \<Rightarrow> nat"
  cl_names :: namesCache
  cl_cloud :: "NameStore option"
  cl_requests :: "string list"    \<comment> \<open>the paths asked for so far\<close>

definition NewShelly :: "ShellyConfig \<Rightarrow> families \<Rightarrow> ShellyCollector" where
  "NewShelly cfg fams =
     \<lparr>cl_cfg = cfg, cl_families = fams, cl_descs = Map.empty, cl_clients = [],
      cl_identities = newIdentityCache (sh_IdentityTTL cfg), cl_auth = newAuthResolver (sh_Auth cfg),
      cl_unknown = (\<lambda>_. 0), cl_names = newNamesCache (sh_IdentityTTL cfg), cl_cloud = None, cl_requests = []\<rparr>"

definition Shelly_Forget :: "string \<Rightarrow> ShellyCollector \<Rightarrow> ShellyCollector" where
  "Shelly_Forget deviceID c =
     c\<lparr>cl_clients := clients_forget deviceID (cl_clients c),
       cl_identities := identity_forget deviceID (cl_identities c),
       cl_names := names_forget deviceID (cl_names c)\<rparr>"

section \<open>Names from the app\<close>

definition cloudChannelComponents :: "(string \<times> string list) list" where
  "cloudChannelComponents =
     [(''relay'', [''switch'']), (''roller'', [''cover'']), (''cover'', [''cover'']),
      (''light'', [''light'', ''rgb'', ''rgbw'', ''cct'']), (''emeter'', [''em1'', ''pm1''])]"

definition cloudNames :: "string \<Rightarrow> ShellyCollector \<Rightarrow> Names option" where
  "cloudNames mac c =
     (case cl_cloud c of
        None \<Rightarrow> None
      | Some store \<Rightarrow> if mac = [] then None else NameStore_Lookup mac store)"

definition channel_names :: "string \<Rightarrow> string \<Rightarrow> bool" where
  "channel_names category component \<longleftrightarrow>
     (case map_of cloudChannelComponents category of Some cs \<Rightarrow> component \<in> set cs | None \<Rightarrow> False)"

definition cloudChannelName :: "string \<Rightarrow> string \<Rightarrow> string \<Rightarrow> ShellyCollector \<Rightarrow> string" where
  "cloudChannelName deviceID component i c =
     (case cl_cloud c of
        None \<Rightarrow> []
      | Some _ \<Rightarrow>
          (case atoi i of
             None \<Rightarrow> []
           | Some n \<Rightarrow>
               (case cloudNames (identity_mac deviceID (cl_identities c)) c of
                  None \<Rightarrow> []
                | Some cloud \<Rightarrow>
                    (case Names_Channel cloud n of
                       None \<Rightarrow> []
                     | Some ch \<Rightarrow> if channel_names (ch_Category ch) component then ch_Name ch else []))))"

definition componentName :: "ShellyCollector \<Rightarrow> string \<Rightarrow> string \<Rightarrow> string \<Rightarrow> string" where
  "componentName c deviceID component0 i =
     (let component = (if component0 = ''emdata'' then ''em'' else if component0 = ''em1data'' then ''em1'' else component0);
          name = cloudChannelName deviceID component i c
      in if name \<noteq> [] then name else names_lookup deviceID (component @ '':'' @ i) (cl_names c))"

section \<open>Requests\<close>

definition log_request :: "string \<Rightarrow> ShellyCollector \<Rightarrow> ShellyCollector" where
  "log_request path c = c\<lparr>cl_requests := cl_requests c @ [path]\<rparr>"

text \<open>\<^verbatim>\<open>getJSON\<close>: the decoder reads at most the configured number of bytes.\<close>

definition getJSON ::
  "network \<Rightarrow> (string \<Rightarrow> go_error + 'a) \<Rightarrow> transport \<Rightarrow> netip_addr \<Rightarrow> 16 word \<Rightarrow> string \<Rightarrow> int \<Rightarrow> go_error + 'a" where
  "getJSON net dec cl addr port path maxBody =
     (case fetch_body maxBody (net cl addr port path) of
        Inl err \<Rightarrow> Inl err
      | Inr (body, _) \<Rightarrow> dec body)"

definition fetchIdentity ::
  "network \<Rightarrow> codec \<Rightarrow> time \<Rightarrow> Device \<Rightarrow> ShellyCollector \<Rightarrow> (go_error + Identity) \<times> ShellyCollector" where
  "fetchIdentity net cd now dev c =
     (case identity_get (dev_ID dev) (dev_Epoch dev) now (cl_identities c) of
        Some i \<Rightarrow> (Inr i, c)
      | None \<Rightarrow>
          (case Primary dev of
             None \<Rightarrow> (Inl [OtherError ''device has no routable address''], c)
           | Some addr \<Rightarrow>
               (case clients_get (dev_ID dev @ ''|probe'', dev_Epoch dev) 0 \<lparr>cr_Username = [], cr_Password = []\<rparr> (cl_clients c) of
                  (client, cs) \<Rightarrow>
                    (let c1 = log_request ''/shelly'' (c\<lparr>cl_clients := cs\<rparr>)
                     in case getJSON net (dec_shelly cd) client addr (dev_Port dev) ''/shelly'' (sh_MaxBodyBytes (cl_cfg c)) of
                          Inl err \<Rightarrow> (Inl err, c1)
                        | Inr resp \<Rightarrow>
                            (case toIdentity resp of
                               Inl err \<Rightarrow> (Inl err, c1)
                             | Inr i \<Rightarrow>
                                 (if \<not> verifyMAC (dev_ID dev) i then (Inl [MacMismatch], c1)
                                  else let i' = stamp i (dev_Epoch dev) now
                                       in (Inr i', c1\<lparr>cl_identities := identity_put (dev_ID dev) i' (cl_identities c1)\<rparr>)))))))"

definition fetch ::
  "network \<Rightarrow> transport \<Rightarrow> Device \<Rightarrow> string \<Rightarrow> ShellyCollector \<Rightarrow> (go_error + string \<times> int) \<times> ShellyCollector" where
  "fetch net client dev path c =
     (case Primary dev of
        None \<Rightarrow> (Inl [OtherError ''device has no routable address''], c)
      | Some addr \<Rightarrow>
          (fetch_body (sh_MaxBodyBytes (cl_cfg c)) (net client addr (dev_Port dev) path), log_request path c))"

definition fetchNames ::
  "network \<Rightarrow> codec \<Rightarrow> transport \<Rightarrow> Device \<Rightarrow> int \<Rightarrow> ShellyCollector \<Rightarrow> deviceNames option \<times> ShellyCollector" where
  "fetchNames net cd client dev gen c =
     (let path = (if 2 \<le> gen then ''/rpc/Shelly.GetConfig'' else ''/settings'')
      in case fetch net client dev path c of
           (Inl err, c1) \<Rightarrow> (None, c1)
         | (Inr (body, _), c1) \<Rightarrow>
             (if 2 \<le> gen then decodeGen2Config (dec_json cd body)
              else decodeGen1Settings (dec_settings cd body), c1))"

definition ensureNames ::
  "network \<Rightarrow> codec \<Rightarrow> time \<Rightarrow> transport \<Rightarrow> Device \<Rightarrow> int \<Rightarrow> ShellyCollector \<Rightarrow> deviceNames \<times> ShellyCollector" where
  "ensureNames net cd now client dev gen c =
     (case names_get (dev_ID dev) (dev_Epoch dev) now (cl_names c) of
        Some ns \<Rightarrow> (ns, c)
      | None \<Rightarrow>
          (case fetchNames net cd client dev gen c of
             (res, c1) \<Rightarrow>
               (let ns = (case res of Some ns \<Rightarrow> ns | None \<Rightarrow> no_names)
                in (ns, c1\<lparr>cl_names := names_put (dev_ID dev) (dev_Epoch dev) now ns (cl_names c1)\<rparr>))))"

section \<open>The probe\<close>

text \<open>
  The name of the device: from the app, else from its settings, else from its identity, else from
  the registry; and the room.
\<close>

definition device_name :: "ShellyCollector \<Rightarrow> Device \<Rightarrow> Identity \<Rightarrow> deviceNames \<Rightarrow> string \<times> string" where
  "device_name c dev i ns =
     (let n1 = (if dn_device ns \<noteq> [] then dn_device ns else id_Name i);
          (n2, room) = (case cloudNames (id_MAC i) c of
              Some cloud \<Rightarrow> (if nm_Device cloud \<noteq> [] then nm_Device cloud else n1, nm_Room cloud)
            | None \<Rightarrow> (n1, []))
      in (if n2 = [] then dev_Name dev else n2, room))"

definition shelly_labels :: "string \<Rightarrow> string \<Rightarrow> Labels" where
  "shelly_labels deviceID room =
     \<lparr>lb_Device = deviceID, lb_Kind = ''shelly'', lb_Component = [], lb_ID = [], lb_Name = [],
      lb_DeviceClass = [], lb_Phase = [], lb_Area = room\<rparr>"

definition plan :: "int \<Rightarrow> string" where
  "plan gen = (if 2 \<le> gen then ''/rpc/Shelly.GetStatus'' else ''/status'')"

definition decode_status ::
  "codec \<Rightarrow> ShellyCollector \<Rightarrow> Labels \<Rightarrow> int \<Rightarrow> string \<Rightarrow> Emit \<Rightarrow> (Emit \<times> (string \<Rightarrow> nat)) option" where
  "decode_status cd c l gen body e =
     (if 2 \<le> gen
      then decodeGen2Status (sh_GenericFallback (cl_cfg c)) (componentName c (lb_Device l)) l (dec_json cd body) (e, cl_unknown c)
      else map_option (\<lambda>act. (act e, cl_unknown c)) (decodeGen1Status (componentName c (lb_Device l)) l (dec_gen1 cd body)))"

text \<open>The status document: request, decoding and the result; \<open>e\<close> holds what was emitted before.\<close>

definition collect_status ::
  "network \<Rightarrow> codec \<Rightarrow> transport \<Rightarrow> Device \<Rightarrow> int \<Rightarrow> Labels \<Rightarrow> Emit \<Rightarrow> ShellyCollector
     \<Rightarrow> (Metric list \<times> Result) \<times> ShellyCollector" where
  "collect_status net cd client dev gen l e c =
     (case fetch net client dev (plan gen) c of
        (Inl err, c') \<Rightarrow> (([], Fail (classify (Some err)) (statusOf err)), c'\<lparr>cl_descs := em_descs e\<rparr>)
      | (Inr (body, status), c') \<Rightarrow>
          (case decode_status cd c' l gen body e of
             None \<Rightarrow> (([], Fail ReasonDecode status), c'\<lparr>cl_descs := em_descs e\<rparr>)
           | Some (e', unknown) \<Rightarrow>
               ((em_metrics e', Success status),
                c'\<lparr>cl_families := em_families e', cl_descs := em_descs e', cl_unknown := unknown\<rparr>)))"

text \<open>
  What follows the identity: \<open>None\<close> is the panic of rendering a generation of more than eight
  digits, which the handler of the request recovers from.
\<close>

definition probe_identified ::
  "(netip_addr \<Rightarrow> string) \<Rightarrow> (string \<Rightarrow> string \<Rightarrow> bool option) \<Rightarrow> network \<Rightarrow> codec \<Rightarrow> time \<Rightarrow> Device \<Rightarrow> netip_addr
     \<Rightarrow> Identity \<Rightarrow> ShellyCollector \<Rightarrow> (Metric list \<times> Result) option \<times> ShellyCollector" where
  "probe_identified addrString glob net cd now dev addr i c0 =
     (let cred = resolve glob (cl_auth c0) \<lparr>dm_DeviceID = dev_ID dev, dm_MAC = id_MAC i,
                   dm_Hostname = dev_Hostname dev, dm_Gen = id_Gen i\<rparr>;
          (client, cs) = clients_get (dev_ID dev, dev_Epoch dev) (id_Gen i) cred (cl_clients c0);
          c1 = c0\<lparr>cl_clients := cs\<rparr>;
          (ns, c2) = (if sh_FetchConfig (cl_cfg c1) then ensureNames net cd now client dev (id_Gen i) c1
                      else (no_names, c1));
          (name, room) = device_name c2 dev i ns;
          l = shelly_labels (dev_ID dev) room
      in case itoa8 (id_Gen i) of
           None \<Rightarrow> (None, c2)
         | Some gen \<Rightarrow>
             (let e1 = Info l FamilyDeviceInfo
                         [id_MAC i, id_Model i, ''Shelly'', id_Version i, gen, addrString addr, ''http'', name]
                         (NewEmitter (cl_families c2) (cl_descs c2));
                  e2 = Bool l FamilyAuthRequired (id_AuthEnabled i) [] e1
              in apfst Some (collect_status net cd client dev (id_Gen i) l e2 c2)))"

definition Shelly_Probe ::
  "(netip_addr \<Rightarrow> string) \<Rightarrow> (string \<Rightarrow> string \<Rightarrow> bool option) \<Rightarrow> network \<Rightarrow> codec \<Rightarrow> time \<Rightarrow> time \<Rightarrow> Device
     \<Rightarrow> ShellyCollector \<Rightarrow> (Metric list \<times> Result) option \<times> ShellyCollector" where
  "Shelly_Probe addrString glob net cd now1 now2 dev c =
     (case Primary dev of
        None \<Rightarrow> (Some ([], Fail ReasonNoAddress 0), c)
      | Some addr \<Rightarrow>
          (case fetchIdentity net cd now1 dev c of
             (Inl err, c1) \<Rightarrow>
               (if MacMismatch \<in> set err then (Some ([], Fail ReasonMACMismatch 0), c1)
                else (Some ([], Fail (classify (Some err)) (statusOf err)), c1))
           | (Inr i, c1) \<Rightarrow> probe_identified addrString glob net cd now2 dev addr i c1))"

end
