(* ===== verification/ShellyCollectorProps.thy ===== *)
theory ShellyCollectorProps
  imports ShellyCollector
begin

text \<open>
  The properties of the Shelly collector: whose readings a probe returns, which requests it makes, and
  that names are cosmetic; the choice of a credential and the cache of clients.
\<close>

section \<open>Identities\<close>

text \<open>Every identity in the cache passed the check of its MAC.\<close>

definition identities_ok :: "ShellyCollector \<Rightarrow> bool" where
  "identities_ok c \<longleftrightarrow> (\<forall>d i. map_of (ic_m (cl_identities c)) d = Some i \<longrightarrow> verifyMAC d i)"

lemma verifyMAC_stamp [simp]: "verifyMAC d (stamp i ep t) = verifyMAC d i"
  by (simp add: verifyMAC_def stamp_def)

lemma identity_get_cached: "identity_get d ep now c = Some i \<Longrightarrow> map_of (ic_m c) d = Some i"
  by (auto simp: identity_get_def split: option.splits if_splits)

lemma fetchIdentity_result:
  assumes "fetchIdentity net cd now dev c = (res, c')" "identities_ok c"
  shows "identities_ok c' \<and> (\<forall>i. res = Inr i \<longrightarrow> map_of (ic_m (cl_identities c')) (dev_ID dev) = Some i)"
  using assms
  by (auto simp: fetchIdentity_def identities_ok_def log_request_def identity_put_def Let_def
      dest: identity_get_cached split: option.splits sum.splits prod.splits if_splits)

lemma fetch_keeps:
  "cl_identities (snd (fetch net client dev path c)) = cl_identities c"
  "cl_names (snd (fetch net client dev path c)) = cl_names c"
  "cl_cfg (snd (fetch net client dev path c)) = cl_cfg c"
  by (simp_all add: fetch_def log_request_def split: option.split)

lemma ensureNames_keeps:
  "cl_identities (snd (ensureNames net cd now client dev gen c)) = cl_identities c"
  "cl_cfg (snd (ensureNames net cd now client dev gen c)) = cl_cfg c"
proof -
  have "cl_identities (snd (fetchNames net cd client dev gen c)) = cl_identities c"
    "cl_cfg (snd (fetchNames net cd client dev gen c)) = cl_cfg c"
    using fetch_keeps [of net client dev _ c]
    by (simp_all add: fetchNames_def Let_def split_beta split: sum.split)
  then show "cl_identities (snd (ensureNames net cd now client dev gen c)) = cl_identities c"
    "cl_cfg (snd (ensureNames net cd now client dev gen c)) = cl_cfg c"
    by (simp_all add: ensureNames_def Let_def split_beta split: option.split)
qed

lemma collect_status_keeps:
  "cl_identities (snd (collect_status net cd client dev gen l e c)) = cl_identities c"
  by (simp add: collect_status_def fetch_def log_request_def split: option.split sum.split prod.split)

lemma probe_identified_keeps:
  "cl_identities (snd (probe_identified addrString glob net cd now dev addr i c)) = cl_identities c"
  by (simp add: probe_identified_def Let_def split_beta collect_status_keeps ensureNames_keeps split: option.split)

datatype shelly_msg =
    SProbe "netip_addr \<Rightarrow> string" "string \<Rightarrow> string \<Rightarrow> bool option" network codec time time Device
  | SForget string
  | SCloud NameStore      \<comment> \<open>the names of the cloud as they are refreshed\<close>

fun shelly_step :: "shelly_msg \<Rightarrow> ShellyCollector \<Rightarrow> ShellyCollector" where
  "shelly_step (SProbe addrString glob net cd now1 now2 dev) c = snd (Shelly_Probe addrString glob net cd now1 now2 dev c)"
| "shelly_step (SForget d) c = Shelly_Forget d c"
| "shelly_step (SCloud store) c = c\<lparr>cl_cloud := Some store\<rparr>"

lemma shelly_step_inv: "identities_ok c \<Longrightarrow> identities_ok (shelly_step m c)"
proof (cases m)
  case (SProbe addrString glob net cd now1 now2 dev)
  assume c: "identities_ok c"
  have "identities_ok (snd (fetchIdentity net cd now1 dev c))"
    using fetchIdentity_result [of net cd now1 dev c] c by (cases "fetchIdentity net cd now1 dev c") auto
  then show ?thesis
    using c by (auto simp: SProbe Shelly_Probe_def identities_ok_def probe_identified_keeps split: option.split prod.split sum.split)
qed (auto simp: identities_ok_def Shelly_Forget_def identity_forget_def split: if_splits)

definition shelly_start :: "ShellyCollector \<Rightarrow> bool" where
  "shelly_start c \<longleftrightarrow> (\<exists>cfg fams. c = NewShelly cfg fams)"

interpretation collector: machine shelly_start shelly_step "\<lambda>_ _. True" identities_ok
proof
  show "shelly_start c \<Longrightarrow> identities_ok c" for c
    by (auto simp: shelly_start_def identities_ok_def NewShelly_def newIdentityCache_def)
qed (rule shelly_step_inv)

text \<open>C3. Readings are attributed to the right device: in every reachable collector a probe that returns
  a metric does so with an identity whose MAC is the one of the device, unless one of the two names
  none.  A device that took over the address of another yields no metric.\<close>

theorem readings_come_from_the_named_device:
  assumes "collector.reachable c" "Shelly_Probe addrString glob net cd now1 now2 dev c = (Some (ms, res), c')" "ms \<noteq> []"
  shows "\<exists>i. map_of (ic_m (cl_identities c')) (dev_ID dev) = Some i
    \<and> (MACOfID (dev_ID dev) = [] \<or> id_MAC i = [] \<or> id_MAC i = MACOfID (dev_ID dev))"
proof -
  have c: "identities_ok c" using assms(1) by (rule collector.reachable_invar)
  obtain addr i c1 where f: "fetchIdentity net cd now1 dev c = (Inr i, c1)"
    and p: "probe_identified addrString glob net cd now2 dev addr i c1 = (Some (ms, res), c')"
    using assms(2,3) by (auto simp: Shelly_Probe_def split: option.splits prod.splits sum.splits if_splits)
  have "cl_identities c' = cl_identities c1"
    using probe_identified_keeps [of addrString glob net cd now2 dev addr i c1] by (simp add: p)
  then show ?thesis
    using fetchIdentity_result [OF f c] by (simp add: identities_ok_def verifyMAC_def Let_def) metis
qed

section \<open>A device to probe\<close>

definition ex_dev :: Device where
  "ex_dev = \<lparr>dev_ID = ''mac:a8032ab12345'', dev_Kind = ''shelly'', dev_Name = ''d'', dev_Hostname = [],
     dev_Addrs = [Addr4 7], dev_RejectedAddrs = [], dev_Port = 80, dev_TXT = Map.empty, dev_FirstSeen = 1, dev_LastSeen = 1,
     dev_Static = False, dev_Epoch = 1, dev_Unverified = False\<rparr>"

definition ex_net :: network where
  "ex_net cl addr port path = Response 200 (Inr path)"

definition ex_json :: codec where
  "ex_json = \<lparr>dec_shelly = (\<lambda>_. Inr \<lparr>sr_Gen = 2, sr_ID = ''s-a8032ab12345'', sr_Model = ''M'', sr_App = [], sr_Ver = ''1'',
       sr_FWID = [], sr_Name = ''n'', sr_AuthEn = None, sr_Type = [], sr_FW = [], sr_Auth = None, sr_MAC = ''A8032AB12345''\<rparr>),
     dec_json = (\<lambda>_. Some (JObj [])), dec_gen1 = (\<lambda>_. None), dec_settings = (\<lambda>_. None)\<rparr>"

definition ex_collector :: ShellyCollector where
  "ex_collector = NewShelly ((cfg_Shelly Default)\<lparr>sh_MaxBodyBytes := 64\<rparr>) (map_of (map (\<lambda>f. (fam_Name f, f)) curated_families))"

definition ex_probe :: "(Metric list \<times> Result) option \<times> ShellyCollector" where
  "ex_probe = Shelly_Probe (\<lambda>_. ''10.0.0.7'') (\<lambda>_ _. Some True) ex_net ex_json 5 6 ex_dev ex_collector"

lemma ex_probe_metrics: "case fst ex_probe of Some (ms, res) \<Rightarrow> length ms = 2 \<and> res = Success 200 | None \<Rightarrow> False"
  by code_simp

theorem readings_come_from_the_named_device_witness:
  "\<exists>i. map_of (ic_m (cl_identities (snd ex_probe))) ''mac:a8032ab12345'' = Some i
    \<and> (MACOfID ''mac:a8032ab12345'' = [] \<or> id_MAC i = [] \<or> id_MAC i = MACOfID ''mac:a8032ab12345'')"
proof -
  obtain ms res where ms: "fst ex_probe = Some (ms, res)" "ms \<noteq> []"
    using ex_probe_metrics by (fastforce split: option.splits)
  have "collector.reachable ex_collector"
    by (rule collector.reachable.start) (auto simp: shelly_start_def ex_collector_def)
  moreover have "Shelly_Probe (\<lambda>_. ''10.0.0.7'') (\<lambda>_ _. Some True) ex_net ex_json 5 6 ex_dev ex_collector = (Some (ms, res), snd ex_probe)"
    using ms(1) by (cases ex_probe) (simp add: ex_probe_def)
  ultimately have "\<exists>i. map_of (ic_m (cl_identities (snd ex_probe))) (dev_ID ex_dev) = Some i
    \<and> (MACOfID (dev_ID ex_dev) = [] \<or> id_MAC i = [] \<or> id_MAC i = MACOfID (dev_ID ex_dev))"
    using ms(2) by (rule readings_come_from_the_named_device)
  then show ?thesis by (simp add: ex_dev_def)
qed

section \<open>Requests and verdict\<close>

text \<open>
  What a probe comes to once the identity is known, from the answer to the status request alone.
\<close>

definition undecodable :: "codec \<Rightarrow> int \<Rightarrow> string \<Rightarrow> bool" where
  "undecodable cd gen body \<longleftrightarrow>
     (if 2 \<le> gen then Option.bind (dec_json cd body) as_map = None else dec_gen1 cd body = None)"

definition verdict :: "codec \<Rightarrow> int \<Rightarrow> int \<Rightarrow> response \<Rightarrow> Result" where
  "verdict cd maxBody gen answer =
     (case fetch_body maxBody answer of
        Inl err \<Rightarrow> Fail (classify (Some err)) (statusOf err)
      | Inr (body, status) \<Rightarrow> if undecodable cd gen body then Fail ReasonDecode status else Success status)"

definition probe_client :: "(string \<Rightarrow> string \<Rightarrow> bool option) \<Rightarrow> Device \<Rightarrow> Identity \<Rightarrow> ShellyCollector \<Rightarrow> transport" where
  "probe_client glob dev i c =
     fst (clients_get (dev_ID dev, dev_Epoch dev) (id_Gen i)
       (resolve glob (cl_auth c) \<lparr>dm_DeviceID = dev_ID dev, dm_MAC = id_MAC i, dm_Hostname = dev_Hostname dev, dm_Gen = id_Gen i\<rparr>)
       (cl_clients c))"

lemma decode_status_None: "decode_status cd c l gen body e = None \<longleftrightarrow> undecodable cd gen body"
  by (simp add: decode_status_def undecodable_def decodeGen2Status_def decodeGen1Status_def split: option.split)

lemma ensureNames_requests:
  "Primary dev = Some addr \<Longrightarrow>
     cl_requests (snd (ensureNames net cd now client dev gen c)) = cl_requests c
       @ (if names_get (dev_ID dev) (dev_Epoch dev) now (cl_names c) = None
          then [if 2 \<le> gen then ''/rpc/Shelly.GetConfig'' else ''/settings''] else [])"
  by (simp add: ensureNames_def fetchNames_def fetch_def log_request_def Let_def split_beta split: option.split sum.split)

lemma collect_status_spec:
  assumes "Primary dev = Some addr"
  shows "snd (fst (collect_status net cd client dev gen l e c))
      = verdict cd (sh_MaxBodyBytes (cl_cfg c)) gen (net client addr (dev_Port dev) (plan gen))
    \<and> cl_requests (snd (collect_status net cd client dev gen l e c)) = cl_requests c @ [plan gen]"
proof (cases "fetch_body (sh_MaxBodyBytes (cl_cfg c)) (net client addr (dev_Port dev) (plan gen))")
  case (Inr bs)
  obtain body status where "bs = (body, status)" by (cases bs)
  then show ?thesis
    using decode_status_None [of cd "log_request (plan gen) c" l gen body e] Inr
    by (cases "decode_status cd (log_request (plan gen) c) l gen body e")
      (auto simp: collect_status_def fetch_def verdict_def assms log_request_def)
qed (simp add: collect_status_def fetch_def verdict_def assms log_request_def)

text \<open>The requests and the verdict of what follows the identity.\<close>

lemma probe_identified_spec:
  assumes "Primary dev = Some addr" "itoa8 (id_Gen i) = Some g"
  shows "map_option snd (fst (probe_identified addrString glob net cd now dev addr i c))
      = Some (verdict cd (sh_MaxBodyBytes (cl_cfg c)) (id_Gen i)
          (net (probe_client glob dev i c) addr (dev_Port dev) (plan (id_Gen i))))
    \<and> cl_requests (snd (probe_identified addrString glob net cd now dev addr i c)) = cl_requests c
       @ (if sh_FetchConfig (cl_cfg c) \<and> names_get (dev_ID dev) (dev_Epoch dev) now (cl_names c) = None
          then [if 2 \<le> id_Gen i then ''/rpc/Shelly.GetConfig'' else ''/settings''] else [])
       @ [plan (id_Gen i)]"
  using collect_status_spec [OF assms(1)] ensureNames_keeps(2)
  by (simp add: probe_identified_def Let_def split_beta assms(2) probe_client_def ensureNames_requests [OF assms(1)])

text \<open>In steady state a probe makes exactly one request, and its verdict is read off the answer to it:
  the status, the body and whether the body decodes.\<close>

theorem steady_probe_makes_one_request:
  assumes "Primary dev = Some addr" "identity_get (dev_ID dev) (dev_Epoch dev) now1 (cl_identities c) = Some i"
    and "\<not> sh_FetchConfig (cl_cfg c) \<or> names_get (dev_ID dev) (dev_Epoch dev) now2 (cl_names c) \<noteq> None"
    and "0 \<le> id_Gen i" "id_Gen i < 10 ^ 8"
  shows "cl_requests (snd (Shelly_Probe addrString glob net cd now1 now2 dev c)) = cl_requests c @ [plan (id_Gen i)]
    \<and> map_option snd (fst (Shelly_Probe addrString glob net cd now1 now2 dev c))
        = Some (verdict cd (sh_MaxBodyBytes (cl_cfg c)) (id_Gen i)
            (net (probe_client glob dev i c) addr (dev_Port dev) (plan (id_Gen i))))"
proof -
  have "itoa8 (id_Gen i) = Some (itoa (nat (id_Gen i)))" using assms(4,5) by (simp add: itoa8_value)
  from probe_identified_spec [OF assms(1) this] show ?thesis
    using assms(3) by (auto simp: Shelly_Probe_def assms(1) fetchIdentity_def assms(2))
qed

theorem steady_probe_makes_one_request_witness:
  "cl_requests (snd (Shelly_Probe (\<lambda>_. ''10.0.0.7'') (\<lambda>_ _. Some True) ex_net ex_json 7 8 ex_dev (snd ex_probe)))
     = cl_requests (snd ex_probe) @ [''/rpc/Shelly.GetStatus'']"
proof -
  let ?c = "snd ex_probe"
  have "(case identity_get (dev_ID ex_dev) (dev_Epoch ex_dev) 7 (cl_identities ?c) of Some i \<Rightarrow> id_Gen i = 2 | None \<Rightarrow> False)
      \<and> names_get (dev_ID ex_dev) (dev_Epoch ex_dev) 8 (cl_names ?c) \<noteq> None"
    by code_simp
  then obtain i where i: "identity_get (dev_ID ex_dev) (dev_Epoch ex_dev) 7 (cl_identities ?c) = Some i" "id_Gen i = 2"
    and n: "names_get (dev_ID ex_dev) (dev_Epoch ex_dev) 8 (cl_names ?c) \<noteq> None"
    by (auto split: option.splits)
  have "Primary ex_dev = Some (Addr4 7)" by (simp add: Primary_def ex_dev_def)
  from steady_probe_makes_one_request [OF this i(1) disjI2 [OF n]] i(2)
  show ?thesis by (simp add: plan_def)
qed

text \<open>C40. Names are cosmetic: whatever the device answers to the request for its configuration, and
  whatever the app calls it, the verdict of a probe is the same.\<close>

theorem names_never_change_the_verdict:
  assumes "\<And>client addr port path. path \<noteq> ''/rpc/Shelly.GetConfig'' \<Longrightarrow> path \<noteq> ''/settings'' \<Longrightarrow>
      net client addr port path = net' client addr port path"
  shows "map_option snd (fst (Shelly_Probe addrString glob net cd now1 now2 dev c))
    = map_option snd (fst (Shelly_Probe addrString glob net' cd now1 now2 dev (c\<lparr>cl_cloud := cloud\<rparr>)))"
proof (cases "Primary dev")
  case (Some addr)
  let ?c' = "c\<lparr>cl_cloud := cloud\<rparr>"
  have "net client addr port ''/shelly'' = net' client addr port ''/shelly''" for client port using assms by simp
  then have f: "fetchIdentity net' cd now1 dev ?c'
      = (case fetchIdentity net cd now1 dev c of (res, c1) \<Rightarrow> (res, c1\<lparr>cl_cloud := cloud\<rparr>))"
    by (simp add: fetchIdentity_def Some getJSON_def log_request_def Let_def split: option.split sum.split prod.split)
  show ?thesis
  proof (cases "fetchIdentity net cd now1 dev c")
    case (Pair res c1)
    show ?thesis
    proof (cases res)
      case (Inr i)
      have p: "net client addr port (plan gen) = net' client addr port (plan gen)" for client port gen
        using assms by (simp add: plan_def)
      show ?thesis
      proof (cases "itoa8 (id_Gen i)")
        case None
        then show ?thesis by (simp add: Shelly_Probe_def Some f Pair Inr probe_identified_def Let_def split_beta)
      next
        case gen: (Some g)
        from probe_identified_spec [OF Some gen, of addrString glob net cd now2 c1]
          probe_identified_spec [OF Some gen, of addrString glob net' cd now2 "c1\<lparr>cl_cloud := cloud\<rparr>"] p
        show ?thesis by (auto simp: Shelly_Probe_def Some f Pair Inr probe_client_def)
      qed
    qed (simp add: Shelly_Probe_def Some f Pair)
  qed
qed (simp add: Shelly_Probe_def)

theorem names_never_change_the_verdict_witness:
  "map_option snd (fst (Shelly_Probe (\<lambda>_. []) (\<lambda>_ _. None) ex_net ex_json 5 6 ex_dev ex_collector))
   = map_option snd (fst (Shelly_Probe (\<lambda>_. []) (\<lambda>_ _. None)
       (\<lambda>cl a p path. if path = ''/settings'' \<or> path = ''/rpc/Shelly.GetConfig'' then NetFailure [DeadlineExceeded] else ex_net cl a p path)
       ex_json 5 6 ex_dev (ex_collector\<lparr>cl_cloud := Some (NewNameStore 0)\<rparr>)))"
  by (rule names_never_change_the_verdict) simp

section \<open>Credentials and clients\<close>

text \<open>The first override that matches decides, and what it leaves out comes from the global
  credential; a device of the second generation or later is always addressed as admin.\<close>

theorem first_matching_override_decides:
  assumes "sa_Overrides auth = before @ ov # after" "list_all (\<lambda>o'. \<not> matches glob (so_Match o') d) before"
    "matches glob (so_Match ov) d"
  shows "resolve glob (newAuthResolver auth) d =
    \<lparr>cr_Username = (if 2 \<le> dm_Gen d then ''admin'' else if so_Username ov \<noteq> [] then so_Username ov else sa_Username auth),
     cr_Password = (if IsSet (so_Password ov) then so_Password ov else sa_Password auth)\<rparr>"
proof -
  have "first_override glob d (before @ ov # after) cred = apply_override ov cred" for cred
    using assms(2,3) by (induction before) auto
  then show ?thesis
    by (simp add: resolve_def newAuthResolver_def assms(1) apply_override_def gen2Username_def Let_def)
qed

theorem first_matching_override_decides_witness:
  "resolve (\<lambda>p s. Some (p = s)) (newAuthResolver \<lparr>sa_Username = ''u'', sa_Password = ''p'', sa_PasswordFile = [],
      sa_Overrides = [\<lparr>so_Match = \<lparr>sm_DeviceID = [], sm_MAC = [], sm_Hostname = [], sm_Gen = 1\<rparr>, so_Username = [],
        so_Password = ''q'', so_PasswordFile = []\<rparr>]\<rparr>) \<lparr>dm_DeviceID = ''d'', dm_MAC = [], dm_Hostname = [], dm_Gen = 1\<rparr>
   = \<lparr>cr_Username = ''u'', cr_Password = ''q''\<rparr>"
  by (subst first_matching_override_decides [where before = "[]" and after = "[]"]) (auto simp: matches_def IsSet_def)

text \<open>One client per device: a client of an earlier epoch goes when one of a later epoch is built.\<close>

lemma clients_get_one:
  assumes "\<And>k k'. k \<in> fst ` set cs \<Longrightarrow> k' \<in> fst ` set cs \<Longrightarrow> fst k = fst k' \<Longrightarrow> k = k'"
    and k: "k \<in> fst ` set (snd (clients_get key gen cred cs))" "fst k = fst key"
  shows "k = key"
proof (cases "map_of cs key")
  case None
  then show ?thesis using k by (auto simp: clients_get_def Let_def intro: prod_eqI)
next
  case (Some cl)
  then have "key \<in> fst ` set cs" by (metis map_of_SomeD fst_conv image_eqI)
  then show ?thesis using assms Some by (simp add: clients_get_def)
qed

text \<open>Forgetting a device leaves the client that asked for its identity.\<close>

lemma forget_leaves_probe_client:
  "cl_clients (Shelly_Forget ''d'' (ex_collector\<lparr>cl_clients := [((''d|probe'', 1), BaseTransport)]\<rparr>)) = [((''d|probe'', 1), BaseTransport)]"
  by (simp add: Shelly_Forget_def clients_forget_def)

end
