(* ===== verification/CloudStatus.thy ===== *)
theory CloudStatus
  imports CloudJson
begin

text \<open>
  \<^verbatim>\<open>internal/shellycloud/status.go\<close>: the devices of a cloud account and where each last
  reported itself.  Every field is decoded on its own, so one of an unexpected shape costs that field
  alone.
\<close>

record DeviceStatus =
  ds_ID :: string
  ds_Gen :: int
  ds_MAC :: string
  ds_Code :: string
  ds_Online :: bool
  ds_Addr :: netip_addr

record devInfo =
  di_ID :: string
  di_Gen :: "cjson option"
  di_Code :: string
  di_Online :: "cjson option"

record statusDoc =
  sd_MAC :: string
  sd_SysMAC :: string
  sd_DevInfo :: devInfo
  sd_WiFiSTA :: string
  sd_WiFi :: string
  sd_Eth :: string

text \<open>A struct member of a document: what decodes into it, or nothing.\<close>

definition section_of :: "cobj \<Rightarrow> string \<Rightarrow> cobj" where
  "section_of m k = (case map_of m k of Some (CObj m') \<Rightarrow> m' | _ \<Rightarrow> [])"

definition decodeStatus :: "cjson \<Rightarrow> statusDoc option" where
  "decodeStatus raw =
     map_option (\<lambda>m.
       (let info = section_of m ''_dev_info''
        in \<lparr>sd_MAC = text_member m ''mac'',
            sd_SysMAC = text_member (section_of m ''sys'') ''mac'',
            sd_DevInfo = \<lparr>di_ID = text_member info ''id'', di_Gen = map_of info ''gen'',
                          di_Code = text_member info ''code'', di_Online = map_of info ''online''\<rparr>,
            sd_WiFiSTA = text_member (section_of m ''wifi_sta'') ''ip'',
            sd_WiFi = text_member (section_of m ''wifi'') ''sta_ip'',
            sd_Eth = text_member (section_of m ''eth'') ''ip''\<rparr>)) (as_cmap raw)"

definition device_status :: "(string \<Rightarrow> netip_addr option) \<Rightarrow> string \<Rightarrow> statusDoc \<Rightarrow> DeviceStatus" where
  "device_status parseAddr key doc =
     (let info = sd_DevInfo doc; i = (if di_ID info = [] then key else di_ID info)
      in \<lparr>ds_ID = to_lower i, ds_Gen = parseGen (di_Gen info),
          ds_MAC = statusMAC [sd_MAC doc, sd_SysMAC doc],
          ds_Code = di_Code info, ds_Online = parseBool (di_Online info),
          ds_Addr = firstAddr parseAddr [sd_WiFiSTA doc, sd_WiFi doc, sd_Eth doc]\<rparr>)"

fun status_loop :: "(string \<Rightarrow> netip_addr option) \<Rightarrow> cobj \<Rightarrow> DeviceStatus list" where
  "status_loop parseAddr [] = []"
| "status_loop parseAddr ((key, raw) # rest) =
     (case decodeStatus raw of
        None \<Rightarrow> status_loop parseAddr rest
      | Some doc \<Rightarrow> device_status parseAddr key doc # status_loop parseAddr rest)"

text \<open>
  \<open>None\<close> is the error of the decoder: the answer is no object, or its \<^verbatim>\<open>devices_status\<close>
  is not.  \<^verbatim>\<open>sort.Slice\<close> may order devices of one identifier either way; here they keep
  the order of the loop.
\<close>

definition decodeAllStatus :: "(string \<Rightarrow> netip_addr option) \<Rightarrow> cjson \<Rightarrow> DeviceStatus list option" where
  "decodeAllStatus parseAddr data =
     (case as_cmap data of
        None \<Rightarrow> None
      | Some m \<Rightarrow>
          (case (case map_of m ''devices_status'' of None \<Rightarrow> Some [] | Some v \<Rightarrow> as_cmap v) of
             None \<Rightarrow> None
           | Some devs \<Rightarrow> Some (sort_key ds_ID (status_loop parseAddr devs))))"

section \<open>Lemmas\<close>

text \<open>Each entry is decoded on its own.\<close>

lemma status_loop_append: "status_loop parseAddr (xs @ ys) = status_loop parseAddr xs @ status_loop parseAddr ys"
  by (induction xs) (auto split: option.splits)

lemma firstAddr_found:
  "firstAddr parseAddr ss \<noteq> NoAddr \<Longrightarrow>
     \<exists>s \<in> set ss. \<exists>a. parseAddr (trim_space s) = Some a \<and> is_valid a \<and> \<not> is_unspecified a \<and> firstAddr parseAddr ss = unmap a"
  by (induction ss) (auto split: option.splits if_splits)

end
