(* ===== verification/TextOps.thy ===== *)
theory TextOps
  imports Prelude
begin

text \<open>
  Searching and replacing in strings (\<^verbatim>\<open>strings.Contains\<close>,
  \<^verbatim>\<open>strings.ReplaceAll\<close>, \<^verbatim>\<open>strings.Fields\<close>,
  \<^verbatim>\<open>strings.Join\<close>), and when a replacement leaves no occurrence behind.
\<close>

definition contains :: "string \<Rightarrow> string \<Rightarrow> bool" where
  "contains s p \<longleftrightarrow> index_of s p \<noteq> None"

text \<open>An empty old string is found before every byte and at the end.\<close>

function replace_all :: "string \<Rightarrow> string \<Rightarrow> string \<Rightarrow> string" where
  "replace_all s old new =
     (if old = [] then concat (map (\<lambda>c. new @ [c]) s) @ new
      else case s of
             [] \<Rightarrow> []
           | c # s' \<Rightarrow>
               (if has_prefix s old then new @ replace_all (drop (length old) s) old new
                else c # replace_all s' old new))"
  by pat_completeness auto
termination by (relation "measure (\<lambda>(s, old, new). length s)") auto

declare replace_all.simps [simp del]

fun fields_from :: "string \<Rightarrow> string \<Rightarrow> string list" where
  "fields_from word [] = (if word = [] then [] else [word])"
| "fields_from word (c # s) =
     (if is_space_char c then (if word = [] then fields_from [] s else word # fields_from [] s)
      else fields_from (word @ [c]) s)"

definition split_fields :: "string \<Rightarrow> string list" where
  "split_fields s = fields_from [] s"

fun join :: "string \<Rightarrow> string list \<Rightarrow> string" where
  "join sep [] = []"
| "join sep [s] = s"
| "join sep (s # t # rest) = s @ sep @ join sep (t # rest)"

section \<open>Occurrences\<close>

lemma contains_Nil: "contains [] p \<longleftrightarrow> p = []"
  by (simp add: contains_def)

lemma contains_Cons: "contains (c # s) p \<longleftrightarrow> has_prefix (c # s) p \<or> contains s p"
  by (simp add: contains_def)

lemma contains_iff: "contains s p \<longleftrightarrow> (\<exists>u v. s = u @ p @ v)"
proof (induction s)
  case (Cons c s)
  have "(\<exists>u v. c # s = u @ p @ v) \<longleftrightarrow> has_prefix (c # s) p \<or> (\<exists>u v. s = u @ p @ v)"
    unfolding has_prefix_iff by (metis append_Cons append_Nil append_eq_Cons_conv)
  then show ?case using Cons by (simp add: contains_Cons)
qed (simp add: contains_Nil)

lemma contains_append:
  assumes "contains (s @ t) p" "s \<noteq> []" "last s \<notin> set p"
  shows "contains s p \<or> contains t p"
proof -
  obtain u v where uv: "s @ t = u @ p @ v" using assms(1) contains_iff by blast
  consider (left) w where "s = u @ p @ w" | (right) w where "u = s @ w"
    | (mid) k1 k2 where "s = u @ k1" "p = k1 @ k2" "k1 \<noteq> []"
    using uv by (auto simp: append_eq_append_conv2) (metis append_Nil2)+
  then show ?thesis
  proof cases
    case right
    then have "t = w @ p @ v" using uv by simp
    then show ?thesis using contains_iff by blast
  next
    case mid
    then show ?thesis using assms(3) by simp
  qed (use contains_iff in blast)
qed

text \<open>What \<open>replace_all\<close> produces up to the first byte of a replacement is the text itself.\<close>

lemma replace_all_prefix:
  assumes "has_prefix (replace_all s old (a # new)) p" "old \<noteq> []" "a \<notin> set p"
  shows "has_prefix s p"
  using assms
proof (induction s arbitrary: p)
  case Nil
  then show ?case by (simp add: replace_all.simps)
next
  case (Cons c s)
  show ?case
  proof (cases p)
    case (Cons x p')
    note p = this
    have "\<not> has_prefix (c # s) old"
      using Cons.prems p by (auto simp: replace_all.simps [of "c # s"] has_prefix_def)
    then have "x = c" "has_prefix (replace_all s old (a # new)) p'"
      using Cons.prems p by (auto simp: replace_all.simps [of "c # s"] has_prefix_def)
    then show ?thesis using Cons.IH [of p'] Cons.prems p by (auto simp: has_prefix_def)
  qed (simp add: has_prefix_def)
qed

lemma replace_all_removes:
  assumes old: "old \<noteq> []" "a \<notin> set old" "last (a # new) \<notin> set old" "\<not> contains (a # new) old"
  shows "\<not> contains (replace_all s old (a # new)) old"
proof (induction "length s" arbitrary: s rule: less_induct)
  case less
  show ?case
  proof (cases s)
    case Nil
    then show ?thesis using old(1) by (simp add: replace_all.simps contains_Nil)
  next
    case (Cons c s')
    show ?thesis
    proof (cases "has_prefix s old")
      case True
      have "length (drop (length old) s) < length s" using old(1) Cons by simp
      then have "\<not> contains (replace_all (drop (length old) s) old (a # new)) old" by (rule less)
      moreover have "replace_all s old (a # new) = (a # new) @ replace_all (drop (length old) s) old (a # new)"
        using True Cons old(1) by (subst replace_all.simps) simp
      ultimately show ?thesis using contains_append [of "a # new" _ old] old by auto
    next
      case False
      have "\<not> contains (replace_all s' old (a # new)) old" by (rule less) (simp add: Cons)
      moreover have "replace_all s old (a # new) = c # replace_all s' old (a # new)"
        using False Cons old(1) by (subst replace_all.simps) simp
      moreover have "\<not> has_prefix (replace_all s old (a # new)) old"
        using replace_all_prefix [of s old a new old] False old by blast
      ultimately show ?thesis by (simp add: contains_Cons)
    qed
  qed
qed

end
