(* ===== verification/CloudClient.thy ===== *)
theory CloudClient
  imports CloudStatus CloudNames TextOps
begin

text \<open>
  \<^verbatim>\<open>internal/shellycloud/client.go\<close>: the client of the cloud account, which runs one
  request at a time with a pause after each, backs off when the account's limit is reached, and keeps
  the key of the account out of its errors.  The HTTP exchange and the JSON package are arguments.
\<close>

section \<open>The client\<close>

definition MinRequestGap :: duration where "MinRequestGap = 2 * second"
definition rateLimitPause :: duration where "rateLimitPause = 10 * second"
definition rateLimitRetries :: nat where "rateLimitRetries = 2"
definition cloud_maxBodyBytes :: nat where "cloud_maxBodyBytes = 16 * 2 ^ 20"
definition cloud_redacted :: string where "cloud_redacted = ''<secret>''"

datatype slot = Free | Waiting | Sending time    \<comment> \<open>since when the request runs\<close>

text \<open>
  \<open>cc_log\<close> records the finished requests, newest first: start, end and whether the cloud refused
  it for the limit.  It is not part of the code.
\<close>

record CloudClient =
  cc_base :: string
  cc_key :: string
  cc_timeout :: duration
  cc_gap :: duration
  cc_pause :: duration
  cc_slot :: slot
  cc_notBefore :: time
  cc_now :: time
  cc_log :: "(time \<times> time \<times> bool) list"

text \<open>\<open>parse\<close> is \<^verbatim>\<open>url.Parse\<close>: the scheme and the host of a URL.\<close>

definition trim_slashes :: "string \<Rightarrow> string" where
  "trim_slashes s = rev (dropWhile (\<lambda>c. c = CHR ''/'') (rev s))"

datatype new_error = BadURL | NoScheme | EmptyKey

definition NewClient ::
  "(string \<Rightarrow> (string \<times> string) option) \<Rightarrow> string \<Rightarrow> string \<Rightarrow> duration \<Rightarrow> new_error + CloudClient" where
  "NewClient parse server authKey timeout =
     (case parse (trim_slashes server) of
        None \<Rightarrow> Inl BadURL
      | Some (scheme, host) \<Rightarrow>
          (if scheme \<noteq> ''https'' \<and> scheme \<noteq> ''http'' \<or> host = [] then Inl NoScheme
           else if authKey = [] then Inl EmptyKey
           else Inr \<lparr>cc_base = trim_slashes server, cc_key = authKey,
                  cc_timeout = (if timeout \<le> 0 then 30 * second else timeout),
                  cc_gap = MinRequestGap, cc_pause = rateLimitPause, cc_slot = Free, cc_notBefore = zero_time,
                  cc_now = zero_time, cc_log = []\<rparr>))"

section \<open>Errors\<close>

datatype cloud_error =
    ContextEnded string
  | RateLimited string                \<comment> \<open>\<^verbatim>\<open>ErrRateLimited\<close> with the path\<close>
  | Plain string
  | APIError string string            \<comment> \<open>path and detail\<close>
  | Redacted string cloud_error

fun error_text :: "cloud_error \<Rightarrow> string" where
  "error_text (ContextEnded s) = s"
| "error_text (RateLimited path) = ''shelly cloud: request limit reached ('' @ path @ '')''"
| "error_text (Plain s) = s"
| "error_text (APIError path detail) = ''shelly cloud '' @ path @ '': request refused: '' @ detail"
| "error_text (Redacted msg err) = msg"

text \<open>\<^verbatim>\<open>errors.Is(err, ErrRateLimited)\<close> looks through a redacted error.\<close>

fun is_limited :: "cloud_error \<Rightarrow> bool" where
  "is_limited (RateLimited path) = True"
| "is_limited (Redacted msg err) = is_limited err"
| "is_limited _ = False"

definition redact :: "CloudClient \<Rightarrow> cloud_error \<Rightarrow> cloud_error" where
  "redact c err =
     (if \<not> contains (error_text err) (cc_key c) then err
      else Redacted (replace_all (error_text err) (cc_key c) cloud_redacted) err)"

definition snippet :: "string \<Rightarrow> string" where
  "snippet b =
     (let s = join '' '' (split_fields b)
      in if s = [] \<or> s = ''null'' then ''no detail''
         else if 200 < length s then take 200 s @ ''...'' else s)"

section \<open>One request\<close>

text \<open>
  What the JSON package makes of a body: the document, or the text of its error; and the raw bytes of
  the member \<^verbatim>\<open>errors\<close>, and the text of its error for a document of another shape.
\<close>

record cloud_codec =
  co_json :: "string \<Rightarrow> string + cjson"
  co_errors :: "string \<Rightarrow> string"
  co_mismatch :: string

text \<open>What becomes of a request, given its URL and form: never built, no answer, or a status and a body.\<close>

datatype exchange = Unbuilt string | NoAnswer string | Answer int "string + string"

type_synonym form = "(string \<times> string list) list"

definition isRateLimited :: "cloud_codec \<Rightarrow> string \<Rightarrow> bool" where
  "isRateLimited co body =
     (case co_json co body of
        Inl _ \<Rightarrow> False
      | Inr v \<Rightarrow>
          (case as_cmap v of
             None \<Rightarrow> False
           | Some m \<Rightarrow>
               (case map_of m ''errors'' of
                  None \<Rightarrow> False
                | Some e \<Rightarrow> (case as_cmap e of None \<Rightarrow> False | Some es \<Rightarrow> map_of es ''max_req'' \<noteq> None))))"

text \<open>
  \<^verbatim>\<open>envelope\<close>: whether the cloud accepted the request, and the data, which
  may be absent.  A document that is no object, or whose \<^verbatim>\<open>isok\<close> is no boolean, does not
  decode.  An answer without data is no document for the decoders of the calls.
\<close>

definition envelope_of :: "cjson \<Rightarrow> (bool \<times> cjson option) option" where
  "envelope_of v =
     (case as_cmap v of
        None \<Rightarrow> None
      | Some m \<Rightarrow>
          (let dat = map_of m ''data''
           in case map_of m ''isok'' of
                None \<Rightarrow> Some (False, dat)
              | Some CNull \<Rightarrow> Some (False, dat)
              | Some (CBool b) \<Rightarrow> Some (b, dat)
              | Some _ \<Rightarrow> None))"

definition request_form :: "CloudClient \<Rightarrow> form \<Rightarrow> form" where
  "request_form c params = AList.update ''auth_key'' [cc_key c] params"

definition read_answer :: "cloud_codec \<Rightarrow> CloudClient \<Rightarrow> string \<Rightarrow> int \<Rightarrow> string \<Rightarrow> cloud_error + cjson option" where
  "read_answer co c path status body0 =
     (let body = take cloud_maxBodyBytes body0
      in if isRateLimited co body then Inl (RateLimited path)
         else if status < 200 \<or> 300 \<le> status
         then Inl (redact c (Plain (''shelly cloud '' @ path @ '': HTTP '' @ itoa (nat status) @ '': '' @ snippet body)))
         else case co_json co body of
                Inl msg \<Rightarrow> Inl (redact c (Plain (''shelly cloud '' @ path @ '': decoding response: '' @ msg)))
              | Inr v \<Rightarrow>
                  (case envelope_of v of
                     None \<Rightarrow> Inl (redact c (Plain (''shelly cloud '' @ path @ '': decoding response: '' @ co_mismatch co)))
                   | Some (isok, dat) \<Rightarrow>
                       (if \<not> isok then Inl (redact c (APIError path (snippet (co_errors co body)))) else Inr dat)))"

definition do_request ::
  "cloud_codec \<Rightarrow> (string \<Rightarrow> form \<Rightarrow> exchange) \<Rightarrow> CloudClient \<Rightarrow> string \<Rightarrow> form \<Rightarrow> cloud_error + cjson option" where
  "do_request co http c path params =
     (case http (cc_base c @ path) (request_form c params) of
        Unbuilt msg \<Rightarrow> Inl (redact c (Plain msg))
      | NoAnswer msg \<Rightarrow> Inl (redact c (Plain (''shelly cloud '' @ path @ '': '' @ msg)))
      | Answer status (Inl msg) \<Rightarrow> Inl (redact c (Plain (''shelly cloud '' @ path @ '': reading response: '' @ msg)))
      | Answer status (Inr body) \<Rightarrow> read_answer co c path status body)"

section \<open>Pacing\<close>

definition acquire :: "time \<Rightarrow> CloudClient \<Rightarrow> CloudClient" where
  "acquire now c = c\<lparr>cc_slot := (if time_sub (cc_notBefore c) now \<le> 0 then Sending now else Waiting)\<rparr>"

definition release :: "duration \<Rightarrow> time \<Rightarrow> CloudClient \<Rightarrow> CloudClient" where
  "release pause now c = c\<lparr>cc_notBefore := now + pause, cc_slot := Free\<rparr>"

text \<open>
  What happens to the slot: a caller takes it, its timer fires, its context ends while it waits, or
  its request ends.
\<close>

datatype slot_event = Take time | Fire time | GiveUp time | Finish time bool

definition event_time :: "slot_event \<Rightarrow> time" where
  "event_time ev = (case ev of Take t \<Rightarrow> t | Fire t \<Rightarrow> t | GiveUp t \<Rightarrow> t | Finish t _ \<Rightarrow> t)"

definition release_pause :: "CloudClient \<Rightarrow> bool \<Rightarrow> duration" where
  "release_pause c limited = (if limited then cc_pause c else cc_gap c)"

definition slot_step :: "slot_event \<Rightarrow> CloudClient \<Rightarrow> CloudClient" where
  "slot_step ev c0 =
     (let c = c0\<lparr>cc_now := event_time ev\<rparr>
      in case ev of
           Take now \<Rightarrow> acquire now c
         | Fire now \<Rightarrow> c\<lparr>cc_slot := Sending now\<rparr>
         | GiveUp now \<Rightarrow> c\<lparr>cc_slot := Free\<rparr>
         | Finish now limited \<Rightarrow>
             (case cc_slot c of
                Sending start \<Rightarrow>
                  (release (release_pause c limited) now c)\<lparr>cc_log := (start, now, limited) # cc_log c\<rparr>
              | _ \<Rightarrow> c))"

text \<open>
  A slot of capacity one is taken when it is free, a timer does not fire before its time, and the
  monotonic clock does not run backwards.
\<close>

definition slot_ok :: "slot_event \<Rightarrow> CloudClient \<Rightarrow> bool" where
  "slot_ok ev c \<longleftrightarrow> cc_now c \<le> event_time ev \<and>
     (case ev of
        Take now \<Rightarrow> cc_slot c = Free
      | Fire now \<Rightarrow> cc_slot c = Waiting \<and> cc_notBefore c \<le> now
      | GiveUp now \<Rightarrow> cc_slot c = Waiting
      | Finish now limited \<Rightarrow> (case cc_slot c of Sending _ \<Rightarrow> True | _ \<Rightarrow> False))"

section \<open>Retries\<close>

text \<open>
  The loop of \<^verbatim>\<open>post\<close>.  \<open>env\<close> says what attempt number \<open>n\<close> meets: the end of the
  context before its turn, or the exchange.  Beside the result comes the pause after each request.
\<close>

function post_from ::
  "cloud_codec \<Rightarrow> CloudClient \<Rightarrow> string \<Rightarrow> form \<Rightarrow> (nat \<Rightarrow> string + (string \<Rightarrow> form \<Rightarrow> exchange)) \<Rightarrow> nat
     \<Rightarrow> (cloud_error + cjson option) \<times> duration list" where
  "post_from co c path params env attempt =
     (case env attempt of
        Inl err \<Rightarrow> (Inl (ContextEnded err), [])
      | Inr http \<Rightarrow>
          (let res = do_request co http c path params;
               limited = (case res of Inl err \<Rightarrow> is_limited err | Inr _ \<Rightarrow> False);
               pause = release_pause c limited
           in if \<not> limited \<or> rateLimitRetries \<le> attempt then (res, [pause])
              else (case post_from co c path params env (Suc attempt) of (r, pauses) \<Rightarrow> (r, pause # pauses))))"
  by pat_completeness auto
termination by (relation "measure (\<lambda>(co, c, path, params, env, attempt). rateLimitRetries - attempt)") auto

declare post_from.simps [simp del]

definition post ::
  "cloud_codec \<Rightarrow> CloudClient \<Rightarrow> string \<Rightarrow> form \<Rightarrow> (nat \<Rightarrow> string + (string \<Rightarrow> form \<Rightarrow> exchange))
     \<Rightarrow> (cloud_error + cjson option) \<times> duration list" where
  "post co c path params env = post_from co c path params env 0"

section \<open>The calls\<close>

definition AllStatus ::
  "cloud_codec \<Rightarrow> (string \<Rightarrow> netip_addr option) \<Rightarrow> CloudClient
     \<Rightarrow> (nat \<Rightarrow> string + (string \<Rightarrow> form \<Rightarrow> exchange)) \<Rightarrow> (cloud_error + DeviceStatus list)" where
  "AllStatus co parseAddr c env =
     (case fst (post co c ''/device/all_status'' [(''show_info'', [''true'']), (''no_shared'', [''true''])] env) of
        Inl err \<Rightarrow> Inl err
      | Inr dat \<Rightarrow>
          (case Option.bind dat (decodeAllStatus parseAddr) of
             None \<Rightarrow> Inl (Plain (''shelly cloud all_status: '' @ co_mismatch co))
           | Some ds \<Rightarrow> Inr ds))"

definition DeviceList ::
  "cloud_codec \<Rightarrow> CloudClient \<Rightarrow> (nat \<Rightarrow> string + (string \<Rightarrow> form \<Rightarrow> exchange)) \<Rightarrow> cloud_error + cjson option" where
  "DeviceList co c env = fst (post co c ''/interface/device/list'' [] env)"

definition Rooms ::
  "cloud_codec \<Rightarrow> CloudClient \<Rightarrow> (nat \<Rightarrow> string + (string \<Rightarrow> form \<Rightarrow> exchange))
     \<Rightarrow> cloud_error + (string \<Rightarrow> string option)" where
  "Rooms co c env =
     (case fst (post co c ''/interface/room/list'' [] env) of
        Inl err \<Rightarrow> Inl err
      | Inr dat \<Rightarrow> Inr (case dat of Some d \<Rightarrow> decodeRooms d | None \<Rightarrow> Map.empty))"

end
