(* ===== verification/CloudProps.thy ===== *)
theory CloudProps
  imports CloudClient
begin

text \<open>
  The properties of the Shelly cloud client: the pacing of its requests as an invariant of the slot,
  the retry loop, the key that stays out of every error, and what a failed refresh keeps.
\<close>

section \<open>Pacing\<close>

text \<open>The finished requests, newest first: each starts at least the pause of its predecessor after its end.\<close>

fun spaced :: "(bool \<Rightarrow> duration) \<Rightarrow> (time \<times> time \<times> bool) list \<Rightarrow> bool" where
  "spaced pause [] = True"
| "spaced pause [(s, e, l)] = (s \<le> e)"
| "spaced pause ((s', e', l') # (s, e, l) # rest) =
     (s' \<le> e' \<and> e + pause l \<le> s' \<and> spaced pause ((s, e, l) # rest))"

definition slot_inv :: "CloudClient \<Rightarrow> bool" where
  "slot_inv c \<longleftrightarrow> 0 \<le> cc_gap c \<and> 0 \<le> cc_pause c
     \<and> spaced (release_pause c) (cc_log c)
     \<and> (case cc_log c of [] \<Rightarrow> True | (s, e, l) # _ \<Rightarrow> cc_notBefore c = e + release_pause c l)
     \<and> (case cc_slot c of
          Sending start \<Rightarrow> start \<le> cc_now c \<and> (cc_log c = [] \<or> cc_notBefore c \<le> start)
        | _ \<Rightarrow> True)"

definition slot_start :: "CloudClient \<Rightarrow> bool" where
  "slot_start c \<longleftrightarrow> cc_slot c = Free \<and> cc_log c = [] \<and> 0 \<le> cc_gap c \<and> 0 \<le> cc_pause c"

lemma release_pause_update [simp]:
  "release_pause (c\<lparr>cc_slot := x\<rparr>) = release_pause c"
  "release_pause (c\<lparr>cc_now := t\<rparr>) = release_pause c"
  "release_pause (c\<lparr>cc_notBefore := t\<rparr>) = release_pause c"
  "release_pause (c\<lparr>cc_log := xs\<rparr>) = release_pause c"
  by (simp_all add: release_pause_def fun_eq_iff)

lemma spaced_Cons:
  "spaced pause (r # rest) \<longleftrightarrow> (case r of (s', e', l') \<Rightarrow> s' \<le> e' \<and> spaced pause rest
     \<and> (case rest of [] \<Rightarrow> True | (s, e, l) # _ \<Rightarrow> e + pause l \<le> s'))"
  by (cases r; cases rest) auto

lemma slot_step_inv: "slot_inv c \<Longrightarrow> slot_ok ev c \<Longrightarrow> slot_inv (slot_step ev c)"
  by (cases ev)
    (auto simp: slot_inv_def slot_ok_def slot_step_def Let_def acquire_def release_def event_time_def time_sub_def
        max_duration_def min_duration_def spaced_Cons split: slot.splits list.splits if_splits)

interpretation cloud_slot: machine slot_start slot_step slot_ok slot_inv
proof
  show "slot_start c \<Longrightarrow> slot_inv c" for c by (simp add: slot_start_def slot_inv_def)
qed (rule slot_step_inv)

lemma slot_step_keeps [simp]:
  "cc_gap (slot_step ev c) = cc_gap c" "cc_pause (slot_step ev c) = cc_pause c"
  by (cases ev; simp add: slot_step_def Let_def acquire_def release_def split: slot.split)+

lemma run_keeps [simp]:
  "cc_gap (cloud_slot.run evs c) = cc_gap c" "cc_pause (cloud_slot.run evs c) = cc_pause c"
  by (induction evs arbitrary: c) simp_all

text \<open>Request \<open>r'\<close> starts at least its pause after the end of request \<open>r\<close>.\<close>

definition apart :: "(bool \<Rightarrow> duration) \<Rightarrow> time \<times> time \<times> bool \<Rightarrow> time \<times> time \<times> bool \<Rightarrow> bool" where
  "apart pause r' r \<longleftrightarrow> fst (snd r) + pause (snd (snd r)) \<le> fst r'"

lemma spaced_apart:
  assumes "spaced pause reqs" "\<And>l. 0 \<le> pause l"
  shows "sorted_wrt (apart pause) reqs \<and> list_all (\<lambda>r. fst r \<le> fst (snd r)) reqs"
  using assms(1)
proof (induction reqs)
  case (Cons r rest)
  have IH: "sorted_wrt (apart pause) rest" "list_all (\<lambda>r. fst r \<le> fst (snd r)) rest"
    using Cons by (auto simp: spaced_Cons)
  have "apart pause r x" if x: "x \<in> set rest" for x
  proof -
    obtain y rest' where rest: "rest = y # rest'" using x by (cases rest) auto
    then have hd: "apart pause r y" "fst y \<le> fst (snd y)"
      using Cons.prems IH by (auto simp: spaced_Cons apart_def split: prod.splits)
    show ?thesis
    proof (cases "x = y")
      case False
      then have "apart pause y x" using x IH(1) rest by auto
      then show ?thesis using hd assms(2) [of "snd (snd y)"] unfolding apart_def by linarith
    qed (use hd in simp)
  qed
  then show ?case using IH Cons.prems by (auto simp: spaced_Cons split: prod.splits)
qed simp

text \<open>C30. However many callers share the client, its requests run one at a time, and each starts at
  least two seconds after the end of every earlier one, ten after a refusal for the limit.\<close>

theorem cloud_requests_are_paced:
  assumes "NewClient parse server key timeout = Inr c" "cloud_slot.oks evs c"
  shows "sorted_wrt (apart (\<lambda>limited. if limited then 10 * second else 2 * second)) (cc_log (cloud_slot.run evs c))"
proof -
  have c: "slot_start c" and p: "release_pause c = (\<lambda>l. if l then 10 * second else 2 * second)"
    using assms(1)
    by (auto simp: NewClient_def slot_start_def release_pause_def fun_eq_iff MinRequestGap_def
        rateLimitPause_def second_def split: option.splits if_splits)
  have "slot_inv (cloud_slot.run evs c)"
    by (intro cloud_slot.run_invar cloud_slot.init_invar c assms(2))
  then have "spaced (release_pause c) (cc_log (cloud_slot.run evs c))"
    by (simp add: slot_inv_def release_pause_def [abs_def] cong: if_cong)
  from spaced_apart [OF this] show ?thesis by (simp add: p second_def)
qed

theorem cloud_requests_are_paced_witness:
  "cc_log (cloud_slot.run [Take 5, Finish (6 * second) True, Take (7 * second), Fire (16 * second), Finish (17 * second) False]
      \<lparr>cc_base = [], cc_key = ''k'', cc_timeout = 1, cc_gap = MinRequestGap, cc_pause = rateLimitPause, cc_slot = Free,
       cc_notBefore = zero_time, cc_now = zero_time, cc_log = []\<rparr>)
    = [(16 * second, 17 * second, False), (5, 6 * second, True)]
   \<and> sorted_wrt (apart (\<lambda>limited. if limited then 10 * second else 2 * second))
      (cc_log (cloud_slot.run [Take 5, Finish (6 * second) True, Take (7 * second), Fire (16 * second), Finish (17 * second) False]
      \<lparr>cc_base = [], cc_key = ''k'', cc_timeout = 1, cc_gap = MinRequestGap, cc_pause = rateLimitPause, cc_slot = Free,
       cc_notBefore = zero_time, cc_now = zero_time, cc_log = []\<rparr>))"
proof -
  let ?c = "\<lparr>cc_base = [], cc_key = ''k'', cc_timeout = 1, cc_gap = MinRequestGap, cc_pause = rateLimitPause, cc_slot = Free,
       cc_notBefore = zero_time, cc_now = zero_time, cc_log = []\<rparr>"
  let ?evs = "[Take 5, Finish (6 * second) True, Take (7 * second), Fire (16 * second), Finish (17 * second) False]"
  have c: "NewClient (\<lambda>_. Some (''https'', ''h'')) [] ''k'' 1 = Inr ?c" by (simp add: NewClient_def trim_slashes_def)
  have evs: "cloud_slot.oks ?evs ?c"
    by (simp add: slot_ok_def slot_step_def acquire_def release_def release_pause_def event_time_def Let_def time_sub_def
        max_duration_def min_duration_def MinRequestGap_def rateLimitPause_def second_def)
  have "cc_log (cloud_slot.run ?evs ?c) = [(16 * second, 17 * second, False), (5, 6 * second, True)]"
    by (simp add: slot_step_def acquire_def release_def release_pause_def event_time_def Let_def time_sub_def
        max_duration_def min_duration_def MinRequestGap_def rateLimitPause_def second_def)
  then show ?thesis using cloud_requests_are_paced [OF c evs] by simp
qed

section \<open>Retries\<close>

text \<open>Whether attempt \<open>n\<close> is admitted and refused for the limit.\<close>

definition refused ::
  "cloud_codec \<Rightarrow> CloudClient \<Rightarrow> string \<Rightarrow> form \<Rightarrow> (nat \<Rightarrow> string + (string \<Rightarrow> form \<Rightarrow> exchange)) \<Rightarrow> nat \<Rightarrow> bool" where
  "refused co c path params env n \<longleftrightarrow>
     (case env n of
        Inl _ \<Rightarrow> False
      | Inr http \<Rightarrow> (case do_request co http c path params of Inl err \<Rightarrow> is_limited err | Inr _ \<Rightarrow> False))"

definition gave_up :: "cloud_error + cjson option \<Rightarrow> bool" where
  "gave_up res \<longleftrightarrow> (case res of Inl err \<Rightarrow> is_limited err | Inr _ \<Rightarrow> False)"

lemma post_refused:
  assumes "refused co c path params env n"
  obtains res where "gave_up res" "post_from co c path params env n =
    (if 2 \<le> n then (res, [cc_pause c])
     else (fst (post_from co c path params env (Suc n)), cc_pause c # snd (post_from co c path params env (Suc n))))"
proof -
  obtain http err where h: "env n = Inr http" "do_request co http c path params = Inl err" "is_limited err"
    using assms by (auto simp: refused_def split: sum.splits)
  show thesis
    by (rule that [of "Inl err"])
      (simp_all add: h gave_up_def post_from.simps [of co c path params env n] rateLimitRetries_def release_pause_def
        split: prod.split)
qed

lemma post_other:
  assumes "\<not> refused co c path params env n"
  shows "\<not> gave_up (fst (post_from co c path params env n)) \<and> length (snd (post_from co c path params env n)) \<le> 1"
proof (cases "env n")
  case (Inr http)
  then show ?thesis
    using assms by (cases "do_request co http c path params")
      (simp_all add: refused_def gave_up_def post_from.simps [of co c path params env n])
qed (simp add: post_from.simps [of co c path params env n] gave_up_def)

text \<open>A call makes at most three requests, waits the long pause before each retry, and reports the limit exactly when all three attempts were refused.\<close>

theorem limit_is_retried_twice:
  "case post co c path params env of (res, pauses) \<Rightarrow>
     length pauses \<le> 3
     \<and> (gave_up res \<longleftrightarrow> refused co c path params env 0 \<and> refused co c path params env 1 \<and> refused co c path params env 2)
     \<and> list_all (\<lambda>p. p = cc_pause c) (butlast pauses)"
proof -
  let ?p = "post_from co c path params env"
  have two: "butlast ps = []" if "length ps \<le> 1" for ps :: "duration list"
    using that by (cases ps) auto
  note o = post_other [of co c path params env]
  consider (n0) "\<not> refused co c path params env 0"
    | (n1) "refused co c path params env 0" "\<not> refused co c path params env 1"
    | (n2) "refused co c path params env 0" "refused co c path params env 1" "\<not> refused co c path params env 2"
    | (all) "refused co c path params env 0" "refused co c path params env 1" "refused co c path params env 2"
    by blast
  then show ?thesis
  proof cases
    case n0
    then show ?thesis using o [OF n0] two by (simp add: post_def split_beta)
  next
    case n1
    from n1(1) obtain r where "?p 0 = (fst (?p 1), cc_pause c # snd (?p 1))" by (rule post_refused) simp
    then show ?thesis using o [OF n1(2)] n1 two by (cases "snd (?p 1)") (simp_all add: post_def split_beta)
  next
    case n2
    from n2(1) obtain r where 0: "?p 0 = (fst (?p 1), cc_pause c # snd (?p 1))" by (rule post_refused) simp
    from n2(2) obtain r where "?p 1 = (fst (?p 2), cc_pause c # snd (?p 2))" by (rule post_refused) (simp add: numeral_2_eq_2)
    then show ?thesis using 0 o [OF n2(3)] n2 two by (cases "snd (?p 2)") (simp_all add: post_def split_beta)
  next
    case all
    from all(1) obtain r where 0: "?p 0 = (fst (?p 1), cc_pause c # snd (?p 1))" by (rule post_refused) simp
    from all(2) obtain r where 1: "?p 1 = (fst (?p 2), cc_pause c # snd (?p 2))" by (rule post_refused) (simp add: numeral_2_eq_2)
    from all(3) obtain r where "gave_up r" "?p 2 = (r, [cc_pause c])" by (rule post_refused) simp
    then show ?thesis using 0 1 all by (simp add: post_def)
  qed
qed

section \<open>The key\<close>

text \<open>Keys that the replacement cannot bring back: the ones the app hands out have neither bracket.\<close>

definition redactable :: "string \<Rightarrow> bool" where
  "redactable key \<longleftrightarrow> key \<noteq> [] \<and> CHR ''<'' \<notin> set key \<and> CHR ''>'' \<notin> set key \<and> \<not> contains cloud_redacted key"

lemma redact_clean: "redactable (cc_key c) \<Longrightarrow> \<not> contains (error_text (redact c err)) (cc_key c)"
  using replace_all_removes [of "cc_key c" "CHR ''<''" "''secret>''" "error_text err"]
  by (simp add: redact_def redactable_def cloud_redacted_def)

lemma do_request_error:
  assumes "redactable (cc_key c)" "do_request co http c path params = Inl err"
  shows "err = RateLimited path \<or> \<not> contains (error_text err) (cc_key c)"
  using assms(2) redact_clean [OF assms(1)]
  by (auto simp: do_request_def read_answer_def Let_def split: exchange.splits sum.splits option.splits prod.splits if_splits)

lemma post_from_result:
  "fst (post_from co c path params env n) = Inl err \<Longrightarrow>
     (\<exists>msg. err = ContextEnded msg) \<or> (\<exists>http. do_request co http c path params = Inl err)"
proof (induction co c path params env n rule: post_from.induct)
  case (1 co c path params env n)
  show ?case
  proof (cases "env n")
    case (Inr http)
    then show ?thesis using 1 by (auto simp: post_from.simps [of co c path params env n] Let_def split: if_splits prod.splits sum.splits)
  qed (use 1(2) in \<open>auto simp: post_from.simps [of co c path params env n]\<close>)
qed

text \<open>What an error may show: nothing of the key, unless its text is a constant of the exporter or the end of a context.\<close>

definition hides :: "string \<Rightarrow> string \<Rightarrow> cloud_error \<Rightarrow> bool" where
  "hides key path err \<longleftrightarrow>
     (case err of
        ContextEnded _ \<Rightarrow> True
      | RateLimited p \<Rightarrow> p = path \<or> \<not> contains (error_text err) key
      | _ \<Rightarrow> \<not> contains (error_text err) key)"

text \<open>C29. Whatever the cloud answers, echoing the request included, no error of a call contains the key
  of the account.\<close>

theorem key_stays_out_of_errors:
  assumes "redactable (cc_key c)"
  shows "case fst (post co c path params env) of Inl err \<Rightarrow> hides (cc_key c) path err | Inr _ \<Rightarrow> True"
proof (cases "fst (post co c path params env)")
  case (Inl err)
  then consider msg where "err = ContextEnded msg" | http where "do_request co http c path params = Inl err"
    using post_from_result unfolding post_def by blast
  then have "hides (cc_key c) path err"
  proof cases
    case 2
    from do_request_error [OF assms 2] show ?thesis by (cases err) (auto simp: hides_def)
  qed (simp add: hides_def)
  then show ?thesis by (simp add: Inl)
qed simp

text \<open>The client of the witnesses, and a cloud that echoes the key.\<close>

definition ex_client :: CloudClient where
  "ex_client = \<lparr>cc_base = ''https://h'', cc_key = ''MTIzNDU2'', cc_timeout = 1, cc_gap = MinRequestGap, cc_pause = rateLimitPause,
     cc_slot = Free, cc_notBefore = zero_time, cc_now = zero_time, cc_log = []\<rparr>"

definition ex_codec :: cloud_codec where
  "ex_codec = \<lparr>co_json = (\<lambda>_. Inr (CObj [(''isok'', CBool False)])), co_errors = (\<lambda>b. b), co_mismatch = []\<rparr>"

theorem key_stays_out_of_errors_witness:
  "case fst (post ex_codec ex_client ''/p'' [] (\<lambda>_. Inr (\<lambda>url form. Answer 200 (Inr (''key MTIzNDU2 is revoked''))))) of
     Inl err \<Rightarrow> hides (cc_key ex_client) ''/p'' err | Inr _ \<Rightarrow> True"
  by (rule key_stays_out_of_errors) code_simp

text \<open>
  The excerpt of an answer is cut before the key is looked for, so a key that straddles the cut is not
  recognised and its first part stays.
\<close>

lemma cut_key_is_not_redacted:
  "let body = replicate 195 (CHR ''x'') @ ''MTIzNDU2''
   in contains (error_text (redact ex_client (APIError ''/p'' (snippet body)))) (take 5 (cc_key ex_client))"
  by code_simp

section \<open>Names\<close>

text \<open>Turns of the refresh loop with what each meets, and the waits they end with.\<close>

fun turns :: "(cjson option \<times> cjson option \<times> bool \<times> time) list \<Rightarrow> NameStore \<Rightarrow> NameStore \<times> duration list" where
  "turns [] s = (s, [])"
| "turns ((devices, rooms, cancelled, now) # ts) s =
     (case run_turn devices rooms cancelled now s of (s', wait) \<Rightarrow>
        (case turns ts s' of (s'', waits) \<Rightarrow> (s'', wait # waits)))"

lemma failed_turn:
  "run_turn None rooms cancelled now s =
     ((if cancelled then s else s\<lparr>ns_attempted := True, ns_loaded := True, ns_up := False\<rparr>)
       \<lparr>ns_retry := min (ns_retry s * 2) (ns_interval s)\<rparr>, min (ns_retry s) (ns_interval s))"
  by (simp add: run_turn_def refresh_def Let_def retryFactor_def)

lemma min_doubled: "0 < b \<Longrightarrow> min (min a b * 2) b = min (a * 2) (b :: int)"
  by linarith

lemma outage_turns:
  assumes "0 < ns_interval s" "list_all (\<lambda>t. fst t = None) ts"
    and "min (ns_retry s) (ns_interval s) = min (30 * second * 2 ^ k) (ns_interval s)"
  shows "snd (turns ts s) = map (\<lambda>i. min (30 * second * 2 ^ (k + i)) (ns_interval s)) [0..<length ts]
    \<and> ns_names (fst (turns ts s)) = ns_names s \<and> ns_rooms (fst (turns ts s)) = ns_rooms s
    \<and> ns_lastSuccess (fst (turns ts s)) = ns_lastSuccess s"
  using assms
proof (induction ts arbitrary: s k)
  case (Cons t ts)
  obtain rooms cancelled now where t: "t = (None, rooms, cancelled, now)" using Cons.prems(2) by (cases t) auto
  define s' where "s' = fst (run_turn None rooms cancelled now s)"
  have s': "ns_interval s' = ns_interval s" "ns_names s' = ns_names s" "ns_rooms s' = ns_rooms s"
    "ns_lastSuccess s' = ns_lastSuccess s" "ns_retry s' = min (ns_retry s * 2) (ns_interval s)"
    by (simp_all add: s'_def failed_turn)
  have "min (ns_retry s') (ns_interval s') = min (min (ns_retry s) (ns_interval s) * 2) (ns_interval s)"
    using Cons.prems(1) by (simp add: s' min_doubled)
  also have "\<dots> = min (30 * second * 2 ^ Suc k) (ns_interval s')"
    unfolding Cons.prems(3) min_doubled [OF Cons.prems(1)] by (simp add: s' mult.commute)
  finally have k: "min (ns_retry s') (ns_interval s') = min (30 * second * 2 ^ Suc k) (ns_interval s')" .
  have step: "turns (t # ts) s = (fst (turns ts s'), min (ns_retry s) (ns_interval s) # snd (turns ts s'))"
    by (simp add: t failed_turn s'_def split_beta)
  have "[0..<length (t # ts)] = 0 # map Suc [0..<length ts]"
    by (simp add: upt_conv_Cons map_Suc_upt del: upt_Suc)
  then show ?case
    using Cons.IH [of s' "Suc k"] Cons.prems k by (simp add: step s' comp_def)
qed simp

text \<open>While the cloud refuses, the names, the rooms and the time of the last success stay, and the
  retries wait 30 seconds, then twice as long each time, never longer than the refresh interval.\<close>

theorem outage_keeps_names:
  assumes "0 < ns_interval s" "ns_retry s = retryInitial" "list_all (\<lambda>turn. fst turn = None) ts"
  shows "case turns ts s of (s', waits) \<Rightarrow>
     waits = map (\<lambda>i. min (30 * second * 2 ^ i) (ns_interval s)) [0..<length ts]
     \<and> (\<forall>mac. NameStore_Lookup mac s' = NameStore_Lookup mac s)
     \<and> ns_rooms s' = ns_rooms s \<and> snd (NameStore_Health s') = snd (NameStore_Health s)"
  using outage_turns [of s ts 0] assms
  by (simp add: retryInitial_def split_beta NameStore_Lookup_def NameStore_Health_def)

theorem outage_keeps_names_witness:
  "case turns (replicate 3 (None, None, False, 7)) (NewNameStore minute) of (s', waits) \<Rightarrow>
     waits = map (\<lambda>i. min (30 * second * 2 ^ i) minute) [0..<3]"
  using outage_keeps_names [of "NewNameStore minute" "replicate 3 (None, None, False, 7)"]
  by (auto simp: NewNameStore_def minute_def second_def list_all_iff split_beta)

section \<open>Addresses of hardware\<close>

lemma digits_value_snoc: "digits_value (s @ [c]) = 10 * digits_value s + (char_code c - 48)"
  by (simp add: digits_value_def)

lemma digit_char: "is_digit_char c \<Longrightarrow> char_of (char_code c) = c \<and> char_code c - 48 < 10 \<and> 48 + (char_code c - 48) = char_code c"
  by (auto simp: is_digit_char_def char_code_def)

lemma digits_restored:
  "list_all is_digit_char s \<Longrightarrow> s \<noteq> [] \<Longrightarrow>
     length (itoa (digits_value s)) \<le> length s
     \<and> replicate (length s - length (itoa (digits_value s))) (CHR ''0'') @ itoa (digits_value s) = s"
proof (induction s rule: rev_induct)
  case (snoc c s)
  let ?d = "char_code c - 48"
  have c: "char_of (48 + ?d) = c" "?d < 10" using digit_char snoc.prems by auto
  show ?case
  proof (cases "digits_value s = 0")
    case True
    then have v: "itoa (digits_value (s @ [c])) = [c]"
      using c by (simp add: digits_value_snoc itoa_def nat_digits.simps)
    have "s = replicate (length s) (CHR ''0'')" if "s \<noteq> []"
    proof -
      have "itoa 0 = ''0''" by code_simp
      then show ?thesis
        using snoc.IH snoc.prems that True by (simp add: replicate_append_same flip: replicate_Suc)
    qed
    then show ?thesis using v by (cases "s = []") auto
  next
    case False
    then have "s \<noteq> []" by (auto simp: digits_value_def)
    moreover have "itoa (digits_value (s @ [c])) = itoa (digits_value s) @ [c]"
      using False c by (simp add: digits_value_snoc itoa_def nat_digits.simps [of "10 * digits_value s + ?d"])
    ultimately show ?thesis using snoc by auto
  qed
qed simp

lemma normalise_digits: "list_all is_digit_char s \<Longrightarrow> cloud_normaliseMAC s = s"
proof (induction s)
  case (Cons c s)
  then have "is_hex_lower c" "lower_char c = c"
    by (auto simp: is_hex_lower_def is_digit_char_def lower_char_def is_upper_char_def)
  then show ?case using Cons by (simp add: cloud_normaliseMAC_def to_lower_def)
qed (simp add: cloud_normaliseMAC_def to_lower_def)

text \<open>A MAC made of digits only arrives as a JSON number, which drops its leading zeros; the decoder
  restores it, so the cloud's observation merges with the one of mDNS.\<close>

theorem numeric_mac_is_restored:
  assumes "length mac = 12" "list_all is_digit_char mac" "map_of m ''mac'' = Some (CNum (itoa (digits_value mac)) v)"
  shows "map_option (\<lambda>doc. ds_MAC (device_status parseAddr key doc)) (decodeStatus (CObj m)) = Some mac"
proof -
  let ?s = "itoa (digits_value mac)"
  have s: "list_all is_digit_char ?s" using itoa_digits by (auto simp: list_all_iff)
  have "mac \<noteq> []" using assms(1) by auto
  from digits_restored [OF assms(2) this]
  have len: "length ?s \<le> 12" "replicate (12 - length ?s) (CHR ''0'') @ ?s = mac" unfolding assms(1) by auto
  then have "pad_digits ?s = mac" using s by (cases "length ?s < 12") (auto simp: pad_digits_def)
  then have "statusMAC [?s, t] = mac" for t using assms(1) by (simp add: normalise_digits [OF s])
  then show ?thesis by (simp add: decodeStatus_def device_status_def text_member_def assms(3) Let_def del: statusMAC.simps)
qed

theorem numeric_mac_is_restored_witness:
  "map_option (\<lambda>doc. ds_MAC (device_status (\<lambda>_. None) ''k'' doc)) (decodeStatus (CObj [(''mac'', CNum ''42'' 42)]))
     = Some ''000000000042''"
proof -
  have "itoa (digits_value ''000000000042'') = ''42''" by code_simp
  moreover have "list_all is_digit_char ''000000000042''" by code_simp
  ultimately show ?thesis by (intro numeric_mac_is_restored) simp_all
qed

text \<open>One device whose status is no object costs only itself.\<close>

lemma bad_device_costs_only_itself:
  "as_cmap bad = None \<Longrightarrow>
     decodeAllStatus parseAddr (CObj [(''devices_status'', CObj (xs @ (k, bad) # ys))])
     = decodeAllStatus parseAddr (CObj [(''devices_status'', CObj (xs @ ys))])"
  by (simp add: decodeAllStatus_def status_loop_append decodeStatus_def)

end
