(* ===== verification/ESPHomeDevice.thy ===== *)
theory ESPHomeDevice
  imports ESPHomeCache Probe Registry TextOps
begin

text \<open>
  \<^verbatim>\<open>internal/esphome/device.go\<close> and \<^verbatim>\<open>conn.go\<close>: the goroutine that owns the one
  connection to an ESPHome node, from dialling and negotiating the transport over enumerating the
  entities to the loop that keeps the connection alive, and the wait before the next attempt.  The
  client library is an argument: what a dial gives, what a connection answers, and the events that the
  loop selects.  An error is its text and whether it is the end of the deadline.
\<close>

section \<open>The device\<close>

datatype transportMode = transportUnknown | transportNoise | transportPlaintext

definition mode_string :: "transportMode \<Rightarrow> string" where
  "mode_string m = (case m of transportUnknown \<Rightarrow> [] | transportNoise \<Rightarrow> ''noise'' | transportPlaintext \<Rightarrow> ''plaintext'')"

record ESPHomeDevice =
  dv_id :: string
  dv_name :: string
  dv_cfg :: ESPHomeConfig
  dv_cache :: deviceCache
  dv_addr :: netip_addr
  dv_port :: "16 word"
  dv_epoch :: "64 word"
  dv_transport :: transportMode
  dv_liveness :: bool              \<comment> \<open>whether anyone is told about live connections\<close>
  dv_reports :: "ScrapeResult list"    \<comment> \<open>what was reported, latest last\<close>

definition newDevice ::
  "string \<Rightarrow> string \<Rightarrow> netip_addr \<Rightarrow> 16 word \<Rightarrow> 64 word \<Rightarrow> ESPHomeConfig \<Rightarrow> bool \<Rightarrow> ESPHomeDevice" where
  "newDevice i name addr port epoch cfg liveness =
     \<lparr>dv_id = i, dv_name = name, dv_cfg = cfg, dv_cache = newDeviceCache (eh_MaxOrphanStates cfg),
      dv_addr = addr, dv_port = port, dv_epoch = epoch, dv_transport = transportUnknown,
      dv_liveness = liveness, dv_reports = []\<rparr>"

definition on_cache :: "(deviceCache \<Rightarrow> deviceCache) \<Rightarrow> ESPHomeDevice \<Rightarrow> ESPHomeDevice" where
  "on_cache f d = d\<lparr>dv_cache := f (dv_cache d)\<rparr>"

definition reportAlive :: "time \<Rightarrow> ESPHomeDevice \<Rightarrow> ESPHomeDevice" where
  "reportAlive now d =
     (if \<not> dv_liveness d then d
      else d\<lparr>dv_reports := dv_reports d @ [\<lparr>sr_DeviceID = dv_id d, sr_Addr = dv_addr d, sr_Success = True, sr_At = now\<rparr>]\<rparr>)"

section \<open>Errors\<close>

type_synonym conn_error = "string \<times> bool"

definition isAuthFailure :: "string option \<Rightarrow> bool" where
  "isAuthFailure err =
     (case err of
        None \<Rightarrow> False
      | Some text \<Rightarrow>
          (let s = to_lower text
           in contains s ''password'' \<or> contains s ''handshake'' \<or> contains s ''mac failure'' \<or> contains s ''preamble''))"

definition failureReason :: "conn_error option \<Rightarrow> string" where
  "failureReason err =
     (case err of
        None \<Rightarrow> ''none''
      | Some (text, deadline) \<Rightarrow>
          (if isAuthFailure (Some text) then ''encryption''
           else if contains text ''refused'' then ''conn_refused''
           else if contains text ''timeout'' \<or> deadline then ''timeout''
           else ''dial''))"

section \<open>Connecting\<close>

record DialOptions =
  do_ClientInfo :: string
  do_EncryptionKey :: string
  do_ExpectedName :: string
  do_Timeout :: duration

text \<open>What a node answers to the legacy password: the request is not sent, an answer, or none in time.\<close>

datatype auth_answer = NotSent string | Answered bool | Silent

record Conn =
  ec_auth :: auth_answer
  ec_info :: "string + DeviceInfo"
  ec_entities :: "string + ListMsg list"
  ec_subscribe :: "string option"

type_synonym Dialer = "netip_addr \<Rightarrow> 16 word \<Rightarrow> DialOptions \<Rightarrow> conn_error + Conn"

definition authenticate :: "ESPHomeConfig \<Rightarrow> Conn \<Rightarrow> string option" where
  "authenticate cfg conn =
     (if Reveal (eh_Password cfg) = [] then None
      else case ec_auth conn of
             NotSent err \<Rightarrow> Some (''sending legacy password: '' @ err)
           | Answered ok \<Rightarrow> if \<not> ok then Some ''device rejected the configured API password'' else None
           | Silent \<Rightarrow> Some ''device did not answer the legacy password handshake'')"

definition attempts :: "transportMode \<Rightarrow> ESPHomeConfig \<Rightarrow> transportMode list" where
  "attempts sticky cfg =
     (if sticky \<noteq> transportUnknown then [sticky]
      else if Reveal (eh_EncryptionKey cfg) \<noteq> []
      then [transportNoise] @ (if \<not> eh_RequireEncryption cfg then [transportPlaintext] else [])
      else [transportPlaintext])"

definition dial_options :: "ESPHomeDevice \<Rightarrow> transportMode \<Rightarrow> DialOptions" where
  "dial_options d mode =
     (let opts = \<lparr>do_ClientInfo = ''espressif-exporter'', do_EncryptionKey = [], do_ExpectedName = [],
                  do_Timeout = eh_DialTimeout (dv_cfg d)\<rparr>
      in if mode = transportNoise
         then opts\<lparr>do_EncryptionKey := Reveal (eh_EncryptionKey (dv_cfg d)), do_ExpectedName := dv_name d\<rparr>
         else opts)"

text \<open>
  The production dialer: the options it gives the client library, whose dial is the argument
  \<open>api\<close>.  The library's own reconnecting is off.
\<close>

datatype client_option =
    WithClientInfo string
  | WithReconnect nat
  | WithEncryptionKey string
  | WithExpectedName string

definition client_options :: "DialOptions \<Rightarrow> client_option list" where
  "client_options opts =
     [WithClientInfo (do_ClientInfo opts), WithReconnect 0]
     @ (if do_EncryptionKey opts \<noteq> [] then [WithEncryptionKey (do_EncryptionKey opts)] else [])
     @ (if do_ExpectedName opts \<noteq> [] then [WithExpectedName (do_ExpectedName opts)] else [])"

definition dialReal ::
  "(netip_addr \<Rightarrow> 16 word \<Rightarrow> duration \<Rightarrow> client_option list \<Rightarrow> conn_error + Conn) \<Rightarrow> Dialer" where
  "dialReal api addr port opts = api addr port (do_Timeout opts) (client_options opts)"

text \<open>
  The loop over the transports.  The dials are logged beside the result.  The list is never empty, so
  the last error is one of a dial.
\<close>

fun try_modes ::
  "Dialer \<Rightarrow> conn_error \<Rightarrow> transportMode list \<Rightarrow> ESPHomeDevice
     \<Rightarrow> (string + Conn \<times> transportMode) \<times> ESPHomeDevice \<times> DialOptions list" where
  "try_modes dial lastErr [] d =
     (Inl (fst lastErr), on_cache (recordFailure (failureReason (Some lastErr)) (fst lastErr)) d, [])"
| "try_modes dial lastErr (mode # modes) d =
     (let opts = dial_options d mode
      in case dial (dv_addr d) (dv_port d) opts of
           Inr conn \<Rightarrow>
             (case authenticate (dv_cfg d) conn of
                Some err \<Rightarrow> (Inl err, on_cache (recordFailure ''auth'' err) d, [opts])
              | None \<Rightarrow> (Inr (conn, mode), d, [opts]))
         | Inl err \<Rightarrow>
             (case try_modes dial err modes d of (res, d', dials) \<Rightarrow> (res, d', opts # dials)))"

definition connect ::
  "Dialer \<Rightarrow> ESPHomeDevice \<Rightarrow> (string + Conn \<times> transportMode) \<times> ESPHomeDevice \<times> DialOptions list" where
  "connect dial d = try_modes dial ([], False) (attempts (dv_transport d) (dv_cfg d)) d"

section \<open>Entities\<close>

definition entity_map :: "entityRecord list \<Rightarrow> (key \<times> entityRecord) list" where
  "entity_map records = foldl (\<lambda>m r. AList.update (en_Key r) r m) [] records"

text \<open>\<^verbatim>\<open>sort.Slice\<close> may order records of one key either way; here they keep their order.\<close>

definition enumerate_entities :: "ESPHomeConfig \<Rightarrow> ListMsg list \<Rightarrow> deviceCache \<Rightarrow> deviceCache" where
  "enumerate_entities cfg messages c =
     (let records = List.map_filter entityFromMessage messages
      in if eh_MaxEntitiesPerDevice cfg < int (length records)
         then swapEntities (entity_map (take (nat (eh_MaxEntitiesPerDevice cfg)) (sort_key en_Key records))) True c
         else swapEntities (entity_map records) False c)"

definition enumerate_conn :: "string + ListMsg list \<Rightarrow> ESPHomeDevice \<Rightarrow> string option \<times> ESPHomeDevice" where
  "enumerate_conn answer d =
     (case answer of
        Inl err \<Rightarrow> (Some (''list entities: '' @ err), d)
      | Inr messages \<Rightarrow> (None, on_cache (enumerate_entities (dv_cfg d) messages) d))"

end
