(* ===== verification/ESPHomeSession.thy ===== *)
theory ESPHomeSession
  imports ESPHomeDevice
begin

text \<open>
  \<^verbatim>\<open>internal/esphome/device.go\<close>: one session from connect to disconnect, the loop that
  keeps it alive, and the life of the device's goroutine as a sequence of sessions with the waits
  between them.
\<close>

section \<open>The pump\<close>

text \<open>
  What the loop selects: the end of the context or of the connection, the device's farewell, a tick of
  either ticker with what came of it, or a state update, which the client library delivers meanwhile.
  A ping that is answered reads the clock five times: before and after it, for the last message, for
  the report and for the deadline.
\<close>

datatype pump_event =
    CtxDone
  | PeerClosed
  | Farewell
  | PingFailed string
  | Pinged time time time time time
  | Refreshed "string + DeviceInfo" "string + ListMsg list"
  | StateArrived StateMsg time

type_synonym outcome = "bool \<times> string option"    \<comment> \<open>clean disconnect, error\<close>

definition seconds :: "duration \<Rightarrow> real" where
  "seconds d = real_of_int d / real_of_int second"

definition on_state :: "StateMsg \<Rightarrow> time \<Rightarrow> deviceCache \<Rightarrow> deviceCache" where
  "on_state msg now c = (case stateFromMessage msg now of Some (k, s) \<Rightarrow> putState k s c | None \<Rightarrow> c)"

definition on_ping :: "time \<Rightarrow> time \<Rightarrow> time \<Rightarrow> time \<Rightarrow> ESPHomeDevice \<Rightarrow> ESPHomeDevice" where
  "on_ping start finish touched alive d =
     reportAlive alive (on_cache (cache_touch touched) (on_cache (setPing (seconds (time_sub finish start))) d))"

definition past_deadline :: "time \<Rightarrow> ESPHomeDevice \<Rightarrow> bool" where
  "past_deadline now d \<longleftrightarrow>
     (let last = cs_LastMessageAt (cache_Snapshot (dv_cache d))
      in \<not> is_zero last \<and> eh_ReadDeadline (dv_cfg d) < time_sub now last)"

text \<open>\<open>None\<close> while the loop is still running.\<close>

fun pump :: "DeviceInfo \<Rightarrow> int \<Rightarrow> pump_event list \<Rightarrow> ESPHomeDevice \<Rightarrow> outcome option \<times> ESPHomeDevice" where
  "pump info failures [] d = (None, d)"
| "pump info failures (CtxDone # evs) d = (Some (True, None), d)"
| "pump info failures (PeerClosed # evs) d = (Some (False, Some ''connection closed by peer''), d)"
| "pump info failures (Farewell # evs) d = (Some (True, None), d)"
| "pump info failures (PingFailed err # evs) d =
     (if eh_PingFailThreshold (dv_cfg d) \<le> failures + 1
      then (Some (False, Some (''device stopped answering pings: '' @ err)), d)
      else pump info (failures + 1) evs d)"
| "pump info failures (Pinged start finish touched alive now # evs) d =
     (let d' = on_ping start finish touched alive d
      in if past_deadline now d' then (Some (False, Some ''no traffic within the read deadline''), d')
         else pump info 0 evs d')"
| "pump info failures (Refreshed answer entities # evs) d =
     (case answer of
        Inl err \<Rightarrow> pump info failures evs d
      | Inr fresh \<Rightarrow>
          (if di_CompilationTime fresh \<noteq> di_CompilationTime info
           then case enumerate_conn entities (on_cache (setInfo fresh) d) of
                  (Some err, d') \<Rightarrow> (Some (False, Some err), d')
                | (None, d') \<Rightarrow> pump fresh failures evs d'
           else pump info failures evs d))"
| "pump info failures (StateArrived msg now # evs) d = pump info failures evs (on_cache (on_state msg now) d)"

section \<open>A session\<close>

text \<open>What a session meets: the dialer, the clock when it connects and reports, and the events of the loop.\<close>

record script =
  sc_dial :: Dialer
  sc_connected :: time
  sc_alive :: time
  sc_events :: "pump_event list"

definition session :: "script \<Rightarrow> ESPHomeDevice \<Rightarrow> (outcome option \<times> ESPHomeDevice) \<times> DialOptions list" where
  "session s d0 =
     (case connect (sc_dial s) (on_cache recordAttempt d0) of
        (Inl err, d, dials) \<Rightarrow> ((Some (False, Some err), d), dials)
      | (Inr (conn, mode), d, dials) \<Rightarrow>
          (let d1 = d\<lparr>dv_transport := mode\<rparr>
           in case ec_info conn of
                Inl err \<Rightarrow>
                  ((Some (False, Some (''device info: '' @ err)), on_cache (recordFailure ''device_info'' err) d1), dials)
              | Inr info \<Rightarrow>
                  (case enumerate_conn (ec_entities conn) (on_cache (setInfo info) d1) of
                     (Some err, d2) \<Rightarrow> ((Some (False, Some err), on_cache (recordFailure ''list_entities'' err) d2), dials)
                   | (None, d2) \<Rightarrow>
                       (case ec_subscribe conn of
                          Some err \<Rightarrow>
                            ((Some (False, Some (''subscribe states: '' @ err)),
                              on_cache (recordFailure ''subscribe'' err) d2), dials)
                        | None \<Rightarrow>
                            (pump info 0 (sc_events s)
                               (reportAlive (sc_alive s)
                                 (on_cache (setConnected True (mode_string mode) (sc_connected s)) d2)), dials)))))"

section \<open>Waiting\<close>

definition jitter :: "real \<Rightarrow> duration \<Rightarrow> real \<Rightarrow> duration" where
  "jitter rand d fraction =
     (let f = real_of_int d in truncate_dur (f * (1 - fraction) + 2 * fraction * f * rand))"

definition max_delay :: "ESPHomeConfig \<Rightarrow> duration" where
  "max_delay cfg = (if eh_ConnectBudget cfg < 5 * minute then 5 * minute else eh_ConnectBudget cfg)"

definition backoff :: "real \<Rightarrow> ESPHomeConfig \<Rightarrow> nat \<Rightarrow> bool \<Rightarrow> string option \<Rightarrow> duration" where
  "backoff rand cfg attempt cleanDisconnect err =
     (if cleanDisconnect then jitter rand (5 * second) (1 / 5)
      else if isAuthFailure err then jitter rand (max_delay cfg) (1 / 5)
      else let d0 = real_of_int second * 2 ^ attempt;
               d1 = (if real_of_int (max_delay cfg) < d0 then real_of_int (max_delay cfg) else d0)
           in jitter rand (truncate_dur d1) (1 / 5))"

section \<open>The goroutine\<close>

text \<open>
  One turn of \<^verbatim>\<open>run\<close>: the session, whether the context ended by its end, the clock before
  and after, and the random number of the wait.
\<close>

record turn =
  tn_script :: script
  tn_cancelled :: bool
  tn_start :: time
  tn_end :: time
  tn_rand :: real

definition next_attempt :: "turn \<Rightarrow> nat \<Rightarrow> nat" where
  "next_attempt t attempt = (if minute < time_sub (tn_end t) (tn_start t) then 0 else attempt)"

text \<open>The device after the turns, the waits between them, and every dial.\<close>

fun run_device ::
  "turn list \<Rightarrow> nat \<Rightarrow> ESPHomeDevice \<Rightarrow> ESPHomeDevice \<times> duration list \<times> DialOptions list" where
  "run_device [] attempt d = (d, [], [])"
| "run_device (t # ts) attempt d =
     (case session (tn_script t) d of
        ((None, d'), dials) \<Rightarrow> (d', [], dials)
      | ((Some (clean, err), d'), dials) \<Rightarrow>
          (if tn_cancelled t then (d', [], dials)
           else let d'' = on_cache (setConnected False [] (tn_end t)) d';
                    a = next_attempt t attempt;
                    wait = backoff (tn_rand t) (dv_cfg d'') a clean err
                in case run_device ts (Suc a) d'' of (d3, waits, dials') \<Rightarrow> (d3, wait # waits, dials @ dials')))"

end
