(* ===== verification/ESPHomeSessionProps.thy ===== *)
theory ESPHomeSessionProps
  imports ESPHomeSession
begin

text \<open>
  The properties of an ESPHome connection: what is ever dialled, how long the waits are, which
  entities survive truncation, when the loop gives a device up, and that the read deadline cannot
  fire.
\<close>

section \<open>What a session keeps\<close>

definition same_node :: "ESPHomeDevice \<Rightarrow> ESPHomeDevice \<Rightarrow> bool" where
  "same_node d d' \<longleftrightarrow> dv_id d' = dv_id d \<and> dv_name d' = dv_name d \<and> dv_cfg d' = dv_cfg d \<and> dv_addr d' = dv_addr d
     \<and> dv_port d' = dv_port d"

lemma same_node_refl [simp]: "same_node d d"
  by (simp add: same_node_def)

lemma same_node_trans: "same_node d d' \<Longrightarrow> same_node d' d'' \<Longrightarrow> same_node d d''"
  by (simp add: same_node_def)

lemma same_node_simps [simp]:
  "same_node d (on_cache f d') = same_node d d'" "same_node (on_cache f d) d' = same_node d d'"
  "same_node d (reportAlive t d') = same_node d d'" "same_node (reportAlive t d) d' = same_node d d'"
  "same_node d (d'\<lparr>dv_transport := m\<rparr>) = same_node d d'" "same_node (d\<lparr>dv_transport := m\<rparr>) d' = same_node d d'"
  by (simp_all add: same_node_def on_cache_def reportAlive_def)

lemma keeps_transport [simp]:
  "dv_transport (on_cache f d) = dv_transport d" "dv_transport (reportAlive t d) = dv_transport d"
  "dv_cfg (on_cache f d) = dv_cfg d" "dv_cfg (reportAlive t d) = dv_cfg d"
  "dv_name (on_cache f d) = dv_name d"
  by (simp_all add: on_cache_def reportAlive_def)

lemma enumerate_keeps: "enumerate_conn answer d = (e, d') \<Longrightarrow> same_node d d' \<and> dv_transport d' = dv_transport d"
  by (auto simp: enumerate_conn_def split: sum.splits)

lemma pump_keeps: "pump info n evs d = (res, d') \<Longrightarrow> same_node d d' \<and> dv_transport d' = dv_transport d"
proof (induction info n evs d arbitrary: res d' rule: pump.induct)
  case (6 info failures start finish touched alive now evs d)
  let ?d = "on_ping start finish touched alive d"
  have k: "same_node d ?d" "dv_transport ?d = dv_transport d" by (simp_all add: on_ping_def)
  show ?case
  proof (cases "past_deadline now ?d")
    case False
    then show ?thesis using 6(1) [OF refl False] 6(2) k by (auto intro: same_node_trans)
  qed (use 6(2) k in auto)
next
  case (7 info failures answer entities evs d)
  show ?case
  proof (cases answer)
    case (Inr fresh)
    obtain e d1 where e: "enumerate_conn entities (on_cache (setInfo fresh) d) = (e, d1)"
      by (cases "enumerate_conn entities (on_cache (setInfo fresh) d)")
    from enumerate_keeps [OF e] have k: "same_node d d1" "dv_transport d1 = dv_transport d" by simp_all
    show ?thesis
    proof (cases "di_CompilationTime fresh = di_CompilationTime info")
      case False
      note moved = this
      show ?thesis
      proof (cases e)
        case None
        then show ?thesis
          using 7(2) [OF Inr moved e [symmetric] None] 7(4) Inr moved e k by (auto intro: same_node_trans)
      qed (use 7(4) Inr moved e k in auto)
    qed (use 7(3) [OF Inr] 7(4) Inr in simp)
  qed (use 7(1) 7(4) in simp)
qed (auto split: if_splits)

lemma try_modes_spec:
  "try_modes dial e modes d = (res, d', dials) \<Longrightarrow>
     same_node d d' \<and> dv_transport d' = dv_transport d \<and> set dials \<subseteq> dial_options d ` set modes
     \<and> (\<forall>conn mode. res = Inr (conn, mode) \<longrightarrow> mode \<in> set modes)"
proof (induction dial e modes d arbitrary: res d' dials rule: try_modes.induct)
  case (2 dial lastErr mode modes d)
  show ?case
  proof (cases "dial (dv_addr d) (dv_port d) (dial_options d mode)")
    case (Inl err)
    obtain res' d'' dials' where r: "try_modes dial err modes d = (res', d'', dials')"
      by (cases "try_modes dial err modes d")
    from 2(1) [OF refl Inl r] show ?thesis using 2(2) Inl r by (auto simp: Let_def)
  next
    case (Inr conn)
    then show ?thesis using 2(2) by (auto simp: Let_def split: option.splits)
  qed
qed auto

lemma connect_spec:
  assumes "connect dial d = (res, d', dials)"
  shows "same_node d d' \<and> dv_transport d' = dv_transport d
    \<and> set dials \<subseteq> dial_options d ` set (attempts (dv_transport d) (dv_cfg d))
    \<and> (\<forall>conn mode. res = Inr (conn, mode) \<longrightarrow> mode \<in> set (attempts (dv_transport d) (dv_cfg d)))"
  using assms try_modes_spec unfolding connect_def by blast

lemma session_spec:
  assumes "session s d = ((res, d'), dials)"
  shows "same_node d d' \<and> set dials \<subseteq> dial_options d ` set (attempts (dv_transport d) (dv_cfg d))
    \<and> dv_transport d' \<in> insert (dv_transport d) (set (attempts (dv_transport d) (dv_cfg d)))"
proof -
  obtain r d1 ds where c: "connect (sc_dial s) (on_cache recordAttempt d) = (r, d1, ds)"
    by (cases "connect (sc_dial s) (on_cache recordAttempt d)")
  have o: "dial_options (on_cache recordAttempt d) = dial_options d"
    by (simp add: fun_eq_iff dial_options_def Let_def)
  from connect_spec [OF c] show ?thesis
    using assms c
    by (auto simp: session_def o Let_def split: sum.splits prod.splits option.splits
        dest!: enumerate_keeps pump_keeps intro: same_node_trans) (blast intro: same_node_trans)
qed

section \<open>Encryption\<close>

lemma attempts_encrypted:
  "eh_RequireEncryption cfg \<Longrightarrow> Reveal (eh_EncryptionKey cfg) \<noteq> [] \<Longrightarrow> mode \<noteq> transportPlaintext \<Longrightarrow>
     attempts mode cfg = [transportNoise]"
  by (cases mode) (simp_all add: attempts_def)

lemma run_encrypted:
  assumes "eh_RequireEncryption (dv_cfg d)" "Reveal (eh_EncryptionKey (dv_cfg d)) \<noteq> []" "dv_transport d \<noteq> transportPlaintext"
    and "run_device ts attempt d = (d', waits, dials)"
  shows "list_all (\<lambda>o'. do_EncryptionKey o' = Reveal (eh_EncryptionKey (dv_cfg d))) dials"
  using assms
proof (induction ts arbitrary: attempt d d' waits dials)
  case (Cons t ts)
  obtain res d1 ds where s: "session (tn_script t) d = ((res, d1), ds)" by (cases "session (tn_script t) d") auto
  note a = attempts_encrypted [OF Cons.prems(1,2,3)]
  from session_spec [OF s] have
    d1: "same_node d d1" "dv_transport d1 \<noteq> transportPlaintext" "set ds \<subseteq> {dial_options d transportNoise}"
    using Cons.prems(3) by (auto simp: a)
  have "do_EncryptionKey o' = Reveal (eh_EncryptionKey (dv_cfg d))" if "o' \<in> set ds" for o'
  proof -
    have "o' = dial_options d transportNoise" using that d1(3) by blast
    then show ?thesis by (simp add: dial_options_def Let_def)
  qed
  then have ds: "list_all (\<lambda>o'. do_EncryptionKey o' = Reveal (eh_EncryptionKey (dv_cfg d))) ds" by (simp add: list_all_iff)
  show ?case
  proof (cases res)
    case (Some oc)
    obtain clean err where oc: "oc = (clean, err)" by (cases oc)
    show ?thesis
    proof (cases "tn_cancelled t")
      case False
      let ?d2 = "on_cache (setConnected False [] (tn_end t)) d1"
      obtain d3 ws ds' where r: "run_device ts (Suc (next_attempt t attempt)) ?d2 = (d3, ws, ds')"
        by (cases "run_device ts (Suc (next_attempt t attempt)) ?d2")
      have cfg: "dv_cfg ?d2 = dv_cfg d" using d1(1) by (simp add: same_node_def)
      have "list_all (\<lambda>o'. do_EncryptionKey o' = Reveal (eh_EncryptionKey (dv_cfg ?d2))) ds'"
        by (rule Cons.IH [OF _ _ _ r]) (use Cons.prems d1 cfg in simp_all)
      then show ?thesis using Cons.prems(4) s Some oc False r ds cfg by (auto simp: Let_def)
    qed (use Cons.prems(4) s Some oc ds in simp)
  qed (use Cons.prems(4) s ds in simp)
qed simp

text \<open>C12. With encryption required and a key configured, no dial of a device, in any number of sessions
  whatever the node answers, is made without the key, and the client library is told it: there is no fallback to plaintext.\<close>

theorem required_encryption_is_never_dropped:
  assumes "eh_RequireEncryption cfg" "Reveal (eh_EncryptionKey cfg) \<noteq> []"
  shows "list_all (\<lambda>o'. do_EncryptionKey o' = Reveal (eh_EncryptionKey cfg) \<and>
      WithEncryptionKey (Reveal (eh_EncryptionKey cfg)) \<in> set (client_options o'))
    (snd (snd (run_device ts 0 (newDevice i name addr port epoch cfg liveness))))"
proof -
  let ?d = "newDevice i name addr port epoch cfg liveness"
  obtain d' waits dials where r: "run_device ts 0 ?d = (d', waits, dials)" by (cases "run_device ts 0 ?d")
  have d: "dv_cfg ?d = cfg" "dv_transport ?d = transportUnknown" by (simp_all add: newDevice_def)
  from run_encrypted [OF _ _ _ r] assms have "list_all (\<lambda>o'. do_EncryptionKey o' = Reveal (eh_EncryptionKey cfg)) dials"
    by (simp add: d)
  then show ?thesis using assms(2) by (simp add: r list_all_iff client_options_def)
qed

section \<open>A node to talk to\<close>

text \<open>A node that resets the encrypted handshake, and one that goes away politely.\<close>

definition ex_refusing :: turn where
  "ex_refusing = \<lparr>tn_script = \<lparr>sc_dial = (\<lambda>_ _ _. Inl (''connection reset'', False)), sc_connected = 1, sc_alive = 1, sc_events = []\<rparr>,
     tn_cancelled = False, tn_start = 0, tn_end = 5, tn_rand = 1 / 2\<rparr>"

definition ex_secure :: ESPHomeConfig where
  "ex_secure = (cfg_ESPHome Default)\<lparr>eh_RequireEncryption := True, eh_EncryptionKey := ''psk''\<rparr>"

theorem required_encryption_is_never_dropped_witness:
  "list_all (\<lambda>o'. do_EncryptionKey o' = Reveal (eh_EncryptionKey ex_secure) \<and>
       WithEncryptionKey (Reveal (eh_EncryptionKey ex_secure)) \<in> set (client_options o'))
     (snd (snd (run_device [ex_refusing, ex_refusing] 0 (newDevice ''d'' ''n'' (Addr4 7) 6053 1 ex_secure True))))"
  by (rule required_encryption_is_never_dropped) (simp_all add: ex_secure_def Reveal_def)

section \<open>Waits\<close>

lemma jitter_bounds:
  assumes "0 \<le> d" "0 \<le> rand" "rand < 1"
  shows "4 * d \<le> 5 * jitter rand d (1 / 5) + 4 \<and> 5 * jitter rand d (1 / 5) \<le> 6 * d"
proof -
  define x where "x = real_of_int d * (1 - 1 / 5) + 2 * (1 / 5) * real_of_int d * rand"
  have x: "4 * real_of_int d \<le> 5 * x" "5 * x \<le> 6 * real_of_int d" "0 \<le> x"
    using assms mult_left_mono [of rand 1 "real_of_int d"] by (auto simp: x_def field_simps)
  have j: "jitter rand d (1 / 5) = \<lfloor>x\<rfloor>"
    using x(3) unfolding jitter_def Let_def truncate_dur_def x_def by (simp only: if_True)
  have "4 * real_of_int d < 5 * real_of_int \<lfloor>x\<rfloor> + 5" "5 * real_of_int \<lfloor>x\<rfloor> \<le> 6 * real_of_int d"
    using x(1,2) by linarith+
  then show ?thesis unfolding j by linarith
qed

definition rung :: "ESPHomeConfig \<Rightarrow> nat \<Rightarrow> duration" where
  "rung cfg attempt = min (second * 2 ^ attempt) (max_delay cfg)"

lemma max_delay_min: "5 * minute \<le> max_delay cfg"
  by (simp add: max_delay_def)

lemma backoff_rung:
  "\<not> clean \<Longrightarrow> \<not> isAuthFailure err \<Longrightarrow> backoff rand cfg attempt clean err = jitter rand (rung cfg attempt) (1 / 5)"
proof -
  assume a: "\<not> clean" "\<not> isAuthFailure err"
  have "(if real_of_int (max_delay cfg) < real_of_int second * 2 ^ attempt then real_of_int (max_delay cfg)
      else real_of_int second * 2 ^ attempt) = real_of_int (rung cfg attempt)"
  proof -
    have "real_of_int second * 2 ^ attempt = real_of_int (second * 2 ^ attempt)" by simp
    then show ?thesis unfolding rung_def min_def by (metis not_less of_int_less_iff)
  qed
  moreover have "truncate_dur (real_of_int k) = k" for k by (simp add: truncate_dur_def)
  ultimately show ?thesis using a by (simp add: backoff_def Let_def)
qed

text \<open>What the wait after a session is: the jitter of five seconds after a farewell, of the maximum after a
  failure to authenticate, and else of the rung that the attempt has reached.\<close>

definition base_delay :: "ESPHomeConfig \<Rightarrow> nat \<Rightarrow> bool \<Rightarrow> string option \<Rightarrow> duration" where
  "base_delay cfg attempt clean err =
     (if clean then 5 * second else if isAuthFailure err then max_delay cfg else rung cfg attempt)"

lemma backoff_base: "backoff rand cfg attempt clean err = jitter rand (base_delay cfg attempt clean err) (1 / 5)"
  using backoff_rung [of clean err rand cfg attempt] by (simp add: base_delay_def backoff_def)

lemma base_delay_range: "second \<le> base_delay cfg attempt clean err \<and> base_delay cfg attempt clean err \<le> max_delay cfg"
proof -
  have "(1 :: int) \<le> 2 ^ attempt" by simp
  then have "second \<le> second * 2 ^ attempt" by (simp add: second_def)
  then show ?thesis
    using max_delay_min [of cfg] by (auto simp: base_delay_def rung_def minute_def second_def)
qed

text \<open>Between two sessions the exporter waits at least 0.8 seconds and at most 1.2 times the maximum,
  which is five minutes or the connect budget: a device that fails is never hammered, and one that
  recovers is found again within a bounded time.\<close>

theorem reconnect_waits_are_bounded:
  assumes "list_all (\<lambda>t. 0 \<le> tn_rand t \<and> tn_rand t < 1) ts"
  shows "list_all (\<lambda>w. 4 * second \<le> 5 * w + 4 \<and> 5 * w \<le> 6 * max (5 * minute) (eh_ConnectBudget (dv_cfg d)))
    (fst (snd (run_device ts attempt d)))"
  using assms
proof (induction ts arbitrary: attempt d)
  case (Cons t ts)
  obtain res d1 ds where s: "session (tn_script t) d = ((res, d1), ds)" by (cases "session (tn_script t) d") auto
  have cfg: "dv_cfg d1 = dv_cfg d" using session_spec [OF s] by (simp add: same_node_def)
  show ?case
  proof (cases res)
    case (Some oc)
    obtain clean err where oc: "oc = (clean, err)" by (cases oc)
    let ?a = "next_attempt t attempt" and ?d2 = "on_cache (setConnected False [] (tn_end t)) d1"
    let ?w = "backoff (tn_rand t) (dv_cfg d) ?a clean err"
    have "second \<le> base_delay (dv_cfg d) ?a clean err" "base_delay (dv_cfg d) ?a clean err \<le> max_delay (dv_cfg d)"
      using base_delay_range by auto
    moreover have "max_delay (dv_cfg d) = max (5 * minute) (eh_ConnectBudget (dv_cfg d))" by (simp add: max_delay_def)
    ultimately have w: "4 * second \<le> 5 * ?w + 4 \<and> 5 * ?w \<le> 6 * max (5 * minute) (eh_ConnectBudget (dv_cfg d))"
      using jitter_bounds [of "base_delay (dv_cfg d) ?a clean err" "tn_rand t"] Cons.prems
      by (auto simp: backoff_base second_def)
    obtain d3 ws ds' where r: "run_device ts (Suc ?a) ?d2 = (d3, ws, ds')"
      by (cases "run_device ts (Suc ?a) ?d2")
    show ?thesis
      using Cons.IH [of ?d2 "Suc ?a"] Cons.prems w by (simp add: s Some oc Let_def r cfg)
  qed (simp add: s)
qed simp

theorem reconnect_waits_are_bounded_witness:
  "list_all (\<lambda>w. 4 * second \<le> 5 * w + 4 \<and> 5 * w \<le> 6 * max (5 * minute) (eh_ConnectBudget (cfg_ESPHome Default)))
     (fst (snd (run_device [ex_refusing, ex_refusing] 0 (newDevice ''d'' ''n'' (Addr4 7) 6053 1 (cfg_ESPHome Default) True))))"
  using reconnect_waits_are_bounded [of "[ex_refusing, ex_refusing]" "newDevice ''d'' ''n'' (Addr4 7) 6053 1 (cfg_ESPHome Default) True" 0]
  by (simp add: ex_refusing_def newDevice_def)

section \<open>Truncation\<close>

lemma swapEntities_entities [simp]:
  "dc_entities (swapEntities nxt t c) = nxt" "dc_truncated (swapEntities nxt t c) = t"
  by (simp_all add: swapEntities_def split: prod.split)

lemma entity_map_of: "map_of (entity_map rs) = map_of (rev (map (\<lambda>r. (en_Key r, r)) rs))"
  by (induction rs rule: rev_induct) (simp_all add: entity_map_def)

lemma entity_map_wf: "wf_alist (entity_map rs)"
  by (induction rs rule: rev_induct) (simp_all add: entity_map_def wf_alist_update)

lemma entity_map_keys: "keys (entity_map rs) = en_Key ` set rs"
  by (induction rs rule: rev_induct) (simp_all add: entity_map_def)

lemma entity_map_length: "length (entity_map rs) \<le> length rs"
proof -
  have "card (set (map fst (entity_map rs))) = length (map fst (entity_map rs))"
    using entity_map_wf [of rs] by (intro distinct_card) (simp add: wf_alist_def)
  then have "length (entity_map rs) = card (keys (entity_map rs))" by simp
  also have "\<dots> = card (set (map en_Key rs))" by (simp add: entity_map_keys)
  also have "\<dots> \<le> length (map en_Key rs)" by (rule card_length)
  finally show ?thesis by simp
qed

lemma entity_map_order:
  assumes "mset rs = mset rs'" "distinct (map en_Key rs)"
  shows "map_of (entity_map rs) = map_of (entity_map rs')"
proof -
  have "mset (map en_Key rs) = mset (map en_Key rs')" using assms(1) by simp
  then have "distinct (map en_Key rs')" using assms(2) mset_eq_imp_distinct_iff by blast
  then have d: "distinct (map fst (rev (map (\<lambda>r. (en_Key r, r)) rs)))" "distinct (map fst (rev (map (\<lambda>r. (en_Key r, r)) rs')))"
    using assms(2) by (simp_all add: comp_def flip: rev_map)
  have "set (rev (map (\<lambda>r. (en_Key r, r)) rs)) = set (rev (map (\<lambda>r. (en_Key r, r)) rs'))"
    using mset_eq_setD [OF assms(1)] by simp
  then show ?thesis unfolding entity_map_of map_of_inject_set [OF d] .
qed

text \<open>However the node orders its listing, the exporter keeps the same entities, at most the configured
  number, and says so exactly when it dropped some: no entity appears or vanishes between
  reconnects.\<close>

theorem truncation_is_deterministic:
  assumes "mset messages = mset messages'" "distinct (map en_Key (List.map_filter entityFromMessage messages))"
  shows "map_of (dc_entities (enumerate_entities cfg messages c)) = map_of (dc_entities (enumerate_entities cfg messages' c'))
    \<and> int (length (dc_entities (enumerate_entities cfg messages c))) \<le> max 0 (eh_MaxEntitiesPerDevice cfg)
    \<and> (dc_truncated (enumerate_entities cfg messages c)
        \<longleftrightarrow> eh_MaxEntitiesPerDevice cfg < int (length (List.map_filter entityFromMessage messages)))"
proof -
  let ?f = "List.map_filter entityFromMessage" and ?n = "nat (eh_MaxEntitiesPerDevice cfg)"
  have "mset (?f ms) = image_mset (\<lambda>m. the (entityFromMessage m)) (filter_mset (\<lambda>m. entityFromMessage m \<noteq> None) (mset ms))" for ms
    by (simp add: List.map_filter_def comp_def)
  then have m: "mset (?f messages) = mset (?f messages')" using assms(1) by simp
  then have len: "length (?f messages) = length (?f messages')" by (rule mset_eq_length)
  have inj: "inj_on en_Key (set (sort_key en_Key (?f messages')))"
    using assms(2) mset_eq_setD [OF m] by (simp add: distinct_map)
  have sorted: "sort_key en_Key (?f messages) = sort_key en_Key (?f messages')"
    by (rule sort_key_inj_key_eq) (use m inj mset_eq_setD [OF m] in simp_all)
  have dist: "distinct (map en_Key (take ?n (sort_key en_Key (?f messages))))"
    using assms(2) by (simp add: distinct_map inj_on_subset [OF _ set_take_subset])
  have "int (length (entity_map (take ?n rs))) \<le> max 0 (eh_MaxEntitiesPerDevice cfg)" for rs
    using entity_map_length [of "take ?n rs"] by auto
  moreover have "length (entity_map (?f messages)) \<le> length (?f messages)" by (rule entity_map_length)
  ultimately show ?thesis
    using entity_map_order [OF m assms(2)] by (simp add: enumerate_entities_def Let_def len sorted)
qed

definition ex_listing :: "nat \<Rightarrow> ListMsg" where
  "ex_listing n = ListSensor \<lparr>li_Key = of_nat n, li_ObjectId = [], li_Name = [], li_Category = 0, li_Icon = [], li_Disabled = False\<rparr> [] [] 0"

theorem truncation_is_deterministic_witness:
  "map_of (dc_entities (enumerate_entities (ex_secure\<lparr>eh_MaxEntitiesPerDevice := 1\<rparr>) [ex_listing 2, ex_listing 1] (newDeviceCache 4)))
   = map_of (dc_entities (enumerate_entities (ex_secure\<lparr>eh_MaxEntitiesPerDevice := 1\<rparr>) [ex_listing 1, ex_listing 2] (newDeviceCache 4)))"
proof -
  have "distinct (map en_Key (List.map_filter entityFromMessage [ex_listing 2, ex_listing 1]))"
    by (simp add: List.map_filter_def ex_listing_def entity_def)
  from truncation_is_deterministic [OF _ this] show ?thesis by simp
qed

section \<open>Giving up\<close>

text \<open>The loop ends on failed pings exactly when as many as the threshold have failed in a row.\<close>

lemma pings_give_up:
  assumes "n < eh_PingFailThreshold (dv_cfg d)"
  shows "fst (pump info n (map PingFailed errs) d) = None \<longleftrightarrow> n + int (length errs) < eh_PingFailThreshold (dv_cfg d)"
  using assms by (induction errs arbitrary: n) auto

lemma ping_resets:
  "\<not> past_deadline now (on_ping start finish touched alive d) \<Longrightarrow>
     pump info n (Pinged start finish touched alive now # evs) d = pump info 0 evs (on_ping start finish touched alive d)"
  by (simp add: Let_def)

text \<open>The read deadline cannot fire: an answered ping stamps the last message with the current time just
  before it is compared, so the loop never ends for want of traffic unless the clock itself jumps by
  more than the deadline between the two readings.\<close>

theorem read_deadline_never_fires:
  assumes "list_all (\<lambda>ev. case ev of Pinged _ _ touched _ now \<Rightarrow> time_sub now touched \<le> eh_ReadDeadline (dv_cfg d) | _ \<Rightarrow> True) evs"
  shows "fst (pump info n evs d) \<noteq> Some (False, Some ''no traffic within the read deadline'')"
  using assms
proof (induction info n evs d rule: pump.induct)
  case (6 info failures start finish touched alive now evs d)
  have "cs_LastMessageAt (cache_Snapshot (dv_cache (on_ping start finish touched alive d))) = touched"
    by (simp add: on_ping_def reportAlive_def on_cache_def cache_touch_def cache_Snapshot_def)
  then have "\<not> past_deadline now (on_ping start finish touched alive d)"
    using 6(2) by (simp add: past_deadline_def Let_def on_ping_def)
  then show ?case using 6 by (simp add: Let_def on_ping_def)
next
  case (7 info failures answer entities evs d)
  show ?case
  proof (cases answer)
    case (Inr fresh)
    obtain e d1 where e: "enumerate_conn entities (on_cache (setInfo fresh) d) = (e, d1)"
      by (cases "enumerate_conn entities (on_cache (setInfo fresh) d)")
    have cfg: "dv_cfg d1 = dv_cfg d" using enumerate_keeps [OF e] by (simp add: same_node_def)
    have "err \<noteq> ''no traffic within the read deadline''" if "e = Some err" for err
      using that e by (auto simp: enumerate_conn_def split: sum.splits)
    then show ?thesis using 7 Inr e cfg by (cases e) auto
  qed (use 7 in simp)
qed auto

theorem read_deadline_never_fires_witness:
  "fst (pump nil_info 0 [Pinged 5 6 (7 * hour) (7 * hour) (7 * hour + 9), PeerClosed] (newDevice ''d'' ''n'' (Addr4 7) 6053 1 ex_secure True))
     \<noteq> Some (False, Some ''no traffic within the read deadline'')"
  by (rule read_deadline_never_fires)
    (simp add: ex_secure_def newDevice_def Default_def time_sub_def max_duration_def min_duration_def hour_def second_def minute_def)

end
