(* ===== verification/ESPHomeManager.thy ===== *)
theory ESPHomeManager
  imports ESPHomeSession
begin

text \<open>
  \<^verbatim>\<open>internal/esphome/manager.go\<close>: the set of live connections, reconciled with the
  registry's devices.  A goroutine is a numbered instance; \<open>mm_live\<close> holds the ones that run.  Whether
  a cancelled goroutine ends within the connect budget is an argument.
\<close>

record managedDevice =
  mg_dev :: ESPHomeDevice
  mg_instance :: nat
  mg_epoch :: "64 word"
  mg_addr :: string

record Manager =
  mm_cfg :: ESPHomeConfig
  mm_running :: bool                \<comment> \<open>\<^verbatim>\<open>Run\<close> was called and its context lives\<close>
  mm_devices :: "(string \<times> managedDevice) list"
  mm_next :: nat
  mm_live :: "(string \<times> nat) list"

definition NewManager :: "ESPHomeConfig \<Rightarrow> Manager" where
  "NewManager cfg = \<lparr>mm_cfg = cfg, mm_running = False, mm_devices = [], mm_next = 0, mm_live = []\<rparr>"

text \<open>Cancelling a device and waiting for its exit, but no longer than the budget.\<close>

definition stop :: "(nat \<Rightarrow> bool) \<Rightarrow> managedDevice \<Rightarrow> Manager \<Rightarrow> Manager" where
  "stop exits mg m =
     (if exits (mg_instance mg) then m\<lparr>mm_live := filter (\<lambda>l. snd l \<noteq> mg_instance mg) (mm_live m)\<rparr> else m)"

definition start_device :: "(netip_addr \<Rightarrow> string) \<Rightarrow> string \<Rightarrow> Device \<Rightarrow> netip_addr \<Rightarrow> Manager \<Rightarrow> Manager" where
  "start_device addrString i d addr m =
     m\<lparr>mm_devices := AList.update i
          \<lparr>mg_dev = newDevice i (dev_Name d) addr (dev_Port d) (dev_Epoch d) (mm_cfg m) True, mg_instance = mm_next m,
           mg_epoch = dev_Epoch d, mg_addr = addrString addr\<rparr> (mm_devices m),
       mm_next := Suc (mm_next m), mm_live := mm_live m @ [(i, mm_next m)]\<rparr>"

definition primary_addr :: "Device \<Rightarrow> netip_addr" where
  "primary_addr d = (case Primary d of Some a \<Rightarrow> a | None \<Rightarrow> NoAddr)"

definition ensure :: "(netip_addr \<Rightarrow> string) \<Rightarrow> (nat \<Rightarrow> bool) \<Rightarrow> string \<Rightarrow> Device \<Rightarrow> Manager \<Rightarrow> Manager" where
  "ensure addrString exits i d m =
     (let addr = primary_addr d
      in case map_of (mm_devices m) i of
           None \<Rightarrow> start_device addrString i d addr m
         | Some existing \<Rightarrow>
             (if mg_epoch existing = dev_Epoch d \<and> mg_addr existing = addrString addr then m
              else start_device addrString i d addr
                     (stop exits existing (m\<lparr>mm_devices := AList.delete i (mm_devices m)\<rparr>))))"

definition wanted_devices :: "Device list \<Rightarrow> (string \<times> Device) list" where
  "wanted_devices devices =
     foldl (\<lambda>wanted d. case Primary d of Some _ \<Rightarrow> AList.update (dev_ID d) d wanted | None \<Rightarrow> wanted) [] devices"

definition drop_unwanted :: "(nat \<Rightarrow> bool) \<Rightarrow> (string \<times> Device) list \<Rightarrow> Manager \<Rightarrow> Manager" where
  "drop_unwanted exits wanted m =
     (let toStop = filter (\<lambda>(i, _). map_of wanted i = None) (mm_devices m);
          m' = m\<lparr>mm_devices := filter (\<lambda>(i, _). map_of wanted i \<noteq> None) (mm_devices m)\<rparr>
      in foldl (\<lambda>m (_, mg). stop exits mg m) m' toStop)"

definition Sync :: "(netip_addr \<Rightarrow> string) \<Rightarrow> (nat \<Rightarrow> bool) \<Rightarrow> Device list \<Rightarrow> Manager \<Rightarrow> Manager" where
  "Sync addrString exits devices m =
     (if \<not> mm_running m then m
      else let wanted = wanted_devices devices
           in foldl (\<lambda>m (i, d). ensure addrString exits i d m) (drop_unwanted exits wanted m) wanted)"

text \<open>The two halves of \<^verbatim>\<open>Run\<close>: before and after the end of its context.\<close>

definition run_begin :: "Manager \<Rightarrow> Manager" where
  "run_begin m = m\<lparr>mm_running := True\<rparr>"

definition run_end :: "(nat \<Rightarrow> bool) \<Rightarrow> Manager \<Rightarrow> Manager" where
  "run_end exits m =
     foldl (\<lambda>m (_, mg). stop exits mg m) (m\<lparr>mm_running := False, mm_devices := []\<rparr>) (mm_devices m)"

definition snapshotOf :: "string \<Rightarrow> Manager \<Rightarrow> cacheSnapshot option" where
  "snapshotOf i m =
     (case map_of (mm_devices m) i of
        None \<Rightarrow> None
      | Some mg \<Rightarrow> Some ((cache_Snapshot (dv_cache (mg_dev mg)))\<lparr>cs_Addr := dv_addr (mg_dev mg)\<rparr>))"

definition connected_count :: "Manager \<Rightarrow> nat" where
  "connected_count m = length (filter (\<lambda>(_, mg). cs_Connected (cache_Snapshot (dv_cache (mg_dev mg)))) (mm_devices m))"

definition managed_count :: "Manager \<Rightarrow> nat" where
  "managed_count m = length (mm_devices m)"

text \<open>A dial through the semaphore: acquiring fails when the context ends first.\<close>

definition gatedDial :: "conn_error option \<Rightarrow> Dialer \<Rightarrow> Dialer" where
  "gatedDial acquire dial addr port opts = (case acquire of Some err \<Rightarrow> Inl err | None \<Rightarrow> dial addr port opts)"

section \<open>The manager as a machine\<close>

datatype manager_msg =
    MgBegin
  | MgSync "netip_addr \<Rightarrow> string" "nat \<Rightarrow> bool" "Device list"
  | MgEnd "nat \<Rightarrow> bool"
  | MgCache string CacheMsg        \<comment> \<open>what a device's goroutine does to its cache\<close>

definition cache_message :: "string \<Rightarrow> CacheMsg \<Rightarrow> Manager \<Rightarrow> Manager" where
  "cache_message i msg m =
     (case map_of (mm_devices m) i of
        None \<Rightarrow> m
      | Some mg \<Rightarrow> m\<lparr>mm_devices := AList.update i (mg\<lparr>mg_dev := on_cache (cache_step msg) (mg_dev mg)\<rparr>) (mm_devices m)\<rparr>)"

fun manager_step :: "manager_msg \<Rightarrow> Manager \<Rightarrow> Manager" where
  "manager_step MgBegin m = run_begin m"
| "manager_step (MgSync addrString exits devices) m = Sync addrString exits devices m"
| "manager_step (MgEnd exits) m = run_end exits m"
| "manager_step (MgCache i msg) m = cache_message i msg m"

text \<open>A cancelled goroutine ends within the budget.\<close>

fun manager_ok :: "manager_msg \<Rightarrow> Manager \<Rightarrow> bool" where
  "manager_ok MgBegin m = True"
| "manager_ok (MgSync addrString exits devices) m = (\<forall>k. exits k)"
| "manager_ok (MgEnd exits) m = (\<forall>k. exits k)"
| "manager_ok (MgCache i msg) m = (\<forall>mg. map_of (mm_devices m) i = Some mg \<longrightarrow> cache_ok msg (dv_cache (mg_dev mg)))"

definition manager_inv :: "Manager \<Rightarrow> bool" where
  "manager_inv m \<longleftrightarrow> wf_alist (mm_devices m)
     \<and> (\<forall>i mg. (i, mg) \<in> set (mm_devices m) \<longrightarrow> dv_id (mg_dev mg) = i \<and> mg_instance mg < mm_next m \<and> cache_inv (dv_cache (mg_dev mg)))
     \<and> distinct (map (mg_instance \<circ> snd) (mm_devices m))
     \<and> mset (mm_live m) = mset (map (\<lambda>(i, mg). (i, mg_instance mg)) (mm_devices m))"

end
