(* ===== verification/ESPHomeManagerProps.thy ===== *)
theory ESPHomeManagerProps
  imports ESPHomeManager "HOL-Library.Multiset"
begin

text \<open>
  The properties of the connection manager: one goroutine per managed device at every moment, and a
  reconciliation that leaves exactly the devices with an address, without touching the connections
  that need no change.
\<close>

definition live_of :: "string \<times> managedDevice \<Rightarrow> string \<times> nat" where
  "live_of p = (fst p, mg_instance (snd p))"

lemma manager_inv_alt:
  "manager_inv m \<longleftrightarrow> wf_alist (mm_devices m)
     \<and> (\<forall>p \<in> set (mm_devices m). dv_id (mg_dev (snd p)) = fst p \<and> mg_instance (snd p) < mm_next m \<and> cache_inv (dv_cache (mg_dev (snd p))))
     \<and> distinct (map (mg_instance \<circ> snd) (mm_devices m)) \<and> mset (mm_live m) = mset (map live_of (mm_devices m))"
  by (auto simp: manager_inv_def live_of_def [abs_def] case_prod_beta')

lemma stop_all:
  "(\<And>k. exits k) \<Longrightarrow> foldl (\<lambda>m (_, mg). stop exits mg m) m ps
     = m\<lparr>mm_live := filter (\<lambda>l. snd l \<notin> (mg_instance \<circ> snd) ` set ps) (mm_live m)\<rparr>"
proof (induction ps arbitrary: m)
  case (Cons p ps)
  then show ?case by (cases p) (auto simp: stop_def intro!: arg_cong [where f = "\<lambda>f. filter f _"])
qed simp

text \<open>Stopping what is dropped keeps the live goroutines those of the devices.\<close>

lemma live_filter:
  assumes "distinct (map (mg_instance \<circ> snd) D)" "mset L = mset (map live_of D)"
  shows "mset (filter (\<lambda>l. snd l \<notin> (mg_instance \<circ> snd) ` set (filter (\<lambda>p. \<not> P p) D)) L) = mset (map live_of (filter P D))"
proof -
  have inj: "p = q" if "p \<in> set D" "q \<in> set D" "mg_instance (snd p) = mg_instance (snd q)" for p q
    using assms(1) that inj_onD [of "mg_instance \<circ> snd" "set D" p q] by (simp add: distinct_map)
  have "(mg_instance \<circ> snd) p \<notin> (mg_instance \<circ> snd) ` set (filter (\<lambda>p. \<not> P p) D) \<longleftrightarrow> P p" if "p \<in> set D" for p
    using that inj [OF that] by (auto simp: image_iff simp del: split_paired_Ex split_paired_All)
  then have "filter (\<lambda>p. snd (live_of p) \<notin> (mg_instance \<circ> snd) ` set (filter (\<lambda>p. \<not> P p) D)) D = filter P D"
    by (intro filter_cong) (auto simp: live_of_def)
  then show ?thesis
    by (metis (no_types, lifting) assms(2) filter_map mset_filter comp_apply filter_cong)
qed

lemma manager_inv_filter:
  assumes "manager_inv m"
  shows "manager_inv (m\<lparr>mm_devices := filter P (mm_devices m),
     mm_live := filter (\<lambda>l. snd l \<notin> (mg_instance \<circ> snd) ` set (filter (\<lambda>p. \<not> P p) (mm_devices m))) (mm_live m)\<rparr>)"
proof -
  have "distinct (map (mg_instance \<circ> snd) (filter P (mm_devices m)))"
    using assms by (simp add: manager_inv_alt distinct_map_filter)
  then show ?thesis
    using assms live_filter [of "mm_devices m" "mm_live m" P] by (auto simp: manager_inv_alt wf_alist_filter)
qed

lemma drop_unwanted_eq:
  "(\<And>k. exits k) \<Longrightarrow> drop_unwanted exits w m
     = m\<lparr>mm_devices := filter (\<lambda>(i, _). map_of w i \<noteq> None) (mm_devices m),
         mm_live := filter (\<lambda>l. snd l \<notin> (mg_instance \<circ> snd) ` set (filter (\<lambda>p. \<not> (case p of (i, _) \<Rightarrow> map_of w i \<noteq> None)) (mm_devices m))) (mm_live m)\<rparr>"
  using stop_all [of exits _ "filter (\<lambda>(i, _). map_of w i = None) (mm_devices m)"]
  by (simp add: drop_unwanted_def Let_def case_prod_beta')

lemma update_new_key: "k \<notin> keys al \<Longrightarrow> AList.update k v al = al @ [(k, v)]"
  by (induction al) auto

lemma start_inv:
  assumes "manager_inv m" "i \<notin> keys (mm_devices m)"
  shows "manager_inv (start_device addrString i d addr m)"
proof -
  have u: "AList.update i v (mm_devices m) = mm_devices m @ [(i, v)]" for v
    using assms(2) by (rule update_new_key)
  have "cache_inv (newDeviceCache n)" for n
    by (simp add: cache_inv_def newDeviceCache_def)
  then show ?thesis
    using assms unfolding manager_inv_alt start_device_def
    by (auto simp: u live_of_def newDevice_def wf_alist_def image_iff dest: less_SucI) 
qed

lemma stop_existing_inv:
  assumes "manager_inv m" "map_of (mm_devices m) i = Some mg" "\<And>k. exits k"
  shows "manager_inv (stop exits mg (m\<lparr>mm_devices := AList.delete i (mm_devices m)\<rparr>))"
proof -
  have wf: "wf_alist (mm_devices m)" using assms(1) by (simp add: manager_inv_def)
  have d: "AList.delete i al = filter (\<lambda>p. fst p \<noteq> i) al" for al :: "(string \<times> managedDevice) list"
    by (induction al) auto
  have "p \<in> set (mm_devices m) \<and> fst p = i \<longleftrightarrow> p = (i, mg)" for p
    using assms(2) wf_alist_map_of [OF wf, of i] by (cases p) auto
  then have "set (filter (\<lambda>p. \<not> fst p \<noteq> i) (mm_devices m)) = {(i, mg)}" by auto
  then show ?thesis
    using manager_inv_filter [OF assms(1), of "\<lambda>p. fst p \<noteq> i"] assms(3) by (simp add: stop_def d)
qed

lemma stop_devices [simp]: "mm_devices (stop exits mg m) = mm_devices m"
  by (simp add: stop_def)

lemma ensure_inv:
  assumes "manager_inv m" "\<And>k. exits k"
  shows "manager_inv (ensure addrString exits i d m)"
proof (cases "map_of (mm_devices m) i")
  case None
  then show ?thesis using start_inv [OF assms(1), of i] map_of_eq_None_keys [of "mm_devices m" i] by (simp add: ensure_def Let_def)
next
  case (Some mg)
  have "manager_inv (start_device addrString i d (primary_addr d) (stop exits mg (m\<lparr>mm_devices := AList.delete i (mm_devices m)\<rparr>)))"
    using stop_existing_inv [OF assms(1) Some assms(2)] by (intro start_inv) auto
  then show ?thesis using assms(1) Some by (simp add: ensure_def Let_def)
qed

lemma ensure_all_inv:
  "manager_inv m \<Longrightarrow> (\<And>k. exits k) \<Longrightarrow> manager_inv (foldl (\<lambda>m (i, d). ensure addrString exits i d m) m w)"
  by (induction w arbitrary: m) (auto intro: ensure_inv)

lemma update_keeps_instance:
  "map_of al i = Some mg \<Longrightarrow> mg_instance mg' = mg_instance mg \<Longrightarrow>
     map (mg_instance \<circ> snd) (AList.update i mg' al) = map (mg_instance \<circ> snd) al
     \<and> map live_of (AList.update i mg' al) = map live_of al
     \<and> set (AList.update i mg' al) \<subseteq> insert (i, mg') (set al)"
  by (induction al) (auto simp: live_of_def split: if_splits)

lemma manager_step_inv: "manager_inv m \<Longrightarrow> manager_ok msg m \<Longrightarrow> manager_inv (manager_step msg m)"
proof (cases msg)
  case (MgSync addrString exits devices)
  assume m: "manager_inv m" "manager_ok msg m"
  then have "manager_inv (drop_unwanted exits (wanted_devices devices) m)"
    using manager_inv_filter [OF m(1)] by (simp add: MgSync drop_unwanted_eq)
  then show ?thesis using m by (simp add: MgSync Sync_def Let_def ensure_all_inv)
next
  case (MgEnd exits)
  assume m: "manager_inv m" "manager_ok msg m"
  then show ?thesis
    using manager_inv_filter [OF m(1), of "\<lambda>_. False"] stop_all [of exits _ "mm_devices m"]
    by (simp add: MgEnd run_end_def manager_inv_def)
next
  case (MgCache i c)
  assume m: "manager_inv m" "manager_ok msg m"
  show ?thesis
  proof (cases "map_of (mm_devices m) i")
    case (Some mg)
    let ?mg = "mg\<lparr>mg_dev := on_cache (cache_step c) (mg_dev mg)\<rparr>"
    have "cache_inv (dv_cache (mg_dev ?mg))"
      using m Some by (auto simp: MgCache manager_inv_def on_cache_def intro!: esp_cache.step_invar dest: map_of_SomeD)
    moreover have "dv_id (mg_dev ?mg) = i" "mg_instance ?mg < mm_next m"
      using m Some by (auto simp: manager_inv_def on_cache_def dest: map_of_SomeD)
    ultimately show ?thesis using m Some update_keeps_instance [OF Some, of ?mg]
      by (auto simp: MgCache cache_message_def manager_inv_alt wf_alist_update)
  qed (use m in \<open>simp add: MgCache cache_message_def\<close>)
qed (simp add: run_begin_def manager_inv_def)

interpretation manager: machine "\<lambda>m. \<exists>cfg. m = NewManager cfg" manager_step manager_ok manager_inv
proof
  show "\<exists>cfg. m = NewManager cfg \<Longrightarrow> manager_inv m" for m
    by (auto simp: NewManager_def manager_inv_def)
qed (rule manager_step_inv)


definition ex_node :: Device where
  "ex_node = \<lparr>dev_ID = ''mac:a8032ab12345'', dev_Kind = KindESPHome, dev_Name = ''n'', dev_Hostname = [],
     dev_Addrs = [Addr4 7], dev_RejectedAddrs = [], dev_Port = 6053, dev_TXT = Map.empty, dev_FirstSeen = 1, dev_LastSeen = 1,
     dev_Static = False, dev_Epoch = 1, dev_Unverified = False\<rparr>"

definition ex_manager :: Manager where
  "ex_manager = manager_step (MgSync (\<lambda>_. ''10.0.0.7'') (\<lambda>_. True) [ex_node])
     (manager_step MgBegin (NewManager (cfg_ESPHome Default)))"

lemma ex_manager_reachable: "manager.reachable ex_manager"
  unfolding ex_manager_def by (intro manager.reachable.move manager.reachable.start) auto


section \<open>Reconciliation\<close>

definition current :: "(netip_addr \<Rightarrow> string) \<Rightarrow> Device \<Rightarrow> managedDevice \<Rightarrow> bool" where
  "current addrString d mg \<longleftrightarrow> mg_epoch mg = dev_Epoch d \<and> mg_addr mg = addrString (primary_addr d)"

lemma ensure_devices:
  "map_of (mm_devices (ensure addrString exits i d m)) j =
     (if j \<noteq> i then map_of (mm_devices m) j
      else case map_of (mm_devices m) i of
             Some mg \<Rightarrow> if current addrString d mg then Some mg
               else map_of (mm_devices (start_device addrString i d (primary_addr d) (stop exits mg m))) i
           | None \<Rightarrow> map_of (mm_devices (start_device addrString i d (primary_addr d) m)) i)"
  by (auto simp: ensure_def Let_def current_def start_device_def stop_def split: option.split)

lemma started_current:
  "\<exists>mg. map_of (mm_devices (start_device addrString i d (primary_addr d) m)) i = Some mg \<and> current addrString d mg"
  by (simp add: start_device_def current_def)

lemma ensure_current:
  "\<exists>mg. map_of (mm_devices (ensure addrString exits i d m)) i = Some mg \<and> current addrString d mg
     \<and> (\<forall>old. map_of (mm_devices m) i = Some old \<and> current addrString d old \<longrightarrow> mg = old)"
  using started_current by (auto simp: ensure_devices split: option.split)

lemma ensure_all:
  "wf_alist w \<Longrightarrow>
     (case map_of w j of
        None \<Rightarrow> map_of (mm_devices (foldl (\<lambda>m (i, d). ensure addrString exits i d m) m w)) j = map_of (mm_devices m) j
      | Some d \<Rightarrow> \<exists>mg. map_of (mm_devices (foldl (\<lambda>m (i, d). ensure addrString exits i d m) m w)) j = Some mg \<and> current addrString d mg
          \<and> (\<forall>old. map_of (mm_devices m) j = Some old \<and> current addrString d old \<longrightarrow> mg = old))"
proof (induction w arbitrary: m)
  case (Cons id w)
  obtain i d where id: "id = (i, d)" by (cases id)
  have w: "wf_alist w" "i \<notin> keys w" using Cons.prems by (auto simp: wf_alist_def id)
  then have none: "map_of w i = None" by (simp add: map_of_eq_None_iff)
  show ?case
  proof (cases "j = i")
    case True
    then show ?thesis
      using Cons.IH [OF w(1), of "ensure addrString exits i d m"] ensure_current [of addrString exits i d m] none
      by (simp add: id)
  next
    case False
    then show ?thesis
      using Cons.IH [OF w(1), of "ensure addrString exits i d m"] ensure_devices [of addrString exits i d m j]
      by (auto simp: id split: option.splits)
  qed
qed simp

lemma wanted_spec:
  assumes "distinct (map dev_ID devices)"
  shows "wf_alist (wanted_devices devices)
    \<and> (map_of (wanted_devices devices) i = Some d \<longleftrightarrow> d \<in> set devices \<and> dev_ID d = i \<and> Primary d \<noteq> None)"
  using assms
proof (induction devices rule: rev_induct)
  case (snoc x xs)
  have "dev_ID x \<notin> dev_ID ` set xs" using snoc.prems by simp
  then have "dev_ID y \<noteq> dev_ID x" if "y \<in> set xs" for y using that by (metis imageI)
  then show ?case using snoc by (auto simp: wanted_devices_def wf_alist_update split: option.split)
qed (simp add: wanted_devices_def)

text \<open>C31. After a reconciliation the manager holds a connection exactly for the devices that have an
  address, each at its current epoch and address, and a connection that was already current is left
  untouched.\<close>

theorem sync_converges:
  assumes "mm_running m" "\<And>k. exits k" "distinct (map dev_ID devices)"
  shows "case map_of (mm_devices (Sync addrString exits devices m)) i of
      None \<Rightarrow> (\<forall>d \<in> set devices. dev_ID d = i \<longrightarrow> Primary d = None)
    | Some mg \<Rightarrow> (\<exists>d \<in> set devices. dev_ID d = i \<and> Primary d \<noteq> None \<and> current addrString d mg
        \<and> (\<forall>old. map_of (mm_devices m) i = Some old \<and> current addrString d old \<longrightarrow> mg = old))"
proof -
  let ?w = "wanted_devices devices" and ?m = "drop_unwanted exits (wanted_devices devices) m"
  have wf: "wf_alist ?w" using wanted_spec [OF assms(3)] by blast
  have dropped: "map_of (mm_devices ?m) i = (if map_of ?w i = None then None else map_of (mm_devices m) i)"
  proof -
    have "map_of (filter (\<lambda>(j, _). map_of ?w j \<noteq> None) al) i = (if map_of ?w i = None then None else map_of al i)" for al :: "(string \<times> managedDevice) list"
      by (induction al) auto
    then show ?thesis by (simp add: drop_unwanted_eq [OF assms(2)])
  qed
  have sync: "Sync addrString exits devices m = foldl (\<lambda>m (i, d). ensure addrString exits i d m) ?m ?w"
    using assms(1) by (simp add: Sync_def Let_def)
  show ?thesis
  proof (cases "map_of ?w i")
    case None
    then have "map_of (mm_devices (Sync addrString exits devices m)) i = None"
      using ensure_all [OF wf, where j = i and addrString = addrString and exits = exits and m = ?m] dropped by (simp add: sync)
    moreover have "Primary d = None" if "d \<in> set devices" "dev_ID d = i" for d
      using None wanted_spec [OF assms(3), of i d] that by auto
    ultimately show ?thesis by simp
  next
    case (Some d)
    obtain mg where "map_of (mm_devices (Sync addrString exits devices m)) i = Some mg" "current addrString d mg"
      "\<forall>old. map_of (mm_devices m) i = Some old \<and> current addrString d old \<longrightarrow> mg = old"
      using ensure_all [OF wf, where j = i and addrString = addrString and exits = exits and m = ?m] dropped Some by (auto simp: sync)
    then show ?thesis using wanted_spec [OF assms(3), of i d] Some by auto
  qed
qed

theorem sync_converges_witness:
  "\<exists>mg. map_of (mm_devices (Sync (\<lambda>_. ''10.0.0.7'') (\<lambda>_. True) [ex_node] (run_begin (NewManager (cfg_ESPHome Default))))) (dev_ID ex_node) = Some mg
     \<and> mg_epoch mg = 1"
proof -
  let ?m = "run_begin (NewManager (cfg_ESPHome Default))"
  have p: "Primary ex_node \<noteq> None" "dev_Epoch ex_node = 1" by (simp_all add: ex_node_def Primary_def)
  show ?thesis
    using p sync_converges [where m = ?m and exits = "\<lambda>_. True" and devices = "[ex_node]"
      and addrString = "\<lambda>_. ''10.0.0.7''" and i = "dev_ID ex_node"]
    by (auto simp: run_begin_def NewManager_def current_def split: option.splits)
qed

text \<open>A device that keeps its address but moves to another port keeps its epoch, and the manager its
  connection to the old port.\<close>

lemma port_change_is_missed:
  "map_of (mm_devices m) i = Some mg \<Longrightarrow> current addrString d mg \<Longrightarrow> ensure addrString exits i (d\<lparr>dev_Port := p\<rparr>) m = m"
  by (simp add: ensure_def Let_def current_def primary_addr_def Primary_def)

end
