(* ===== verification/ProbeConcurrent.thy ===== *)
theory ProbeConcurrent
  imports Probe
begin

text \<open>
  \<^verbatim>\<open>internal/probe/limiter.go\<close> under concurrent calls: every call of
  \<^verbatim>\<open>Limiter.Do\<close> is a goroutine with a program counter, and a step of the gate is one step
  of one call between two points at which another goroutine may run.  The semaphore and the
  single-flight group are packages of the Go project: they are arguments, with what their
  documentation promises as \<open>sync_laws\<close>.
\<close>

section \<open>The packages the gate waits on\<close>

text \<open>
  \<open>sem_acquire\<close> gives \<open>None\<close> while the caller has to wait.  \<open>grp_enter\<close> says whether the caller runs
  the function itself; \<open>grp_leave\<close>, when the function has returned, whether its value goes to several
  callers.
\<close>

record ('s, 'g) sync =
  sem_acquire :: "'s \<Rightarrow> 's option"
  sem_release :: "'s \<Rightarrow> 's"
  grp_enter :: "string \<Rightarrow> nat \<Rightarrow> 'g \<Rightarrow> bool \<times> 'g"
  grp_leave :: "string \<Rightarrow> 'g \<Rightarrow> bool \<times> 'g"

definition sem_laws :: "('s, 'g) sync \<Rightarrow> ('s \<Rightarrow> nat) \<Rightarrow> int \<Rightarrow> bool" where
  "sem_laws S held n \<longleftrightarrow>
     (\<forall>s s'. sem_acquire S s = Some s' \<longrightarrow> int (held s) < n \<and> held s' = Suc (held s)) \<and>
     (\<forall>s. sem_acquire S s = None \<longrightarrow> n \<le> int (held s)) \<and>
     (\<forall>s. 0 < held s \<longrightarrow> Suc (held (sem_release S s)) = held s)"

definition grp_laws :: "('s, 'g) sync \<Rightarrow> ('g \<Rightarrow> string \<Rightarrow> nat set) \<Rightarrow> bool" where
  "grp_laws S callers \<longleftrightarrow>
     (\<forall>d c g. fst (grp_enter S d c g) = (callers g d = {}) \<and>
        callers (snd (grp_enter S d c g)) = (callers g)(d := insert c (callers g d))) \<and>
     (\<forall>d g. fst (grp_leave S d g) = (1 < card (callers g d)) \<and>
        callers (snd (grp_leave S d g)) = (callers g)(d := {}))"

section \<open>Calls and steps\<close>

text \<open>
  Where a call stands.  From \<open>Leading\<close> to \<open>Ended\<close> it runs the function it gave to the group;
  \<open>Waiting\<close> is a call that joined the flight of another.
\<close>

datatype 'm progress =
    Arrived
  | Admitted
  | Missed
  | Leading
  | Holding
  | Running
  | Probed "'m list" Result
  | Recorded "'m list" Result
  | Stored "'m list" Result
  | Lowered "'m list" Result
  | Ended "'m list" Result
  | Waiting
  | Given bool "'m list" Result
  | Returned "'m list" Result duration

record ('m, 's, 'g) shared_gate =
  sg_lim :: "'m Limiter"
  sg_sem :: 's
  sg_group :: 'g
  sg_calls :: "(string \<times> 'm progress) list"

definition call_at :: "('m, 's, 'g) shared_gate \<Rightarrow> nat \<Rightarrow> string \<Rightarrow> 'm progress \<Rightarrow> bool" where
  "call_at s c d p \<longleftrightarrow> c < length (sg_calls s) \<and> sg_calls s ! c = (d, p)"

definition advance ::
  "nat \<Rightarrow> string \<Rightarrow> 'm progress \<Rightarrow> ('m, 's, 'g) shared_gate \<Rightarrow> ('m, 's, 'g) shared_gate" where
  "advance c d p s = s\<lparr>sg_calls := (sg_calls s)[c := (d, p)]\<rparr>"

definition with_lim ::
  "('m Limiter \<Rightarrow> 'm Limiter) \<Rightarrow> ('m, 's, 'g) shared_gate \<Rightarrow> ('m, 's, 'g) shared_gate" where
  "with_lim f s = s\<lparr>sg_lim := f (sg_lim s)\<rparr>"

definition add_inFlight :: "int \<Rightarrow> 'm Limiter \<Rightarrow> 'm Limiter" where
  "add_inFlight k l = l\<lparr>lm_inFlight := lm_inFlight l + k\<rparr>"

definition record_outcome :: "time \<Rightarrow> real \<Rightarrow> string \<Rightarrow> Result \<Rightarrow> 'm Limiter \<Rightarrow> 'm Limiter" where
  "record_outcome now rand d res l = l\<lparr>lm_backoff := Record now rand d res (lm_backoff l)\<rparr>"

text \<open>The value of a flight goes to the call that led it and to every call that waits for it.\<close>

fun hand_out :: "string \<Rightarrow> bool \<Rightarrow> 'm list \<Rightarrow> Result \<Rightarrow> string \<times> 'm progress \<Rightarrow> string \<times> 'm progress" where
  "hand_out d sh ms res (d', Waiting) = (d', if d' = d then Given sh ms res else Waiting)"
| "hand_out d sh ms res (d', Ended ms' res') =
     (d', if d' = d then Given sh ms res else Ended ms' res')"
| "hand_out d sh ms res x = x"

inductive call_step ::
  "('s, 'g) sync \<Rightarrow> ('m, 's, 'g) shared_gate \<Rightarrow> ('m, 's, 'g) shared_gate \<Rightarrow> bool"
  for S :: "('s, 'g) sync" where
  refuse: "call_at s c d Arrived \<Longrightarrow> Allow now d (lm_backoff (sg_lim s)) = (False, remaining)
     \<Longrightarrow> call_step S s (advance c d (Returned [] (Fail ReasonBackoff 0) remaining)
           (with_lim (countSkip ReasonBackoff) s))"
| admit: "call_at s c d Arrived \<Longrightarrow> Allow now d (lm_backoff (sg_lim s)) = (True, remaining)
     \<Longrightarrow> call_step S s (advance c d Admitted s)"
| hit: "call_at s c d Admitted \<Longrightarrow> lookup_cache now d (sg_lim s) = Some r
     \<Longrightarrow> call_step S s (advance c d (Returned (cr_metrics r) (cr_result r) 0)
           (with_lim (count_shared True) s))"
| miss: "call_at s c d Admitted \<Longrightarrow> lookup_cache now d (sg_lim s) = None
     \<Longrightarrow> call_step S s (advance c d Missed s)"
| lead: "call_at s c d Missed \<Longrightarrow> grp_enter S d c (sg_group s) = (True, g)
     \<Longrightarrow> call_step S s (advance c d Leading (s\<lparr>sg_group := g\<rparr>))"
| join: "call_at s c d Missed \<Longrightarrow> grp_enter S d c (sg_group s) = (False, g)
     \<Longrightarrow> call_step S s (advance c d Waiting (s\<lparr>sg_group := g\<rparr>))"
| take: "call_at s c d Leading \<Longrightarrow> sem_acquire S (sg_sem s) = Some m
     \<Longrightarrow> call_step S s (advance c d Holding (s\<lparr>sg_sem := m\<rparr>))"
| count: "call_at s c d Holding
     \<Longrightarrow> call_step S s (advance c d Running (with_lim (add_inFlight 1) s))"
| probe: "call_at s c d Running \<Longrightarrow> call_step S s (advance c d (Probed ms res) s)"
| noted: "call_at s c d (Probed ms res)
     \<Longrightarrow> call_step S s (advance c d (Recorded ms res) (with_lim (record_outcome now rand d res) s))"
| store: "call_at s c d (Recorded ms res)
     \<Longrightarrow> call_step S s (advance c d (Stored ms res) (with_lim (store_cache now d ms res) s))"
| uncount: "call_at s c d (Stored ms res)
     \<Longrightarrow> call_step S s (advance c d (Lowered ms res) (with_lim (add_inFlight (- 1)) s))"
| free: "call_at s c d (Lowered ms res)
     \<Longrightarrow> call_step S s (advance c d (Ended ms res) (s\<lparr>sg_sem := sem_release S (sg_sem s)\<rparr>))"
| land: "call_at s c d (Ended ms res) \<Longrightarrow> grp_leave S d (sg_group s) = (sh, g)
     \<Longrightarrow> call_step S s (s\<lparr>sg_group := g, sg_calls := map (hand_out d sh ms res) (sg_calls s)\<rparr>)"
| answer: "call_at s c d (Given sh ms res)
     \<Longrightarrow> call_step S s (advance c d (Returned ms res 0) (with_lim (count_shared sh) s))"

text \<open>
  What comes from outside: a scrape, a new address of a device, and the end of the context of a call
  that waits for a token.
\<close>

inductive gate_event :: "('m, 's, 'g) shared_gate \<Rightarrow> ('m, 's, 'g) shared_gate \<Rightarrow> bool" where
  arrive: "gate_event s (s\<lparr>sg_calls := sg_calls s @ [(d, Arrived)]\<rparr>)"
| moved: "gate_event s (with_lim (Limiter_Forget d) s)"
| expired: "call_at s c d Leading
     \<Longrightarrow> gate_event s (advance c d (Ended [] (Fail ReasonInFlightLimit 0))
           (with_lim (countSkip ReasonInFlightLimit) s))"

inductive gate_reachable ::
  "('s, 'g) sync \<Rightarrow> ProbeConfig \<Rightarrow> 's \<Rightarrow> 'g \<Rightarrow> ('m, 's, 'g) shared_gate \<Rightarrow> bool"
  for S :: "('s, 'g) sync" and cfg :: ProbeConfig and m :: 's and g :: 'g where
  start: "gate_reachable S cfg m g \<lparr>sg_lim = NewLimiter cfg, sg_sem = m, sg_group = g, sg_calls = []\<rparr>"
| step: "gate_reachable S cfg m g s \<Longrightarrow> call_step S s s' \<Longrightarrow> gate_reachable S cfg m g s'"
| event: "gate_reachable S cfg m g s \<Longrightarrow> gate_event s s' \<Longrightarrow> gate_reachable S cfg m g s'"

text \<open>
  A step as a function of the call that moves and of what it meets: the clock, a random number and
  what the probe function returns.  \<open>None\<close> says that the call has to wait.
\<close>

record 'm input =
  in_now :: time
  in_rand :: real
  in_metrics :: "'m list"
  in_result :: Result

definition next_step ::
  "('s, 'g) sync \<Rightarrow> 'm input \<Rightarrow> nat \<Rightarrow> ('m, 's, 'g) shared_gate \<Rightarrow> ('m, 's, 'g) shared_gate option" where
  "next_step S i c s =
     (if \<not> c < length (sg_calls s) then None
      else let d = fst (sg_calls s ! c) in
        case snd (sg_calls s ! c) of
          Arrived \<Rightarrow>
            (case Allow (in_now i) d (lm_backoff (sg_lim s)) of (allowed, remaining) \<Rightarrow>
               if allowed then Some (advance c d Admitted s)
               else Some (advance c d (Returned [] (Fail ReasonBackoff 0) remaining)
                      (with_lim (countSkip ReasonBackoff) s)))
        | Admitted \<Rightarrow>
            (case lookup_cache (in_now i) d (sg_lim s) of
               Some r \<Rightarrow> Some (advance c d (Returned (cr_metrics r) (cr_result r) 0)
                           (with_lim (count_shared True) s))
             | None \<Rightarrow> Some (advance c d Missed s))
        | Missed \<Rightarrow>
            (case grp_enter S d c (sg_group s) of (mine, g) \<Rightarrow>
               Some (advance c d (if mine then Leading else Waiting) (s\<lparr>sg_group := g\<rparr>)))
        | Leading \<Rightarrow>
            (case sem_acquire S (sg_sem s) of
               None \<Rightarrow> None
             | Some m \<Rightarrow> Some (advance c d Holding (s\<lparr>sg_sem := m\<rparr>)))
        | Holding \<Rightarrow> Some (advance c d Running (with_lim (add_inFlight 1) s))
        | Running \<Rightarrow> Some (advance c d (Probed (in_metrics i) (in_result i)) s)
        | Probed ms res \<Rightarrow>
            Some (advance c d (Recorded ms res) (with_lim (record_outcome (in_now i) (in_rand i) d res) s))
        | Recorded ms res \<Rightarrow>
            Some (advance c d (Stored ms res) (with_lim (store_cache (in_now i) d ms res) s))
        | Stored ms res \<Rightarrow> Some (advance c d (Lowered ms res) (with_lim (add_inFlight (- 1)) s))
        | Lowered ms res \<Rightarrow>
            Some (advance c d (Ended ms res) (s\<lparr>sg_sem := sem_release S (sg_sem s)\<rparr>))
        | Ended ms res \<Rightarrow>
            (case grp_leave S d (sg_group s) of (sh, g) \<Rightarrow>
               Some (s\<lparr>sg_group := g, sg_calls := map (hand_out d sh ms res) (sg_calls s)\<rparr>))
        | Waiting \<Rightarrow> None
        | Given sh ms res \<Rightarrow> Some (advance c d (Returned ms res 0) (with_lim (count_shared sh) s))
        | Returned _ _ _ \<Rightarrow> None)"

section \<open>What holds of every crowd of calls\<close>

fun leads :: "'m progress \<Rightarrow> bool" where
  "leads Leading = True"
| "leads Holding = True"
| "leads Running = True"
| "leads (Probed _ _) = True"
| "leads (Recorded _ _) = True"
| "leads (Stored _ _) = True"
| "leads (Lowered _ _) = True"
| "leads (Ended _ _) = True"
| "leads _ = False"

definition flies :: "'m progress \<Rightarrow> bool" where
  "flies p \<longleftrightarrow> leads p \<or> p = Waiting"

fun counted :: "'m progress \<Rightarrow> bool" where
  "counted Running = True"
| "counted (Probed _ _) = True"
| "counted (Recorded _ _) = True"
| "counted (Stored _ _) = True"
| "counted _ = False"

definition holds_token :: "'m progress \<Rightarrow> bool" where
  "holds_token p \<longleftrightarrow> counted p \<or> p = Holding \<or> (\<exists>ms res. p = Lowered ms res)"

definition count_calls :: "('m progress \<Rightarrow> bool) \<Rightarrow> ('m, 's, 'g) shared_gate \<Rightarrow> nat" where
  "count_calls P s = length (filter (\<lambda>x. P (snd x)) (sg_calls s))"

definition tokens_ok :: "('s \<Rightarrow> nat) \<Rightarrow> ProbeConfig \<Rightarrow> ('m, 's, 'g) shared_gate \<Rightarrow> bool" where
  "tokens_ok held cfg s \<longleftrightarrow>
     held (sg_sem s) = count_calls holds_token s \<and>
     int (held (sg_sem s)) \<le> max 0 (pc_MaxConcurrent cfg) \<and>
     lm_inFlight (sg_lim s) = int (count_calls counted s)"

definition flights_ok :: "('g \<Rightarrow> string \<Rightarrow> nat set) \<Rightarrow> ('m, 's, 'g) shared_gate \<Rightarrow> bool" where
  "flights_ok callers s \<longleftrightarrow>
     (\<forall>d. callers (sg_group s) d = {c. \<exists>p. call_at s c d p \<and> flies p}) \<and>
     (\<forall>c d. call_at s c d Waiting \<longrightarrow> (\<exists>c' p. call_at s c' d p \<and> leads p)) \<and>
     (\<forall>c c' d p p'. call_at s c d p \<and> leads p \<and> call_at s c' d p' \<and> leads p' \<longrightarrow> c = c')"

definition work :: "'m progress \<Rightarrow> nat" where
  "work p = (case p of Arrived \<Rightarrow> 12 | Admitted \<Rightarrow> 11 | Missed \<Rightarrow> 10 | Leading \<Rightarrow> 9 | Holding \<Rightarrow> 8
     | Running \<Rightarrow> 7 | Probed _ _ \<Rightarrow> 6 | Recorded _ _ \<Rightarrow> 5 | Stored _ _ \<Rightarrow> 4 | Lowered _ _ \<Rightarrow> 3
     | Ended _ _ \<Rightarrow> 2 | Waiting \<Rightarrow> 2 | Given _ _ _ \<Rightarrow> 1 | Returned _ _ _ \<Rightarrow> 0)"

definition work_left :: "('m, 's, 'g) shared_gate \<Rightarrow> nat" where
  "work_left s = sum_list (map (\<lambda>x. work (snd x)) (sg_calls s))"

definition all_returned :: "('m, 's, 'g) shared_gate \<Rightarrow> bool" where
  "all_returned s \<longleftrightarrow> (\<forall>x \<in> set (sg_calls s). case snd x of Returned _ _ _ \<Rightarrow> True | _ \<Rightarrow> False)"

end
