(* ===== verification/ProbeConcurrentProps.thy ===== *)
theory ProbeConcurrentProps
  imports ProbeConcurrent
begin

text \<open>
  The properties of the gate under concurrent calls: how many probes run, that a device is never
  contacted twice at once, that every call returns, and that a call alone does what \<open>Do\<close> says.
\<close>

lemmas gate_defs = advance_def with_lim_def count_calls_def
lemmas lim_defs = count_shared_def countSkip_def store_cache_def record_outcome_def Limiter_Forget_def

lemma lim_keeps [simp]:
  "lm_inFlight (countSkip r l) = lm_inFlight l" "lm_cfg (countSkip r l) = lm_cfg l"
  "lm_inFlight (count_shared b l) = lm_inFlight l" "lm_cfg (count_shared b l) = lm_cfg l"
  "lm_inFlight (store_cache now d ms res l) = lm_inFlight l" "lm_cfg (store_cache now d ms res l) = lm_cfg l"
  "lm_inFlight (record_outcome now x d res l) = lm_inFlight l" "lm_cfg (record_outcome now x d res l) = lm_cfg l"
  "lm_inFlight (Limiter_Forget d l) = lm_inFlight l" "lm_cfg (Limiter_Forget d l) = lm_cfg l"
  "lm_inFlight (add_inFlight k l) = lm_inFlight l + k" "lm_cfg (add_inFlight k l) = lm_cfg l"
  by (simp_all add: lim_defs add_inFlight_def)

lemma advance_simps [simp]:
  "sg_lim (advance c d p s) = sg_lim s" "sg_sem (advance c d p s) = sg_sem s"
  "sg_group (advance c d p s) = sg_group s"
  "sg_calls (advance c d p s) = (sg_calls s)[c := (d, p)]"
  "sg_lim (with_lim f s) = f (sg_lim s)" "sg_sem (with_lim f s) = sg_sem s"
  "sg_group (with_lim f s) = sg_group s" "sg_calls (with_lim f s) = sg_calls s"
  by (simp_all add: gate_defs)

subsection \<open>Counting calls\<close>

lemma filter_hand_out:
  assumes "\<And>x. P (snd (f x)) = P (snd x)"
  shows "length (filter (\<lambda>x. P (snd x)) (map f xs)) = length (filter (\<lambda>x. P (snd x)) xs)"
  using assms by (induction xs) auto

lemma count_advance:
  assumes "call_at s c d p" "sg_calls s' = (sg_calls s)[c := (d, p')]"
  shows "count_calls P s' + (if P p then 1 else 0) = count_calls P s + (if P p' then 1 else 0)"
  using assms filter_update [of c "sg_calls s" "\<lambda>x. P (snd x)" "(d, p')"]
  by (simp add: call_at_def count_calls_def)

lemma count_same:
  assumes "call_at s c d p" "sg_calls s' = (sg_calls s)[c := (d, p')]" "P p = P p'"
  shows "count_calls P s' = count_calls P s"
  using count_advance [OF assms(1,2), of P] assms(3) by simp

lemma count_positive: "call_at s c d p \<Longrightarrow> P p \<Longrightarrow> 0 < count_calls P s"
  by (force simp: call_at_def count_calls_def filter_empty_conv in_set_conv_nth)

lemma count_mono: "(\<And>p. P p \<Longrightarrow> Q p) \<Longrightarrow> count_calls P s \<le> count_calls Q s"
proof -
  assume "\<And>p. P p \<Longrightarrow> Q p"
  then have "length (filter (\<lambda>x. P (snd x)) xs) \<le> length (filter (\<lambda>x. Q (snd x)) xs)" for xs :: "(string \<times> 'a progress) list"
    by (induction xs) auto
  then show ?thesis by (simp add: count_calls_def)
qed

subsection \<open>Where a call stands after a step\<close>

lemma call_at_advance:
  assumes "call_at s c d p" "sg_calls s' = (sg_calls s)[c := (d, p')]"
  shows "call_at s' i e q \<longleftrightarrow> (if i = c then e = d \<and> q = p' else call_at s i e q)"
  using assms by (auto simp: call_at_def nth_list_update)

lemma call_at_unique: "call_at s c d p \<Longrightarrow> call_at s c e q \<longleftrightarrow> e = d \<and> q = p"
  by (auto simp: call_at_def)

lemma some_call_advance:
  assumes "call_at s c d p" "sg_calls s' = (sg_calls s)[c := (d, p')]" "P p = P p'"
  shows "(\<exists>q. call_at s' i e q \<and> P q) \<longleftrightarrow> (\<exists>q. call_at s i e q \<and> P q)"
  using assms(3) call_at_advance [OF assms(1,2)] call_at_unique [OF assms(1)] by (cases "i = c") auto

definition flights_inv :: "(string \<Rightarrow> nat set) \<Rightarrow> (nat \<Rightarrow> string \<Rightarrow> bool) \<Rightarrow> (nat \<Rightarrow> string \<Rightarrow> bool) \<Rightarrow> bool" where
  "flights_inv F W L \<longleftrightarrow>
     (\<forall>d. F d = {c. L c d \<or> W c d}) \<and> (\<forall>c d. W c d \<longrightarrow> (\<exists>c'. L c' d)) \<and>
     (\<forall>c c' d. L c d \<longrightarrow> L c' d \<longrightarrow> c = c')"

lemma flights_ok_alt:
  "flights_ok callers s \<longleftrightarrow>
     flights_inv (callers (sg_group s)) (\<lambda>c d. call_at s c d Waiting) (\<lambda>c d. \<exists>p. call_at s c d p \<and> leads p)"
proof -
  have "(\<exists>p. call_at s c d p \<and> flies p) \<longleftrightarrow> (\<exists>p. call_at s c d p \<and> leads p) \<or> call_at s c d Waiting" for c d
    unfolding flies_def by blast
  then show ?thesis unfolding flights_ok_def flights_inv_def by (simp only:) blast
qed

lemma flights_advance:
  assumes "flights_ok callers s" and c: "call_at s c d p"
    and s': "sg_calls s' = (sg_calls s)[c := (d, p')]" "sg_group s' = sg_group s"
    and "leads p = leads p'" "p' \<noteq> Waiting" "p \<noteq> Waiting"
  shows "flights_ok callers s'"
proof -
  have "call_at s' i e Waiting = call_at s i e Waiting" for i e
    using call_at_advance [OF c s'(1)] call_at_unique [OF c] assms(6,7) by (cases "i = c") auto
  moreover have "(\<exists>q. call_at s' i e q \<and> leads q) = (\<exists>q. call_at s i e q \<and> leads q)" for i e
    using some_call_advance [OF c s'(1), of leads] assms(5) by simp
  ultimately show ?thesis using assms(1) s'(2) by (simp add: flights_ok_alt)
qed

lemma grp_enterD:
  assumes "grp_laws S callers" "grp_enter S d c g = (b, g')"
  shows "b \<longleftrightarrow> callers g d = {}" "callers g' = (callers g)(d := insert c (callers g d))"
  using assms unfolding grp_laws_def by (metis fst_conv, metis snd_conv)

lemma grp_leaveD:
  assumes "grp_laws S callers" "grp_leave S d g = (b, g')"
  shows "b \<longleftrightarrow> 1 < card (callers g d)" "callers g' = (callers g)(d := {})"
  using assms unfolding grp_laws_def by (metis fst_conv, metis snd_conv)

lemma flights_enter:
  assumes "grp_laws S callers" "flights_ok callers s" and c: "call_at s c d Missed"
    and g: "grp_enter S d c (sg_group s) = (b, g)"
    and s': "sg_calls s' = (sg_calls s)[c := (d, if b then Leading else Waiting)]" "sg_group s' = g"
  shows "flights_ok callers s'"
proof -
  let ?F = "callers (sg_group s)"
  let ?L = "\<lambda>i e. \<exists>q. call_at s i e q \<and> leads q" and ?W = "\<lambda>i e. call_at s i e Waiting"
  note b = grp_enterD [OF assms(1) g]
  note at = call_at_advance [OF c s'(1)] and u = call_at_unique [OF c]
  have L: "(\<exists>q. call_at s' i e q \<and> leads q) = (if i = c then b \<and> e = d else ?L i e)" for i e
    using at by (cases "i = c") auto
  have W: "call_at s' i e Waiting = (if i = c then \<not> b \<and> e = d else ?W i e)" for i e
    using at by auto
  have "\<not> ?L c e" "\<not> ?W c e" for e using u by auto
  then show ?thesis
    using assms(2) b s'(2) unfolding flights_ok_alt flights_inv_def L W by (auto split: if_splits; metis)
qed

lemma hand_out_eq:
  "hand_out d sh ms res (e, p) =
     (e, if e = d \<and> (p = Waiting \<or> (\<exists>ms res. p = Ended ms res)) then Given sh ms res else p)"
  by (cases p) auto

lemma call_at_hand_out:
  assumes "sg_calls s' = map (hand_out d sh ms res) (sg_calls s)"
  shows "call_at s' i e q \<longleftrightarrow> (\<exists>p. call_at s i e p \<and>
     q = (if e = d \<and> (p = Waiting \<or> (\<exists>ms res. p = Ended ms res)) then Given sh ms res else p))"
proof (cases "i < length (sg_calls s)")
  case True
  obtain e' p where "sg_calls s ! i = (e', p)" by (cases "sg_calls s ! i")
  then show ?thesis using True assms by (simp add: call_at_def hand_out_eq) blast
qed (use assms in \<open>simp add: call_at_def\<close>)

lemma flights_land:
  assumes "grp_laws S callers" "flights_ok callers s" and c: "call_at s c d (Ended ms res)"
    and g: "grp_leave S d (sg_group s) = (sh, g)"
    and s': "sg_calls s' = map (hand_out d sh ms res) (sg_calls s)" "sg_group s' = g"
  shows "flights_ok callers s'"
proof -
  let ?F = "callers (sg_group s)"
  let ?L = "\<lambda>i e. \<exists>q. call_at s i e q \<and> leads q" and ?W = "\<lambda>i e. call_at s i e Waiting"
  have only: "i = c \<and> q = Ended ms res" if "call_at s i d q" "leads q" for i q
  proof -
    have "i = c" using assms(2) that c leads.simps(8) unfolding flights_ok_def by blast
    then show ?thesis using that c by (auto simp: call_at_def)
  qed
  note at = call_at_hand_out [OF s'(1)]
  have L: "(\<exists>q. call_at s' i e q \<and> leads q) = (e \<noteq> d \<and> ?L i e)" for i e
    using only by (cases "e = d") (auto simp: at)
  have W: "call_at s' i e Waiting = (e \<noteq> d \<and> ?W i e)" for i e
    by (auto simp: at split: if_splits)
  show ?thesis
    using assms(2) s'(2) grp_leaveD(2) [OF assms(1) g]
    unfolding flights_ok_alt flights_inv_def L W by (auto; metis)
qed

lemma tokens_advance:
  assumes "tokens_ok held cfg s" "call_at s c d p"
    and "sg_calls s' = (sg_calls s)[c := (d, p')]"
    and "sg_sem s' = sg_sem s" "lm_inFlight (sg_lim s') = lm_inFlight (sg_lim s)"
    and "holds_token p = holds_token p'" "counted p = counted p'"
  shows "tokens_ok held cfg s'"
  using assms count_same [OF assms(2,3), of holds_token] count_same [OF assms(2,3), of counted]
  by (simp add: tokens_ok_def)

lemma counted_holds: "counted p \<Longrightarrow> holds_token p"
  by (simp add: holds_token_def)

lemma holds_simps [simp]:
  "holds_token Holding" "holds_token (Lowered ms res)" "counted q \<Longrightarrow> holds_token q"
  "\<not> holds_token Arrived" "\<not> holds_token Admitted" "\<not> holds_token Missed" "\<not> holds_token Leading"
  "\<not> holds_token Waiting" "\<not> holds_token (Ended ms res)" "\<not> holds_token (Given sh ms res)"
  "\<not> holds_token (Returned ms res x)"
  by (simp_all add: holds_token_def)

definition gate_inv ::
  "('s \<Rightarrow> nat) \<Rightarrow> ('g \<Rightarrow> string \<Rightarrow> nat set) \<Rightarrow> ProbeConfig \<Rightarrow> ('m, 's, 'g) shared_gate \<Rightarrow> bool" where
  "gate_inv held callers cfg s \<longleftrightarrow>
     tokens_ok held cfg s \<and> flights_ok callers s \<and> lm_cfg (sg_lim s) = cfg"

lemma gate_inv_advance:
  assumes "gate_inv held callers cfg s" "call_at s c d p"
    and "sg_calls s' = (sg_calls s)[c := (d, p')]" "sg_group s' = sg_group s"
    and "sg_sem s' = sg_sem s" "lm_inFlight (sg_lim s') = lm_inFlight (sg_lim s)"
    and "lm_cfg (sg_lim s') = lm_cfg (sg_lim s)"
    and "holds_token p = holds_token p'" "counted p = counted p'" "leads p = leads p'"
    and "p \<noteq> Waiting" "p' \<noteq> Waiting"
  shows "gate_inv held callers cfg s'"
  using assms tokens_advance [OF _ assms(2,3)] flights_advance [OF _ assms(2,3)]
  by (simp add: gate_inv_def)

text \<open>The three pairs of steps that move a token, the counter or a flight.\<close>

lemma sem_lawsD:
  assumes "sem_laws S held n"
  shows "sem_acquire S m = Some m' \<Longrightarrow> int (held m) < n \<and> held m' = Suc (held m)"
    and "sem_acquire S m = None \<Longrightarrow> n \<le> int (held m)"
    and "0 < held m \<Longrightarrow> Suc (held (sem_release S m)) = held m"
  using assms unfolding sem_laws_def by blast+

lemma tokens_take:
  assumes "tokens_ok held cfg s" "sem_laws S held (pc_MaxConcurrent cfg)" and c: "call_at s c d Leading"
    and m: "sem_acquire S (sg_sem s) = Some m"
  shows "tokens_ok held cfg (advance c d Holding (s\<lparr>sg_sem := m\<rparr>))" (is "tokens_ok held cfg ?s")
proof -
  have "count_calls holds_token ?s = Suc (count_calls holds_token s)"
    using count_advance [OF c, of ?s Holding holds_token] by simp
  moreover have "count_calls counted ?s = count_calls counted s"
    using count_same [OF c, of ?s Holding counted] by simp
  ultimately show ?thesis
    using assms(1) sem_lawsD(1) [OF assms(2) m] by (simp add: tokens_ok_def)
qed

lemma tokens_free:
  assumes "tokens_ok held cfg s" "sem_laws S held n" and c: "call_at s c d (Lowered ms res)"
  shows "tokens_ok held cfg (advance c d (Ended ms res) (s\<lparr>sg_sem := sem_release S (sg_sem s)\<rparr>))"
    (is "tokens_ok held cfg ?s")
proof -
  have h: "Suc (count_calls holds_token ?s) = count_calls holds_token s"
    using count_advance [OF c, of ?s "Ended ms res" holds_token] by simp
  then have "0 < held (sg_sem s)" using assms(1) by (simp add: tokens_ok_def)
  then have "Suc (held (sem_release S (sg_sem s))) = held (sg_sem s)"
    by (rule sem_lawsD(3) [OF assms(2)])
  moreover have "count_calls counted ?s = count_calls counted s"
    using count_same [OF c, of ?s "Ended ms res" counted] by simp
  ultimately show ?thesis using assms(1) h by (simp add: tokens_ok_def)
qed

lemma tokens_count:
  assumes "tokens_ok held cfg s" and c: "call_at s c d Holding"
  shows "tokens_ok held cfg (advance c d Running (with_lim (add_inFlight 1) s))"
    (is "tokens_ok held cfg ?s")
  using assms(1) count_advance [OF c, of ?s Running counted] count_same [OF c, of ?s Running holds_token]
  by (simp add: tokens_ok_def)

lemma tokens_uncount:
  assumes "tokens_ok held cfg s" and c: "call_at s c d (Stored ms res)"
  shows "tokens_ok held cfg (advance c d (Lowered ms res) (with_lim (add_inFlight (- 1)) s))"
    (is "tokens_ok held cfg ?s")
  using assms(1) count_advance [OF c, of ?s "Lowered ms res" counted]
    count_same [OF c, of ?s "Lowered ms res" holds_token]
  by (simp add: tokens_ok_def)

lemma tokens_land:
  assumes "tokens_ok held cfg s"
    and s': "sg_calls s' = map (hand_out d sh ms res) (sg_calls s)"
      "sg_sem s' = sg_sem s" "sg_lim s' = sg_lim s"
  shows "tokens_ok held cfg s'"
proof -
  have "P (snd (hand_out d sh ms res x)) = P (snd x)" if "P = holds_token \<or> P = counted" for P x
    using that by (cases x) (auto simp: hand_out_eq)
  then have "count_calls holds_token s' = count_calls holds_token s"
    "count_calls counted s' = count_calls counted s"
    using s'(1) unfolding count_calls_def by (metis filter_hand_out)+
  then show ?thesis using assms by (simp add: tokens_ok_def)
qed

lemma step_gate_inv:
  assumes "call_step S s s'" "gate_inv held callers cfg s"
    and "sem_laws S held (pc_MaxConcurrent cfg)" "grp_laws S callers"
  shows "gate_inv held callers cfg s'"
  using assms
proof (cases rule: call_step.cases)
  case (lead c d g)
  then show ?thesis
    using assms(2) tokens_advance [OF _ lead(2), of held cfg s' Leading] flights_enter [OF assms(4) _ lead(2,3), of s']
    by (simp add: gate_inv_def)
next
  case (join c d g)
  then show ?thesis
    using assms(2) tokens_advance [OF _ join(2), of held cfg s' Waiting] flights_enter [OF assms(4) _ join(2,3), of s']
    by (simp add: gate_inv_def)
next
  case (take c d m)
  then show ?thesis
    using assms(2) tokens_take [OF _ assms(3) take(2,3)] flights_advance [OF _ take(2), of callers s' Holding]
    by (simp add: gate_inv_def)
next
  case (count c d)
  then show ?thesis
    using assms(2) tokens_count [OF _ count(2)] flights_advance [OF _ count(2), of callers s' Running]
    by (simp add: gate_inv_def)
next
  case (uncount c d ms res)
  then show ?thesis
    using assms(2) tokens_uncount [OF _ uncount(2)] flights_advance [OF _ uncount(2), of callers s' "Lowered ms res"]
    by (simp add: gate_inv_def)
next
  case (free c d ms res)
  then show ?thesis
    using assms(2) tokens_free [OF _ assms(3) free(2)] flights_advance [OF _ free(2), of callers s' "Ended ms res"]
    by (simp add: gate_inv_def)
next
  case (land c d ms res sh g)
  then show ?thesis
    using assms(2) tokens_land [of held cfg s s' d sh ms res] flights_land [OF assms(4) _ land(2,3), of s']
    by (simp add: gate_inv_def)
qed (auto intro: gate_inv_advance [OF assms(2)])

lemma call_at_new:
  "call_at (s\<lparr>sg_calls := sg_calls s @ [(d, p)]\<rparr>) i e q \<longleftrightarrow>
     call_at s i e q \<or> i = length (sg_calls s) \<and> e = d \<and> q = p"
  by (auto simp: call_at_def nth_append less_Suc_eq)

lemma event_gate_inv:
  assumes "gate_event s s'" "gate_inv held callers cfg s"
  shows "gate_inv held callers cfg s'"
  using assms
proof (cases rule: gate_event.cases)
  case (arrive d)
  have "(\<exists>q. call_at s' i e q \<and> leads q) = (\<exists>q. call_at s i e q \<and> leads q)" for i e
    by (auto simp: arrive call_at_new)
  moreover have "call_at s' i e Waiting = call_at s i e Waiting" for i e
    by (simp add: arrive call_at_new)
  moreover have "sg_group s' = sg_group s" by (simp add: arrive)
  ultimately have "flights_ok callers s'"
    using assms(2) by (simp add: gate_inv_def flights_ok_alt)
  moreover have "tokens_ok held cfg s'"
    using assms(2) by (simp add: arrive gate_inv_def tokens_ok_def count_calls_def)
  ultimately show ?thesis using assms(2) by (simp add: arrive gate_inv_def)
next
  case (moved d)
  then show ?thesis using assms(2)
    by (simp add: gate_inv_def tokens_ok_def count_calls_def flights_ok_def call_at_def)
next
  case (expired c d)
  then show ?thesis by (auto intro: gate_inv_advance [OF assms(2)])
qed

subsection \<open>Steps as a function\<close>

lemma next_step_sound:
  assumes n: "next_step S i c s = Some s'"
  shows "call_step S s s'"
proof -
  have c: "c < length (sg_calls s)" using n by (auto simp: next_step_def split: if_splits)
  obtain d p where at: "sg_calls s ! c = (d, p)" by fastforce
  then have at': "call_at s c d p" using c by (simp add: call_at_def)
  note n = n [unfolded next_step_def, simplified c at, simplified]
  show ?thesis
  proof (cases p)
    case Arrived
    obtain b remaining where "Allow (in_now i) d (lm_backoff (sg_lim s)) = (b, remaining)" by fastforce
    then show ?thesis using n at' Arrived call_step.refuse call_step.admit by (cases b) auto
  next
    case Admitted
    then show ?thesis using n at' call_step.hit call_step.miss
      by (cases "lookup_cache (in_now i) d (sg_lim s)") auto
  next
    case Missed
    obtain b g where "grp_enter S d c (sg_group s) = (b, g)" by fastforce
    then show ?thesis using n at' Missed call_step.lead call_step.join by (cases b) auto
  next
    case Leading
    then show ?thesis using n at' call_step.take by (cases "sem_acquire S (sg_sem s)") auto
  next
    case (Ended ms res)
    obtain b g where "grp_leave S d (sg_group s) = (b, g)" by fastforce
    then show ?thesis using n at' Ended call_step.land by auto
  qed (use n at' call_step.intros(8-13,15) in auto)
qed

abbreviation meets :: "time \<Rightarrow> real \<Rightarrow> 'm list \<Rightarrow> Result \<Rightarrow> 'm input" where
  "meets now x ms res \<equiv> \<lparr>in_now = now, in_rand = x, in_metrics = ms, in_result = res\<rparr>"

lemmas next_step_eval = next_step_def call_at_def

lemma next_step_complete:
  assumes "call_step S s s'"
  shows "\<exists>c i. next_step S i c s = Some s'"
  using assms
proof (cases rule: call_step.cases)
  case (refuse c d now remaining)
  then show ?thesis by (intro exI [of _ c] exI [of _ "meets now 0 [] undefined"]) (simp add: next_step_eval)
next
  case (admit c d now remaining)
  then show ?thesis by (intro exI [of _ c] exI [of _ "meets now 0 [] undefined"]) (simp add: next_step_eval)
next
  case (hit c d now r)
  then show ?thesis by (intro exI [of _ c] exI [of _ "meets now 0 [] undefined"]) (simp add: next_step_eval)
next
  case (miss c d now)
  then show ?thesis by (intro exI [of _ c] exI [of _ "meets now 0 [] undefined"]) (simp add: next_step_eval)
next
  case (probe c d ms res)
  then show ?thesis by (intro exI [of _ c] exI [of _ "meets 0 0 ms res"]) (simp add: next_step_eval)
next
  case (noted c d ms res now x)
  then show ?thesis by (intro exI [of _ c] exI [of _ "meets now x ms res"]) (simp add: next_step_eval)
next
  case (store c d ms res now)
  then show ?thesis by (intro exI [of _ c] exI [of _ "meets now 0 ms res"]) (simp add: next_step_eval)
next
  case (lead c d g)
  then show ?thesis by (intro exI [of _ c] exI) (simp add: next_step_eval)
next
  case (join c d g)
  then show ?thesis by (intro exI [of _ c] exI) (simp add: next_step_eval)
next
  case (take c d m)
  then show ?thesis by (intro exI [of _ c] exI) (simp add: next_step_eval)
next
  case (count c d)
  then show ?thesis by (intro exI [of _ c] exI) (simp add: next_step_eval)
next
  case (uncount c d ms res)
  then show ?thesis by (intro exI [of _ c] exI) (simp add: next_step_eval)
next
  case (free c d ms res)
  then show ?thesis by (intro exI [of _ c] exI) (simp add: next_step_eval)
next
  case (land c d ms res sh g)
  then show ?thesis by (intro exI [of _ c] exI) (simp add: next_step_eval)
next
  case (answer c d sh ms res)
  then show ?thesis by (intro exI [of _ c] exI) (simp add: next_step_eval)
qed

lemma next_step_iff: "call_step S s s' \<longleftrightarrow> (\<exists>c i. next_step S i c s = Some s')"
  using next_step_sound next_step_complete by blast

subsection \<open>Every step is progress\<close>

lemma work_advance:
  assumes "call_at s c d p" "sg_calls s' = (sg_calls s)[c := (d, p')]" "work p' < work p"
  shows "work_left s' < work_left s"
  using assms sum_update [of c "sg_calls s" "\<lambda>x. work (snd x)" "(d, p')"]
  by (simp add: call_at_def work_left_def)

lemma sum_map_less:
  fixes f :: "'a \<Rightarrow> nat"
  assumes "\<And>x. f (g x) \<le> f x" "x \<in> set xs" "f (g x) < f x"
  shows "sum_list (map f (map g xs)) < sum_list (map f xs)"
proof -
  obtain ys zs where "xs = ys @ x # zs" using assms(2) by (auto simp: in_set_conv_decomp)
  moreover have "sum_list (map f (map g us)) \<le> sum_list (map f us)" for us
    using assms(1) by (simp add: o_def sum_list_mono)
  from this [of ys] this [of zs] have
    "sum_list (map f (map g ys)) + (f (g x) + sum_list (map f (map g zs)))
       < sum_list (map f ys) + (f x + sum_list (map f zs))"
    using assms(3) by linarith
  ultimately show ?thesis by simp
qed

lemma step_does_work:
  assumes "call_step S s s'"
  shows "work_left s' < work_left s"
  using assms
proof (cases rule: call_step.cases)
  case (land c d ms res sh g)
  have le: "work (snd (hand_out d sh ms res x)) \<le> work (snd x)" for x
    by (cases x) (auto simp: hand_out_eq work_def)
  have "(d, Ended ms res) \<in> set (sg_calls s)" using land(2) by (auto simp: call_at_def in_set_conv_nth)
  moreover have "work (snd (hand_out d sh ms res (d, Ended ms res))) < work (snd (d, Ended ms res))"
    by (simp add: hand_out_eq work_def)
  ultimately show ?thesis using sum_map_less [of "\<lambda>x. work (snd x)", OF le] land
    by (simp add: work_left_def)
qed (auto intro: work_advance simp: work_def)

lemma work_bound: "work_left s \<le> 12 * length (sg_calls s)"
proof -
  have "work p \<le> 12" for p :: "'a progress" by (cases p) (simp_all add: work_def)
  then have "sum_list (map (\<lambda>x. work (snd x)) xs) \<le> 12 * length xs" for xs :: "(string \<times> 'a progress) list"
    by (induction xs) (auto intro: add_mono)
  then show ?thesis by (simp add: work_left_def)
qed

lemma steps_are_few: "(call_step S ^^ k) s t \<Longrightarrow> k + work_left t \<le> work_left s"
proof (induction k arbitrary: t)
  case (Suc k)
  then obtain u where "(call_step S ^^ k) s u" "call_step S u t" by auto
  then show ?case using Suc.IH step_does_work by fastforce
qed simp

definition can_step :: "('s, 'g) sync \<Rightarrow> ('m, 's, 'g) shared_gate \<Rightarrow> bool" where
  "can_step S s \<longleftrightarrow> (\<exists>s'. call_step S s s')"

lemma can_stepI: "call_step S s s' \<Longrightarrow> can_step S s"
  by (auto simp: can_step_def)

lemmas step_possible = call_step.intros [THEN can_stepI]

lemma holder_steps:
  assumes c: "call_at s c d p" and "holds_token p"
  shows "can_step S s"
  using assms(2) step_possible(8-13) c by (cases p) (auto simp: holds_token_def)

lemma leader_steps:
  assumes "tokens_ok held cfg s" "sem_laws S held (pc_MaxConcurrent cfg)" "0 < pc_MaxConcurrent cfg"
    and c: "call_at s c d p" and "leads p"
  shows "can_step S s"
proof (cases "p = Leading")
  case True
  show ?thesis
  proof (cases "sem_acquire S (sg_sem s)")
    case None
    then have "0 < count_calls holds_token s"
      using sem_lawsD(2) [OF assms(2) None] assms(1,3) by (simp add: tokens_ok_def)
    then obtain x where "x \<in> set (sg_calls s)" "holds_token (snd x)"
      by (auto simp: count_calls_def filter_empty_conv)
    then obtain c' where "call_at s c' (fst x) (snd x)"
      by (auto simp: call_at_def in_set_conv_nth)
    then show ?thesis by (rule holder_steps) fact
  next
    case (Some m)
    with c True show ?thesis by (simp add: step_possible(7))
  qed
next
  case False
  show ?thesis
  proof (cases "holds_token p")
    case True
    then show ?thesis by (rule holder_steps [OF c])
  next
    case hold: False
    then obtain ms res where p: "p = Ended ms res"
      using False assms(5) by (cases p) simp_all
    obtain sh g where "grp_leave S d (sg_group s) = (sh, g)" by fastforce
    with c p show ?thesis by (simp add: step_possible(14))
  qed
qed

lemma unreturned_steps:
  assumes "gate_inv held callers cfg s" "sem_laws S held (pc_MaxConcurrent cfg)" "0 < pc_MaxConcurrent cfg"
    and "\<not> all_returned s"
  shows "can_step S s"
proof -
  obtain c d p where c: "call_at s c d p" and p: "\<And>ms res x. p \<noteq> Returned ms res x"
    using assms(4) by (force simp: all_returned_def call_at_def in_set_conv_nth split: progress.splits)
  note leader = leader_steps [OF _ assms(2,3)]
  consider "leads p" | "p = Arrived" | "p = Admitted" | "p = Missed" | "p = Waiting"
    | sh ms res where "p = Given sh ms res"
    using p by (cases p) auto
  then show ?thesis
  proof cases
    case 1
    then show ?thesis using leader c assms(1) by (auto simp: gate_inv_def)
  next
    case 2
    consider x where "Allow zero_time d (lm_backoff (sg_lim s)) = (True, x)"
      | x where "Allow zero_time d (lm_backoff (sg_lim s)) = (False, x)"
      by (metis (full_types) surj_pair)
    then show ?thesis using c 2 by cases (simp_all add: step_possible(1,2))
  next
    case 3
    then show ?thesis using c step_possible(3,4)
      by (cases "lookup_cache zero_time d (sg_lim s)") auto
  next
    case 4
    consider g where "grp_enter S d c (sg_group s) = (True, g)"
      | g where "grp_enter S d c (sg_group s) = (False, g)"
      by (metis (full_types) surj_pair)
    then show ?thesis using c 4 by cases (simp_all add: step_possible(5,6))
  next
    case 5
    then obtain c' q where "call_at s c' d q" "leads q"
      using c assms(1) unfolding gate_inv_def flights_ok_def by blast
    then show ?thesis using leader assms(1) by (auto simp: gate_inv_def)
  next
    case 6
    then show ?thesis using c by (simp add: step_possible(15))
  qed
qed

subsection \<open>Reachable states\<close>

text \<open>The packages keep their promises, and are as new: no token is out, no call is in flight.\<close>

definition fresh_sync ::
  "('s, 'g) sync \<Rightarrow> ('s \<Rightarrow> nat) \<Rightarrow> ('g \<Rightarrow> string \<Rightarrow> nat set) \<Rightarrow> int \<Rightarrow> 's \<Rightarrow> 'g \<Rightarrow> bool" where
  "fresh_sync S held callers n m g \<longleftrightarrow>
     sem_laws S held n \<and> grp_laws S callers \<and> held m = 0 \<and> callers g = (\<lambda>_. {})"

lemma reachable_gate_inv:
  assumes "fresh_sync S held callers (pc_MaxConcurrent cfg) m g" "gate_reachable S cfg m g s"
  shows "gate_inv held callers cfg s"
  using assms(2)
proof (induction rule: gate_reachable.induct)
  case start
  then show ?case using assms(1)
    by (simp add: gate_inv_def tokens_ok_def flights_ok_def fresh_sync_def count_calls_def NewLimiter_def call_at_def)
next
  case (step s s')
  then show ?case using step_gate_inv assms(1) unfolding fresh_sync_def by blast
next
  case (event s s')
  then show ?case using event_gate_inv by blast
qed

lemma reachable_steps:
  "gate_reachable S cfg m g s \<Longrightarrow> (call_step S ^^ k) s t \<Longrightarrow> gate_reachable S cfg m g t"
  by (induction k arbitrary: t) (auto intro: gate_reachable.step)

subsection \<open>A call alone\<close>

definition gate_move ::
  "('s, 'g) sync \<Rightarrow> ('m, 's, 'g) shared_gate \<Rightarrow> ('m, 's, 'g) shared_gate \<Rightarrow> bool" where
  "gate_move S s s' \<longleftrightarrow> call_step S s s' \<or> gate_event s s'"

abbreviation moves ::
  "('s, 'g) sync \<Rightarrow> ('m, 's, 'g) shared_gate \<Rightarrow> ('m, 's, 'g) shared_gate \<Rightarrow> bool" where
  "moves S \<equiv> (gate_move S)\<^sup>*\<^sup>*"

lemma moves_step: "moves S s t \<Longrightarrow> call_step S t u \<Longrightarrow> moves S s u"
  by (auto simp: gate_move_def intro: rtranclp.rtrancl_into_rtrancl)

lemma moves_event: "moves S s t \<Longrightarrow> gate_event t u \<Longrightarrow> moves S s u"
  by (auto simp: gate_move_def intro: rtranclp.rtrancl_into_rtrancl)

lemma call_at_advanced [simp]:
  "c < length (sg_calls s) \<Longrightarrow> call_at (advance c d p s) c e q \<longleftrightarrow> e = d \<and> q = p"
  by (auto simp: call_at_def)

text \<open>The others fly for other devices, so a landing is theirs in nothing.\<close>

definition alone :: "nat \<Rightarrow> string \<Rightarrow> (string \<times> 'm progress) list \<Rightarrow> bool" where
  "alone c d xs \<longleftrightarrow> c < length xs \<and> (\<forall>i < length xs. i \<noteq> c \<longrightarrow> fst (xs ! i) = d \<longrightarrow> \<not> flies (snd (xs ! i)))"

lemma alone_update [simp]: "alone c d (xs[c := y]) \<longleftrightarrow> alone c d xs"
  by (auto simp: alone_def)

lemma hand_out_alone:
  assumes "alone c d xs"
  shows "map (hand_out d sh ms res) (xs[c := (d, Ended ms' res')]) = xs[c := (d, Given sh ms res)]"
proof (rule nth_equalityI)
  fix i assume "i < length (map (hand_out d sh ms res) (xs[c := (d, Ended ms' res')]))"
  then show "map (hand_out d sh ms res) (xs[c := (d, Ended ms' res')]) ! i = xs[c := (d, Given sh ms res)] ! i"
    using assms by (cases "i = c"; cases "xs ! i") (auto simp: alone_def hand_out_eq flies_def)
qed simp

lemma lone_landing:
  assumes "grp_laws S callers" and c: "alone c d (sg_calls s)" and f: "callers (sg_group s) d = {c}"
    and s: "sg_calls s = xs[c := (d, Ended ms res)]" "alone c d xs"
  shows "\<exists>t. moves S s t \<and> sg_lim t = sg_lim s \<and> sg_calls t = xs[c := (d, Returned ms res 0)]"
proof -
  obtain sh g where g: "grp_leave S d (sg_group s) = (sh, g)" by fastforce
  then have sh: "sh = False" using grp_leaveD(1) [OF assms(1) g] f by simp
  have at: "call_at s c d (Ended ms res)" using s c by (simp add: call_at_def alone_def)
  let ?u = "s\<lparr>sg_group := g, sg_calls := map (hand_out d sh ms res) (sg_calls s)\<rparr>"
  have "moves S s ?u" by (rule moves_step [OF rtranclp.rtrancl_refl call_step.land [OF at g]])
  moreover have u: "sg_calls ?u = xs[c := (d, Given False ms res)]"
    using s sh by (simp add: hand_out_alone)
  then have "call_at ?u c d (Given False ms res)" using s(2) unfolding call_at_def alone_def by simp
  ultimately have "moves S s (advance c d (Returned ms res 0) (with_lim (count_shared False) ?u))"
    by (rule moves_step [OF _ call_step.answer])
  then show ?thesis using u
    by (intro exI [of _ "advance c d (Returned ms res 0) (with_lim (count_shared False) ?u)"])
      (simp add: count_shared_def)
qed

lemma lone_flight:
  assumes "grp_laws S callers" and c: "alone c d (sg_calls s)" and f: "callers (sg_group s) d = {c}"
    and l: "call_at s c d Leading" and tk: "env_token e \<longleftrightarrow> sem_acquire S (sg_sem s) \<noteq> None"
    and fl: "flight e d fn w (sg_lim s) = (ms, res, w', l')"
  shows "\<exists>t. moves S s t \<and> sg_lim t = l' \<and> sg_calls t = (sg_calls s)[c := (d, Returned ms res 0)]"
proof (cases "sem_acquire S (sg_sem s)")
  case None
  let ?t = "advance c d (Ended [] (Fail ReasonInFlightLimit 0)) (with_lim (countSkip ReasonInFlightLimit) s)"
  have "moves S s ?t" by (rule moves_event [OF rtranclp.rtrancl_refl gate_event.expired [OF l]])
  moreover have "ms = []" "res = Fail ReasonInFlightLimit 0" "l' = sg_lim ?t"
    using fl tk None by (auto simp: flight_def)
  moreover have "callers (sg_group ?t) d = {c}" "alone c d (sg_calls ?t)" using f c by simp_all
  ultimately show ?thesis
    using lone_landing [OF assms(1), of c d ?t "sg_calls s" ms res] c by (auto intro: rtranclp_trans)
next
  case (Some m)
  obtain ms' res' w'' where fn: "fn w = (ms', res', w'')" by (cases "fn w")
  have lt: "c < length (sg_calls s)" using c by (simp add: alone_def)
  let ?a = "advance c d Holding (s\<lparr>sg_sem := m\<rparr>)"
  let ?b = "advance c d Running (with_lim (add_inFlight 1) ?a)"
  let ?c = "advance c d (Probed ms' res') ?b"
  let ?d = "advance c d (Recorded ms' res') (with_lim (record_outcome (env_record e) (env_rand e) d res') ?c)"
  let ?e = "advance c d (Stored ms' res') (with_lim (store_cache (env_store e) d ms' res') ?d)"
  let ?f = "advance c d (Lowered ms' res') (with_lim (add_inFlight (- 1)) ?e)"
  let ?t = "advance c d (Ended ms' res') (?f\<lparr>sg_sem := sem_release S (sg_sem ?f)\<rparr>)"
  note go = moves_step [OF _ call_step.intros(8)] moves_step [OF _ call_step.intros(9)]
    moves_step [OF _ call_step.intros(10)] moves_step [OF _ call_step.intros(11)]
    moves_step [OF _ call_step.intros(12)] moves_step [OF _ call_step.intros(13)]
  have "moves S s ?a" by (rule moves_step [OF rtranclp.rtrancl_refl call_step.take [OF l Some]])
  then have "moves S s ?b" by (rule go(1)) (simp add: lt)
  then have "moves S s ?c" by (rule go(2)) (simp add: lt)
  then have "moves S s ?d" by (rule go(3)) (simp add: lt)
  then have "moves S s ?e" by (rule go(4)) (simp add: lt)
  then have "moves S s ?f" by (rule go(5)) (simp add: lt)
  then have "moves S s ?t" by (rule go(6)) (simp add: lt)
  moreover have "ms = ms'" "res = res'" "l' = sg_lim ?t"
    using fl tk Some fn by (auto simp: flight_def add_inFlight_def record_outcome_def Let_def)
  moreover have "callers (sg_group ?t) d = {c}" "alone c d (sg_calls ?t)" using f c by simp_all
  ultimately show ?thesis
    using lone_landing [OF assms(1), of c d ?t "sg_calls s" ms res] c by (auto intro: rtranclp_trans)
qed

lemma lone_missed:
  assumes "grp_laws S callers" "flights_ok callers s" and c: "call_at s c d Missed"
    and idle: "\<forall>i p. call_at s i d p \<longrightarrow> \<not> flies p"
    and tk: "env_token e \<longleftrightarrow> sem_acquire S (sg_sem s) \<noteq> None"
    and fl: "flight e d fn w (sg_lim s) = (ms, res, w', l')"
  shows "\<exists>t. moves S s t \<and> sg_lim t = l' \<and> sg_calls t = (sg_calls s)[c := (d, Returned ms res 0)]"
proof -
  have lt: "c < length (sg_calls s)" using c by (simp add: call_at_def)
  have none: "callers (sg_group s) d = {}" using assms(2) idle by (auto simp: flights_ok_def)
  obtain b g where g0: "grp_enter S d c (sg_group s) = (b, g)" by fastforce
  note ent = grp_enterD [OF assms(1) g0]
  then have g: "grp_enter S d c (sg_group s) = (True, g)" using g0 none by simp
  define u where "u = advance c d Leading (s\<lparr>sg_group := g\<rparr>)"
  have m: "moves S s u"
    unfolding u_def by (rule moves_step [OF rtranclp.rtrancl_refl call_step.lead [OF c g]])
  have "alone c d (sg_calls s)" using idle lt by (auto simp: alone_def call_at_def prod_eq_iff)
  then have "alone c d (sg_calls u)" by (simp add: u_def)
  moreover have "callers (sg_group u) d = {c}" using ent(2) none by (simp add: u_def)
  moreover have "call_at u c d Leading" using lt by (simp add: u_def)
  moreover have "env_token e \<longleftrightarrow> sem_acquire S (sg_sem u) \<noteq> None" using tk by (simp add: u_def)
  moreover have "flight e d fn w (sg_lim u) = (ms, res, w', l')" using fl by (simp add: u_def)
  ultimately obtain t where "moves S u t" "sg_lim t = l'"
    "sg_calls t = (sg_calls u)[c := (d, Returned ms res 0)]"
    using lone_flight [OF assms(1), of c d u e fn w] by blast
  then show ?thesis using m by (auto simp: u_def intro: rtranclp_trans)
qed

lemma flights_ok_advance_quiet:
  assumes "flights_ok callers s" "call_at s c d p" "\<not> flies p" "\<not> flies p'"
  shows "flights_ok callers (advance c d p' s)"
  by (rule flights_advance [OF assms(1,2)]) (use assms(3,4) in \<open>auto simp: flies_def\<close>)


text \<open>C14. In every reachable state of the gate, whatever calls arrive and however their steps
  interleave, the counter of running probes is their number, it never exceeds the configured limit,
  and no device is probed by two calls at once.\<close>

theorem concurrent_probes_are_bounded:
  assumes "fresh_sync S held callers (pc_MaxConcurrent cfg) m g" "gate_reachable S cfg m g s"
  shows "lm_inFlight (sg_lim s) = int (count_calls counted s) \<and>
    lm_inFlight (sg_lim s) \<le> max 0 (pc_MaxConcurrent cfg) \<and>
    (\<forall>c c' d p p'. call_at s c d p \<and> counted p \<and> call_at s c' d p' \<and> counted p' \<longrightarrow> c = c')"
proof -
  have inv: "tokens_ok held cfg s" "flights_ok callers s"
    using reachable_gate_inv [OF assms] by (simp_all add: gate_inv_def)
  have "int (count_calls counted s) \<le> int (count_calls holds_token s)"
    using count_mono [of counted holds_token s] by simp
  moreover have "counted p \<Longrightarrow> leads p" for p :: "'e progress" by (cases p) simp_all
  ultimately show ?thesis using inv unfolding tokens_ok_def flights_ok_def by (auto; blast)
qed

text \<open>C15. Every call returns: from a reachable state the calls take at most twelve steps each, and as
  long as one of them has not returned some call can move.  So no call waits for ever for a token or
  for the flight it joined, provided that the probe functions return.\<close>

theorem every_call_returns:
  assumes "fresh_sync S held callers (pc_MaxConcurrent cfg) m g" "0 < pc_MaxConcurrent cfg"
    and "gate_reachable S cfg m g s" "(call_step S ^^ k) s t"
  shows "k \<le> 12 * length (sg_calls s) \<and> (all_returned t \<or> (\<exists>u. call_step S t u))"
proof
  show "k \<le> 12 * length (sg_calls s)"
    using steps_are_few [OF assms(4)] work_bound [of s] by linarith
  have "gate_inv held callers cfg t"
    by (rule reachable_gate_inv [OF assms(1) reachable_steps [OF assms(3,4)]])
  then have "can_step S t" if "\<not> all_returned t"
    using unreturned_steps [OF _ _ assms(2) that] assms(1) by (simp add: fresh_sync_def)
  then show "all_returned t \<or> (\<exists>u. call_step S t u)" by (auto simp: can_step_def)
qed

subsection \<open>Runs on concrete inputs\<close>

text \<open>A counting semaphore and a group that remembers its callers.\<close>

definition counting_sync :: "int \<Rightarrow> (nat, string \<Rightarrow> nat set) sync" where
  "counting_sync n =
     \<lparr>sem_acquire = (\<lambda>k. if int k < n then Some (Suc k) else None), sem_release = (\<lambda>k. k - 1),
      grp_enter = (\<lambda>d c g. (g d = {}, g(d := insert c (g d)))),
      grp_leave = (\<lambda>d g. (1 < card (g d), g(d := {})))\<rparr>"

lemma counting_sync_laws: "sem_laws (counting_sync n) (\<lambda>k. k) n" "grp_laws (counting_sync n) (\<lambda>g. g)"
  by (auto simp: sem_laws_def grp_laws_def counting_sync_def split: if_splits)

lemma counting_sync_fresh: "fresh_sync (counting_sync n) (\<lambda>k. k) (\<lambda>g. g) n 0 (\<lambda>_. {})"
  by (simp add: fresh_sync_def counting_sync_laws)

fun play ::
  "('s, 'g) sync \<Rightarrow> 'm input \<Rightarrow> nat list \<Rightarrow> ('m, 's, 'g) shared_gate \<Rightarrow> ('m, 's, 'g) shared_gate option" where
  "play S i [] s = Some s"
| "play S i (c # cs) s = (case next_step S i c s of None \<Rightarrow> None | Some s' \<Rightarrow> play S i cs s')"

lemma play_steps: "play S i cs s = Some t \<Longrightarrow> length cs = k \<Longrightarrow> (call_step S ^^ k) s t"
proof (induction cs arbitrary: s k)
  case (Cons c cs)
  then obtain u where u: "next_step S i c s = Some u" "play S i cs u = Some t"
    by (auto split: option.splits)
  have "(call_step S ^^ length cs) u t" using Cons.IH u(2) by simp
  then have "(call_step S ^^ Suc (length cs)) s t"
    using next_step_sound [OF u(1)] by (rule relpowp_Suc_I2 [rotated])
  then show ?case using Cons.prems(2) by (simp only: list.size add_0_right add_Suc_right One_nat_def)
qed simp

definition two_calls :: "(nat, nat, string \<Rightarrow> nat set) shared_gate" where
  "two_calls = \<lparr>sg_lim = NewLimiter (cfg_Probe Default), sg_sem = 0, sg_group = (\<lambda>_. {}),
     sg_calls = [(''d'', Arrived), (''d'', Arrived)]\<rparr>"

abbreviation one_reading :: "nat input" where
  "one_reading \<equiv> meets 5 0 [7] (Success 200)"

lemma two_calls_reachable: "gate_reachable S (cfg_Probe Default) 0 (\<lambda>_. {}) two_calls"
  using gate_reachable.event [OF gate_reachable.event [OF gate_reachable.start gate_event.arrive] gate_event.arrive]
  by (force simp: two_calls_def)

lemmas play_eval = next_step_def advance_def with_lim_def Let_def counting_sync_def two_calls_def
  NewLimiter_def NewBackoff_def Allow_def lookup_cache_def add_inFlight_def Default_def

lemma two_calls_halfway:
  "map_option (\<lambda>s. (lm_inFlight (sg_lim s), sg_calls s))
     (play (counting_sync 32) one_reading [0, 1, 0, 1, 0, 1, 0, 0] two_calls)
     = Some (1, [(''d'', Running), (''d'', Waiting)])"
  by (simp add: play_eval)

text \<open>
  The counter of shared probes counts the call that led a shared flight too: two calls and one probe
  make two.
\<close>

lemma leader_counts_as_shared:
  "map_option (\<lambda>s. (lm_shared (sg_lim s), sg_calls s))
     (play (counting_sync 32) one_reading [0, 1, 0, 1, 0, 1, 0, 0, 0, 0, 0, 0, 0, 0, 0, 1] two_calls)
     = Some (2, [(''d'', Returned [7] (Success 200) 0), (''d'', Returned [7] (Success 200) 0)])"
  by (simp add: play_eval record_outcome_def Record_def store_cache_def count_shared_def Success_def)

theorem concurrent_probes_are_bounded_witness:
  "\<exists>s :: (nat, nat, string \<Rightarrow> nat set) shared_gate. gate_reachable (counting_sync 32) (cfg_Probe Default) 0 (\<lambda>_. {}) s \<and>
     sg_calls s = [(''d'', Running), (''d'', Waiting)] \<and> lm_inFlight (sg_lim s) = int (count_calls counted s)"
proof -
  obtain s where s: "play (counting_sync 32) one_reading [0, 1, 0, 1, 0, 1, 0, 0] two_calls = Some s"
    "sg_calls s = [(''d'', Running), (''d'', Waiting)]"
    using two_calls_halfway by (auto simp del: play.simps)
  have cfg: "pc_MaxConcurrent (cfg_Probe Default) = 32" by (simp add: Default_def)
  have r: "gate_reachable (counting_sync 32) (cfg_Probe Default) 0 (\<lambda>_. {}) s"
    by (rule reachable_steps [OF two_calls_reachable play_steps [OF s(1) refl]])
  show ?thesis
    using concurrent_probes_are_bounded [OF _ r, of "\<lambda>k. k" "\<lambda>g. g", unfolded cfg, OF counting_sync_fresh] r s(2)
    by blast
qed

theorem every_call_returns_witness:
  "\<exists>t. (call_step (counting_sync 32) ^^ 16) two_calls t \<and> all_returned t \<and> (16::nat) \<le> 12 * length (sg_calls two_calls)"
proof -
  obtain t where t: "play (counting_sync 32) one_reading [0, 1, 0, 1, 0, 1, 0, 0, 0, 0, 0, 0, 0, 0, 0, 1] two_calls = Some t"
    "sg_calls t = [(''d'', Returned [7] (Success 200) 0), (''d'', Returned [7] (Success 200) 0)]"
    using leader_counts_as_shared by (auto simp del: play.simps)
  have k: "(call_step (counting_sync 32) ^^ 16) two_calls t"
    by (rule play_steps [OF t(1)]) simp
  have "fresh_sync (counting_sync 32) (\<lambda>k. k) (\<lambda>g. g) (pc_MaxConcurrent (cfg_Probe Default)) 0 (\<lambda>_. {})"
    "0 < pc_MaxConcurrent (cfg_Probe Default)"
    using counting_sync_fresh [of 32] by (simp_all add: Default_def)
  from every_call_returns [OF this two_calls_reachable k] show ?thesis
    using k t(2) by (auto simp: all_returned_def)
qed

definition one_call :: "(nat, nat, string \<Rightarrow> nat set) shared_gate" where
  "one_call = \<lparr>sg_lim = NewLimiter (cfg_Probe Default), sg_sem = 0, sg_group = (\<lambda>_. {}),
     sg_calls = [(''d'', Arrived)]\<rparr>"

definition calm :: "nat env" where
  "calm = \<lparr>env_allow = 1, env_lookup = 1, env_record = 2, env_store = 2, env_rand = 0, env_token = True,
     env_joined = None, env_dups = False\<rparr>"


text \<open>
  A device whose backoff has just run out may be tried by two calls, one after the other: a call that
  was admitted and found no cached result before the first attempt failed leads a flight of its own.
\<close>

definition half_open_calls :: "(nat, nat, string \<Rightarrow> nat set) shared_gate" where
  "half_open_calls = two_calls\<lparr>sg_lim := (NewLimiter (cfg_Probe Default))\<lparr>lm_backoff :=
     \<lparr>bo_cfg = pc_Backoff (cfg_Probe Default),
      bo_state = [(''d'', \<lparr>db_failures = 3, db_nextAttempt = 4, db_lastReason = ReasonTimeout\<rparr>)]\<rparr>\<rparr>\<rparr>"

lemma half_open_admits_two:
  "map_option (\<lambda>s. (Allow 5 ''d'' (lm_backoff (sg_lim s)), sg_calls s))
     (play (counting_sync 32) (meets 5 0 [] (Fail ReasonTimeout 0))
       [0, 1, 0, 1, 0, 0, 0, 0, 0, 0, 0, 0, 0, 0, 1, 1, 1] half_open_calls)
     = Some ((False, 24 * second), [(''d'', Returned [] (Fail ReasonTimeout 0) 0), (''d'', Running)])"
  by (simp add: play_eval half_open_calls_def record_outcome_def Record_def store_cache_def count_shared_def
      Fail_def delay_def ladder_def truncate_dur_def time_sub_def is_zero_def second_def minute_def
      IsAuth_def IsDeviceFault_def min_duration_def max_duration_def)

end
