(* ===== verification/Server.thy ===== *)
theory Server
  imports RegistryActor Probe Metrics ConfigLoad
begin

text \<open>
  \<^verbatim>\<open>internal/server\<close>: the handlers behind the routes.  A handler is the reply it gives; the
  runner of probes and the readiness of the exporter are arguments, and so are the parser of floating
  point numbers and the rendering of times, addresses and JSON.  The log level and the version line are
  those of \<^verbatim>\<open>internal/logging\<close> and \<^verbatim>\<open>internal/version\<close>.
\<close>

section \<open>Probes\<close>

text \<open>A sample of a probe: one of the exporter's own gauges, with the label if it has one, or a metric of
  the device.\<close>

datatype sample = Gauge string "string option" float64 | DeviceSample Metric

record probeCollector =
  pb_metrics :: "Metric list"
  pb_result :: Result
  pb_duration :: duration
  pb_backoffRemaining :: duration

definition boolValue :: "bool \<Rightarrow> float64" where
  "boolValue b = (if b then Fin 1 else Fin 0)"

definition Seconds :: "duration \<Rightarrow> float64" where
  "Seconds d = Fin (real_of_int d / real_of_int second)"

text \<open>The descriptors of the exporter's own gauges: name, help and label names.\<close>

definition probe_descs :: "(string \<times> string \<times> string list) list" where
  "probe_descs =
     [(''probe_success'', ''Whether the probe of the device succeeded.'', []),
      (''probe_duration_seconds'', ''How long the probe took.'', []),
      (''probe_http_status_code'', ''HTTP status from the device, or 0 if no response was received.'', []),
      (''probe_failure_reason'', ''Why the probe failed. Exactly one reason is 1 when probe_success is 0.'', [''reason'']),
      (''probe_backoff_remaining_seconds'', ''Time until the device will be contacted again.'', [])]"

definition Collect_probe :: "probeCollector \<Rightarrow> sample list" where
  "Collect_probe c =
     [Gauge ''probe_success'' None (boolValue (res_Success (pb_result c))),
      Gauge ''probe_duration_seconds'' None (Seconds (pb_duration c)),
      Gauge ''probe_http_status_code'' None (Fin (real_of_int (res_HTTPStatus (pb_result c))))]
     @ map (\<lambda>reason. Gauge ''probe_failure_reason'' (Some (reason_string reason)) (boolValue (res_Reason (pb_result c) = reason))) AllReasons
     @ (if 0 < pb_backoffRemaining c then [Gauge ''probe_backoff_remaining_seconds'' None (Seconds (pb_backoffRemaining c))] else [])
     @ map DeviceSample (pb_metrics c)"

text \<open>
  The budget of a probe.  \<open>header\<close> is the value of the timeout header as it parses, if it is there and
  parses; \<open>conv\<close> is what the machine makes of a float64 that does not fit a duration.
\<close>

definition real_duration :: "(float64 \<Rightarrow> duration) \<Rightarrow> float64 \<Rightarrow> duration" where
  "real_duration conv f =
     (case f of
        Fin x \<Rightarrow> (let y = x * real_of_int second
                  in if - (2 ^ 63) \<le> y \<and> y < 2 ^ 63 then truncate_dur y else conv f)
      | _ \<Rightarrow> conv f)"

definition float_positive :: "float64 \<Rightarrow> bool" where
  "float_positive f = (case f of Fin x \<Rightarrow> 0 < x | PosInf \<Rightarrow> True | NegInf \<Rightarrow> False | NaN \<Rightarrow> False)"

definition scrapeTimeout :: "(float64 \<Rightarrow> duration) \<Rightarrow> float64 option \<Rightarrow> ProbeConfig \<Rightarrow> duration" where
  "scrapeTimeout conv header cfg =
     (let timeout = (case header of
          Some f \<Rightarrow> if float_positive f then real_duration conv f else pc_DefaultTimeout cfg
        | None \<Rightarrow> pc_DefaultTimeout cfg)
      in min (max (timeout - pc_TimeoutOffset cfg) (pc_MinTimeout cfg)) (pc_MaxTimeout cfg))"

datatype 'a reply = HTTPError int string | OK 'a

definition StatusOf :: "'a reply \<Rightarrow> int" where
  "StatusOf r = (case r of HTTPError code _ \<Rightarrow> code | OK _ \<Rightarrow> 200)"

text \<open>
  \<open>run\<close> runs the probe of a device within a budget: metrics, result, remaining backoff and how long it
  took, beside the state of the world.
\<close>

definition probeHandler ::
  "(float64 \<Rightarrow> duration) \<Rightarrow> ProbeConfig \<Rightarrow> (duration \<Rightarrow> Device \<Rightarrow> 'w \<Rightarrow> (Metric list \<times> Result \<times> duration \<times> duration) \<times> 'w)
     \<Rightarrow> Snapshot option \<Rightarrow> string \<Rightarrow> float64 option \<Rightarrow> 'w \<Rightarrow> sample list reply \<times> 'w" where
  "probeHandler conv cfg run snap target header w =
     (if target = [] then (HTTPError 400 ''missing target parameter'', w)
      else case Snapshot_Get snap target of
             None \<Rightarrow> (HTTPError 404 (''unknown target: '' @ target), w)
           | Some dev \<Rightarrow>
               (case run (scrapeTimeout conv header cfg) dev w of
                  ((ms, res, remaining, took), w') \<Rightarrow>
                    (OK (Collect_probe \<lparr>pb_metrics = ms, pb_result = res, pb_duration = took, pb_backoffRemaining = remaining\<rparr>), w')))"

section \<open>Service discovery\<close>

definition join_host_port :: "string \<Rightarrow> string \<Rightarrow> string" where
  "join_host_port host port =
     (if CHR '':'' \<in> set host then ''['' @ host @ '']:'' @ port else host @ '':'' @ port)"

definition FormatBool :: "bool \<Rightarrow> string" where
  "FormatBool b = (if b then ''true'' else ''false'')"

definition sdLabels ::
  "(netip_addr \<Rightarrow> string) \<Rightarrow> (time \<Rightarrow> string) \<Rightarrow> Device \<Rightarrow> time \<Rightarrow> duration \<Rightarrow> (string \<times> string) list" where
  "sdLabels addrString rfc3339 d now staleAfter =
     [(''__meta_device_id'', dev_ID d), (''__meta_device_kind'', dev_Kind d), (''__meta_device_name'', dev_Name d),
      (''__meta_device_hostname'', dev_Hostname d), (''__meta_device_service'', []),
      (''__meta_device_last_seen'', rfc3339 (dev_LastSeen d)),
      (''__meta_device_stale'', FormatBool (Stale d now staleAfter)),
      (''__meta_device_static'', FormatBool (dev_Static d))]
     @ (case Primary d of
          Some addr \<Rightarrow> [(''__meta_device_address'', join_host_port (addrString addr) (itoa (unat (dev_Port d))))]
        | None \<Rightarrow> [])
     @ (case dev_TXT d ''gen'' of
          Some gen \<Rightarrow> if gen \<noteq> [] then [(''__meta_device_gen'', gen)] else []
        | None \<Rightarrow> [])"

record targetGroup =
  tg_Targets :: "string list"
  tg_Labels :: "(string \<times> string) list"

definition sdHandler ::
  "(netip_addr \<Rightarrow> string) \<Rightarrow> (time \<Rightarrow> string) \<Rightarrow> duration \<Rightarrow> Snapshot option \<Rightarrow> kind \<Rightarrow> time \<Rightarrow> targetGroup list" where
  "sdHandler addrString rfc3339 staleAfter snap kind now =
     map (\<lambda>d. \<lparr>tg_Targets = [dev_ID d], tg_Labels = sdLabels addrString rfc3339 d now staleAfter\<rparr>) (Snapshot_List snap kind)"

section \<open>Debugging\<close>

record debugDevice =
  db_ID :: string
  db_Kind :: kind
  db_Name :: string
  db_Hostname :: string
  db_Addrs :: "string list"
  db_Rejected :: "string list"
  db_Port :: "16 word"
  db_TXT :: txt_map
  db_FirstSeen :: time
  db_LastSeen :: time
  db_AgeSeconds :: float64
  db_Static :: bool
  db_Unverified :: bool
  db_Epoch :: "64 word"

definition debug_device :: "(netip_addr \<Rightarrow> string) \<Rightarrow> time \<Rightarrow> Device \<Rightarrow> debugDevice" where
  "debug_device addrString now d =
     \<lparr>db_ID = dev_ID d, db_Kind = dev_Kind d, db_Name = dev_Name d, db_Hostname = dev_Hostname d,
      db_Addrs = map addrString (dev_Addrs d), db_Rejected = map addrString (dev_RejectedAddrs d),
      db_Port = dev_Port d, db_TXT = dev_TXT d, db_FirstSeen = dev_FirstSeen d, db_LastSeen = dev_LastSeen d,
      db_AgeSeconds = Seconds (time_sub now (dev_LastSeen d)), db_Static = dev_Static d,
      db_Unverified = dev_Unverified d, db_Epoch = dev_Epoch d\<rparr>"

definition debugDevicesHandler :: "(netip_addr \<Rightarrow> string) \<Rightarrow> Snapshot option \<Rightarrow> kind \<Rightarrow> time \<Rightarrow> debugDevice list" where
  "debugDevicesHandler addrString snap kind now =
     map (debug_device addrString now) (filter (\<lambda>d. kind = [] \<or> dev_Kind d = kind) (case snap of Some s \<Rightarrow> sn_Devices s | None \<Rightarrow> []))"

section \<open>Health and log level\<close>

text \<open>A plain text, or the JSON object of a not ready exporter with its reason.\<close>

definition readyHandler :: "bool \<times> string \<Rightarrow> string reply" where
  "readyHandler r = (case r of (ok, reason) \<Rightarrow> if ok then OK (''ready'' @ [CHR 0x0A]) else HTTPError 503 reason)"

text \<open>\<^verbatim>\<open>internal/logging\<close>: the levels by name.\<close>

datatype log_level = LevelDebug | LevelInfo | LevelWarn | LevelError

definition ParseLevel :: "string \<Rightarrow> log_level option" where
  "ParseLevel s0 =
     (let s = to_lower (trim_space s0)
      in if s = ''debug'' then Some LevelDebug
         else if s = ''info'' \<or> s = [] then Some LevelInfo
         else if s = ''warn'' \<or> s = ''warning'' then Some LevelWarn
         else if s = ''error'' then Some LevelError
         else None)"

definition level_name :: "log_level \<Rightarrow> string" where
  "level_name l = (case l of LevelDebug \<Rightarrow> ''DEBUG'' | LevelInfo \<Rightarrow> ''INFO'' | LevelWarn \<Rightarrow> ''WARN'' | LevelError \<Rightarrow> ''ERROR'')"

text \<open>\<open>formValue\<close> is what the body of the form says, \<open>quote\<close> the quoting of a string.  The level is process wide.\<close>

definition logLevelHandler ::
  "(string \<Rightarrow> string) \<Rightarrow> string \<Rightarrow> string \<Rightarrow> log_level \<Rightarrow> string reply \<times> log_level" where
  "logLevelHandler quote query formValue level =
     (let requested = (if query = [] then formValue else query)
      in case ParseLevel requested of
           None \<Rightarrow>
            (HTTPError 400 (''unknown log level '' @ quote requested @ '' (want debug, info, warn or error)'' @ [CHR 0x0A]), level)
         | Some lvl \<Rightarrow> (OK (''level='' @ level_name lvl @ [CHR 0x0A]), lvl))"

text \<open>\<^verbatim>\<open>logging.New\<close>: the level that becomes current, and the format of the records.\<close>

datatype log_format = JSONFormat | TextFormat
datatype log_error = BadLevel string | BadFormat string

definition NewLogger :: "string \<Rightarrow> string \<Rightarrow> log_level \<Rightarrow> (log_error + log_format) \<times> log_level" where
  "NewLogger level format current =
     (case ParseLevel level of
        None \<Rightarrow> (Inl (BadLevel level), current)
      | Some l \<Rightarrow>
          (let f = to_lower format
           in if f = ''json'' \<or> f = [] then (Inr JSONFormat, l)
              else if f = ''text'' \<or> f = ''logfmt'' then (Inr TextFormat, l)
              else (Inl (BadFormat format), l)))"

section \<open>Middleware\<close>

text \<open>A handler that panics gives \<open>None\<close>.\<close>

definition recoverMiddleware :: "'a reply option \<Rightarrow> 'a reply" where
  "recoverMiddleware r = (case r of Some reply \<Rightarrow> reply | None \<Rightarrow> HTTPError 500 ''internal error'')"

text \<open>The requests in flight: one arrives and is admitted or refused, and an admitted one ends.\<close>

record inflight =
  if_limit :: nat
  if_running :: nat
  if_refused :: nat

datatype request_msg = Arrive | Leave

fun limitInFlight :: "request_msg \<Rightarrow> inflight \<Rightarrow> inflight" where
  "limitInFlight Arrive s =
     (if if_running s < if_limit s then s\<lparr>if_running := Suc (if_running s)\<rparr> else s\<lparr>if_refused := Suc (if_refused s)\<rparr>)"
| "limitInFlight Leave s = s\<lparr>if_running := if_running s - 1\<rparr>"

section \<open>The server\<close>

text \<open>The collaborators, of which it matters whether they are there, and the configuration of the server.\<close>

record Options =
  op_Devices :: bool
  op_Runner :: bool
  op_ExporterMetrics :: bool
  op_Handler :: bool
  op_Pprof :: bool
  op_MaxRequests :: int

datatype route =
    Healthz | Readyz | LogLevel | Landing | DebugDevices | SD | ProbeRoute | MetricsRoute | Extra | Pprof string

text \<open>The patterns the multiplexer is given, in order.\<close>

definition routes :: "Options \<Rightarrow> (string \<times> route) list" where
  "routes opts =
     [(''GET /healthz'', Healthz), (''GET /readyz'', Readyz), (''POST /-/loglevel'', LogLevel), (''GET /'', Landing)]
     @ (if op_Devices opts
        then [(''GET /debug/devices'', DebugDevices), (''GET /sd'', SD)]
             @ (if op_Runner opts then [(''GET /probe'', ProbeRoute)] else [])
        else [])
     @ (if op_ExporterMetrics opts then [(''GET /metrics'', MetricsRoute)] else [])
     @ (if op_Handler opts then [(''/'', Extra)] else [])
     @ (if op_Pprof opts
        then [(''GET /debug/pprof/'', Pprof ''index''), (''GET /debug/pprof/cmdline'', Pprof ''cmdline''),
              (''GET /debug/pprof/profile'', Pprof ''profile''), (''GET /debug/pprof/symbol'', Pprof ''symbol''),
              (''GET /debug/pprof/trace'', Pprof ''trace'')]
        else [])"

text \<open>
  The handlers around the multiplexer: what a request finds is the number of requests in flight, and
  what the multiplexer would answer, \<open>None\<close> when it panics.
\<close>

definition serve :: "int \<Rightarrow> nat \<Rightarrow> 'a reply option \<Rightarrow> 'a reply" where
  "serve maxRequests running answer =
     (if 0 < maxRequests \<and> maxRequests \<le> int running then HTTPError 503 ''too many concurrent requests''
      else recoverMiddleware answer)"

text \<open>
  \<^verbatim>\<open>Run\<close>: the listener's end before the context's, if it ends first, what the shutdown
  gives, and the listener's end after it; \<^verbatim>\<open>http.ErrServerClosed\<close> is no error.
\<close>

definition listen_result :: "string option \<Rightarrow> bool \<Rightarrow> string option" where
  "listen_result err shut = (if err \<noteq> None \<and> \<not> shut then err else None)"

definition Server_Run :: "(string option \<times> bool) option \<Rightarrow> string option \<Rightarrow> string option \<times> bool \<Rightarrow> string option" where
  "Server_Run early shutdown late =
     (case early of
        Some (err, shut) \<Rightarrow> listen_result err shut
      | None \<Rightarrow>
          (case shutdown of
             Some err \<Rightarrow> Some (''http shutdown: '' @ err)
           | None \<Rightarrow> (case late of (err, shut) \<Rightarrow> listen_result err shut)))"

text \<open>\<^verbatim>\<open>New\<close>: what the listener is given.  Without a readiness function the exporter is
  always ready.\<close>

record HttpServer =
  hs_Addr :: string
  hs_ReadHeaderTimeout :: duration
  hs_Closed :: duration
  hs_Routes :: "(string \<times> route) list"
  hs_MaxRequests :: int

definition ready_default :: "(bool \<times> string) option \<Rightarrow> bool \<times> string" where
  "ready_default r = (case r of None \<Rightarrow> (True, []) | Some x \<Rightarrow> x)"

definition NewServer :: "ServerConfig \<Rightarrow> Options \<Rightarrow> HttpServer" where
  "NewServer cfg opts =
     \<lparr>hs_Addr = srv_Listen cfg, hs_ReadHeaderTimeout = srv_ReadHeaderTimeout cfg,
      hs_Closed = srv_ShutdownTimeout cfg,
      hs_Routes = routes (opts\<lparr>op_Pprof := srv_Pprof cfg, op_MaxRequests := srv_MaxRequests cfg\<rparr>),
      hs_MaxRequests = srv_MaxRequests cfg\<rparr>"

text \<open>A plain answer with its headers, and the answer of the liveness route: it depends on nothing.\<close>

record plain_response =
  pr_Headers :: "(string \<times> string) list"
  pr_Status :: int
  pr_Body :: string

definition writePlain :: "int \<Rightarrow> string \<Rightarrow> plain_response" where
  "writePlain status body =
     \<lparr>pr_Headers = [(''Content-Type'', ''text/plain; charset=utf-8''), (''Cache-Control'', ''no-store'')],
      pr_Status = status, pr_Body = body\<rparr>"

definition healthzHandler :: plain_response where
  "healthzHandler = writePlain 200 (''ok'' @ [CHR 0x0A])"

text \<open>\<^verbatim>\<open>internal/version\<close>: what the build stamps, and the line that shows it; the platform is that of
  the runtime.\<close>

record build_info =
  bi_Version :: string
  bi_Commit :: string
  bi_BuildDate :: string

definition unstamped :: build_info where
  "unstamped = \<lparr>bi_Version = ''dev'', bi_Commit = ''none'', bi_BuildDate = ''unknown''\<rparr>"

definition exporter_name :: string where
  "exporter_name = ''espressif_exporter''"

definition version_String :: "build_info \<Rightarrow> string \<Rightarrow> string \<Rightarrow> string \<Rightarrow> string" where
  "version_String b gover goos goarch =
     exporter_name @ '' version='' @ bi_Version b @ '' commit='' @ bi_Commit b @ '' built='' @ bi_BuildDate b
     @ '' go='' @ gover @ '' '' @ goos @ ''/'' @ goarch"

definition landing_page :: "string \<Rightarrow> string" where
  "landing_page version =
     concat (map (\<lambda>l. l @ [CHR 0x0A])
       [''<!doctype html>'', ''<title>espressif-exporter</title>'', ''<h1>espressif-exporter</h1>'',
        ''<p>'' @ version @ ''</p>'', ''<ul>'',
        ''  <li><a href='' @ [CHR 0x22] @ ''/metrics'' @ [CHR 0x22] @ ''>/metrics</a> &mdash; the exporter'' @ [CHR 0x27] @ ''s own metrics</li>'',
        ''  <li><a href='' @ [CHR 0x22] @ ''/sd'' @ [CHR 0x22] @ ''>/sd</a> &mdash; Prometheus HTTP service discovery</li>'',
        ''  <li><code>/probe?target=&lt;device-id&gt;</code> &mdash; per-device metrics</li>'',
        ''  <li><a href='' @ [CHR 0x22] @ ''/debug/devices'' @ [CHR 0x22] @ ''>/debug/devices</a> &mdash; discovery snapshot</li>'',
        ''  <li><a href='' @ [CHR 0x22] @ ''/healthz'' @ [CHR 0x22] @ ''>/healthz</a> &middot; <a href='' @ [CHR 0x22] @ ''/readyz''
          @ [CHR 0x22] @ ''>/readyz</a></li>'',
        ''</ul>''])"

text \<open>\<open>version\<close> is the line above.\<close>

definition landingHandler :: "string \<Rightarrow> string \<Rightarrow> string reply" where
  "landingHandler version path =
     (if path \<noteq> ''/'' then HTTPError 404 (''404 page not found'' @ [CHR 0x0A]) else OK (landing_page version))"

end
