(* ===== verification/Backends.thy ===== *)
theory Backends
  imports Identity AddressPolicy Config CloudStatus
begin

text \<open>
  \<^verbatim>\<open>internal/discovery/static\<close>, \<^verbatim>\<open>shellycloud\<close> and \<^verbatim>\<open>zeroconf\<close>: the backends that need no system
  service.  A backend gives the events it puts on its channel; when its context ends while it waits for
  the channel, \<open>Some k\<close> says that the channel took \<open>k\<close> of them.  The multicast browser and the
  sockets are arguments.
\<close>

record Health =
  hl_Up :: bool
  hl_Reason :: string
  hl_LastEventAt :: time
  hl_Reconnects :: nat

definition zero_health :: Health where
  "zero_health = \<lparr>hl_Up = False, hl_Reason = [], hl_LastEventAt = zero_time, hl_Reconnects = 0\<rparr>"

definition proto_of :: "netip_addr \<Rightarrow> string" where
  "proto_of a = (if is6 a then ProtoIPv6 else ProtoIPv4)"

text \<open>What the channel takes, and whether it took everything.\<close>

definition offer :: "nat option \<Rightarrow> Event list \<Rightarrow> Event list \<times> bool" where
  "offer accept evs =
     (case accept of
        None \<Rightarrow> (evs, True)
      | Some k \<Rightarrow> (take k evs, length evs \<le> k))"

section \<open>The static list\<close>

definition static_name :: string where "static_name = ''static''"

record static_entry =
  st_id :: string
  st_kind :: kind
  st_addr :: netip_addr
  st_port :: "16 word"

record StaticSource =
  ss_entries :: "static_entry list"
  ss_interval :: duration
  ss_health :: Health

datatype static_error = BadStaticAddress nat string | BadStaticKind nat string string

definition defaultPort :: "kind \<Rightarrow> 16 word" where
  "defaultPort kind = (if kind = KindESPHome then 6053 else 80)"

fun static_entries ::
  "(string \<Rightarrow> netip_addr option) \<Rightarrow> nat \<Rightarrow> StaticEntry list \<Rightarrow> static_error + static_entry list" where
  "static_entries parseAddr i [] = Inr []"
| "static_entries parseAddr i (e # es) =
     (case parseAddr (se_Address e) of
        None \<Rightarrow> Inl (BadStaticAddress i (se_ID e))
      | Some addr \<Rightarrow>
          (if se_Kind e \<noteq> KindESPHome \<and> se_Kind e \<noteq> KindShelly then Inl (BadStaticKind i (se_ID e) (se_Kind e))
           else let port = (if (of_nat (se_Port e) :: 16 word) = 0 then defaultPort (se_Kind e) else of_nat (se_Port e))
                in case static_entries parseAddr (Suc i) es of
                     Inl err \<Rightarrow> Inl err
                   | Inr out \<Rightarrow> Inr (\<lparr>st_id = se_ID e, st_kind = se_Kind e, st_addr = unmap addr, st_port = port\<rparr> # out)))"

definition NewStatic ::
  "(string \<Rightarrow> netip_addr option) \<Rightarrow> StaticEntry list \<Rightarrow> duration \<Rightarrow> static_error + StaticSource" where
  "NewStatic parseAddr entries interval =
     (case static_entries parseAddr 0 entries of
        Inl err \<Rightarrow> Inl err
      | Inr out \<Rightarrow> Inr \<lparr>ss_entries = out, ss_interval = (if interval \<le> 0 then 5 * minute else interval), ss_health = zero_health\<rparr>)"

definition Static_Health :: "StaticSource \<Rightarrow> Health" where
  "Static_Health s = (ss_health s)\<lparr>hl_Up := True\<rparr>"

definition static_event :: "time \<Rightarrow> static_entry \<Rightarrow> Event" where
  "static_event now e =
     \<lparr>ev_Type = EventAdd, ev_Source = static_name, ev_DeviceID = StaticID (st_id e), ev_Instance = st_id e,
      ev_Unnamed = False, ev_Domain = ''local'', ev_Kind = st_kind e,
      ev_Endpoint = \<lparr>ep_Key = \<lparr>key_ServiceType = static_name, key_Interface = 0, key_Protocol = proto_of (st_addr e)\<rparr>,
        ep_Host = [], ep_Addr = st_addr e, ep_Port = st_port e, ep_TXT = Map.empty, ep_Cached = False,
        ep_Trusted = True, ep_ObservedAt = now\<rparr>,
      ev_At = now\<rparr>"

definition emitAll :: "time \<Rightarrow> nat option \<Rightarrow> StaticSource \<Rightarrow> Event list \<times> StaticSource" where
  "emitAll now accept s =
     (case offer accept (map (static_event now) (ss_entries s)) of
        (sent, all_taken) \<Rightarrow>
          (sent, if all_taken then s\<lparr>ss_health := (ss_health s)\<lparr>hl_LastEventAt := now\<rparr>\<rparr> else s))"

text \<open>\<^verbatim>\<open>Run\<close>: the list at once, then at every tick, until the context ends.\<close>

fun static_run :: "(time \<times> nat option) list \<Rightarrow> StaticSource \<Rightarrow> Event list \<times> StaticSource" where
  "static_run [] s = ([], s)"
| "static_run ((now, accept) # ticks) s =
     (case emitAll now accept s of
        (sent, s') \<Rightarrow> (case static_run ticks s' of (sent', s'') \<Rightarrow> (sent @ sent', s'')))"

section \<open>The Shelly cloud\<close>

definition cloud_source_name :: string where "cloud_source_name = ''shelly_cloud''"
definition pollRetryInitial :: duration where "pollRetryInitial = 30 * second"
definition pollRetryFactor :: int where "pollRetryFactor = 2"

record CloudSource =
  cs_interval :: duration
  cs_includeOffline :: bool
  cs_health :: Health
  cs_attempted :: bool

definition NewCloudSource :: "duration \<Rightarrow> bool \<Rightarrow> CloudSource" where
  "NewCloudSource interval includeOffline =
     \<lparr>cs_interval = (if interval \<le> 0 then 5 * minute else interval), cs_includeOffline = includeOffline,
      cs_health = zero_health\<lparr>hl_Reason := ''not yet polled''\<rparr>, cs_attempted = False\<rparr>"

definition cloud_txt :: "DeviceStatus \<Rightarrow> txt_map" where
  "cloud_txt dev =
     (let mac = (if ds_MAC dev = [] then ds_ID dev else ds_MAC dev);
          t1 = [''mac'' \<mapsto> mac];
          t2 = (if 0 < ds_Gen dev then t1(''gen'' \<mapsto> itoa (nat (ds_Gen dev))) else t1)
      in if ds_Code dev \<noteq> [] then t2(''model'' \<mapsto> ds_Code dev) else t2)"

definition cloud_event :: "time \<Rightarrow> DeviceStatus \<Rightarrow> Event" where
  "cloud_event now dev =
     \<lparr>ev_Type = EventAdd, ev_Source = cloud_source_name, ev_DeviceID = [], ev_Instance = ds_ID dev,
      ev_Unnamed = True, ev_Domain = ''local'', ev_Kind = KindShelly,
      ev_Endpoint = \<lparr>ep_Key = \<lparr>key_ServiceType = cloud_source_name, key_Interface = 0, key_Protocol = proto_of (ds_Addr dev)\<rparr>,
        ep_Host = [], ep_Addr = ds_Addr dev, ep_Port = 80, ep_TXT = cloud_txt dev, ep_Cached = False,
        ep_Trusted = False, ep_ObservedAt = now\<rparr>,
      ev_At = now\<rparr>"

definition publishable :: "CloudSource \<Rightarrow> DeviceStatus \<Rightarrow> bool" where
  "publishable s dev \<longleftrightarrow> is_valid (ds_Addr dev) \<and> (ds_Online dev \<or> cs_includeOffline s)"

text \<open>One poll: the events it sent, whether it succeeded, and the source after it.\<close>

definition poll ::
  "string + DeviceStatus list \<Rightarrow> time \<Rightarrow> nat option \<Rightarrow> CloudSource \<Rightarrow> Event list \<times> bool \<times> CloudSource" where
  "poll answer now accept s0 =
     (let first = \<not> cs_attempted s0; s = s0\<lparr>cs_attempted := True\<rparr>
      in case answer of
           Inl err \<Rightarrow> ([], False, s\<lparr>cs_health := (cs_health s)\<lparr>hl_Up := False, hl_Reason := err\<rparr>\<rparr>)
         | Inr devices \<Rightarrow>
             (case offer accept (map (cloud_event now) (filter (publishable s) devices)) of
                (sent, all_taken) \<Rightarrow>
                  (if \<not> all_taken then (sent, False, s)
                   else let h = cs_health s;
                            h' = (if \<not> hl_Up h \<and> \<not> first then h\<lparr>hl_Reconnects := Suc (hl_Reconnects h)\<rparr> else h)
                        in (sent, True, s\<lparr>cs_health := h'\<lparr>hl_Up := True, hl_Reason := [], hl_LastEventAt := now\<rparr>\<rparr>))))"

text \<open>
  \<^verbatim>\<open>Run\<close>: what every poll meets, and whether the context has ended after it.  The result is
  the events, the waits between the polls and the source.
\<close>

fun cloud_source_run ::
  "((string + DeviceStatus list) \<times> time \<times> nat option \<times> bool) list \<Rightarrow> duration \<Rightarrow> CloudSource
     \<Rightarrow> Event list \<times> duration list \<times> CloudSource" where
  "cloud_source_run [] retry s = ([], [], s)"
| "cloud_source_run ((answer, now, accept, ended) # polls) retry s =
     (case poll answer now accept s of
        (sent, ok, s') \<Rightarrow>
          (if ended \<or> accept \<noteq> None then (sent, [], s')
           else let wait = (if ok then cs_interval s' else min retry (cs_interval s'));
                    retry' = (if ok then pollRetryInitial else min (retry * pollRetryFactor) (cs_interval s'))
                in case cloud_source_run polls retry' s' of
                     (sent', waits, s'') \<Rightarrow> (sent @ sent', wait # waits, s'')))"

section \<open>Multicast\<close>

definition zeroconf_name :: string where "zeroconf_name = ''zeroconf''"
definition browseRestartDelay :: duration where "browseRestartDelay = 5 * second"

text \<open>\<^verbatim>\<open>netip.AddrFromSlice\<close>: four bytes, or sixteen.\<close>

definition AddrFromSlice :: "8 word list \<Rightarrow> netip_addr option" where
  "AddrFromSlice bs =
     (if length bs = 4 then Some (Addr4 (word_rcat bs))
      else if length bs = 16 then Some (Addr6 (word_rcat bs) []) else None)"

record ServiceEntry =
  zc_Instance :: string
  zc_Domain :: string
  zc_HostName :: string
  zc_Port :: int
  zc_Text :: "string list"
  zc_AddrIPv4 :: "8 word list list"
  zc_AddrIPv6 :: "8 word list list"

definition entry_ipv4 :: "ServiceEntry \<Rightarrow> (netip_addr \<times> string) list" where
  "entry_ipv4 entry = map (\<lambda>a. (unmap a, ProtoIPv4)) (List.map_filter AddrFromSlice (zc_AddrIPv4 entry))"

definition entry_ipv6 :: "ServiceEntry \<Rightarrow> (netip_addr \<times> string) list" where
  "entry_ipv6 entry = map (\<lambda>a. (unmap a, ProtoIPv6)) (List.map_filter AddrFromSlice (zc_AddrIPv6 entry))"

definition zeroconf_event :: "time \<Rightarrow> string \<Rightarrow> kind \<Rightarrow> txt_map \<Rightarrow> ServiceEntry \<Rightarrow> netip_addr \<times> string \<Rightarrow> Event" where
  "zeroconf_event now service kind txt entry ip =
     \<lparr>ev_Type = EventAdd, ev_Source = zeroconf_name, ev_DeviceID = [], ev_Instance = zc_Instance entry,
      ev_Unnamed = False, ev_Domain = zc_Domain entry, ev_Kind = kind,
      ev_Endpoint = \<lparr>ep_Key = \<lparr>key_ServiceType = service, key_Interface = 0, key_Protocol = snd ip\<rparr>,
        ep_Host = zc_HostName entry, ep_Addr = fst ip, ep_Port = of_int (zc_Port entry), ep_TXT = txt, ep_Cached = False,
        ep_Trusted = False, ep_ObservedAt = now\<rparr>,
      ev_At = now\<rparr>"

definition zeroconf_emit ::
  "string \<Rightarrow> ServiceEntry option \<Rightarrow> time \<Rightarrow> nat option \<Rightarrow> Health \<Rightarrow> Event list \<times> Health" where
  "zeroconf_emit service entry0 now accept h =
     (case entry0 of
        None \<Rightarrow> ([], h)
      | Some entry \<Rightarrow>
          (let txt = ParseTXT (zc_Text entry); kind = Classify service (zc_Instance entry) txt
           in if kind = KindUnknown then ([], h)
              else case offer accept (map (zeroconf_event now service kind txt entry) (entry_ipv4 entry @ entry_ipv6 entry)) of
                     (sent, all_taken) \<Rightarrow> (sent, if all_taken then h\<lparr>hl_LastEventAt := now, hl_Up := True\<rparr> else h)))"

definition setUp :: "bool \<Rightarrow> string \<Rightarrow> Health \<Rightarrow> Health" where
  "setUp up reason h = h\<lparr>hl_Up := up, hl_Reason := reason\<rparr>"

text \<open>
  The exclusive bind of the mDNS port: it succeeds, or fails with an error that says another daemon
  owns the port, or with some other error.
\<close>

datatype bind_result = Bound | InUse string | OtherBind string

definition checkPortOwnership :: "bind_result \<Rightarrow> string option" where
  "checkPortOwnership r = (case r of Bound \<Rightarrow> None | InUse err \<Rightarrow> Some err | OtherBind err \<Rightarrow> None)"

text \<open>What is said of it, by the platform (\<^verbatim>\<open>runtime.GOOS\<close>).\<close>

definition port_advice :: "string \<Rightarrow> string" where
  "port_advice goos =
     (if goos = ''darwin''
      then ''macOS runs mDNSResponder, which cannot share the port. ''
           @ ''Use discovery.sources: [static] and list devices found with ''
           @ ''`dns-sd -B _shelly._tcp local`.''
      else if goos = ''linux''
      then ''A local mDNS daemon, most likely avahi-daemon, owns the port. ''
           @ ''Use discovery.sources: [avahi] to browse through it instead.''
      else ''Another mDNS daemon owns the port. Use discovery.sources: [static], ''
           @ ''or [avahi] on a host running avahi-daemon.'')"

text \<open>What happens to the backend: it starts, an entry comes, a browse ends with or without an error.\<close>

datatype zeroconf_msg =
    ZcStart bind_result
  | ZcEntry string "ServiceEntry option" time "nat option"
  | ZcBrowseEnded "string option" bool     \<comment> \<open>its error, and whether the context ended\<close>
  | ZcStop

fun zeroconf_step :: "zeroconf_msg \<Rightarrow> Health \<Rightarrow> Event list \<times> Health" where
  "zeroconf_step (ZcStart bind) h =
     ([], case checkPortOwnership bind of Some _ \<Rightarrow> setUp False ''UDP 5353 is owned by another mDNS daemon'' h | None \<Rightarrow> h)"
| "zeroconf_step (ZcEntry service entry now accept) h = zeroconf_emit service entry now accept h"
| "zeroconf_step (ZcBrowseEnded err ended) h =
     ([], case err of Some e \<Rightarrow> if ended then h else setUp False e h | None \<Rightarrow> h)"
| "zeroconf_step ZcStop h = ([], setUp False ''stopped'' h)"

end
