(* ===== verification/App.thy ===== *)
theory App
  imports Server ShellyCollector ESPHomeManager ESPHomeCollector Backends
begin

text \<open>
  \<^verbatim>\<open>internal/app\<close> and \<^verbatim>\<open>cmd/espressif-exporter\<close>: the wiring of the
  components.  The runner joins the gate, the collectors and the registry; the application builds the
  backends, decides whether it is ready, holds discovery back for the names of the cloud, and samples
  the exporter's own metrics.
\<close>

section \<open>The runner\<close>

text \<open>
  A probe function acts on a world of type \<open>'w\<close>; \<open>None\<close> is its panic.  A probe reaches the
  device exactly when every gate lets it through.
\<close>

type_synonym 'w prober = "Device \<Rightarrow> 'w \<Rightarrow> (Metric list \<times> Result) option \<times> 'w"

definition reaches_device :: "Metric env \<Rightarrow> string \<Rightarrow> Metric Limiter \<Rightarrow> bool" where
  "reaches_device e d l \<longleftrightarrow> fst (Allow (env_allow e) d (lm_backoff l)) \<and> lookup_cache (env_lookup e) d l = None
     \<and> env_joined e = None \<and> env_token e"

definition probe_fn :: "'w prober \<Rightarrow> Device \<Rightarrow> 'w \<Rightarrow> Metric list \<times> Result \<times> 'w" where
  "probe_fn probe dev w =
     (case probe dev w of (Some (ms, res), w') \<Rightarrow> (ms, res, w') | (None, w') \<Rightarrow> ([], Success 0, w'))"

text \<open>
  \<^verbatim>\<open>Run\<close>: the outcome, what is reported to the registry, and the states after.  A panic
  releases the gates and leaves no trace in the limiter.
\<close>

definition runner_Run ::
  "(kind \<Rightarrow> 'w prober option) \<Rightarrow> Metric env \<Rightarrow> Device \<Rightarrow> 'w \<times> Metric Limiter
     \<Rightarrow> (Metric list \<times> Result \<times> duration) option \<times> ScrapeResult list \<times> ('w \<times> Metric Limiter)" where
  "runner_Run probers e dev st =
     (case st of (w, l) \<Rightarrow>
        (case probers (dev_Kind dev) of
           None \<Rightarrow> (Some ([], Fail ReasonNotConnected 0, 0), [], (w, l))
         | Some probe \<Rightarrow>
             (if reaches_device e (dev_ID dev) l \<and> fst (probe dev w) = None
              then (None, [], (snd (probe dev w), l))
              else case Do e (dev_ID dev) (probe_fn probe dev) w l of
                     (ms, res, remaining, w', l') \<Rightarrow>
                       (Some (ms, res, remaining),
                        (case Primary dev of
                           Some addr \<Rightarrow> [\<lparr>sr_DeviceID = dev_ID dev, sr_Addr = addr, sr_Success = res_Success res, sr_At = zero_time\<rparr>]
                         | None \<Rightarrow> []),
                        (w', l')))))"

section \<open>The collectors\<close>

record World =
  wo_shelly :: ShellyCollector
  wo_manager :: Manager
  wo_families :: families
  wo_descs :: desc_cache

text \<open>What a probe reads of the outside: rendering, glob matching, the network, the JSON package, the clock.\<close>

record outside =
  ou_addr :: "netip_addr \<Rightarrow> string"
  ou_glob :: "string \<Rightarrow> string \<Rightarrow> bool option"
  ou_net :: network
  ou_codec :: codec
  ou_now1 :: time
  ou_now2 :: time

definition shelly_prober :: "outside \<Rightarrow> World prober" where
  "shelly_prober ou dev w =
     (case Shelly_Probe (ou_addr ou) (ou_glob ou) (ou_net ou) (ou_codec ou) (ou_now1 ou) (ou_now2 ou) dev (wo_shelly w) of
        (res, c) \<Rightarrow> (res, w\<lparr>wo_shelly := c\<rparr>))"

definition esphome_prober :: "outside \<Rightarrow> Config \<Rightarrow> World prober" where
  "esphome_prober ou cfg dev w =
     (case ESPHome_Probe (ou_addr ou) (cfg_ESPHome cfg) (cfg_Metrics cfg) (wo_families w) (wo_descs w) (ou_now1 ou)
             (dev_ID dev) (snapshotOf (dev_ID dev) (wo_manager w)) of
        (ms, res, _) \<Rightarrow> (Some (ms, res), w))"

definition probers :: "outside \<Rightarrow> Config \<Rightarrow> kind \<Rightarrow> World prober option" where
  "probers ou cfg kind =
     (if kind = KindShelly then Some (shelly_prober ou)
      else if kind = KindESPHome then Some (esphome_prober ou cfg) else None)"

text \<open>
  A request for a probe: the handler with the runner behind it, wrapped as the server wraps it.  The
  result of the wrapped handler is \<open>None\<close> while the handler panics.
\<close>

record request =
  rq_snapshot :: "Snapshot option"
  rq_target :: string
  rq_timeout :: "float64 option"
  rq_env :: "Metric env"
  rq_outside :: outside
  rq_took :: duration
  rq_running :: nat

definition serve_probe ::
  "(float64 \<Rightarrow> duration) \<Rightarrow> Config \<Rightarrow> request \<Rightarrow> World \<times> Metric Limiter
     \<Rightarrow> sample list reply \<times> ScrapeResult list \<times> (World \<times> Metric Limiter)" where
  "serve_probe conv cfg rq st =
     (let run = (\<lambda>budget dev (reports, st). case runner_Run (probers (rq_outside rq) cfg) (rq_env rq) dev st of
                   (Some (ms, res, remaining), rs, st') \<Rightarrow> ((ms, res, remaining, rq_took rq), (Some rs, st'))
                 | (None, rs, st') \<Rightarrow> (([], Success 0, 0, rq_took rq), (None, st')));
          maxRequests = srv_MaxRequests (cfg_Server cfg)
      in if 0 < maxRequests \<and> maxRequests \<le> int (rq_running rq)
         then (serve maxRequests (rq_running rq) None, [], st)
         else case probeHandler conv (cfg_Probe cfg) run (rq_snapshot rq) (rq_target rq) (rq_timeout rq) (Some [], st) of
                (reply, (Some rs, st')) \<Rightarrow> (serve maxRequests (rq_running rq) (Some reply), rs, st')
              | (_, (None, st')) \<Rightarrow> (serve maxRequests (rq_running rq) None, [], st'))"

end
