(* ===== verification/AppProps.thy ===== *)
theory AppProps
  imports App ConfigProps
begin

text \<open>
  The properties of a request for a probe across the handler, the gate and the collectors: what a
  scrape reports of a failure, what an unknown target does, and the budget a probe gets.
\<close>

section \<open>What the server declares\<close>

text \<open>Every sample of a probe that is the exporter's own has a descriptor, with as many values as the
  descriptor has labels: the constructor of a sample panics otherwise.\<close>

lemma probe_samples_declared:
  "\<forall>x \<in> set (Collect_probe c). case x of
     Gauge n label v \<Rightarrow> \<exists>help labels. (n, help, labels) \<in> set probe_descs \<and> length labels = (case label of None \<Rightarrow> 0 | Some _ \<Rightarrow> 1)
   | DeviceSample _ \<Rightarrow> True"
  by (auto simp: Collect_probe_def probe_descs_def)

text \<open>No pattern is registered twice, which the multiplexer would answer with a panic.\<close>

lemma routes_distinct: "distinct (map fst (hs_Routes (NewServer cfg opts)))"
  by (cases "op_Devices opts"; cases "op_Runner opts"; cases "op_ExporterMetrics opts"; cases "op_Handler opts";
      cases "srv_Pprof cfg"; simp add: NewServer_def routes_def)

section \<open>Honest outcomes\<close>

definition honest :: "Result \<Rightarrow> bool" where
  "honest res \<longleftrightarrow> (res_Success res \<longleftrightarrow> res_Reason res = ReasonNone)"

lemma honest_simps [simp]: "honest (Success n)" "honest (Fail r n) \<longleftrightarrow> r \<noteq> ReasonNone"
  by (auto simp: honest_def Success_def Fail_def)

definition cache_honest :: "Metric Limiter \<Rightarrow> bool" where
  "cache_honest l \<longleftrightarrow> (\<forall>d c. lm_cache l d = Some c \<longrightarrow> honest (cr_result c))"

text \<open>The contract of a collector: what it says of a probe is a success or names a reason.\<close>

locale honest_prober =
  fixes probe :: "'w prober"
  assumes outcome_honest: "fst (probe dev w) = Some (ms, res) \<Longrightarrow> honest res"
begin

lemma fn_honest: "honest (fst (snd (probe_fn probe dev w)))"
  using outcome_honest [of dev w] by (auto simp: probe_fn_def split: prod.split option.split)

lemma flight_honest:
  assumes "flight e d (probe_fn probe dev) w l = (ms, res, w', l')" "cache_honest l"
  shows "honest res \<and> cache_honest l'"
proof -
  have "honest (fst (snd (probe_fn probe dev w)))" by (rule fn_honest)
  with assms show ?thesis
    by (auto simp: flight_def cache_honest_def store_cache_def countSkip_def Let_def split: prod.splits if_splits)
qed

lemma Do_honest:
  assumes "Do e d (probe_fn probe dev) w l = (ms, res, remaining, w', l')" "cache_honest l"
    and "\<And>ms res. env_joined e = Some (ms, res) \<Longrightarrow> honest res"
  shows "honest res \<and> cache_honest l'"
proof -
  obtain ms1 res1 w1 l1 where f: "flight e d (probe_fn probe dev) w l = (ms1, res1, w1, l1)"
    by (cases "flight e d (probe_fn probe dev) w l")
  have share: "cache_honest (count_shared b k) = cache_honest k" for b k
    by (simp add: count_shared_def cache_honest_def)
  have skip: "cache_honest (countSkip r k) = cache_honest k" for r k
    by (simp add: countSkip_def cache_honest_def)
  have cached: "honest (cr_result c)" if "lookup_cache t d l = Some c" for t c
    using assms(2) that by (auto simp: lookup_cache_def cache_honest_def split: option.splits if_splits)
  have res: "env_joined e = Some (ms2, res2) \<Longrightarrow> honest res2" for ms2 res2 by (rule assms(3))
  show ?thesis
    using assms(1,2) flight_honest [OF f assms(2)] res
    by (auto simp: Do_def f share skip split: prod.splits if_splits option.splits intro: cached)
qed

end

lemma classify_reason: "classify (Some err) \<noteq> ReasonNone"
  by (simp add: classify_def split: option.split)

lemma collect_status_honest: "honest (snd (fst (collect_status net cd client dev gen l e c)))"
  by (simp add: collect_status_def classify_reason split: prod.split sum.split option.split)

lemma Shelly_Probe_honest:
  assumes "fst (Shelly_Probe addrString glob net cd now1 now2 dev c) = Some (ms, res)"
  shows "honest res"
proof -
  have "honest res" if "fst (probe_identified addrString glob net cd now2 dev addr i c1) = Some (ms, res)" for addr i c1
    using that collect_status_honest
    by (auto simp: probe_identified_def Let_def apfst_def map_prod_def split: prod.splits option.splits)
       (metis fst_conv snd_conv)+
  then show ?thesis
    using assms by (auto simp: Shelly_Probe_def classify_reason split: option.splits prod.splits sum.splits if_splits)
qed

interpretation shelly: honest_prober "shelly_prober ou" for ou
proof
  show "fst (shelly_prober ou dev w) = Some (ms, res) \<Longrightarrow> honest res" for dev w ms res
    using Shelly_Probe_honest by (auto simp: shelly_prober_def split: prod.splits) (metis fst_conv)
qed

interpretation esphome: honest_prober "esphome_prober ou cfg" for ou cfg
  by unfold_locales
     (auto simp: esphome_prober_def ESPHome_Probe_def Let_def split: prod.splits option.splits if_splits)

section \<open>The gate in the exporter\<close>

text \<open>
  The state every request meets: the collectors and the limiter.  Between requests the collectors move
  on by themselves, and a device's records may be dropped.
\<close>

datatype gate_msg = GProbe "float64 \<Rightarrow> duration" Config request | GWorld World | GForget string

fun gate_step :: "gate_msg \<Rightarrow> World \<times> Metric Limiter \<Rightarrow> World \<times> Metric Limiter" where
  "gate_step (GProbe conv cfg rq) st = snd (snd (serve_probe conv cfg rq st))"
| "gate_step (GWorld w) st = (w, snd st)"
| "gate_step (GForget d) st = (fst st, Limiter_Forget d (snd st))"

definition gate_start :: "World \<times> Metric Limiter \<Rightarrow> bool" where
  "gate_start st \<longleftrightarrow> (\<exists>w cfg. st = (w, NewLimiter cfg))"

text \<open>A flight that a call joins is a call of its own.\<close>

definition joins_honest :: "Metric env \<Rightarrow> bool" where
  "joins_honest e \<longleftrightarrow> (case env_joined e of Some (ms, res) \<Rightarrow> honest res | None \<Rightarrow> True)"

fun gate_ok :: "gate_msg \<Rightarrow> World \<times> Metric Limiter \<Rightarrow> bool" where
  "gate_ok (GProbe conv cfg rq) st = joins_honest (rq_env rq)"
| "gate_ok _ st = True"

lemma runner_honest:
  assumes "runner_Run (probers ou cfg) e dev (w, l) = (out, reports, st')" "cache_honest l" "joins_honest e"
  shows "cache_honest (snd st') \<and> (case out of Some (ms, res, remaining) \<Rightarrow> honest res | None \<Rightarrow> True)"
proof -
  have joined: "honest res" if "env_joined e = Some (ms, res)" for ms res
    using assms(3) that by (simp add: joins_honest_def)
  have did: "honest res \<and> cache_honest l'"
    if "probers ou cfg (dev_Kind dev) = Some probe"
      "Do e (dev_ID dev) (probe_fn probe dev) w l = (ms, res, remaining, w', l')" for probe ms res remaining w' l'
    using that shelly.Do_honest [OF _ assms(2) joined] esphome.Do_honest [OF _ assms(2) joined]
    by (auto simp: probers_def split: if_splits)
  show ?thesis
    using assms(1,2) did
    by (auto simp: runner_Run_def split: option.splits if_splits prod.splits)
qed

text \<open>What the samples say: whether the probe succeeded, and the reasons at one.\<close>

definition success_said :: "sample list \<Rightarrow> float64 list" where
  "success_said ss = List.map_filter (\<lambda>s. case s of
     Gauge n None v \<Rightarrow> if n = ''probe_success'' then Some v else None | _ \<Rightarrow> None) ss"

definition reasons_said :: "sample list \<Rightarrow> string list" where
  "reasons_said ss = List.map_filter (\<lambda>s. case s of
     Gauge n (Some r) v \<Rightarrow> if n = ''probe_failure_reason'' \<and> v = Fin 1 then Some r else None | _ \<Rightarrow> None) ss"

lemmas said_defs = success_said_def reasons_said_def List.map_filter_def

lemma said_append [simp]:
  "success_said (xs @ ys) = success_said xs @ success_said ys"
  "reasons_said (xs @ ys) = reasons_said xs @ reasons_said ys"
  by (simp_all add: said_defs)

lemma said_device [simp]: "success_said (map DeviceSample ms) = []" "reasons_said (map DeviceSample ms) = []"
  by (simp_all add: said_defs)

lemma said_reasons:
  "reasons_said (map (\<lambda>reason. Gauge ''probe_failure_reason'' (Some (reason_string reason)) (boolValue (r = reason))) rs)
     = map reason_string (filter (\<lambda>reason. r = reason) rs)"
  "success_said (map (\<lambda>reason. Gauge ''probe_failure_reason'' (Some (reason_string reason)) (boolValue (r = reason))) rs) = []"
  by (simp_all add: said_defs boolValue_def filter_map comp_def)

lemma reason_listed: "filter (\<lambda>reason. r = reason) AllReasons = (if r = ReasonNone then [] else [r])"
  by (cases r) (simp_all add: AllReasons_def)

lemma Collect_says:
  assumes "honest (pb_result c)"
  shows "success_said (Collect_probe c) = [boolValue (res_Success (pb_result c))]
    \<and> reasons_said (Collect_probe c)
        = (if res_Success (pb_result c) then [] else [reason_string (res_Reason (pb_result c))])"
  unfolding Collect_probe_def said_append said_reasons reason_listed
  using assms by (simp add: said_defs honest_def boolValue_def)

lemma serve_probe_says:
  assumes "serve_probe conv cfg rq (w, l) = (reply, reports, st')" "cache_honest l" "joins_honest (rq_env rq)"
  shows "cache_honest (snd st') \<and> (case reply of
      OK ss \<Rightarrow> \<exists>r. (r = ReasonNone \<longrightarrow> success_said ss = [Fin 1] \<and> reasons_said ss = [])
        \<and> (r \<noteq> ReasonNone \<longrightarrow> success_said ss = [Fin 0] \<and> reasons_said ss = [reason_string r])
    | HTTPError code _ \<Rightarrow> code \<in> {400, 404, 500, 503})"
proof (cases "0 < srv_MaxRequests (cfg_Server cfg) \<and> srv_MaxRequests (cfg_Server cfg) \<le> int (rq_running rq)")
  case True
  then show ?thesis using assms(1,2) by (auto simp: serve_probe_def Let_def serve_def)
next
  case False
  show ?thesis
  proof (cases "rq_target rq = [] \<or> Snapshot_Get (rq_snapshot rq) (rq_target rq) = None")
    case True
    then show ?thesis
      using assms(1,2) \<open>\<not> (0 < _ \<and> _)\<close>
      by (cases "rq_target rq = []";
          force simp: serve_probe_def Let_def probeHandler_def serve_def recoverMiddleware_def)
  next
    case target: False
    then obtain dev where dev: "Snapshot_Get (rq_snapshot rq) (rq_target rq) = Some dev" by auto
    obtain out rs st1 where run: "runner_Run (probers (rq_outside rq) cfg) (rq_env rq) dev (w, l) = (out, rs, st1)"
      by (cases "runner_Run (probers (rq_outside rq) cfg) (rq_env rq) dev (w, l)")
    note h = runner_honest [OF run assms(2,3)]
    show ?thesis
    proof (cases out)
      case None
      then show ?thesis
        using assms(1) False target h
        by (auto simp: serve_probe_def Let_def probeHandler_def dev run serve_def recoverMiddleware_def)
    next
      case (Some o')
      obtain ms res remaining where o': "o' = (ms, res, remaining)" by (cases o')
      have "honest res" using h by (simp add: Some o')
      then show ?thesis
        using assms(1) False target h
        by (auto simp: serve_probe_def Let_def probeHandler_def dev run Some o' serve_def recoverMiddleware_def
            Collect_says honest_def boolValue_def intro: exI [of _ "res_Reason res"])
    qed
  qed
qed

interpretation gate: machine gate_start gate_step gate_ok "\<lambda>st. cache_honest (snd st)"
proof
  show "gate_start st \<Longrightarrow> cache_honest (snd st)" for st
    by (auto simp: gate_start_def cache_honest_def NewLimiter_def)
  show "cache_honest (snd (gate_step m st))" if inv: "cache_honest (snd st)" and "gate_ok m st" for m st
  proof (cases m)
    case (GProbe conv cfg rq)
    obtain reply reports st' where s: "serve_probe conv cfg rq (fst st, snd st) = (reply, reports, st')"
      by (cases "serve_probe conv cfg rq (fst st, snd st)")
    show ?thesis using serve_probe_says [OF s inv] that(2) s by (simp add: GProbe)
  qed (use inv in \<open>auto simp: cache_honest_def Limiter_Forget_def\<close>)
qed

text \<open>C4. A scrape tells why: whatever the devices answer and whatever the collectors, the cache and the
  gate went through before, a probe that is reported failed has exactly one reason at one, a
  successful one has none, and a request that gets no report is refused with one of four codes.\<close>

theorem failed_probe_has_one_reason:
  assumes "gate.reachable (w, l)" "joins_honest (rq_env rq)"
  shows "case fst (serve_probe conv cfg rq (w, l)) of
      OK ss \<Rightarrow> (success_said ss = [Fin 1] \<and> reasons_said ss = [])
        \<or> (success_said ss = [Fin 0] \<and> (\<exists>r \<in> set AllReasons. reasons_said ss = [reason_string r]))
    | HTTPError code _ \<Rightarrow> code \<in> {400, 404, 500, 503}"
proof -
  obtain reply reports st' where s: "serve_probe conv cfg rq (w, l) = (reply, reports, st')"
    by (cases "serve_probe conv cfg rq (w, l)")
  have "cache_honest l" using gate.reachable_invar [OF assms(1)] by simp
  note says = serve_probe_says [OF s this assms(2)]
  have listed: "r = ReasonNone \<or> r \<in> set AllReasons" for r by (cases r) (simp_all add: AllReasons_def)
  show ?thesis
  proof (cases reply)
    case (OK ss)
    then obtain r where "r = ReasonNone \<longrightarrow> success_said ss = [Fin 1] \<and> reasons_said ss = []"
      "r \<noteq> ReasonNone \<longrightarrow> success_said ss = [Fin 0] \<and> reasons_said ss = [reason_string r]"
      using says by auto
    then show ?thesis using listed [of r] by (auto simp: s OK)
  qed (use says in \<open>simp add: s\<close>)
qed

definition lost_dev :: Device where
  "lost_dev = \<lparr>dev_ID = ''mac:a8032ab12345'', dev_Kind = ''shelly'', dev_Name = ''d'', dev_Hostname = [],
     dev_Addrs = [], dev_RejectedAddrs = [], dev_Port = 80, dev_TXT = Map.empty, dev_FirstSeen = 1, dev_LastSeen = 1,
     dev_Static = False, dev_Epoch = 1, dev_Unverified = False\<rparr>"

definition ex_world :: World where
  "ex_world = \<lparr>wo_shelly = NewShelly (cfg_Shelly Default) Map.empty, wo_manager = NewManager (cfg_ESPHome Default),
     wo_families = Map.empty, wo_descs = Map.empty\<rparr>"

definition ex_request :: request where
  "ex_request = \<lparr>rq_snapshot = Some (newSnapshot 5 [lost_dev]), rq_target = ''mac:a8032ab12345'', rq_timeout = Some (Fin 10),
     rq_env = \<lparr>env_allow = 5, env_lookup = 5, env_record = 5, env_store = 5, env_rand = 0, env_token = True,
                env_joined = None, env_dups = False\<rparr>,
     rq_outside = \<lparr>ou_addr = (\<lambda>_. []), ou_glob = (\<lambda>_ _. None), ou_net = (\<lambda>_ _ _ _. Response 200 (Inr [])),
                ou_codec = \<lparr>dec_shelly = (\<lambda>_. Inl []), dec_json = (\<lambda>_. None), dec_gen1 = (\<lambda>_. None), dec_settings = (\<lambda>_. None)\<rparr>,
                ou_now1 = 5, ou_now2 = 6\<rparr>,
     rq_took = 1, rq_running = 0\<rparr>"

lemma lost_dev_found: "Snapshot_Get (rq_snapshot ex_request) (rq_target ex_request) = Some lost_dev"
  by (simp add: ex_request_def Snapshot_Get_def newSnapshot_def Let_def sort_devices_def index_by_id_def lost_dev_def)

lemma ex_gate_reachable: "gate.reachable (ex_world, NewLimiter (cfg_Probe Default))"
  by (rule gate.reachable.start) (auto simp: gate_start_def)

lemma lost_dev_probe:
  "\<exists>ss. fst (serve_probe conv Default ex_request (ex_world, NewLimiter (cfg_Probe Default))) = OK ss \<and> success_said ss = [Fin 0]"
proof -
  have "reply_ok = OK (Collect_probe \<lparr>pb_metrics = [], pb_result = Fail ReasonNoAddress 0, pb_duration = 1, pb_backoffRemaining = 0\<rparr>)"
    if "reply_ok = fst (serve_probe conv Default ex_request (ex_world, NewLimiter (cfg_Probe Default)))" for reply_ok
    using lost_dev_found
    by (simp add: that serve_probe_def Let_def probeHandler_def serve_def recoverMiddleware_def runner_Run_def
        probers_def shelly_prober_def reaches_device_def probe_fn_def Do_def flight_def Shelly_Probe_def Primary_def
        Allow_def NewLimiter_def NewBackoff_def lookup_cache_def KindShelly_def Default_def ex_request_def lost_dev_def
        ex_world_def)
  then show ?thesis by (simp add: Collect_says Fail_def boolValue_def honest_def)
qed

theorem failed_probe_has_one_reason_witness:
  "case fst (serve_probe (\<lambda>_. 0) Default ex_request (ex_world, NewLimiter (cfg_Probe Default))) of
      OK ss \<Rightarrow> success_said ss = [Fin 0] \<and> (\<exists>r \<in> set AllReasons. reasons_said ss = [reason_string r])
    | HTTPError code _ \<Rightarrow> False"
proof -
  have "joins_honest (rq_env ex_request)" by (simp add: joins_honest_def ex_request_def)
  from failed_probe_has_one_reason [OF ex_gate_reachable this, of "\<lambda>_. 0" Default] lost_dev_probe [of "\<lambda>_. 0"]
  show ?thesis by auto
qed

section \<open>Unknown targets and budgets\<close>

text \<open>A request for a target that is not in the snapshot, or for none, contacts nothing and reports nothing.\<close>

lemma unknown_target_contacts_nothing:
  assumes "Snapshot_Get (rq_snapshot rq) (rq_target rq) = None"
  shows "\<exists>code msg. serve_probe conv cfg rq st = (HTTPError code msg, [], st) \<and> code \<in> {400, 404, 503}"
  using assms by (auto simp: serve_probe_def probeHandler_def Let_def serve_def recoverMiddleware_def)

lemma loaded_limits:
  assumes "finish_load readFile parsePrefix parseAddr parseURL c0 = Inr c"
  shows "pc_MinTimeout (cfg_Probe c) \<le> pc_MaxTimeout (cfg_Probe c)"
proof -
  have "Validate parsePrefix parseAddr parseURL c = []"
    using assms by (auto simp: finish_load_def Let_def split: sum.splits if_splits)
  then show ?thesis using check_probe_ok [OF Validate_parts(6)] by blast
qed

text \<open>A probe ends before the scrape does: with a configuration that loads the budget stays within
  its two limits whatever the header says, and never exceeds the declared timeout less the offset
  where the lower limit leaves that much.\<close>

theorem probe_budget_leaves_room:
  assumes "finish_load readFile parsePrefix parseAddr parseURL c0 = Inr c"
    and "header = Some (Fin x) \<Longrightarrow> 0 < x \<Longrightarrow> x * real_of_int second < 2 ^ 63"
  shows "pc_MinTimeout (cfg_Probe c) \<le> scrapeTimeout conv header (cfg_Probe c)
    \<and> scrapeTimeout conv header (cfg_Probe c) \<le> pc_MaxTimeout (cfg_Probe c)
    \<and> (header = Some (Fin x) \<and> 0 < x \<longrightarrow>
         real_of_int (scrapeTimeout conv header (cfg_Probe c))
           \<le> max (x * real_of_int second - real_of_int (pc_TimeoutOffset (cfg_Probe c))) (real_of_int (pc_MinTimeout (cfg_Probe c))))"
proof -
  have range: "pc_MinTimeout (cfg_Probe c) \<le> pc_MaxTimeout (cfg_Probe c)"
    using loaded_limits [OF assms(1)] by simp
  have floor: "real_of_int (real_duration conv (Fin x)) \<le> x * real_of_int second"
    if "0 < x" "x * real_of_int second < 2 ^ 63"
  proof -
    have "0 < x * real_of_int second" using that(1) by (simp add: second_def)
    moreover from this have "- (2 ^ 63) \<le> x * real_of_int second" by simp
    ultimately show ?thesis using that(2) by (simp add: real_duration_def Let_def truncate_dur_def)
  qed
  show ?thesis
    using range assms(2) floor by (auto simp: scrapeTimeout_def Let_def float_positive_def)
qed

theorem probe_budget_leaves_room_witness:
  "real_of_int (scrapeTimeout (\<lambda>_. 0) (Some (Fin 10)) (cfg_Probe Default)) \<le> 9.5 * 10 ^ 9"
proof -
  have "finish_load (\<lambda>_. None) (\<lambda>_. True) (\<lambda>_. True) (\<lambda>_. None) Default = Inr Default"
    by (simp add: finish_load_def Default_resolves Default_valid Let_def)
  from probe_budget_leaves_room [OF this, of "Some (Fin 10)" 10 "\<lambda>_. 0"]
  show ?thesis by (simp add: Default_def second_def millisecond_def)
qed

section \<open>The number of requests\<close>

text \<open>The semaphore of the server never admits more than its limit, and frees what it admitted.\<close>

definition inflight_inv :: "inflight \<Rightarrow> bool" where
  "inflight_inv s \<longleftrightarrow> if_running s \<le> if_limit s"

definition inflight_ok :: "request_msg \<Rightarrow> inflight \<Rightarrow> bool" where
  "inflight_ok m s \<longleftrightarrow> (m = Leave \<longrightarrow> 0 < if_running s)"

interpretation requests: machine "\<lambda>s. if_running s = 0" limitInFlight inflight_ok inflight_inv
proof
  show "inflight_inv s \<Longrightarrow> inflight_ok m s \<Longrightarrow> inflight_inv (limitInFlight m s)" for s m
    by (cases m) (auto simp: inflight_inv_def)
qed (simp add: inflight_inv_def)

lemma refused_only_when_full:
  assumes "requests.reachable s"
  shows "if_running s \<le> if_limit s
    \<and> (if_refused (limitInFlight Arrive s) = Suc (if_refused s) \<longleftrightarrow> if_running s = if_limit s)"
  using requests.reachable_invar [OF assms] by (simp add: inflight_inv_def)

end
