(* ===== verification/AppWiring.thy ===== *)
theory AppWiring
  imports App CloudClient
begin

text \<open>
  \<^verbatim>\<open>internal/app/app.go\<close>, \<^verbatim>\<open>internal/metrics/self.go\<close> and the entry
  point: the construction of the backends, readiness, the start of discovery, and the sampling of the
  exporter's own metrics.  A series of a metric vector is a function of its label values; a counter is
  a natural number.
\<close>

section \<open>The backends\<close>

datatype backend =
    StaticBackend StaticSource
  | ZeroconfBackend "string list"
  | CloudBackend CloudSource
  | AvahiBackend AvahiConfig "string list"

datatype app_error = AppPolicyError string | AppCloudError new_error | AppStaticError static_error | UnknownSource string

record App =
  ap_cfg :: Config
  ap_cloud :: "CloudClient option"
  ap_avahi :: "AvahiConfig option"     \<comment> \<open>the configuration the Avahi backend was built with\<close>
  ap_hasStatic :: bool
  ap_names :: "NameStore option"
  ap_backends :: "backend list"

text \<open>What third-party parsers make of addresses, and of the URL of the cloud server.\<close>

record parsers =
  ps_addr :: "string \<Rightarrow> netip_addr option"
  ps_url :: "string \<Rightarrow> (string \<times> string) option"
  ps_prefix :: "string \<Rightarrow> string + netip_prefix"

definition cloudClient :: "parsers \<Rightarrow> App \<Rightarrow> app_error + CloudClient \<times> App" where
  "cloudClient ps a =
     (case ap_cloud a of
        Some c \<Rightarrow> Inr (c, a)
      | None \<Rightarrow>
          (let c = sh_Cloud (cfg_Shelly (ap_cfg a))
           in case NewClient (ps_url ps) (sc_Server c) (Reveal (sc_AuthKey c)) (sc_Timeout c) of
                Inl err \<Rightarrow> Inl (AppCloudError err)
              | Inr client \<Rightarrow> Inr (client, a\<lparr>ap_cloud := Some client\<rparr>)))"

definition add_backend :: "backend \<Rightarrow> App \<Rightarrow> App" where
  "add_backend b a = a\<lparr>ap_backends := ap_backends a @ [b]\<rparr>"

definition build_source :: "parsers \<Rightarrow> string \<Rightarrow> App \<Rightarrow> app_error + App" where
  "build_source ps source a =
     (let d = cfg_Discovery (ap_cfg a)
      in if source = static_name
         then (if dc_Static d = [] then Inr a
               else case NewStatic (ps_addr ps) (dc_Static d) (rc_RefreshInterval (cfg_Registry (ap_cfg a))) of
                      Inl err \<Rightarrow> Inl (AppStaticError err)
                    | Inr s \<Rightarrow> Inr ((add_backend (StaticBackend s) a)\<lparr>ap_hasStatic := True\<rparr>))
         else if source = zeroconf_name then Inr (add_backend (ZeroconfBackend (dc_ServiceTypes d)) a)
         else if source = cloud_source_name
         then (case cloudClient ps a of
                 Inl err \<Rightarrow> Inl err
               | Inr (client, a') \<Rightarrow>
                   (let sc = dc_ShellyCloud d
                    in Inr (add_backend (CloudBackend (NewCloudSource (cd_Interval sc) (cd_IncludeOffline sc))) a')))
         else if source = ''avahi''
         then Inr ((add_backend (AvahiBackend (dc_Avahi d) (dc_ServiceTypes d)) a)\<lparr>ap_avahi := Some (dc_Avahi d)\<rparr>)
         else Inl (UnknownSource source))"

fun build_sources :: "parsers \<Rightarrow> string list \<Rightarrow> App \<Rightarrow> app_error + App" where
  "build_sources ps [] a = Inr a"
| "build_sources ps (s # ss) a = (case build_source ps s a of Inl err \<Rightarrow> Inl err | Inr a' \<Rightarrow> build_sources ps ss a')"

definition relax_avahi :: "App \<Rightarrow> App" where
  "relax_avahi a =
     (if ap_avahi a \<noteq> None \<and> 1 < length (ap_backends a)
      then a\<lparr>ap_cfg := (ap_cfg a)\<lparr>cfg_Discovery := (cfg_Discovery (ap_cfg a))\<lparr>dc_Avahi :=
             (dc_Avahi (cfg_Discovery (ap_cfg a)))\<lparr>av_Required := False\<rparr>\<rparr>\<rparr>\<rparr>
      else a)"

definition buildBackends :: "parsers \<Rightarrow> App \<Rightarrow> app_error + App" where
  "buildBackends ps a =
     (case build_sources ps (dc_Sources (cfg_Discovery (ap_cfg a))) a of
        Inl err \<Rightarrow> Inl err
      | Inr a' \<Rightarrow> Inr (relax_avahi a'))"

text \<open>\<^verbatim>\<open>New\<close>: the parts of the application that can fail to build, in order.\<close>

definition NewApp :: "parsers \<Rightarrow> Config \<Rightarrow> app_error + App" where
  "NewApp ps cfg =
     (let d = cfg_Discovery cfg
      in case NewAddressPolicy (ps_prefix ps) (dc_IPv6 d) (dc_AllowCIDRs d) (dc_DenyCIDRs d) of
           Inl err \<Rightarrow> Inl (AppPolicyError err)
         | Inr policy \<Rightarrow>
             (let a = \<lparr>ap_cfg = cfg, ap_cloud = None, ap_avahi = None, ap_hasStatic = False, ap_names = None, ap_backends = []\<rparr>
              in if sc_Names (sh_Cloud (cfg_Shelly cfg))
                 then case cloudClient ps a of
                        Inl err \<Rightarrow> Inl err
                      | Inr (client, a') \<Rightarrow>
                          buildBackends ps (a'\<lparr>ap_names := Some (NewNameStore (sc_RefreshInterval (sh_Cloud (cfg_Shelly cfg))))\<rparr>)
                 else buildBackends ps a))"

section \<open>Readiness and the start of discovery\<close>

definition ready :: "Snapshot option \<Rightarrow> bool \<Rightarrow> Health list \<Rightarrow> bool \<times> string" where
  "ready snap hasStatic healths =
     (if 0 < Snapshot_Len snap then (True, [])
      else if hasStatic then (True, [])
      else if list_ex hl_Up healths then (True, [])
      else (False, ''no discovery backend is up and no devices are known''))"

definition cloudNamesStartupWait :: duration where "cloudNamesStartupWait = 30 * second"

text \<open>
  How long discovery is held back, given when the first refresh of the names finishes and when the
  context ends, counted from the start.
\<close>

definition awaitCloudNames :: "bool \<Rightarrow> duration option \<Rightarrow> duration option \<Rightarrow> duration" where
  "awaitCloudNames names loaded ended =
     (if \<not> names then 0
      else let upto = (\<lambda>d. case d of Some t \<Rightarrow> max 0 t | None \<Rightarrow> cloudNamesStartupWait)
           in min cloudNamesStartupWait (min (upto loaded) (upto ended)))"

section \<open>The exporter's own metrics\<close>

text \<open>One counter vector beside the baselines of the totals it was advanced to.\<close>

type_synonym sampled = "(string \<Rightarrow> nat option) \<times> (string \<Rightarrow> nat)"

definition add_delta :: "string \<times> nat \<Rightarrow> sampled \<Rightarrow> sampled" where
  "add_delta kt s =
     (case (kt, s) of ((k, tot), (baseline, vec)) \<Rightarrow>
        (case baseline k of
           None \<Rightarrow> (baseline(k \<mapsto> tot), vec(k := vec k + tot))
         | Some prev \<Rightarrow>
             (if prev < tot then (baseline(k \<mapsto> tot), vec(k := vec k + (tot - prev))) else s)))"

definition addDelta :: "(string \<times> nat) list \<Rightarrow> sampled \<Rightarrow> sampled" where
  "addDelta current s = foldl (\<lambda>s kt. add_delta kt s) s current"

definition device_state :: "time \<Rightarrow> duration \<Rightarrow> Device \<Rightarrow> string" where
  "device_state now staleAfter d =
     (if Stale d now staleAfter then ''stale'' else if dev_Unverified d then ''unverified'' else ''active'')"

definition count_devices :: "time \<Rightarrow> duration \<Rightarrow> Device list \<Rightarrow> string \<times> string \<Rightarrow> nat" where
  "count_devices now staleAfter ds =
     foldl (\<lambda>counts d. let k = (dev_Kind d, device_state now staleAfter d) in counts(k := Suc (counts k))) (\<lambda>_. 0) ds"

record SelfMetrics =
  sf_RegistryDevices :: "string \<times> string \<Rightarrow> nat"
  sf_SourceUp :: "string \<Rightarrow> bool option"
  sf_LastSeen :: "string \<Rightarrow> time option"
  sf_AvahiUp :: bool
  sf_AvahiResolvers :: int
  sf_NamesUp :: bool
  sf_NamesLastSuccess :: "time option"
  sf_InFlight :: int
  sf_Backoff :: nat
  sf_IdentityCache :: nat
  sf_Unknown :: sampled
  sf_Skipped :: sampled
  sf_Shared :: "int \<times> int"          \<comment> \<open>the last total and the counter\<close>
  sf_Probes :: "string \<times> string \<Rightarrow> nat"
  sf_ProbeErrors :: "string \<times> string \<Rightarrow> nat"
  sf_ProbeDuration :: "string \<Rightarrow> duration list"      \<comment> \<open>what the histogram of a kind observed\<close>

definition ObserveProbe :: "kind \<Rightarrow> Result \<Rightarrow> duration \<Rightarrow> SelfMetrics \<Rightarrow> SelfMetrics" where
  "ObserveProbe kind res d m =
     (let result = (if res_Success res then ''success'' else ''failure'');
          reason = reason_string (res_Reason res);
          m1 = m\<lparr>sf_Probes := (sf_Probes m)((kind, result) := Suc (sf_Probes m (kind, result))),
                 sf_ProbeDuration := (sf_ProbeDuration m)(kind := sf_ProbeDuration m kind @ [d])\<rparr>
      in if \<not> res_Success res \<and> reason \<noteq> []
         then m1\<lparr>sf_ProbeErrors := (sf_ProbeErrors m1)((kind, reason) := Suc (sf_ProbeErrors m1 (kind, reason)))\<rparr>
         else m1)"

definition sample_source :: "string \<times> Health \<Rightarrow> SelfMetrics \<Rightarrow> SelfMetrics" where
  "sample_source nh m =
     (case nh of (n, h) \<Rightarrow>
        (let m1 = m\<lparr>sf_SourceUp := (sf_SourceUp m)(n \<mapsto> hl_Up h)\<rparr>
         in if \<not> is_zero (hl_LastEventAt h) then m1\<lparr>sf_LastSeen := (sf_LastSeen m1)(n \<mapsto> hl_LastEventAt h)\<rparr> else m1))"

text \<open>What one tick samples.  The totals of the maps come in some order.\<close>

record observed =
  ob_snapshot :: "Snapshot option"
  ob_now :: time
  ob_sources :: "(string \<times> Health) list"
  ob_avahi :: "(Health \<times> int) option"
  ob_names :: "NameStore option"
  ob_limiter :: "Metric Limiter"
  ob_shelly :: ShellyCollector
  ob_unknown :: "(string \<times> nat) list"
  ob_skipped :: "(string \<times> nat) list"

definition refreshSelfMetrics :: "Config \<Rightarrow> observed \<Rightarrow> SelfMetrics \<Rightarrow> SelfMetrics" where
  "refreshSelfMetrics cfg ob m0 =
     (let m1 = m0\<lparr>sf_RegistryDevices := count_devices (ob_now ob) (dc_StaleAfter (cfg_Discovery cfg))
                    (case ob_snapshot ob of Some s \<Rightarrow> sn_Devices s | None \<Rightarrow> [])\<rparr>;
          m2 = foldl (\<lambda>m nh. sample_source nh m) m1 (ob_sources ob);
          m3 = (case ob_avahi ob of
                  Some (h, resolvers) \<Rightarrow> m2\<lparr>sf_AvahiUp := hl_Up h, sf_AvahiResolvers := resolvers\<rparr>
                | None \<Rightarrow> m2);
          m4 = (case ob_names ob of
                  None \<Rightarrow> m3
                | Some store \<Rightarrow>
                    (case NameStore_Health store of (ok, lastOK) \<Rightarrow>
                       (let m = m3\<lparr>sf_NamesUp := ok\<rparr>
                        in if \<not> is_zero lastOK then m\<lparr>sf_NamesLastSuccess := Some lastOK\<rparr> else m)));
          m5 = m4\<lparr>sf_InFlight := lm_inFlight (ob_limiter ob), sf_Backoff := Open (ob_now ob) (lm_backoff (ob_limiter ob)),
                  sf_IdentityCache := identity_len (cl_identities (ob_shelly ob)),
                  sf_Unknown := addDelta (ob_unknown ob) (sf_Unknown m4),
                  sf_Skipped := addDelta (ob_skipped ob) (sf_Skipped m4)\<rparr>;
          shared = lm_shared (ob_limiter ob)
      in case sf_Shared m5 of (lastShared, tot) \<Rightarrow>
           (if lastShared < shared then m5\<lparr>sf_Shared := (shared, tot + (shared - lastShared))\<rparr> else m5))"

text \<open>The same tick tells the ESPHome manager which devices there are.\<close>

definition tick_manager :: "(netip_addr \<Rightarrow> string) \<Rightarrow> (nat \<Rightarrow> bool) \<Rightarrow> Snapshot option \<Rightarrow> Manager \<Rightarrow> Manager" where
  "tick_manager addrString exits snap m = Sync addrString exits (Snapshot_List snap KindESPHome) m"

section \<open>The entry point\<close>

text \<open>Flags are the last layer of the configuration; an empty one changes nothing.\<close>

definition apply_flags :: "string \<Rightarrow> string \<Rightarrow> string \<Rightarrow> Config \<Rightarrow> Config" where
  "apply_flags listen logLevel logFormat cfg =
     (let c1 = (if listen \<noteq> [] then cfg\<lparr>cfg_Server := (cfg_Server cfg)\<lparr>srv_Listen := listen\<rparr>\<rparr> else cfg);
          c2 = (if logLevel \<noteq> [] then c1\<lparr>cfg_Log := (cfg_Log c1)\<lparr>log_Level := logLevel\<rparr>\<rparr> else c1)
      in if logFormat \<noteq> [] then c2\<lparr>cfg_Log := (cfg_Log c2)\<lparr>log_Format := logFormat\<rparr>\<rparr> else c2)"

text \<open>The URL that a health check asks: \<open>split\<close> is \<^verbatim>\<open>net.SplitHostPort\<close>.\<close>

definition healthcheck_url :: "(string \<Rightarrow> (string \<times> string) option) \<Rightarrow> string \<Rightarrow> string \<Rightarrow> string option" where
  "healthcheck_url split addr envListen =
     (let t1 = (if addr = [] then envListen else addr);
          target = (if t1 = [] then srv_Listen (cfg_Server Default) else t1)
      in case split target of
           None \<Rightarrow> None
         | Some (host, port) \<Rightarrow>
             (let host' = (if host = [] \<or> host = ''0.0.0.0'' \<or> host = ''::'' then ''127.0.0.1'' else host)
              in Some (''http://'' @ join_host_port host' port @ ''/healthz'')))"

definition healthcheck :: "(string \<Rightarrow> (string \<times> string) option) \<Rightarrow> (string \<Rightarrow> string + int \<times> string) \<Rightarrow> string \<Rightarrow> string \<Rightarrow> string option" where
  "healthcheck split get addr envListen =
     (case healthcheck_url split addr envListen of
        None \<Rightarrow> Some ''parsing address''
      | Some url \<Rightarrow>
          (case get url of
             Inl err \<Rightarrow> Some err
           | Inr (code, status) \<Rightarrow> if code \<noteq> 200 then Some (''unhealthy: '' @ status) else None))"

end
