(* ===== verification/AppWiringProps.thy ===== *)
theory AppWiringProps
  imports AppWiring
begin

text \<open>
  The properties of the wiring: which backends a configuration builds, that one client serves the
  whole account, and that the sampled counters and gauges say what was observed.
\<close>

section \<open>Sampled counters\<close>

text \<open>The totals that were observed for a key.\<close>

definition totals_of :: "string \<Rightarrow> (string \<times> nat) list list \<Rightarrow> nat list" where
  "totals_of k samples = map snd (filter (\<lambda>kt. fst kt = k) (concat samples))"

definition sampled_ok :: "(string \<Rightarrow> nat) \<Rightarrow> sampled \<Rightarrow> bool" where
  "sampled_ok f s \<longleftrightarrow> (\<forall>k. snd s k = f k \<and> (case fst s k of None \<Rightarrow> f k = 0 | Some b \<Rightarrow> b = f k))"

lemma add_delta_ok:
  assumes "sampled_ok f s"
  shows "sampled_ok (f(k := max (f k) t)) (add_delta (k, t) s)"
proof -
  have ok: "snd s j = f j \<and> (case fst s j of None \<Rightarrow> f j = 0 | Some b \<Rightarrow> b = f j)" for j
    using assms by (simp add: sampled_ok_def)
  have "snd (add_delta (k, t) s) j = (f(k := max (f k) t)) j
      \<and> (case fst (add_delta (k, t) s) j of None \<Rightarrow> (f(k := max (f k) t)) j = 0 | Some b \<Rightarrow> b = (f(k := max (f k) t)) j)" for j
    using ok [of k] ok [of j] by (cases s; cases "fst s k") (auto simp: add_delta_def max_def split: option.splits)
  then show ?thesis by (simp add: sampled_ok_def)
qed

lemma addDelta_ok:
  "sampled_ok f s \<Longrightarrow> sampled_ok (\<lambda>k. foldl max (f k) (map snd (filter (\<lambda>kt. fst kt = k) cur))) (addDelta cur s)"
proof (induction cur arbitrary: f s)
  case (Cons kt cur)
  obtain k0 t0 where kt: "kt = (k0, t0)" by force
  have "(\<lambda>k. foldl max ((f(k0 := max (f k0) t0)) k) (map snd (filter (\<lambda>kt. fst kt = k) cur)))
      = (\<lambda>k. foldl max (f k) (map snd (filter (\<lambda>kt. fst kt = k) (kt # cur))))"
    by (auto simp: kt fun_eq_iff)
  then show ?case using Cons.IH [OF add_delta_ok [OF Cons.prems, of k0 t0]] by (simp add: addDelta_def kt)
qed (simp add: addDelta_def)

lemma samples_ok:
  "sampled_ok f s \<Longrightarrow> sampled_ok (\<lambda>k. foldl max (f k) (totals_of k samples)) (foldl (\<lambda>s cur. addDelta cur s) s samples)"
proof (induction samples arbitrary: f s)
  case (Cons cur samples)
  then show ?case using Cons.IH [OF addDelta_ok [OF Cons.prems, of cur]] by (simp add: totals_of_def)
qed (simp add: totals_of_def)

text \<open>A sampled counter never falls and never counts twice: after any samples, in whatever order the
  maps are iterated, it stands at the highest total that was observed.\<close>

theorem sampled_counters_follow_totals:
  "snd (foldl (\<lambda>s cur. addDelta cur s) (Map.empty, \<lambda>_. 0) samples) k = foldl max 0 (totals_of k samples)"
  using samples_ok [of "\<lambda>_. 0" "(Map.empty, \<lambda>_. 0)" samples] by (simp add: sampled_ok_def)

section \<open>Gauges\<close>

lemma count_devices_from:
  "foldl (\<lambda>counts d. let k = (dev_Kind d, device_state now staleAfter d) in counts(k := Suc (counts k))) f ds (kind, st)
     = f (kind, st) + length (filter (\<lambda>d. dev_Kind d = kind \<and> device_state now staleAfter d = st) ds)"
  by (induction ds arbitrary: f) (auto simp: Let_def)

lemma count_devices_filter:
  "count_devices now staleAfter ds (kind, st) = length (filter (\<lambda>d. dev_Kind d = kind \<and> device_state now staleAfter d = st) ds)"
  by (simp add: count_devices_def count_devices_from)

text \<open>Every device is counted in exactly one state.\<close>

lemma every_device_counted_once:
  "(\<Sum>st \<leftarrow> [''active'', ''stale'', ''unverified'']. count_devices now staleAfter ds (kind, st))
     = length (filter (\<lambda>d. dev_Kind d = kind) ds)"
  by (induction ds) (auto simp: count_devices_filter device_state_def)

section \<open>Backends\<close>

lemma build_sources_cfg: "build_sources ps ss a = Inr a' \<Longrightarrow> ap_cfg a' = ap_cfg a"
proof (induction ss arbitrary: a)
  case (Cons s ss)
  obtain a1 where a1: "build_source ps s a = Inr a1" "build_sources ps ss a1 = Inr a'"
    using Cons.prems by (auto split: sum.splits)
  have "ap_cfg a1 = ap_cfg a"
    using a1(1) by (auto simp: build_source_def Let_def add_backend_def cloudClient_def split: if_splits sum.splits option.splits)
  then show ?case using Cons.IH [OF a1(2)] by simp
qed simp

text \<open>One client serves the account: once it is built, every later backend uses the same.\<close>

lemma cloud_client_is_shared:
  "ap_cloud a = Some c \<Longrightarrow> build_sources ps ss a = Inr a' \<Longrightarrow> ap_cloud a' = Some c"
proof (induction ss arbitrary: a)
  case (Cons s ss)
  obtain a1 where a1: "build_source ps s a = Inr a1" "build_sources ps ss a1 = Inr a'"
    using Cons.prems by (auto split: sum.splits)
  have "ap_cloud a1 = Some c"
    using a1(1) Cons.prems(1)
    by (auto simp: build_source_def Let_def add_backend_def cloudClient_def split: if_splits sum.splits option.splits)
  then show ?case using Cons.IH a1(2) by blast
qed simp

lemma build_sources_avahi:
  "build_sources ps ss a = Inr a' \<Longrightarrow>
     \<forall>c ts. AvahiBackend c ts \<in> set (ap_backends a) \<longrightarrow> c = dc_Avahi (cfg_Discovery (ap_cfg a)) \<Longrightarrow>
     AvahiBackend c ts \<in> set (ap_backends a') \<Longrightarrow> c = dc_Avahi (cfg_Discovery (ap_cfg a))"
proof (induction ss arbitrary: a)
  case (Cons s ss)
  obtain a1 where a1: "build_source ps s a = Inr a1" "build_sources ps ss a1 = Inr a'"
    using Cons.prems by (auto split: sum.splits)
  have "ap_cfg a1 = ap_cfg a" using build_sources_cfg [of ps "[s]" a a1] a1(1) by simp
  moreover have "\<forall>c ts. AvahiBackend c ts \<in> set (ap_backends a1) \<longrightarrow> c = dc_Avahi (cfg_Discovery (ap_cfg a))"
    using a1(1) Cons.prems(2)
    by (auto simp: build_source_def Let_def add_backend_def cloudClient_def split: if_splits sum.splits option.splits) blast+
  ultimately show ?case using Cons.IH [OF a1(2)] Cons.prems(3) by simp
qed auto

text \<open>
  Avahi stays as fatal as it was configured: the flag that is cleared when there are other sources is
  not the one the backend holds.
\<close>

lemma avahi_stays_required:
  assumes "buildBackends ps a = Inr a'" "ap_backends a = []" "AvahiBackend c ts \<in> set (ap_backends a')"
  shows "av_Required c = av_Required (dc_Avahi (cfg_Discovery (ap_cfg a)))"
proof -
  obtain a1 where a1: "build_sources ps (dc_Sources (cfg_Discovery (ap_cfg a))) a = Inr a1" "a' = relax_avahi a1"
    using assms(1) by (auto simp: buildBackends_def split: sum.splits)
  have "ap_backends a' = ap_backends a1" by (simp add: a1(2) relax_avahi_def)
  then have "c = dc_Avahi (cfg_Discovery (ap_cfg a))"
    using build_sources_avahi [OF a1(1), of c ts] assms(2,3) by simp
  then show ?thesis by simp
qed

section \<open>Startup\<close>

text \<open>Names cost discovery at most half a minute.\<close>

lemma discovery_starts_in_time: "awaitCloudNames names loaded ended \<le> 30 * second"
  by (auto simp: awaitCloudNames_def cloudNamesStartupWait_def Let_def second_def split: option.split)

end
