(* ===== verification/Startup.thy ===== *)
theory Startup
  imports AppWiring ConfigProps TextOps
begin

text \<open>
  The start of the program: the layers of the configuration (\<^verbatim>\<open>internal/config/load.go\<close>)
  and \<^verbatim>\<open>run\<close> of \<^verbatim>\<open>cmd/espressif-exporter\<close>.  The configuration library (koanf),
  the flag package and the file system are arguments.
\<close>

section \<open>Names of settings\<close>

definition EnvPrefix :: string where "EnvPrefix = ''EE_''"
definition envNestDelim :: string where "envNestDelim = ''__''"

text \<open>The setting that an environment variable overrides.\<close>

definition env_key :: "string \<Rightarrow> string" where
  "env_key name = replace_all (to_lower (trim_prefix name EnvPrefix)) envNestDelim ''.''"

text \<open>The settings that have a tag, as paths through the nested structs.\<close>

definition config_keys :: "string list list" where
  "config_keys =
    [[''log'', ''level''], [''log'', ''format''], [''server'', ''listen''], [''server'',
     ''read_header_timeout''], [''server'', ''shutdown_timeout''], [''server'', ''max_requests''],
     [''server'', ''web_config_file''], [''server'', ''pprof''], [''discovery'', ''sources''],
     [''discovery'', ''service_types''], [''discovery'', ''ipv6''], [''discovery'', ''allow_cidrs''],
     [''discovery'', ''deny_cidrs''], [''discovery'', ''stale_after''], [''discovery'', ''avahi'',
     ''dbus_address''], [''discovery'', ''avahi'', ''required''], [''discovery'', ''avahi'',
     ''startup_timeout''], [''discovery'', ''avahi'', ''reconnect_min''], [''discovery'', ''avahi'',
     ''reconnect_max''], [''discovery'', ''avahi'', ''resolve_timeout''], [''discovery'', ''avahi'',
     ''resolve_concurrency''], [''discovery'', ''avahi'', ''health_check_interval''], [''discovery'',
     ''avahi'', ''rebrowse_interval''], [''discovery'', ''static''], [''discovery'', ''shelly_cloud'',
     ''interval''], [''discovery'', ''shelly_cloud'', ''include_offline''], [''registry'',
     ''refresh_interval''], [''registry'', ''endpoint_ttl''], [''registry'', ''device_ttl''], [''registry'',
     ''remove_grace''], [''registry'', ''snapshot_coalesce''], [''probe'', ''default_timeout''], [''probe'',
     ''timeout_offset''], [''probe'', ''max_timeout''], [''probe'', ''min_timeout''], [''probe'',
     ''max_concurrent''], [''probe'', ''cache_ttl''], [''probe'', ''retries''], [''probe'', ''backoff'',
     ''failures_before_open''], [''probe'', ''backoff'', ''initial''], [''probe'', ''backoff'', ''max''],
     [''probe'', ''backoff'', ''auth_initial''], [''probe'', ''backoff'', ''auth_max''], [''probe'',
     ''backoff'', ''factor''], [''probe'', ''backoff'', ''jitter''], [''shelly'', ''auth'', ''username''],
     [''shelly'', ''auth'', ''password''], [''shelly'', ''auth'', ''password_file''], [''shelly'', ''auth'',
     ''overrides''], [''shelly'', ''cloud'', ''server''], [''shelly'', ''cloud'', ''auth_key''],
     [''shelly'', ''cloud'', ''auth_key_file''], [''shelly'', ''cloud'', ''names''], [''shelly'', ''cloud'',
     ''refresh_interval''], [''shelly'', ''cloud'', ''timeout''], [''shelly'', ''dial_timeout''],
     [''shelly'', ''response_header_timeout''], [''shelly'', ''identity_ttl''], [''shelly'',
     ''fetch_config''], [''shelly'', ''generic_fallback''], [''shelly'', ''max_body_bytes''], [''esphome'',
     ''encryption_key''], [''esphome'', ''encryption_key_file''], [''esphome'', ''require_encryption''],
     [''esphome'', ''password''], [''esphome'', ''password_file''], [''esphome'', ''port''], [''esphome'',
     ''dial_timeout''], [''esphome'', ''handshake_timeout''], [''esphome'', ''list_entities_timeout''],
     [''esphome'', ''connect_budget''], [''esphome'', ''ping_interval''], [''esphome'', ''ping_timeout''],
     [''esphome'', ''ping_fail_threshold''], [''esphome'', ''read_deadline''], [''esphome'',
     ''refresh_interval''], [''esphome'', ''max_concurrent_connects''], [''esphome'',
     ''max_entities_per_device''], [''esphome'', ''max_orphan_states''], [''esphome'', ''max_state_age''],
     [''metrics'', ''percent_as_ratio''], [''metrics'', ''text_sensors''], [''metrics'',
     ''light_channels''], [''metrics'', ''max_text_values''], [''metrics'', ''max_text_value_bytes'']]"

section \<open>Layers\<close>

text \<open>
  What \<^verbatim>\<open>Load\<close> asks of koanf: an empty tree, the loading of a struct, of a YAML file and of
  the environment with a prefix, a delimiter and a renaming, and the decoding over a configuration.  An
  error is its text.
\<close>

record 'k koanf =
  ko_new :: "string \<Rightarrow> 'k"
  ko_struct :: "Config \<Rightarrow> 'k \<Rightarrow> string + 'k"
  ko_file :: "string \<Rightarrow> 'k \<Rightarrow> string + 'k"
  ko_env :: "string \<Rightarrow> string \<Rightarrow> (string \<Rightarrow> string) \<Rightarrow> 'k \<Rightarrow> string + 'k"
  ko_decode :: "'k \<Rightarrow> Config \<Rightarrow> string + Config"

datatype load_failure =
    DefaultsFailed string
  | FileFailed string string
  | EnvFailed string
  | DecodeFailed string
  | TailFailed LoadError

definition load_file :: "'k koanf \<Rightarrow> string \<Rightarrow> 'k \<Rightarrow> load_failure + 'k" where
  "load_file K path k =
     (if path = [] then Inr k
      else case ko_file K path k of Inl err \<Rightarrow> Inl (FileFailed path err) | Inr k' \<Rightarrow> Inr k')"

definition load_layers :: "'k koanf \<Rightarrow> string \<Rightarrow> load_failure + 'k" where
  "load_layers K path =
     (case ko_struct K Default (ko_new K ''.'') of
        Inl err \<Rightarrow> Inl (DefaultsFailed err)
      | Inr k1 \<Rightarrow>
          (case load_file K path k1 of
             Inl err \<Rightarrow> Inl err
           | Inr k2 \<Rightarrow>
               (case ko_env K EnvPrefix ''.'' env_key k2 of
                  Inl err \<Rightarrow> Inl (EnvFailed err)
                | Inr k3 \<Rightarrow> Inr k3)))"

definition Load :: "'k koanf \<Rightarrow> (string \<Rightarrow> string option) \<Rightarrow> parsers \<Rightarrow> string \<Rightarrow> load_failure + Config" where
  "Load K readFile ps path =
     (case load_layers K path of
        Inl err \<Rightarrow> Inl err
      | Inr k \<Rightarrow>
          (case ko_decode K k Default of
             Inl err \<Rightarrow> Inl (DecodeFailed err)
           | Inr cfg \<Rightarrow>
               (case finish_load readFile (\<lambda>s. \<exists>p. ps_prefix ps s = Inr p) (\<lambda>s. ps_addr ps s \<noteq> None) (ps_url ps) cfg of
                  Inl err \<Rightarrow> Inl (TailFailed err)
                | Inr c \<Rightarrow> Inr c)))"

section \<open>The entry point\<close>

record flags =
  fl_config :: string
  fl_listen :: string
  fl_logLevel :: string
  fl_logFormat :: string
  fl_version :: bool

datatype run_result =
    Healthcheck "string list"
  | BadFlags string
  | PrintVersion
  | ConfigMissing string
  | LoadFailed load_failure
  | LoggerFailed log_error
  | BuildFailed app_error
  | Started App log_format log_level

text \<open>
  \<^verbatim>\<open>run\<close> up to the call of \<^verbatim>\<open>application.Run\<close>: \<open>parse\<close> is the
  flag set, \<open>level\<close> the process-wide level before.
\<close>

definition run_main ::
  "(string list \<Rightarrow> string + flags) \<Rightarrow> (string \<Rightarrow> bool) \<Rightarrow> 'k koanf \<Rightarrow> (string \<Rightarrow> string option) \<Rightarrow> parsers
     \<Rightarrow> log_level \<Rightarrow> string list \<Rightarrow> run_result" where
  "run_main parse exists_file K readFile ps level args =
     (if args \<noteq> [] \<and> hd args = ''healthcheck'' then Healthcheck (tl args)
      else case parse args of
        Inl err \<Rightarrow> BadFlags err
      | Inr f \<Rightarrow>
          (if fl_version f then PrintVersion
           else if \<not> MustExist exists_file (fl_config f) then ConfigMissing (fl_config f)
           else case Load K readFile ps (fl_config f) of
             Inl err \<Rightarrow> LoadFailed err
           | Inr c0 \<Rightarrow>
               (let cfg = apply_flags (fl_listen f) (fl_logLevel f) (fl_logFormat f) c0
                in case NewLogger (log_Level (cfg_Log cfg)) (log_Format (cfg_Log cfg)) level of
                     (Inl err, _) \<Rightarrow> LoggerFailed err
                   | (Inr fmt, lvl) \<Rightarrow>
                       (case NewApp ps cfg of
                          Inl err \<Rightarrow> BuildFailed err
                        | Inr a \<Rightarrow> Started a fmt lvl))))"

section \<open>Every setting has a variable\<close>

definition upper_char :: "char \<Rightarrow> char" where
  "upper_char c = (if is_lower_char c then char_of (char_code c - 32) else c)"

text \<open>The variable of a setting: the segments of its path in capitals, joined by two underscores.\<close>

definition env_name :: "string list \<Rightarrow> string" where
  "env_name path = EnvPrefix @ map upper_char (join envNestDelim path)"

definition segment_ok :: "string \<Rightarrow> bool" where
  "segment_ok s \<longleftrightarrow> list_all (\<lambda>c. \<not> is_upper_char c) s \<and> \<not> contains s envNestDelim \<and>
     (s = [] \<or> last s \<noteq> CHR ''_'')"

lemma replace_all_none:
  "old \<noteq> [] \<Longrightarrow> \<not> contains s old \<Longrightarrow> replace_all s old new = s"
  by (induction s) (simp_all add: replace_all.simps [of _ old new] contains_Cons)

lemma replace_first:
  assumes "\<not> contains s ''__''" "s = [] \<or> last s \<noteq> CHR ''_''"
  shows "replace_all (s @ ''__'' @ t) ''__'' new = s @ new @ replace_all t ''__'' new"
  using assms
proof (induction s)
  case Nil
  then show ?case by (simp add: replace_all.simps [of "CHR ''_'' # CHR ''_'' # t"] has_prefix_def)
next
  case (Cons c s)
  have "\<not> has_prefix ((c # s) @ ''__'' @ t) ''__''"
    using Cons.prems by (cases s) (auto simp: has_prefix_def contains_Cons)
  moreover have "\<not> contains s ''__''" "s = [] \<or> last s \<noteq> CHR ''_''"
    using Cons.prems by (auto simp: contains_Cons split: if_splits)
  ultimately show ?case
    using Cons.IH by (simp add: replace_all.simps [of "c # s @ CHR ''_'' # CHR ''_'' # t"])
qed

lemma replace_join:
  assumes "\<forall>s \<in> set path. segment_ok s"
  shows "replace_all (join ''__'' path) ''__'' new = join new path"
  using assms
proof (induction path rule: induct_list012)
  case 1
  then show ?case by (simp add: replace_all.simps)
next
  case (2 s)
  then show ?case by (simp add: replace_all_none segment_ok_def envNestDelim_def)
next
  case (3 s t path)
  then show ?case using replace_first [of s "join ''__'' (t # path)" new]
    by (simp add: segment_ok_def envNestDelim_def)
qed

lemma underscore_not_upper: "\<not> is_upper_char CHR ''_''"
  by code_simp

lemma lower_upper_char: "\<not> is_upper_char c \<Longrightarrow> lower_char (upper_char c) = c"
  by (auto simp: lower_char_def upper_char_def is_upper_char_def is_lower_char_def char_code_def)

lemma lower_upper: "list_all (\<lambda>c. \<not> is_upper_char c) s \<Longrightarrow> to_lower (map upper_char s) = s"
  by (induction s) (simp_all add: to_lower_def lower_upper_char)

lemma join_not_upper:
  "\<forall>s \<in> set path. segment_ok s \<Longrightarrow> list_all (\<lambda>c. \<not> is_upper_char c) (join ''__'' path)"
  by (induction path rule: induct_list012) (simp_all add: segment_ok_def underscore_not_upper)

lemma env_key_of_name:
  assumes "\<forall>s \<in> set path. segment_ok s"
  shows "env_key (env_name path) = join ''.'' path"
  using replace_join [OF assms] lower_upper [OF join_not_upper [OF assms]]
  by (simp add: env_key_def env_name_def envNestDelim_def)

lemma config_keys_ok: "\<forall>path \<in> set config_keys. \<forall>s \<in> set path. segment_ok s"
  by code_simp

section \<open>What a configuration that loads is good for\<close>

lemma parseLogLevel_mirrors: "parseLogLevel s \<noteq> None \<longleftrightarrow> ParseLevel s \<noteq> None"
  by (auto simp: parseLogLevel_def ParseLevel_def Let_def)

lemma valid_logging:
  assumes "Validate pp pa pu c = []"
  shows "\<exists>fmt lvl. NewLogger (log_Level (cfg_Log c)) (log_Format (cfg_Log c)) level = (Inr fmt, lvl)"
proof -
  have "parseLogLevel (log_Level (cfg_Log c)) \<noteq> None"
    "to_lower (log_Format (cfg_Log c)) \<in> {''json'', ''text'', ''logfmt''}"
    using assms by (auto simp: Validate_def Let_def split: if_splits)
  then obtain l where "ParseLevel (log_Level (cfg_Log c)) = Some l"
    using parseLogLevel_mirrors by auto
  then show ?thesis
    using \<open>to_lower _ \<in> _\<close> by (auto simp: NewLogger_def Let_def)
qed

lemma parse_all_ok:
  "\<forall>s \<in> set ss. \<exists>p. f s = Inr p \<Longrightarrow> \<exists>ps. parse_all f ss = Inr ps"
  by (induction ss) (auto split: sum.splits)

lemma check_cidrs_all: "check_cidrs f name ss = [] \<Longrightarrow> s \<in> set ss \<Longrightarrow> f s"
  by (auto simp: check_cidrs_def filter_empty_conv)

lemma valid_policy:
  assumes "Validate (\<lambda>s. \<exists>p. ps_prefix ps s = Inr p) pa pu c = []"
  shows "\<exists>pol. NewAddressPolicy (ps_prefix ps) b (dc_AllowCIDRs (cfg_Discovery c)) (dc_DenyCIDRs (cfg_Discovery c)) = Inr pol"
proof -
  obtain as where "parse_all (ps_prefix ps) (dc_AllowCIDRs (cfg_Discovery c)) = Inr as"
    using parse_all_ok check_cidrs_all [OF Validate_parts(3) [OF assms]] by blast
  moreover obtain ds where "parse_all (ps_prefix ps) (dc_DenyCIDRs (cfg_Discovery c)) = Inr ds"
    using parse_all_ok check_cidrs_all [OF Validate_parts(4) [OF assms]] by blast
  ultimately show ?thesis by (simp add: NewAddressPolicy_def)
qed

lemma valid_static:
  "check_static (\<lambda>s. pa s \<noteq> None) i es = [] \<Longrightarrow> \<exists>out. static_entries pa j es = Inr out"
proof (induction es arbitrary: i j)
  case (Cons e es)
  then obtain out where "static_entries pa (Suc j) es = Inr out"
    by (fastforce split: if_splits)
  then show ?case using Cons.prems by (auto simp: KindESPHome_def KindShelly_def Let_def split: if_splits)
qed simp

text \<open>
  What the cloud client relies on: without the slashes at its end, the URL of a server that parses with
  a host has the same scheme and host.
\<close>

definition url_law :: "(string \<Rightarrow> (string \<times> string) option) \<Rightarrow> bool" where
  "url_law parse \<longleftrightarrow>
     (\<forall>s scheme host. parse s = Some (scheme, host) \<and> host \<noteq> [] \<longrightarrow> parse (trim_slashes s) = Some (scheme, host))"

lemma valid_cloud:
  assumes "check_cloud (ps_url ps) c = []" "url_law (ps_url ps)"
    and "''shelly_cloud'' \<in> set (dc_Sources (cfg_Discovery c)) \<or> sc_Names (sh_Cloud (cfg_Shelly c))"
  shows "\<exists>client. NewClient (ps_url ps) (sc_Server (sh_Cloud (cfg_Shelly c)))
    (Reveal (sc_AuthKey (sh_Cloud (cfg_Shelly c)))) t = Inr client"
proof -
  let ?s = "sc_Server (sh_Cloud (cfg_Shelly c))"
  have "cloud_server_ok (ps_url ps) ?s" "IsSet (sc_AuthKey (sh_Cloud (cfg_Shelly c)))"
    using assms(1,3) by (auto simp: check_cloud_def Let_def split: if_splits)
  then obtain scheme host where "ps_url ps ?s = Some (scheme, host)" "host \<noteq> []"
    "scheme = ''https'' \<or> scheme = ''http''" "sc_AuthKey (sh_Cloud (cfg_Shelly c)) \<noteq> []"
    by (auto simp: cloud_server_ok_def IsSet_def split: option.splits)
  then have "ps_url ps (trim_slashes ?s) = Some (scheme, host)"
    using assms(2) unfolding url_law_def by blast
  then show ?thesis using \<open>host \<noteq> []\<close> \<open>scheme = _ \<or> _\<close> \<open>sc_AuthKey _ \<noteq> []\<close>
    by (auto simp: NewClient_def Reveal_def)
qed

definition buildable :: "parsers \<Rightarrow> Config \<Rightarrow> bool" where
  "buildable ps c \<longleftrightarrow> url_law (ps_url ps) \<and>
     check_sources [] (dc_Sources (cfg_Discovery c)) = [] \<and>
     check_static (\<lambda>s. ps_addr ps s \<noteq> None) 0 (dc_Static (cfg_Discovery c)) = [] \<and>
     check_cloud (ps_url ps) c = []"

lemma cloudClient_ok:
  assumes "buildable ps (ap_cfg a)"
    and "''shelly_cloud'' \<in> set (dc_Sources (cfg_Discovery (ap_cfg a))) \<or> sc_Names (sh_Cloud (cfg_Shelly (ap_cfg a)))"
  shows "\<exists>client a'. cloudClient ps a = Inr (client, a') \<and> ap_cfg a' = ap_cfg a"
proof (cases "ap_cloud a")
  case None
  obtain client where "NewClient (ps_url ps) (sc_Server (sh_Cloud (cfg_Shelly (ap_cfg a))))
      (Reveal (sc_AuthKey (sh_Cloud (cfg_Shelly (ap_cfg a))))) (sc_Timeout (sh_Cloud (cfg_Shelly (ap_cfg a)))) = Inr client"
    using valid_cloud assms unfolding buildable_def by blast
  then show ?thesis using None by (simp add: cloudClient_def Let_def)
qed (simp add: cloudClient_def)

lemma build_source_ok:
  assumes "buildable ps (ap_cfg a)" "s \<in> set (dc_Sources (cfg_Discovery (ap_cfg a)))"
  shows "\<exists>a'. build_source ps s a = Inr a' \<and> ap_cfg a' = ap_cfg a"
proof -
  have "s \<in> set known_sources"
    using check_sources_seen assms unfolding buildable_def by blast
  then consider "s = ''static''" | "s = ''zeroconf''" | "s = ''shelly_cloud''" | "s = ''avahi''"
    by (auto simp: known_sources_def)
  then show ?thesis
  proof cases
    case 1
    obtain out where "static_entries (ps_addr ps) 0 (dc_Static (cfg_Discovery (ap_cfg a))) = Inr out"
      using valid_static assms(1) unfolding buildable_def by blast
    then show ?thesis
      using 1 by (simp add: build_source_def static_name_def NewStatic_def add_backend_def Let_def)
  next
    case 3
    then obtain client a' where "cloudClient ps a = Inr (client, a')" "ap_cfg a' = ap_cfg a"
      using cloudClient_ok assms by blast
    then show ?thesis
      using 3 by (simp add: build_source_def static_name_def zeroconf_name_def cloud_source_name_def add_backend_def Let_def)
  qed (simp_all add: build_source_def static_name_def zeroconf_name_def cloud_source_name_def add_backend_def Let_def)
qed

lemma build_sources_ok:
  assumes "buildable ps (ap_cfg a)" "set ss \<subseteq> set (dc_Sources (cfg_Discovery (ap_cfg a)))"
  shows "\<exists>a'. build_sources ps ss a = Inr a'"
  using assms
proof (induction ss arbitrary: a)
  case (Cons s ss)
  then obtain a' where "build_source ps s a = Inr a'" "ap_cfg a' = ap_cfg a"
    using build_source_ok by (metis list.set_intros(1) subsetD)
  then show ?case using Cons by simp
qed simp

lemma buildBackends_ok: "buildable ps (ap_cfg a) \<Longrightarrow> \<exists>a'. buildBackends ps a = Inr a'"
  using build_sources_ok [of ps a "dc_Sources (cfg_Discovery (ap_cfg a))"]
  by (auto simp: buildBackends_def split: sum.splits)

lemma NewApp_ok:
  assumes "buildable ps c"
    and "\<exists>pol. NewAddressPolicy (ps_prefix ps) (dc_IPv6 (cfg_Discovery c))
      (dc_AllowCIDRs (cfg_Discovery c)) (dc_DenyCIDRs (cfg_Discovery c)) = Inr pol"
  shows "\<exists>a. NewApp ps c = Inr a"
proof -
  let ?a = "\<lparr>ap_cfg = c, ap_cloud = None, ap_avahi = None, ap_hasStatic = False, ap_names = None, ap_backends = []\<rparr>"
  show ?thesis
  proof (cases "sc_Names (sh_Cloud (cfg_Shelly c))")
    case True
    then obtain client a' where "cloudClient ps ?a = Inr (client, a')" "ap_cfg a' = c"
      using cloudClient_ok [of ps ?a] assms(1) by auto
    then show ?thesis
      using True assms buildBackends_ok [of ps "a'\<lparr>ap_names := Some (NewNameStore (sc_RefreshInterval (sh_Cloud (cfg_Shelly c))))\<rparr>"]
      by (auto simp: NewApp_def Let_def)
  next
    case False
    then show ?thesis using assms buildBackends_ok [of ps ?a] by (auto simp: NewApp_def Let_def)
  qed
qed

lemma apply_flags_keeps [simp]:
  "cfg_Discovery (apply_flags a b c cfg) = cfg_Discovery cfg" "cfg_Shelly (apply_flags a b c cfg) = cfg_Shelly cfg"
  "cfg_Registry (apply_flags a b c cfg) = cfg_Registry cfg" "cfg_Probe (apply_flags a b c cfg) = cfg_Probe cfg"
  by (simp_all add: apply_flags_def Let_def)

lemma apply_flags_log [simp]: "cfg_Log (apply_flags a [] [] cfg) = cfg_Log cfg"
  by (simp add: apply_flags_def)

lemma valid_builds:
  assumes "Validate (\<lambda>s. \<exists>p. ps_prefix ps s = Inr p) (\<lambda>s. ps_addr ps s \<noteq> None) (ps_url ps) c = []" "url_law (ps_url ps)"
  shows "\<exists>a. NewApp ps (apply_flags listen lvl fmt c) = Inr a"
proof (rule NewApp_ok)
  show "buildable ps (apply_flags listen lvl fmt c)"
    using Validate_parts [OF assms(1)] assms(2) by (simp add: buildable_def check_cloud_def)
  show "\<exists>pol. NewAddressPolicy (ps_prefix ps) (dc_IPv6 (cfg_Discovery (apply_flags listen lvl fmt c)))
      (dc_AllowCIDRs (cfg_Discovery (apply_flags listen lvl fmt c)))
      (dc_DenyCIDRs (cfg_Discovery (apply_flags listen lvl fmt c))) = Inr pol"
    using valid_policy [OF assms(1)] by simp
qed

text \<open>C36. Every setting can be set from the environment: the variable that spells a setting in
  capitals, with two underscores between the segments, is renamed to that setting, for every path whose
  segments hold no two underscores in a row and end in none; and so are all tags of the configuration.\<close>

theorem every_setting_has_a_variable:
  "((\<forall>s \<in> set path. segment_ok s) \<longrightarrow> env_key (env_name path) = join ''.'' path) \<and>
   (\<forall>p \<in> set config_keys. \<forall>s \<in> set p. segment_ok s)"
  using env_key_of_name config_keys_ok by blast

theorem every_setting_has_a_variable_witness:
  "env_key (env_name [''probe'', ''max_concurrent'']) = ''probe.max_concurrent''"
proof -
  have "\<forall>s \<in> set [''probe'', ''max_concurrent'']. segment_ok s" by code_simp
  then show ?thesis using every_setting_has_a_variable [of "[''probe'', ''max_concurrent'']"] by simp
qed

text \<open>C35. A configuration that passes validation does not fail later: when \<^verbatim>\<open>Load\<close> returns
  one and no flag overrides the logging, the program starts; with such flags the only thing that can
  still stop it is the logger.  Validation and construction agree on prefixes, addresses, sources and
  the cloud server.\<close>

theorem valid_config_starts:
  assumes "parse args = Inr f" "args = [] \<or> hd args \<noteq> ''healthcheck''" "\<not> fl_version f"
    and "MustExist exists_file (fl_config f)" "Load K readFile ps (fl_config f) = Inr c" "url_law (ps_url ps)"
  shows "case run_main parse exists_file K readFile ps level args of
      Started a fmt lvl \<Rightarrow> ParseLevel (log_Level (cfg_Log (apply_flags (fl_listen f) (fl_logLevel f) (fl_logFormat f) c))) = Some lvl
    | LoggerFailed err \<Rightarrow> fl_logLevel f \<noteq> [] \<or> fl_logFormat f \<noteq> []
    | _ \<Rightarrow> False"
proof -
  have v: "Validate (\<lambda>s. \<exists>p. ps_prefix ps s = Inr p) (\<lambda>s. ps_addr ps s \<noteq> None) (ps_url ps) c = []"
    using assms(5) by (auto simp: Load_def finish_load_def Let_def split: sum.splits if_splits)
  let ?cfg = "apply_flags (fl_listen f) (fl_logLevel f) (fl_logFormat f) c"
  obtain a where a: "NewApp ps ?cfg = Inr a" using valid_builds [OF v assms(6)] by blast
  have run: "run_main parse exists_file K readFile ps level args =
    (case NewLogger (log_Level (cfg_Log ?cfg)) (log_Format (cfg_Log ?cfg)) level of
       (Inl err, _) \<Rightarrow> LoggerFailed err | (Inr fmt, lvl) \<Rightarrow> Started a fmt lvl)"
    using assms(1-5) a by (auto simp: run_main_def Let_def split: prod.splits sum.splits)
  show ?thesis
  proof (cases "fl_logLevel f = [] \<and> fl_logFormat f = []")
    case True
    then obtain fmt lvl where "NewLogger (log_Level (cfg_Log ?cfg)) (log_Format (cfg_Log ?cfg)) level = (Inr fmt, lvl)"
      using valid_logging [OF v, of level] by auto
    then show ?thesis unfolding run by (auto simp: NewLogger_def Let_def split: option.splits if_splits)
  next
    case False
    then show ?thesis unfolding run
      by (auto simp: NewLogger_def Let_def split: option.splits if_splits)
  qed
qed

definition plain_koanf :: "Config koanf" where
  "plain_koanf = \<lparr>ko_new = (\<lambda>_. Default), ko_struct = (\<lambda>c _. Inr c), ko_file = (\<lambda>_ k. Inr k),
     ko_env = (\<lambda>_ _ _ k. Inr k), ko_decode = (\<lambda>k _. Inr k)\<rparr>"

definition lenient :: parsers where
  "lenient = \<lparr>ps_addr = (\<lambda>_. None), ps_url = (\<lambda>_. None),
     ps_prefix = (\<lambda>_. Inr \<lparr>pfx_addr = Addr4 0, pfx_bits = 8\<rparr>)\<rparr>"

definition no_flags :: flags where
  "no_flags = \<lparr>fl_config = [], fl_listen = [], fl_logLevel = [], fl_logFormat = [], fl_version = False\<rparr>"

lemma plain_load: "Load plain_koanf (\<lambda>_. None) lenient [] = Inr Default"
proof -
  have "Validate (\<lambda>s. \<exists>p. ps_prefix lenient s = Inr p) (\<lambda>s. ps_addr lenient s \<noteq> None) (ps_url lenient) Default = []"
    by (rule Default_valid) (simp_all add: lenient_def)
  then show ?thesis
    by (simp add: Load_def load_layers_def load_file_def plain_koanf_def finish_load_def Default_resolves Let_def)
qed

theorem valid_config_starts_witness:
  "\<exists>a fmt. run_main (\<lambda>_. Inr no_flags) (\<lambda>_. False) plain_koanf (\<lambda>_. None) lenient LevelDebug [] = Started a fmt LevelInfo"
proof -
  have "MustExist (\<lambda>_. False) (fl_config no_flags)" "url_law (ps_url lenient)"
    by (simp_all add: MustExist_def no_flags_def url_law_def lenient_def)
  moreover have "ParseLevel (log_Level (cfg_Log Default)) = Some LevelInfo" by code_simp
  ultimately show ?thesis
    using valid_config_starts [of "\<lambda>_. Inr no_flags" "[]" no_flags "\<lambda>_. False" plain_koanf "\<lambda>_. None" lenient Default LevelDebug]
    by (auto simp: no_flags_def plain_load split: run_result.splits)
qed

end
