(* ===== verification/AvahiClient.thy ===== *)
theory AvahiClient
  imports Prelude "HOL-Library.Word"
begin

text \<open>
  \<^verbatim>\<open>internal/discovery/avahi/client.go\<close>: the client of avahi-daemon, which routes the signals
  of one D-Bus connection to the browsers that asked for them.  A channel is the list of what waits in
  it, with its capacity; the D-Bus package is an argument: a signal carries what its body decodes to, if
  it decodes.
\<close>

definition busName :: string where "busName = ''org.freedesktop.Avahi''"
definition serverIface :: string where "serverIface = ''org.freedesktop.Avahi.Server''"
definition browserIface :: string where "browserIface = ''org.freedesktop.Avahi.ServiceBrowser''"
definition dbusIface :: string where "dbusIface = ''org.freedesktop.DBus''"

definition protoInet :: int where "protoInet = 0"
definition protoInet6 :: int where "protoInet6 = 1"
definition browserBuffer :: nat where "browserBuffer = 64"
definition ownersBuffer :: nat where "ownersBuffer = 8"

record Service =
  sv_Interface :: int
  sv_Protocol :: int
  sv_Name :: string
  sv_Type :: string
  sv_Domain :: string
  sv_Host :: string
  sv_Aprotocol :: int
  sv_Address :: string
  sv_Port :: "16 word"
  sv_Txt :: "string list"
  sv_Flags :: int

record browser =
  br_add :: "Service list"
  br_remove :: "Service list"

definition new_browser :: browser where
  "new_browser = \<lparr>br_add = [], br_remove = []\<rparr>"

text \<open>
  \<open>av_owners_closed\<close> says that the router has returned, which closes the channel of owners once it is
  drained.
\<close>

record AvahiClient =
  av_browsers :: "string \<Rightarrow> browser option"
  av_owners :: "string list"
  av_owners_closed :: bool
  av_closed :: bool
  av_drops :: nat

definition newClient :: "string option \<Rightarrow> string + AvahiClient" where
  "newClient matchErr =
     (case matchErr of
        Some err \<Rightarrow> Inl (''watching for avahi restarts: '' @ err)
      | None \<Rightarrow> Inr \<lparr>av_browsers = Map.empty, av_owners = [], av_owners_closed = False, av_closed = False, av_drops = 0\<rparr>)"

record signal =
  sg_Name :: string
  sg_Path :: string
  sg_item :: "Service option"                        \<comment> \<open>the body read as an item\<close>
  sg_owner :: "(string \<times> string \<times> string) option"   \<comment> \<open>the body read as a change of owner\<close>

text \<open>A send that does not block.\<close>

definition try_send :: "nat \<Rightarrow> 'a \<Rightarrow> 'a list \<Rightarrow> 'a list \<times> bool" where
  "try_send cap x ch = (if length ch < cap then (ch @ [x], True) else (ch, False))"

definition deliver_to :: "bool \<Rightarrow> Service \<Rightarrow> browser \<Rightarrow> browser \<times> bool" where
  "deliver_to added svc b =
     (if added then (case try_send browserBuffer svc (br_add b) of (ch, ok) \<Rightarrow> (b\<lparr>br_add := ch\<rparr>, ok))
      else (case try_send browserBuffer svc (br_remove b) of (ch, ok) \<Rightarrow> (b\<lparr>br_remove := ch\<rparr>, ok)))"

definition deliverItem :: "signal \<Rightarrow> bool \<Rightarrow> AvahiClient \<Rightarrow> AvahiClient" where
  "deliverItem sig added c =
     (case sg_item sig of
        None \<Rightarrow> c
      | Some svc \<Rightarrow>
          (case av_browsers c (sg_Path sig) of
             None \<Rightarrow> c
           | Some b \<Rightarrow>
               (case deliver_to added svc b of
                  (b', ok) \<Rightarrow> c\<lparr>av_browsers := (av_browsers c)(sg_Path sig \<mapsto> b'),
                               av_drops := (if ok then av_drops c else Suc (av_drops c))\<rparr>)))"

definition deliverOwner :: "signal \<Rightarrow> AvahiClient \<Rightarrow> AvahiClient" where
  "deliverOwner sig c =
     (case sg_owner sig of
        None \<Rightarrow> c
      | Some (nm, oldOwner, newOwner) \<Rightarrow>
          (if nm \<noteq> busName then c else c\<lparr>av_owners := fst (try_send ownersBuffer newOwner (av_owners c))\<rparr>))"

definition route_signal :: "signal \<Rightarrow> AvahiClient \<Rightarrow> AvahiClient" where
  "route_signal sig c =
     (if sg_Name sig = browserIface @ ''.ItemNew'' then deliverItem sig True c
      else if sg_Name sig = browserIface @ ''.ItemRemove'' then deliverItem sig False c
      else if sg_Name sig = dbusIface @ ''.NameOwnerChanged'' then deliverOwner sig c
      else c)"

text \<open>The answer to a call: an error or its result.\<close>

definition ServiceBrowserNew :: "string + string \<Rightarrow> AvahiClient \<Rightarrow> (string + string) \<times> AvahiClient" where
  "ServiceBrowserNew answer c =
     (case answer of
        Inl err \<Rightarrow> (Inl err, c)
      | Inr path \<Rightarrow>
          (if av_closed c then (Inl ''client is closed'', c)
           else (Inr path, c\<lparr>av_browsers := (av_browsers c)(path \<mapsto> new_browser)\<rparr>)))"

definition CloseClient :: "AvahiClient \<Rightarrow> AvahiClient" where
  "CloseClient c =
     (if av_closed c then c else c\<lparr>av_closed := True, av_browsers := Map.empty, av_owners_closed := True\<rparr>)"

text \<open>The receiving ends: a consumer takes from its browser, the session from the owners.\<close>

definition take_item :: "bool \<Rightarrow> string \<Rightarrow> AvahiClient \<Rightarrow> AvahiClient" where
  "take_item added path c =
     (case av_browsers c path of
        None \<Rightarrow> c
      | Some b \<Rightarrow> c\<lparr>av_browsers := (av_browsers c)(path \<mapsto>
          (if added then b\<lparr>br_add := tl (br_add b)\<rparr> else b\<lparr>br_remove := tl (br_remove b)\<rparr>))\<rparr>)"

definition take_owner :: "AvahiClient \<Rightarrow> AvahiClient" where
  "take_owner c = c\<lparr>av_owners := tl (av_owners c)\<rparr>"

datatype client_msg =
    CmSignal signal
  | CmBrowse "string + string"
  | CmTakeItem bool string
  | CmTakeOwner
  | CmHangUp            \<comment> \<open>the connection breaks: the router ends\<close>
  | CmClose

definition client_step :: "client_msg \<Rightarrow> AvahiClient \<Rightarrow> AvahiClient" where
  "client_step m c =
     (case m of
        CmSignal sig \<Rightarrow> if av_owners_closed c then c else route_signal sig c
      | CmBrowse answer \<Rightarrow> snd (ServiceBrowserNew answer c)
      | CmTakeItem added path \<Rightarrow> take_item added path c
      | CmTakeOwner \<Rightarrow> take_owner c
      | CmHangUp \<Rightarrow> c\<lparr>av_owners_closed := True\<rparr>
      | CmClose \<Rightarrow> CloseClient c)"

section \<open>Delivery\<close>

definition client_inv :: "AvahiClient \<Rightarrow> bool" where
  "client_inv c \<longleftrightarrow> (\<forall>p b. av_browsers c p = Some b \<longrightarrow> length (br_add b) \<le> browserBuffer \<and> length (br_remove b) \<le> browserBuffer)
     \<and> length (av_owners c) \<le> ownersBuffer \<and> (av_closed c \<longrightarrow> av_browsers c = Map.empty \<and> av_owners_closed c)"

lemma deliver_to_bounds:
  assumes "deliver_to added svc b = (b', ok)" "length (br_add b) \<le> browserBuffer" "length (br_remove b) \<le> browserBuffer"
  shows "length (br_add b') \<le> browserBuffer \<and> length (br_remove b') \<le> browserBuffer"
  using assms by (auto simp: deliver_to_def try_send_def split: if_splits)

lemma deliverItem_inv: "client_inv c \<Longrightarrow> client_inv (deliverItem sig added c)"
  by (auto simp: client_inv_def deliverItem_def split: option.split prod.split dest: deliver_to_bounds)

lemma deliverOwner_inv: "client_inv c \<Longrightarrow> client_inv (deliverOwner sig c)"
  by (auto simp: client_inv_def deliverOwner_def try_send_def split: option.split prod.split)

lemma client_step_inv: "client_inv c \<Longrightarrow> client_inv (client_step m c)"
proof (cases m)
  case (CmBrowse answer)
  assume c: "client_inv c"
  then show ?thesis
    by (auto simp: CmBrowse client_step_def ServiceBrowserNew_def client_inv_def new_browser_def split: sum.split)
next
  case (CmTakeItem added path)
  assume c: "client_inv c"
  then show ?thesis
    by (cases "av_browsers c path")
       (auto simp: CmTakeItem client_step_def take_item_def client_inv_def intro: order_trans [OF diff_le_self])
qed (auto simp: client_step_def route_signal_def deliverItem_inv deliverOwner_inv,
     auto simp: client_inv_def take_owner_def CloseClient_def split: if_splits)

interpretation avahi_client: machine "\<lambda>c. newClient None = Inr c" client_step "\<lambda>_ _. True" client_inv
proof
  show "newClient None = Inr c \<Longrightarrow> client_inv c" for c by (auto simp: newClient_def client_inv_def)
qed (rule client_step_inv)

text \<open>What the signals say of one browser: the items it was sent, of either kind.\<close>

definition items_for :: "bool \<Rightarrow> string \<Rightarrow> signal list \<Rightarrow> Service list" where
  "items_for added path sigs =
     List.map_filter (\<lambda>sig. if sg_Path sig = path \<and> sg_Name sig = browserIface @ (if added then ''.ItemNew'' else ''.ItemRemove'')
       then sg_item sig else None) sigs"

lemma items_for_simps [simp]:
  "items_for added path [] = []"
  "items_for added path (sig # sigs) =
     (if sg_Path sig = path \<and> sg_Name sig = browserIface @ (if added then ''.ItemNew'' else ''.ItemRemove'')
      then (case sg_item sig of Some svc \<Rightarrow> [svc] | None \<Rightarrow> []) else []) @ items_for added path sigs"
  by (auto simp: items_for_def List.map_filter_simps split: option.split)

lemma try_send_take: "length ch \<le> cap \<Longrightarrow> take cap (fst (try_send cap x ch) @ xs) = take cap (ch @ x # xs)"
  by (auto simp: try_send_def take_Cons')

lemma route_browser:
  assumes "av_browsers c path = Some b"
  shows "\<exists>b'. av_browsers (route_signal sig c) path = Some b'
    \<and> br_add b' = (case items_for True path [sig] of svc # _ \<Rightarrow> fst (try_send browserBuffer svc (br_add b)) | [] \<Rightarrow> br_add b)
    \<and> br_remove b' = (case items_for False path [sig] of svc # _ \<Rightarrow> fst (try_send browserBuffer svc (br_remove b)) | [] \<Rightarrow> br_remove b)"
  using assms
  by (auto simp: route_signal_def deliverItem_def deliverOwner_def deliver_to_def dbusIface_def browserIface_def
      split: option.split prod.split)

lemma route_all_browser:
  "av_browsers c path = Some b \<Longrightarrow> length (br_add b) \<le> browserBuffer \<Longrightarrow> length (br_remove b) \<le> browserBuffer \<Longrightarrow>
     \<exists>b'. av_browsers (foldl (\<lambda>c sig. route_signal sig c) c sigs) path = Some b'
       \<and> br_add b' = take browserBuffer (br_add b @ items_for True path sigs)
       \<and> br_remove b' = take browserBuffer (br_remove b @ items_for False path sigs)"
proof (induction sigs arbitrary: c b)
  case (Cons sig sigs)
  obtain b1 where b1: "av_browsers (route_signal sig c) path = Some b1"
    "br_add b1 = (case items_for True path [sig] of svc # _ \<Rightarrow> fst (try_send browserBuffer svc (br_add b)) | [] \<Rightarrow> br_add b)"
    "br_remove b1 = (case items_for False path [sig] of svc # _ \<Rightarrow> fst (try_send browserBuffer svc (br_remove b)) | [] \<Rightarrow> br_remove b)"
    using route_browser [OF Cons.prems(1)] by blast
  have fits: "length (fst (try_send browserBuffer x ch)) \<le> browserBuffer" if "length ch \<le> browserBuffer" for x :: Service and ch
    using that by (simp add: try_send_def)
  have "length (br_add b1) \<le> browserBuffer" "length (br_remove b1) \<le> browserBuffer"
    using b1(2,3) Cons.prems(2,3) fits by (auto split: list.split)
  from Cons.IH [OF b1(1) this] show ?case
    using Cons.prems(2,3) by (auto simp: b1(2,3) try_send_take simp del: take_append split: option.split)
qed simp

text \<open>C33. A browse hit reaches the browser that asked for it and no other, in the order of the signals, as
  long as its buffer has room, and a full buffer loses hits of its own only: never
  another browser's.\<close>

theorem signals_reach_their_browser:
  assumes "avahi_client.reachable c" "av_browsers c path = Some b"
  shows "\<exists>b'. av_browsers (foldl (\<lambda>c sig. route_signal sig c) c sigs) path = Some b'
    \<and> br_add b' = take 64 (br_add b @ items_for True path sigs)
    \<and> br_remove b' = take 64 (br_remove b @ items_for False path sigs)"
proof -
  have "client_inv c" by (rule avahi_client.reachable_invar [OF assms(1)])
  then have "length (br_add b) \<le> browserBuffer" "length (br_remove b) \<le> browserBuffer"
    using assms(2) by (auto simp: client_inv_def)
  from route_all_browser [OF assms(2) this, of sigs] show ?thesis by (simp add: browserBuffer_def)
qed

definition ex_item :: "string \<Rightarrow> string \<Rightarrow> signal" where
  "ex_item path inst = \<lparr>sg_Name = browserIface @ ''.ItemNew'', sg_Path = path,
     sg_item = Some \<lparr>sv_Interface = 2, sv_Protocol = 0, sv_Name = inst, sv_Type = ''_shelly._tcp'', sv_Domain = ''local'', sv_Host = [],
       sv_Aprotocol = 0, sv_Address = [], sv_Port = 0, sv_Txt = [], sv_Flags = 0\<rparr>, sg_owner = None\<rparr>"

definition ex_browsing :: AvahiClient where
  "ex_browsing = client_step (CmBrowse (Inr ''/b''))
     \<lparr>av_browsers = Map.empty, av_owners = [], av_owners_closed = False, av_closed = False, av_drops = 0\<rparr>"

lemma ex_browsing_reachable: "avahi_client.reachable ex_browsing"
  unfolding ex_browsing_def
  by (intro avahi_client.reachable.move avahi_client.reachable.start) (simp_all add: newClient_def)

theorem signals_reach_their_browser_witness:
  "\<exists>b'. av_browsers (foldl (\<lambda>c sig. route_signal sig c) ex_browsing [ex_item ''/b'' ''x'', ex_item ''/c'' ''y'']) ''/b'' = Some b'
     \<and> map sv_Name (br_add b') = [''x''] \<and> br_remove b' = []"
proof -
  have "av_browsers ex_browsing ''/b'' = Some new_browser"
    by (simp add: ex_browsing_def client_step_def ServiceBrowserNew_def)
  from signals_reach_their_browser [OF ex_browsing_reachable this, of "[ex_item ''/b'' ''x'', ex_item ''/c'' ''y'']"]
  show ?thesis by (auto simp: new_browser_def ex_item_def browserIface_def)
qed

end
