(* ===== verification/Avahi.thy ===== *)
theory Avahi
  imports AvahiClient Backends Probe TextOps
begin

text \<open>
  \<^verbatim>\<open>internal/discovery/avahi\<close>: the diagnosis of a failed connection
  (\<^verbatim>\<open>diagnose.go\<close>) and the discoverer (\<^verbatim>\<open>avahi.go\<close>) with its sessions
  and its ladder of reconnects.  D-Bus calls, the file system, the environment and the clock are
  arguments.
\<close>

section \<open>Errors\<close>

text \<open>An error is its text and the errors it wraps, as far as the code asks for them.\<close>

datatype avahi_link = BusError string | RefusedErrno | AccessErrno | PermErrno | MissingErrno

record avahi_error =
  ae_text :: string
  ae_links :: "avahi_link list"

datatype cause =
    causeUnknown | causeSocketMissing | causeNotASocket | causeConnRefused | causePermission
  | causeAuthRejected | causeHelloDropped | causePolicyDenied

datatype stage = stagePreflight | stageDial | stageAuth | stageHello | stageAvahi

definition first_bus_error :: "avahi_error \<Rightarrow> string option" where
  "first_bus_error err =
     (case List.map_filter (\<lambda>l. case l of BusError n \<Rightarrow> Some n | _ \<Rightarrow> None) (ae_links err) of [] \<Rightarrow> None | n # _ \<Rightarrow> Some n)"

definition isAccessDenied :: "avahi_error \<Rightarrow> bool" where
  "isAccessDenied err =
     (case first_bus_error err of
        Some n \<Rightarrow> contains n ''AccessDenied''
      | None \<Rightarrow> contains (ae_text err) ''AccessDenied'')"

definition avahi_classify :: "stage \<Rightarrow> avahi_error \<Rightarrow> cause" where
  "avahi_classify st err =
     (if isAccessDenied err then causePolicyDenied
      else case st of
        stageDial \<Rightarrow>
          (if RefusedErrno \<in> set (ae_links err) then causeConnRefused
           else if AccessErrno \<in> set (ae_links err) \<or> PermErrno \<in> set (ae_links err) then causePermission
           else if MissingErrno \<in> set (ae_links err) then causeSocketMissing
           else causeUnknown)
      | stageAuth \<Rightarrow> causeAuthRejected
      | stageHello \<Rightarrow> if first_bus_error err \<noteq> None then causePolicyDenied else causeHelloDropped
      | stagePreflight \<Rightarrow> causeUnknown
      | stageAvahi \<Rightarrow> causeUnknown)"

text \<open>What a look at a path gives: no such file, another error, or its mode, as text, and owner.\<close>

record file_info =
  fi_socket :: bool
  fi_type :: string
  fi_perm :: string
  fi_uid :: int
  fi_gid :: int

datatype stat = NotExist | StatFails | Stat file_info

record host =
  ho_stat :: "string \<Rightarrow> stat"
  ho_euid :: int
  ho_egid :: int

record connError =
  ce_cause :: cause
  ce_stage :: stage
  ce_address :: string
  ce_path :: string
  ce_euid :: int
  ce_egid :: int
  ce_info :: "file_info option"
  ce_text :: string

text \<open>\<^verbatim>\<open>strings.Split\<close> at a character.\<close>

fun split_at :: "char \<Rightarrow> string \<Rightarrow> string list" where
  "split_at c [] = [[]]"
| "split_at c (x # xs) =
     (if x = c then [] # split_at c xs
      else case split_at c xs of [] \<Rightarrow> [[x]] | w # ws \<Rightarrow> (x # w) # ws)"

definition socketPath :: "string \<Rightarrow> string" where
  "socketPath address =
     (if \<not> has_prefix address ''unix:'' then []
      else case filter (\<lambda>kv. has_prefix kv ''path='') (split_at (CHR '','') (trim_prefix address ''unix:'')) of
             [] \<Rightarrow> []
           | kv # _ \<Rightarrow> trim_prefix kv ''path='')"

definition newConnError :: "host \<Rightarrow> cause \<Rightarrow> stage \<Rightarrow> string \<Rightarrow> string \<Rightarrow> connError" where
  "newConnError ho c st address txt =
     (let path = socketPath address
      in \<lparr>ce_cause = c, ce_stage = st, ce_address = address, ce_path = path, ce_euid = ho_euid ho, ce_egid = ho_egid ho,
          ce_info = (if path = [] then None else case ho_stat ho path of Stat fi \<Rightarrow> Some fi | _ \<Rightarrow> None), ce_text = txt\<rparr>)"

definition preflight :: "host \<Rightarrow> string \<Rightarrow> connError option" where
  "preflight ho address =
     (let path = socketPath address
      in if path = [] then None
         else case ho_stat ho path of
                NotExist \<Rightarrow> Some (newConnError ho causeSocketMissing stagePreflight address (''bus socket '' @ path @ '' does not exist''))
              | StatFails \<Rightarrow> None
              | Stat fi \<Rightarrow>
                  (if \<not> fi_socket fi
                   then Some (newConnError ho causeNotASocket stagePreflight address (path @ '' is '' @ fi_type fi @ '', not a socket''))
                   else None))"

definition diagnose :: "host \<Rightarrow> stage \<Rightarrow> string \<Rightarrow> avahi_error \<Rightarrow> connError" where
  "diagnose ho st address err = newConnError ho (avahi_classify st err) st address (ae_text err)"

section \<open>Connecting\<close>

definition defaultBusAddress :: string where "defaultBusAddress = ''unix:path=/run/dbus/system_bus_socket''"
definition probeTimeout :: duration where "probeTimeout = 5 * second"

definition busAddress :: "AvahiConfig \<Rightarrow> string \<Rightarrow> string" where
  "busAddress cfg env =
     (if av_DBusAddress cfg \<noteq> [] then av_DBusAddress cfg
      else if env \<noteq> [] then env else defaultBusAddress)"

text \<open>The steps of a connection, each with its error if it fails.\<close>

record bus =
  bu_dial :: "avahi_error option"
  bu_auth :: "avahi_error option"
  bu_hello :: "avahi_error option"
  bu_match :: "avahi_error option"
  bu_hostname :: "avahi_error option"

definition wrap_error :: "string \<Rightarrow> avahi_error \<Rightarrow> avahi_error" where
  "wrap_error msg err = err\<lparr>ae_text := msg @ '': '' @ ae_text err\<rparr>"

definition connectDBus :: "host \<Rightarrow> bus \<Rightarrow> string \<Rightarrow> connError option" where
  "connectDBus ho bus address =
     (case preflight ho address of
        Some ce \<Rightarrow> Some ce
      | None \<Rightarrow>
     (case bu_dial bus of
        Some err \<Rightarrow> Some (diagnose ho stageDial address (wrap_error (''dialling '' @ address) err))
      | None \<Rightarrow>
     (case bu_auth bus of
        Some err \<Rightarrow> Some (diagnose ho stageAuth address (wrap_error ''authenticating to D-Bus'' err))
      | None \<Rightarrow>
     (case bu_hello bus of
        Some err \<Rightarrow> Some (diagnose ho stageHello address (wrap_error ''D-Bus Hello'' err))
      | None \<Rightarrow>
     (case bu_match bus of
        Some err \<Rightarrow> Some (diagnose ho stageAvahi address
             (wrap_error ''connecting to avahi-daemon'' (wrap_error ''watching for avahi restarts'' err)))
      | None \<Rightarrow>
     (case bu_hostname bus of
        Some err \<Rightarrow> Some (diagnose ho stageAvahi address (wrap_error ''avahi-daemon did not respond'' err))
      | None \<Rightarrow> None))))))"

section \<open>Events\<close>

definition avahi_name :: string where "avahi_name = ''avahi''"

definition protocolName :: "int \<Rightarrow> string" where
  "protocolName proto = (if proto = protoInet6 then ProtoIPv6 else ProtoIPv4)"

definition avahi_key :: "Service \<Rightarrow> string \<Rightarrow> EndpointKey" where
  "avahi_key svc serviceType =
     \<lparr>key_ServiceType = serviceType, key_Interface = sv_Interface svc, key_Protocol = protocolName (sv_Protocol svc)\<rparr>"

definition source_reset :: "time \<Rightarrow> Event" where
  "source_reset now =
     \<lparr>ev_Type = EventSourceReset, ev_Source = avahi_name, ev_DeviceID = [], ev_Instance = [], ev_Unnamed = False,
      ev_Domain = [], ev_Kind = [], ev_Endpoint = zero_endpoint, ev_At = now\<rparr>"

definition remove_event :: "time \<Rightarrow> string \<Rightarrow> Service \<Rightarrow> Event" where
  "remove_event now serviceType svc =
     \<lparr>ev_Type = EventRemove, ev_Source = avahi_name, ev_DeviceID = [], ev_Instance = sv_Name svc, ev_Unnamed = False,
      ev_Domain = sv_Domain svc, ev_Kind = Classify serviceType (sv_Name svc) Map.empty,
      ev_Endpoint = zero_endpoint\<lparr>ep_Key := avahi_key svc serviceType\<rparr>, ev_At = now\<rparr>"

definition resolved_event ::
  "(string \<Rightarrow> netip_addr option) \<Rightarrow> time \<Rightarrow> string \<Rightarrow> Service \<Rightarrow> Event option" where
  "resolved_event parseAddr now serviceType svc =
     (case parseAddr (sv_Address svc) of
        None \<Rightarrow> None
      | Some addr \<Rightarrow>
          (let txt = ParseTXTBytes (sv_Txt svc); kind = Classify serviceType (sv_Name svc) txt
           in if kind = KindUnknown then None
              else Some \<lparr>ev_Type = EventAdd, ev_Source = avahi_name, ev_DeviceID = [], ev_Instance = sv_Name svc,
                     ev_Unnamed = False, ev_Domain = sv_Domain svc, ev_Kind = kind,
                     ev_Endpoint = \<lparr>ep_Key = avahi_key svc serviceType, ep_Host = sv_Host svc, ep_Addr = unmap addr,
                       ep_Port = sv_Port svc, ep_TXT = txt, ep_Cached = False, ep_Trusted = False, ep_ObservedAt = now\<rparr>,
                     ev_At = now\<rparr>))"

definition emitResolved ::
  "(string \<Rightarrow> netip_addr option) \<Rightarrow> time \<Rightarrow> Service \<Rightarrow> string \<Rightarrow> Health \<Rightarrow> Event list \<times> Health" where
  "emitResolved parseAddr now svc serviceType h =
     (case resolved_event parseAddr now serviceType svc of
        None \<Rightarrow> ([], h)
      | Some ev \<Rightarrow> ([ev], h\<lparr>hl_LastEventAt := now\<rparr>))"

text \<open>
  Resolving a browse hit: \<open>slot\<close> says whether a slot was free before the session ended, and the
  answer is that of the bounded call.  A failed call is only logged.
\<close>

definition resolve_hit ::
  "(string \<Rightarrow> netip_addr option) \<Rightarrow> bool \<Rightarrow> string + Service \<Rightarrow> string \<Rightarrow> time \<Rightarrow> Health \<Rightarrow> Event list \<times> Health" where
  "resolve_hit parseAddr slot answer serviceType now h =
     (if \<not> slot then ([], h)
      else case answer of
             Inl err \<Rightarrow> ([], h)
           | Inr svc \<Rightarrow> emitResolved parseAddr now svc serviceType h)"

text \<open>What the consumers of a session see: a hit with its resolution, or the end of a service.\<close>

datatype browse_event =
    Hit string bool "string + Service" time
  | Gone string Service time

fun consume ::
  "(string \<Rightarrow> netip_addr option) \<Rightarrow> browse_event list \<Rightarrow> Health \<Rightarrow> Event list \<times> Health" where
  "consume parseAddr [] h = ([], h)"
| "consume parseAddr (Hit serviceType slot answer now # evs) h =
     (let (sent, h') = resolve_hit parseAddr slot answer serviceType now h
      in apfst ((@) sent) (consume parseAddr evs h'))"
| "consume parseAddr (Gone serviceType svc now # evs) h =
     apfst ((#) (remove_event now serviceType svc)) (consume parseAddr evs h)"

end
