(* ===== verification/AvahiSession.thy ===== *)
theory AvahiSession
  imports Avahi
begin

text \<open>
  \<^verbatim>\<open>internal/discovery/avahi/avahi.go\<close> and \<^verbatim>\<open>diagnose.go\<close>: one session with
  avahi-daemon, the loop that watches it, the supervision of sessions, and the advice a failure comes
  with.
\<close>

section \<open>Advice\<close>

definition itoa_int :: "int \<Rightarrow> string" where
  "itoa_int n = (if n < 0 then CHR ''-'' # itoa (nat (- n)) else itoa (nat n))"

definition where_of :: "connError \<Rightarrow> string" where
  "where_of e = (if ce_path e \<noteq> [] then ce_path e else ce_address e)"

definition mode_type :: "connError \<Rightarrow> string" where
  "mode_type e = (case ce_info e of Some fi \<Rightarrow> fi_type fi | None \<Rightarrow> ''----------'')"

definition mode_perm :: "connError \<Rightarrow> string" where
  "mode_perm e = (case ce_info e of Some fi \<Rightarrow> fi_perm fi | None \<Rightarrow> ''----------'')"

definition owner_ids :: "connError \<Rightarrow> string" where
  "owner_ids e = (case ce_info e of Some fi \<Rightarrow> itoa_int (fi_uid fi) @ '':'' @ itoa_int (fi_gid fi) | None \<Rightarrow> ''0:0'')"

definition generic_advice :: string where
  "generic_advice = ''is /run/dbus/system_bus_socket bind-mounted, and is avahi-daemon running on the host?''"

definition em_dash :: string where "em_dash = [CHR 0xE2, CHR 0x80, CHR 0x94]"

definition Advice :: "connError \<Rightarrow> string" where
  "Advice e =
     (case ce_cause e of
        causeSocketMissing \<Rightarrow>
          where_of e @ '' does not exist in the container: bind-mount the host's ''
          @ ''/run/dbus/system_bus_socket there. Check the host path exists first, because ''
          @ ''Docker creates a directory when the source of a bind mount is missing.''
      | causeNotASocket \<Rightarrow>
          where_of e @ '' exists but is '' @ mode_type e @ '', not a socket, which is what Docker ''
          @ ''creates when the source of a bind mount is missing. Check `ls -l ''
          @ ''/run/dbus/system_bus_socket` on the host, then remove the stray path on both ''
          @ ''sides and recreate the container.''
      | causeConnRefused \<Rightarrow>
          where_of e @ '' exists but nothing is listening on it, which is what a ''
          @ ''restarted dbus-daemon leaves behind: the mount still points at the socket it ''
          @ ''replaced. Check `systemctl is-active dbus avahi-daemon` on the host, then ''
          @ ''recreate this container so the mount resolves again.''
      | causePermission \<Rightarrow>
          ''this process is uid '' @ itoa_int (ce_euid e) @ '', gid '' @ itoa_int (ce_egid e) @ '', and ''
          @ where_of e @ '' is mode '' @ mode_perm e @ '' owned by '' @ owner_ids e
          @ ''. Run the container as a uid that may write to the socket, or make the ''
          @ ''socket world-writable on the host.''
      | causeAuthRejected \<Rightarrow>
          ''the bus refused authentication. dbus-daemon takes the peer's ''
          @ ''identity from the kernel rather than from anything this process sends, so it ''
          @ ''refused the uid it was told the socket belongs to '' @ em_dash @ '' which is '' @ itoa_int (ce_euid e) @ '' here, unless ''
          @ ''a user-namespace remap is in play, from rootless Docker or ''
          @ ''`dockerd --userns-remap`. Run the container outside the remap, or permit that ''
          @ ''uid on the host.''
      | causeHelloDropped \<Rightarrow>
          ''the bus authenticated uid '' @ itoa_int (ce_euid e) @ '' and then closed the connection ''
          @ ''without a D-Bus error reply. dbus-daemon does that when it cannot look the ''
          @ ''uid up in the host's passwd database, which it must do before it will accept ''
          @ ''the connection, and it records the refusal at verbose level only '' @ em_dash @ '' so the ''
          @ ''host journal stays silent and every other check looks healthy. Run `getent ''
          @ ''passwd '' @ itoa_int (ce_euid e) @ ''` on the host: if it prints nothing, run the container as a uid that ''
          @ ''exists there, which is 568:568 (apps) on TrueNAS SCALE and 65534:65534 ''
          @ ''(nobody) on most Linux hosts.''
      | causePolicyDenied \<Rightarrow>
          ''the host's D-Bus policy refuses this client access to Avahi. Check ''
          @ ''/etc/dbus-1/system.d/avahi-dbus.conf on the host, including whether it grants ''
          @ ''access by group: a group rule needs this container's uid to resolve to a host ''
          @ ''user before its groups can be looked up at all.''
      | causeUnknown \<Rightarrow> generic_advice)"

text \<open>The error of a session: a failed connection, or a browser that could not be made.\<close>

datatype session_error = ConnFailed connError | BrowseFailed string

definition session_error_text :: "session_error \<Rightarrow> string" where
  "session_error_text err = (case err of ConnFailed ce \<Rightarrow> ce_text ce | BrowseFailed s \<Rightarrow> s)"

definition adviceFor :: "session_error \<Rightarrow> string" where
  "adviceFor err = (case err of ConnFailed ce \<Rightarrow> Advice ce | BrowseFailed _ \<Rightarrow> generic_advice)"

text \<open>\<^verbatim>\<open>logFailure\<close>: whether the advice is logged, and the cause remembered for the next time.\<close>

definition logFailure :: "session_error \<Rightarrow> cause \<Rightarrow> bool \<times> cause" where
  "logFailure err prev =
     (case err of
        BrowseFailed _ \<Rightarrow> (False, prev)
      | ConnFailed ce \<Rightarrow> if prev = ce_cause ce then (False, prev) else (True, ce_cause ce))"

section \<open>Watching\<close>

datatype watch_event = WCtxDone | WOwner string | WOwnersClosed | WProbed "string option" | WRebrowse

definition reasonRebrowse :: string where "reasonRebrowse = ''rebrowse''"

text \<open>\<open>None\<close> while the session goes on.\<close>

fun watch :: "nat \<Rightarrow> watch_event list \<Rightarrow> string option" where
  "watch failures [] = None"
| "watch failures (WCtxDone # evs) = Some []"
| "watch failures (WOwner newOwner # evs) = Some (if newOwner = [] then ''name_lost'' else ''name_changed'')"
| "watch failures (WOwnersClosed # evs) = Some ''dbus_closed''"
| "watch failures (WProbed err # evs) =
     (case err of
        Some _ \<Rightarrow> if 2 \<le> Suc failures then Some ''watchdog'' else watch (Suc failures) evs
      | None \<Rightarrow> watch 0 evs)"
| "watch failures (WRebrowse # evs) = Some reasonRebrowse"

section \<open>Sessions\<close>

record AvahiDiscoverer =
  ad_cfg :: AvahiConfig
  ad_serviceTypes :: "string list"
  ad_reconnects :: nat
  ad_health :: Health

definition NewAvahi :: "AvahiConfig \<Rightarrow> string list \<Rightarrow> AvahiDiscoverer" where
  "NewAvahi cfg serviceTypes = \<lparr>ad_cfg = cfg, ad_serviceTypes = serviceTypes, ad_reconnects = 0, ad_health = zero_health\<rparr>"

definition Avahi_Health :: "AvahiDiscoverer \<Rightarrow> Health" where
  "Avahi_Health d = (ad_health d)\<lparr>hl_Reconnects := ad_reconnects d\<rparr>"

definition on_health :: "(Health \<Rightarrow> Health) \<Rightarrow> AvahiDiscoverer \<Rightarrow> AvahiDiscoverer" where
  "on_health f d = d\<lparr>ad_health := f (ad_health d)\<rparr>"

definition avahi_setUp :: "AvahiDiscoverer \<Rightarrow> AvahiDiscoverer" where
  "avahi_setUp = on_health (\<lambda>h. h\<lparr>hl_Up := True, hl_Reason := []\<rparr>)"

definition avahi_setDown :: "string \<Rightarrow> AvahiDiscoverer \<Rightarrow> AvahiDiscoverer" where
  "avahi_setDown reason = on_health (\<lambda>h. h\<lparr>hl_Up := False, hl_Reason := reason\<rparr>)"

text \<open>What a session meets.  \<open>as_browse\<close> is the error of browsing a type, if it fails.\<close>

record avahi_script =
  as_host :: host
  as_env :: string
  as_bus :: bus
  as_now :: time
  as_browse :: "string \<Rightarrow> string option"
  as_browsed :: "browse_event list"
  as_watched :: "watch_event list"

definition first_failure :: "(string \<Rightarrow> string option) \<Rightarrow> string list \<Rightarrow> string option" where
  "first_failure browse ts =
     (case List.map_filter (\<lambda>t. map_option (\<lambda>err. ''browsing '' @ t @ '': '' @ err) (browse t)) ts of
        [] \<Rightarrow> None
      | e # _ \<Rightarrow> Some e)"

text \<open>
  The events it sent, its reason and error, and the discoverer.  A session that is still being watched
  at the end of the script has not ended.
\<close>

definition avahi_session ::
  "(string \<Rightarrow> netip_addr option) \<Rightarrow> avahi_script \<Rightarrow> AvahiDiscoverer
     \<Rightarrow> Event list \<times> (string \<times> session_error option) option \<times> AvahiDiscoverer" where
  "avahi_session parseAddr s d =
     (case connectDBus (as_host s) (as_bus s) (busAddress (ad_cfg d) (as_env s)) of
        Some ce \<Rightarrow> ([], Some ([], Some (ConnFailed ce)), d)
      | None \<Rightarrow>
          (case first_failure (as_browse s) (ad_serviceTypes d) of
             Some err \<Rightarrow> ([source_reset (as_now s)], Some (''browser_failed'', Some (BrowseFailed err)), d)
           | None \<Rightarrow>
               (let d1 = avahi_setUp d
                in case consume parseAddr (as_browsed s) (ad_health d1) of
                     (sent, h) \<Rightarrow>
                       (source_reset (as_now s) # sent, map_option (\<lambda>reason. (reason, None)) (watch 0 (as_watched s)),
                        d1\<lparr>ad_health := h\<rparr>))))"

section \<open>Supervision\<close>

definition avahi_jitter :: "real \<Rightarrow> duration \<Rightarrow> duration" where
  "avahi_jitter rand d = (let f = real_of_int d in truncate_dur (f * (4 / 5) + 2 / 5 * f * rand))"

record avahi_turn =
  at_script :: avahi_script
  at_ended :: bool         \<comment> \<open>whether the context ends before the next session\<close>
  at_elapsed :: duration   \<comment> \<open>since \<^verbatim>\<open>Run\<close> began, after the session\<close>
  at_rand :: real

text \<open>The variables of the loop.\<close>

record supervisor =
  su_backoff :: duration
  su_everConnected :: bool
  su_lastCause :: cause
  su_source :: AvahiDiscoverer

text \<open>A fatal error names the timeout, the last error and what to do about it.\<close>

datatype run_verdict = Continue duration | Stopped | Fatal duration string string

definition fatal_error :: "duration \<Rightarrow> session_error option \<Rightarrow> supervisor \<Rightarrow> run_verdict option" where
  "fatal_error elapsed err su =
     (let cfg = ad_cfg (su_source su)
      in case err of
           None \<Rightarrow> None
         | Some e \<Rightarrow>
             (if \<not> su_everConnected su \<and> av_Required cfg \<and> av_StartupTimeout cfg < elapsed
              then Some (Fatal (av_StartupTimeout cfg) (session_error_text e) (adviceFor e)) else None))"

definition count_reconnect :: "string \<Rightarrow> supervisor \<Rightarrow> supervisor" where
  "count_reconnect reason su =
     (if reason = [] then su
      else su\<lparr>su_source := (su_source su)\<lparr>ad_reconnects := Suc (ad_reconnects (su_source su))\<rparr>\<rparr>)"

definition take_outcome :: "string \<times> session_error option \<Rightarrow> supervisor \<Rightarrow> supervisor" where
  "take_outcome outcome su =
     (case outcome of
        (reason, None) \<Rightarrow>
          su\<lparr>su_everConnected := True, su_lastCause := causeUnknown,
             su_backoff := (if reason = reasonRebrowse then av_ReconnectMin (ad_cfg (su_source su)) else su_backoff su)\<rparr>
      | (reason, Some e) \<Rightarrow>
          su\<lparr>su_source := avahi_setDown (session_error_text e) (su_source su),
             su_lastCause := snd (logFailure e (su_lastCause su))\<rparr>)"

definition after_session :: "duration \<Rightarrow> bool \<Rightarrow> real \<Rightarrow> string \<times> session_error option \<Rightarrow> supervisor \<Rightarrow> run_verdict \<times> supervisor" where
  "after_session elapsed ended rand outcome su0 =
     (let su1 = take_outcome outcome su0
      in case fatal_error elapsed (snd outcome) su1 of
           Some v \<Rightarrow> (v, su1)
         | None \<Rightarrow>
             (let su2 = count_reconnect (fst outcome) su1
              in if ended then (Stopped, su2)
                 else (Continue (avahi_jitter rand (su_backoff su2)),
                       su2\<lparr>su_backoff := min (2 * su_backoff su2) (av_ReconnectMax (ad_cfg (su_source su2)))\<rparr>)))"

text \<open>The events, the waits, how it ended (\<open>None\<close> while it runs), and the state.\<close>

fun supervise ::
  "(string \<Rightarrow> netip_addr option) \<Rightarrow> avahi_turn list \<Rightarrow> supervisor \<Rightarrow> Event list \<times> duration list \<times> run_verdict option \<times> supervisor" where
  "supervise parseAddr [] su = ([], [], None, su)"
| "supervise parseAddr (t # ts) su =
     (case avahi_session parseAddr (at_script t) (su_source su) of
        (sent, outcome, d) \<Rightarrow>
          (case outcome of
             None \<Rightarrow> (sent, [], None, su\<lparr>su_source := d\<rparr>)
           | Some o' \<Rightarrow>
               (case after_session (at_elapsed t) (at_ended t) (at_rand t) o' (su\<lparr>su_source := d\<rparr>) of
                  (Continue wait, su') \<Rightarrow>
                    (case supervise parseAddr ts su' of (sent', waits, v, su'') \<Rightarrow> (sent @ sent', wait # waits, v, su''))
                | (v, su') \<Rightarrow> (sent, [], Some v, su'))))"

definition Avahi_Run ::
  "(string \<Rightarrow> netip_addr option) \<Rightarrow> avahi_turn list \<Rightarrow> AvahiDiscoverer \<Rightarrow> Event list \<times> duration list \<times> run_verdict option \<times> supervisor" where
  "Avahi_Run parseAddr ts d =
     supervise parseAddr ts \<lparr>su_backoff = av_ReconnectMin (ad_cfg d), su_everConnected = False, su_lastCause = causeUnknown, su_source = d\<rparr>"

end
