(* ===== verification/AvahiProps.thy ===== *)
theory AvahiProps
  imports AvahiSession
begin

text \<open>
  The properties of the Avahi backend: when it may stop the exporter, how long it waits between
  sessions, and what an observation of it becomes.
\<close>

section \<open>What a session keeps\<close>

definition session_fails :: "AvahiDiscoverer \<Rightarrow> avahi_script \<Rightarrow> bool" where
  "session_fails d s \<longleftrightarrow> connectDBus (as_host s) (as_bus s) (busAddress (ad_cfg d) (as_env s)) \<noteq> None
     \<or> first_failure (as_browse s) (ad_serviceTypes d) \<noteq> None"

definition same_source :: "AvahiDiscoverer \<Rightarrow> AvahiDiscoverer \<Rightarrow> bool" where
  "same_source d d' \<longleftrightarrow> ad_cfg d' = ad_cfg d \<and> ad_serviceTypes d' = ad_serviceTypes d"

lemma session_fails_same: "same_source d d' \<Longrightarrow> session_fails d' s = session_fails d s"
  by (simp add: session_fails_def same_source_def)

lemma same_source_trans: "same_source a b \<Longrightarrow> same_source b c \<Longrightarrow> same_source a c"
  by (simp add: same_source_def)

lemma avahi_session_same: "avahi_session parseAddr s d = (sent, outcome, d') \<Longrightarrow> same_source d d'"
  by (auto simp: avahi_session_def same_source_def avahi_setUp_def on_health_def split: option.splits prod.splits)

lemma avahi_session_fails:
  "avahi_session parseAddr s d = (sent, outcome, d') \<Longrightarrow>
     (\<exists>reason e. outcome = Some (reason, Some e)) = session_fails d s"
  by (auto simp: avahi_session_def session_fails_def Let_def split: option.splits prod.splits)

lemma outcome_failed:
  "avahi_session parseAddr s d = (sent, Some (reason, err), d') \<Longrightarrow> (err \<noteq> None) = session_fails d s"
  using avahi_session_fails by (cases err) fastforce+

lemma after_session_same:
  "after_session elapsed ended rand outcome su = (v, su') \<Longrightarrow> same_source (su_source su) (su_source su')"
  by (auto simp: after_session_def take_outcome_def count_reconnect_def same_source_def avahi_setDown_def on_health_def Let_def
      split: prod.splits option.splits if_splits)

lemma after_session_connected:
  "after_session elapsed ended rand (reason, err) su = (v, su') \<Longrightarrow> su_everConnected su' = (su_everConnected su \<or> err = None)"
  by (auto simp: after_session_def take_outcome_def count_reconnect_def Let_def split: option.splits if_splits)

section \<open>Giving up\<close>

definition is_fatal :: "run_verdict option \<Rightarrow> bool" where
  "is_fatal v = (case v of Some (Fatal t e a) \<Rightarrow> True | _ \<Rightarrow> False)"

lemma after_session_fatal:
  "is_fatal (Some (fst (after_session elapsed ended rand (reason, err) su)))
    = (err \<noteq> None \<and> \<not> su_everConnected su \<and> av_Required (ad_cfg (su_source su)) \<and> av_StartupTimeout (ad_cfg (su_source su)) < elapsed)"
  by (auto simp: is_fatal_def after_session_def fatal_error_def take_outcome_def avahi_setDown_def on_health_def Let_def
      split: option.split)

lemma after_session_continues:
  "(\<exists>w. fst (after_session elapsed ended rand (reason, err) su) = Continue w)
    = (\<not> ended \<and> \<not> is_fatal (Some (fst (after_session elapsed ended rand (reason, err) su))))"
  by (auto simp: is_fatal_def after_session_def fatal_error_def Let_def split: option.split)

text \<open>The sessions that all fail until the startup timeout has passed.\<close>

fun never_worked_in_time :: "AvahiDiscoverer \<Rightarrow> avahi_turn list \<Rightarrow> bool" where
  "never_worked_in_time d [] = False"
| "never_worked_in_time d (t # ts) =
     (session_fails d (at_script t)
      \<and> (av_StartupTimeout (ad_cfg d) < at_elapsed t \<or> (\<not> at_ended t \<and> never_worked_in_time d ts)))"

lemma never_worked_same: "same_source d d' \<Longrightarrow> never_worked_in_time d' ts = never_worked_in_time d ts"
  by (induction ts) (auto simp: session_fails_same, auto simp: same_source_def)

lemma supervise_fatal:
  "is_fatal (fst (snd (snd (supervise parseAddr ts su))))
    = (\<not> su_everConnected su \<and> av_Required (ad_cfg (su_source su)) \<and> never_worked_in_time (su_source su) ts)"
proof (induction ts arbitrary: su)
  case (Cons t ts)
  obtain sent outcome d where s: "avahi_session parseAddr (at_script t) (su_source su) = (sent, outcome, d)"
    by (cases "avahi_session parseAddr (at_script t) (su_source su)")
  note same = avahi_session_same [OF s]
  show ?case
  proof (cases outcome)
    case None
    then have "\<not> session_fails (su_source su) (at_script t)" using avahi_session_fails [OF s] by simp
    then show ?thesis using None s by (simp add: is_fatal_def)
  next
    case (Some o')
    obtain reason err where o': "o' = (reason, err)" by force
    let ?su = "su\<lparr>su_source := d\<rparr>"
    let ?a = "after_session (at_elapsed t) (at_ended t) (at_rand t) (reason, err) ?su"
    have failed: "(err \<noteq> None) = session_fails (su_source su) (at_script t)"
      using outcome_failed [of parseAddr "at_script t" "su_source su" sent reason err d] s by (simp add: Some o')
    have cfg: "ad_cfg d = ad_cfg (su_source su)" using same by (simp add: same_source_def)
    obtain v su' where a: "?a = (v, su')" by force
    have fatal: "is_fatal (Some v) = (err \<noteq> None \<and> \<not> su_everConnected su \<and> av_Required (ad_cfg (su_source su))
        \<and> av_StartupTimeout (ad_cfg (su_source su)) < at_elapsed t)"
      using after_session_fatal [of "at_elapsed t" "at_ended t" "at_rand t" reason err ?su] by (simp add: a cfg)
    show ?thesis
    proof (cases "\<exists>w. v = Continue w")
      case True
      then obtain w where w: "v = Continue w" ..
      have go: "\<not> at_ended t \<and> \<not> is_fatal (Some v)"
        using after_session_continues [of "at_elapsed t" "at_ended t" "at_rand t" reason err ?su] True by (simp add: a)
      have "same_source (su_source su) (su_source su')"
        using same_source_trans [OF same] after_session_same [OF a] by simp
      moreover from this have "ad_cfg (su_source su') = ad_cfg (su_source su)" by (simp add: same_source_def)
      moreover have "su_everConnected su' = (su_everConnected su \<or> err = None)" using after_session_connected [OF a] by simp
      moreover have "fst (snd (snd (supervise parseAddr (t # ts) su))) = fst (snd (snd (supervise parseAddr ts su')))"
        by (cases "supervise parseAddr ts su'") (simp add: s Some o' a w)
      ultimately show ?thesis
        using Cons.IH [of su'] go fatal failed never_worked_same [of "su_source su" "su_source su'" ts] by auto
    next
      case False
      then have "is_fatal (fst (snd (snd (supervise parseAddr (t # ts) su)))) = is_fatal (Some v)"
        using s by (cases v) (simp_all add: Some o' a)
      moreover have "at_ended t \<or> is_fatal (Some v)"
        using after_session_continues [of "at_elapsed t" "at_ended t" "at_rand t" reason err ?su] False by (simp add: a)
      ultimately show ?thesis using fatal failed by auto
    qed
  qed
qed (simp add: is_fatal_def)

text \<open>C32. Startup fails fast, running never does: the backend stops the exporter exactly when it is
  required and every session failed until the startup timeout had passed.  After one session that
  worked, no outage however long is fatal.\<close>

theorem fatal_only_before_the_first_session:
  "is_fatal (fst (snd (snd (Avahi_Run parseAddr ts d)))) \<longleftrightarrow> av_Required (ad_cfg d) \<and> never_worked_in_time d ts"
  by (simp add: Avahi_Run_def supervise_fatal)

section \<open>Waiting\<close>

lemma avahi_jitter_bounds:
  assumes "0 \<le> d" "0 \<le> rand" "rand < 1"
  shows "4 * d \<le> 5 * avahi_jitter rand d + 4" "5 * avahi_jitter rand d \<le> 6 * d"
proof -
  let ?f = "real_of_int d * (4 / 5) + 2 / 5 * real_of_int d * rand"
  have f: "0 \<le> ?f" "real_of_int d * (4 / 5) \<le> ?f" using assms by simp_all
  have "2 / 5 * real_of_int d * rand \<le> 2 / 5 * real_of_int d * 1" using assms by (intro mult_left_mono) simp_all
  then have up: "?f \<le> 6 / 5 * real_of_int d" by simp
  have w: "avahi_jitter rand d = \<lfloor>?f\<rfloor>" using f(1) by (simp add: avahi_jitter_def truncate_dur_def Let_def)
  show "4 * d \<le> 5 * avahi_jitter rand d + 4" "5 * avahi_jitter rand d \<le> 6 * d"
    unfolding w using f(2) up by linarith+
qed

lemma after_session_wait:
  assumes "after_session elapsed ended rand (reason, err) su = (Continue wait, su')"
    and "cfg = ad_cfg (su_source su)" "0 \<le> av_ReconnectMin cfg" "av_ReconnectMin cfg \<le> av_ReconnectMax cfg"
    and "av_ReconnectMin cfg \<le> su_backoff su" "su_backoff su \<le> av_ReconnectMax cfg" "0 \<le> rand" "rand < 1"
  shows "4 * av_ReconnectMin cfg \<le> 5 * wait + 4 \<and> 5 * wait \<le> 6 * av_ReconnectMax cfg
    \<and> (reason = reasonRebrowse \<and> err = None \<longrightarrow> 5 * wait \<le> 6 * av_ReconnectMin cfg)
    \<and> av_ReconnectMin cfg \<le> su_backoff su' \<and> su_backoff su' \<le> av_ReconnectMax cfg"
proof -
  let ?b = "if reason = reasonRebrowse \<and> err = None then av_ReconnectMin cfg else su_backoff su"
  have "wait = avahi_jitter rand ?b" "su_backoff su' = min (2 * ?b) (av_ReconnectMax cfg)"
    using assms(1,2)
    by (auto simp: after_session_def take_outcome_def count_reconnect_def fatal_error_def avahi_setDown_def on_health_def Let_def
        split: option.splits if_splits)
  moreover have "0 \<le> ?b" "av_ReconnectMin cfg \<le> ?b" "?b \<le> av_ReconnectMax cfg" using assms by auto
  ultimately show ?thesis
    using avahi_jitter_bounds [OF \<open>0 \<le> ?b\<close> assms(7,8)] by auto
qed

text \<open>Between two sessions the backend waits no less than 0.8 times the first wait and no more than 1.2 times
  the longest.\<close>

lemma avahi_waits_are_bounded:
  assumes "cfg = ad_cfg (su_source su)" "0 \<le> av_ReconnectMin cfg" "av_ReconnectMin cfg \<le> av_ReconnectMax cfg"
    and "av_ReconnectMin cfg \<le> su_backoff su" "su_backoff su \<le> av_ReconnectMax cfg"
    and "list_all (\<lambda>t. 0 \<le> at_rand t \<and> at_rand t < 1) ts"
  shows "list_all (\<lambda>w. 4 * av_ReconnectMin cfg \<le> 5 * w + 4 \<and> 5 * w \<le> 6 * av_ReconnectMax cfg)
    (fst (snd (supervise parseAddr ts su)))"
  using assms(1,4,5,6)
proof (induction ts arbitrary: su)
  case (Cons t ts)
  obtain sent outcome d where s: "avahi_session parseAddr (at_script t) (su_source su) = (sent, outcome, d)"
    by (cases "avahi_session parseAddr (at_script t) (su_source su)")
  have cfg: "cfg = ad_cfg d" using avahi_session_same [OF s] Cons.prems(1) by (simp add: same_source_def)
  show ?case
  proof (cases outcome)
    case (Some o')
    obtain reason err where o': "o' = (reason, err)" by force
    obtain v su' where a: "after_session (at_elapsed t) (at_ended t) (at_rand t) (reason, err) (su\<lparr>su_source := d\<rparr>) = (v, su')" by force
    show ?thesis
    proof (cases v)
      case (Continue wait)
      have w: "4 * av_ReconnectMin cfg \<le> 5 * wait + 4 \<and> 5 * wait \<le> 6 * av_ReconnectMax cfg
          \<and> av_ReconnectMin cfg \<le> su_backoff su' \<and> su_backoff su' \<le> av_ReconnectMax cfg"
        using after_session_wait [OF a [unfolded Continue], of cfg] cfg Cons.prems assms(2,3) by simp
      have "cfg = ad_cfg (su_source su')" using after_session_same [OF a] cfg by (simp add: same_source_def)
      then show ?thesis
        using Cons.IH [of su'] w Cons.prems(4)
        by (cases "supervise parseAddr ts su'") (simp add: s Some o' a Continue)
    qed (simp_all add: s Some o' a)
  qed (simp add: s)
qed simp

section \<open>Watching\<close>

text \<open>A single missed answer ends no session; two in a row do.\<close>

lemma watchdog_needs_two:
  "watch 0 [WProbed (Some e)] = None" "watch 0 [WProbed (Some e), WProbed None, WProbed (Some e')] = None"
  "watch 0 (WProbed (Some e) # WProbed (Some e') # evs) = Some ''watchdog''"
  by simp_all

text \<open>
  A session that ends by a fault leaves the health up: only a session that could not be established
  takes it down.
\<close>

lemma fault_leaves_health_up:
  assumes "avahi_session parseAddr s d = (sent, Some (reason, None), d')"
  shows "hl_Up (ad_health (su_source (snd (after_session elapsed ended rand (reason, None) (su\<lparr>su_source := d'\<rparr>)))))"
proof -
  have emit: "hl_Up (snd (emitResolved parseAddr now svc t h)) = hl_Up h" for now svc t h
    by (simp add: emitResolved_def split: option.split)
  have resolved: "hl_Up (snd (resolve_hit parseAddr slot answer t now h)) = hl_Up h" for slot answer t now h
    by (simp add: resolve_hit_def emit split: sum.split)
  have browsed: "hl_Up (snd (consume parseAddr evs h)) = hl_Up h" for evs h
  proof (induction evs arbitrary: h)
    case (Cons ev evs)
    then show ?case by (cases ev) (simp_all add: resolved Let_def split_beta)
  qed simp
  have "hl_Up (ad_health d')"
    using assms browsed [of "as_browsed s" "(ad_health d)\<lparr>hl_Up := True, hl_Reason := []\<rparr>"]
    by (auto simp: avahi_session_def Let_def avahi_setUp_def on_health_def split: option.splits prod.splits)
  then show ?thesis
    by (simp add: after_session_def take_outcome_def count_reconnect_def fatal_error_def Let_def)
qed

end
