(* ===== verification/AppRun.thy ===== *)
theory AppRun
  imports AppWiringProps AvahiProps Startup Server
begin

text \<open>
  \<^verbatim>\<open>App.Run\<close> and \<^verbatim>\<open>Multi.Run\<close>: the goroutines of the running program as
  members of error groups, and when the program ends with an error.  The error group is a package of
  the Go project: which of its members' errors it reports is an argument.
\<close>

section \<open>The members\<close>

datatype stop_error = ListenerFailed string | AvahiFatal duration string string

text \<open>What a backend returns from its \<^verbatim>\<open>Run\<close>, once its context has ended or it gave up.\<close>

definition backend_run ::
  "(string \<Rightarrow> netip_addr option) \<Rightarrow> avahi_turn list \<Rightarrow> backend \<Rightarrow> stop_error option" where
  "backend_run parseAddr turns b =
     (case b of
        AvahiBackend cfg types \<Rightarrow>
          (case fst (snd (snd (Avahi_Run parseAddr turns (NewAvahi cfg types)))) of
             Some (Fatal t e advice) \<Rightarrow> Some (AvahiFatal t e advice)
           | _ \<Rightarrow> None)
      | StaticBackend s \<Rightarrow> None
      | ZeroconfBackend types \<Rightarrow> None
      | CloudBackend s \<Rightarrow> None)"

definition multi_run ::
  "(stop_error option list \<Rightarrow> stop_error option) \<Rightarrow> (string \<Rightarrow> netip_addr option) \<Rightarrow> avahi_turn list \<Rightarrow> backend list
     \<Rightarrow> stop_error option" where
  "multi_run wait parseAddr turns bs = wait (map (backend_run parseAddr turns) bs)"

text \<open>
  The HTTP server's part of a run: whether the listener failed by itself, what the shutdown gave and
  what the listener returned after it.
\<close>

record server_script =
  sr_early :: "(string option \<times> bool) option"
  sr_shutdown :: "string option"
  sr_late :: "string option \<times> bool"

definition server_member :: "server_script \<Rightarrow> stop_error option" where
  "server_member w = map_option ListenerFailed (Server_Run (sr_early w) (sr_shutdown w) (sr_late w))"

text \<open>The registry, the manager, the names and the sampling return no error when they end.\<close>

definition App_Run ::
  "(stop_error option list \<Rightarrow> stop_error option) \<Rightarrow> (string \<Rightarrow> netip_addr option) \<Rightarrow> avahi_turn list \<Rightarrow> server_script
     \<Rightarrow> App \<Rightarrow> stop_error option" where
  "App_Run wait parseAddr turns w a =
     (let registry = None; manager = None; names = None; sampling = None
      in wait ([registry, multi_run wait parseAddr turns (ap_backends a), server_member w, manager]
           @ (if ap_names a \<noteq> None then [names] else []) @ [sampling]))"

text \<open>\<^verbatim>\<open>main\<close>: the exit code.\<close>

definition exit_code :: "stop_error option \<Rightarrow> nat" where
  "exit_code err = (if err \<noteq> None then 1 else 0)"

section \<open>When it ends with an error\<close>

text \<open>What the error group promises: an error exactly if a member returned one, and then one of theirs.\<close>

definition group_law :: "('e option list \<Rightarrow> 'e option) \<Rightarrow> bool" where
  "group_law wait \<longleftrightarrow> (\<forall>rs. (wait rs = None \<longleftrightarrow> set rs \<subseteq> {None}) \<and> (wait rs \<noteq> None \<longrightarrow> wait rs \<in> set rs))"

lemma group_none: "group_law wait \<Longrightarrow> wait rs = None \<longleftrightarrow> (\<forall>r \<in> set rs. r = None)"
  unfolding group_law_def by blast

lemma backend_run_error:
  "backend_run parseAddr turns b \<noteq> None \<longleftrightarrow>
     (\<exists>cfg types. b = AvahiBackend cfg types \<and> av_Required cfg \<and> never_worked_in_time (NewAvahi cfg types) turns)"
proof (cases b)
  case (AvahiBackend cfg types)
  have "backend_run parseAddr turns b \<noteq> None
      \<longleftrightarrow> is_fatal (fst (snd (snd (Avahi_Run parseAddr turns (NewAvahi cfg types)))))"
    by (simp add: backend_run_def AvahiBackend is_fatal_def split: option.split run_verdict.split)
  also have "\<dots> \<longleftrightarrow> av_Required cfg \<and> never_worked_in_time (NewAvahi cfg types) turns"
    by (simp add: Avahi_Run_def supervise_fatal NewAvahi_def)
  finally show ?thesis by (simp add: AvahiBackend)
qed (simp_all add: backend_run_def)

lemma build_source_avahi_iff:
  "build_source ps s a = Inr a' \<Longrightarrow>
     AvahiBackend c ts \<in> set (ap_backends a') \<longleftrightarrow> AvahiBackend c ts \<in> set (ap_backends a) \<or>
       s = ''avahi'' \<and> c = dc_Avahi (cfg_Discovery (ap_cfg a)) \<and> ts = dc_ServiceTypes (cfg_Discovery (ap_cfg a))"
  by (auto simp: build_source_def Let_def add_backend_def cloudClient_def static_name_def zeroconf_name_def
      cloud_source_name_def split: if_splits sum.splits option.splits)

lemma build_sources_avahi_iff:
  "build_sources ps ss a = Inr a' \<Longrightarrow>
     AvahiBackend c ts \<in> set (ap_backends a') \<longleftrightarrow> AvahiBackend c ts \<in> set (ap_backends a) \<or>
       ''avahi'' \<in> set ss \<and> c = dc_Avahi (cfg_Discovery (ap_cfg a)) \<and> ts = dc_ServiceTypes (cfg_Discovery (ap_cfg a))"
proof (induction ss arbitrary: a)
  case (Cons s ss)
  obtain a1 where a1: "build_source ps s a = Inr a1" "build_sources ps ss a1 = Inr a'"
    using Cons.prems by (auto split: sum.splits)
  have "ap_cfg a1 = ap_cfg a" using build_sources_cfg [of ps "[s]" a a1] a1(1) by simp
  then show ?case using Cons.IH [OF a1(2)] build_source_avahi_iff [OF a1(1), of c ts] by auto
qed simp

lemma buildBackends_avahi_iff:
  assumes "buildBackends ps a = Inr a'" "ap_backends a = []"
  shows "AvahiBackend c ts \<in> set (ap_backends a') \<longleftrightarrow> ''avahi'' \<in> set (dc_Sources (cfg_Discovery (ap_cfg a))) \<and>
    c = dc_Avahi (cfg_Discovery (ap_cfg a)) \<and> ts = dc_ServiceTypes (cfg_Discovery (ap_cfg a))"
proof -
  obtain a1 where a1: "build_sources ps (dc_Sources (cfg_Discovery (ap_cfg a))) a = Inr a1" "a' = relax_avahi a1"
    using assms(1) by (auto simp: buildBackends_def split: sum.splits)
  then show ?thesis
    using build_sources_avahi_iff [OF a1(1), of c ts] assms(2) by (simp add: relax_avahi_def)
qed

lemma cloudClient_keeps:
  "cloudClient ps a = Inr (client, a') \<Longrightarrow> ap_backends a' = ap_backends a \<and> ap_cfg a' = ap_cfg a"
  by (auto simp: cloudClient_def Let_def split: option.splits sum.splits)

lemma NewApp_avahi_iff:
  assumes "NewApp ps cfg = Inr a"
  shows "AvahiBackend c ts \<in> set (ap_backends a) \<longleftrightarrow> ''avahi'' \<in> set (dc_Sources (cfg_Discovery cfg)) \<and>
    c = dc_Avahi (cfg_Discovery cfg) \<and> ts = dc_ServiceTypes (cfg_Discovery cfg)"
proof -
  obtain a0 where "buildBackends ps a0 = Inr a" "ap_backends a0 = []" "ap_cfg a0 = cfg"
    using assms by (auto simp: NewApp_def Let_def dest: cloudClient_keeps split: sum.splits if_splits)
  then show ?thesis using buildBackends_avahi_iff by auto
qed


definition first_error :: "'e option list \<Rightarrow> 'e option" where
  "first_error rs = (case filter (\<lambda>r. r \<noteq> None) rs of [] \<Rightarrow> None | r # _ \<Rightarrow> r)"

lemma first_error_law: "group_law (first_error :: 'e option list \<Rightarrow> 'e option)"
proof -
  have "(first_error rs = None \<longleftrightarrow> set rs \<subseteq> {None}) \<and> (first_error rs \<noteq> None \<longrightarrow> first_error rs \<in> set rs)" for rs :: "'e option list"
    by (induction rs) (auto simp: first_error_def split: list.splits)
  then show ?thesis unfolding group_law_def by blast
qed


end
