(* ===== verification/EventPipeline.thy ===== *)
theory EventPipeline
  imports RegistryActor
begin

text \<open>
  The channels between the goroutines: every backend sends to a relay of its own
  (\<^verbatim>\<open>multi.wrap\<close>), the relays forward to the registry's channel of events or count a drop, the
  probes report to its channel of results, and the actor of \<^verbatim>\<open>Registry.Run\<close> takes from both.  A step
  is one communication of one goroutine; which comes next is the scheduler's choice.  A buffered channel
  is the list of what it holds, and a send that is not \<open>pipe_ok\<close> has to wait.
\<close>

section \<open>The goroutines and their channels\<close>

definition relayBuffer :: nat where "relayBuffer = 64"
definition eventsBuffer :: nat where "eventsBuffer = 1024"
definition resultsBuffer :: nat where "resultsBuffer = 256"

text \<open>A relay: its channel, the event it has taken from it and not yet passed on, and whether its
  goroutine has returned.\<close>

record relay =
  rl_buffer :: "Event list"
  rl_held :: "Event option"
  rl_returned :: bool

definition new_relay :: relay where
  "new_relay = \<lparr>rl_buffer = [], rl_held = None, rl_returned = False\<rparr>"

record pipeline =
  pl_relays :: "relay list"
  pl_ended :: bool
  pl_dropped :: "64 word"
  pl_events :: "Event list"
  pl_results :: "ScrapeResult list"
  pl_actor :: Actor
  pl_stopped :: bool

definition new_pipeline :: "nat \<Rightarrow> Actor \<Rightarrow> pipeline" where
  "new_pipeline n a =
     \<lparr>pl_relays = replicate n new_relay, pl_ended = False, pl_dropped = 0, pl_events = [], pl_results = [],
      pl_actor = a, pl_stopped = False\<rparr>"

definition change_relay :: "nat \<Rightarrow> (relay \<Rightarrow> relay) \<Rightarrow> pipeline \<Rightarrow> pipeline" where
  "change_relay b f s = s\<lparr>pl_relays := (pl_relays s)[b := f (pl_relays s ! b)]\<rparr>"

definition has_room :: "pipeline \<Rightarrow> bool" where
  "has_room s \<longleftrightarrow> length (pl_events s) < eventsBuffer"

text \<open>What can happen next; the numbers are those of the backends.\<close>

datatype pipe_msg =
    Send nat Event            \<comment> \<open>a backend sends an event\<close>
  | Receive nat               \<comment> \<open>its relay takes one from its channel\<close>
  | Forward nat               \<comment> \<open>and passes it on, or drops it\<close>
  | GiveUp nat                \<comment> \<open>a relay sees that the context has ended\<close>
  | FanInEnds                 \<comment> \<open>the context of the backends ends\<close>
  | Handle time               \<comment> \<open>the actor takes an event\<close>
  | Report time ScrapeResult  \<comment> \<open>a probe reports its outcome\<close>
  | HandleResult time         \<comment> \<open>the actor takes an outcome\<close>
  | Tick Msg                  \<comment> \<open>one of its timers fires\<close>
  | ActorReturns              \<comment> \<open>the actor sees that its context has ended\<close>

text \<open>The inner \<^verbatim>\<open>select\<close> of a relay: with room on the channel it may send, without room it
  drops while the context lives.\<close>

definition forward :: "nat \<Rightarrow> pipeline \<Rightarrow> pipeline" where
  "forward b s =
     (case rl_held (pl_relays s ! b) of
        None \<Rightarrow> s
      | Some ev \<Rightarrow>
          (let s' = change_relay b (\<lambda>r. r\<lparr>rl_held := None\<rparr>) s
           in if has_room s then s'\<lparr>pl_events := pl_events s @ [ev]\<rparr>
              else s'\<lparr>pl_dropped := pl_dropped s + 1\<rparr>))"

definition receive :: "nat \<Rightarrow> pipeline \<Rightarrow> pipeline" where
  "receive b s = change_relay b (\<lambda>r. r\<lparr>rl_buffer := tl (rl_buffer r), rl_held := Some (hd (rl_buffer r))\<rparr>) s"

text \<open>\<^verbatim>\<open>ReportScrape\<close> never waits: without room the outcome is lost.\<close>

definition report :: "time \<Rightarrow> ScrapeResult \<Rightarrow> pipeline \<Rightarrow> pipeline" where
  "report now res s =
     (if length (pl_results s) < resultsBuffer then s\<lparr>pl_results := pl_results s @ [ReportScrape now res]\<rparr> else s)"

definition pipe_step :: "pipe_msg \<Rightarrow> pipeline \<Rightarrow> pipeline" where
  "pipe_step m s =
     (case m of
        Send b ev \<Rightarrow> change_relay b (\<lambda>r. r\<lparr>rl_buffer := rl_buffer r @ [ev]\<rparr>) s
      | Receive b \<Rightarrow> receive b s
      | Forward b \<Rightarrow> forward b s
      | GiveUp b \<Rightarrow> change_relay b (\<lambda>r. r\<lparr>rl_returned := True\<rparr>) s
      | FanInEnds \<Rightarrow> s\<lparr>pl_ended := True\<rparr>
      | Handle now \<Rightarrow>
          s\<lparr>pl_events := tl (pl_events s), pl_actor := actor_step (MEvent (hd (pl_events s)) now) (pl_actor s)\<rparr>
      | Report now res \<Rightarrow> report now res s
      | HandleResult now \<Rightarrow>
          s\<lparr>pl_results := tl (pl_results s), pl_actor := actor_step (MResult (hd (pl_results s)) now) (pl_actor s)\<rparr>
      | Tick m \<Rightarrow> s\<lparr>pl_actor := actor_step m (pl_actor s)\<rparr>
      | ActorReturns \<Rightarrow> s\<lparr>pl_stopped := True, pl_ended := True\<rparr>)"

definition is_tick :: "Msg \<Rightarrow> bool" where
  "is_tick m \<longleftrightarrow> (case m of MExpire _ \<Rightarrow> True | MRefresh _ \<Rightarrow> True | MPublish _ \<Rightarrow> True | _ \<Rightarrow> False)"

definition pipe_ok :: "pipe_msg \<Rightarrow> pipeline \<Rightarrow> bool" where
  "pipe_ok m s =
     (case m of
        Send b ev \<Rightarrow> b < length (pl_relays s) \<and> length (rl_buffer (pl_relays s ! b)) < relayBuffer
      | Receive b \<Rightarrow> b < length (pl_relays s) \<and> \<not> rl_returned (pl_relays s ! b)
          \<and> rl_held (pl_relays s ! b) = None \<and> rl_buffer (pl_relays s ! b) \<noteq> []
      | Forward b \<Rightarrow> b < length (pl_relays s) \<and> \<not> rl_returned (pl_relays s ! b)
          \<and> rl_held (pl_relays s ! b) \<noteq> None \<and> (has_room s \<or> \<not> pl_ended s)
      | GiveUp b \<Rightarrow> b < length (pl_relays s) \<and> \<not> rl_returned (pl_relays s ! b) \<and> pl_ended s
      | Handle now \<Rightarrow> \<not> pl_stopped s \<and> pl_events s \<noteq> []
      | HandleResult now \<Rightarrow> \<not> pl_stopped s \<and> pl_results s \<noteq> []
      | Tick m \<Rightarrow> \<not> pl_stopped s \<and> is_tick m \<and> actor_ok m (pl_actor s)
      | ActorReturns \<Rightarrow> \<not> pl_stopped s
      | _ \<Rightarrow> True)"

section \<open>What a run shows\<close>

text \<open>What the steps of a run show of themselves, in order: the events a backend sent, where every
  event went that a relay passed on, and the messages the actor handled.\<close>

fun along :: "(pipe_msg \<Rightarrow> pipeline \<Rightarrow> 'a list) \<Rightarrow> pipe_msg list \<Rightarrow> pipeline \<Rightarrow> 'a list" where
  "along f [] s = []"
| "along f (m # ms) s = f m s @ along f ms (pipe_step m s)"

fun sent_by :: "nat \<Rightarrow> pipe_msg \<Rightarrow> pipeline \<Rightarrow> Event list" where
  "sent_by b (Send b' ev) s = (if b' = b then [ev] else [])"
| "sent_by b m s = []"

fun routed :: "pipe_msg \<Rightarrow> pipeline \<Rightarrow> (nat \<times> Event \<times> bool) list" where
  "routed (Forward b) s = (case rl_held (pl_relays s ! b) of None \<Rightarrow> [] | Some ev \<Rightarrow> [(b, ev, has_room s)])"
| "routed m s = []"

fun handled :: "pipe_msg \<Rightarrow> pipeline \<Rightarrow> Msg list" where
  "handled (Handle now) s = [MEvent (hd (pl_events s)) now]"
| "handled (HandleResult now) s = [MResult (hd (pl_results s)) now]"
| "handled (Tick m) s = [m]"
| "handled m s = []"

definition routed_from :: "nat \<Rightarrow> (nat \<times> Event \<times> bool) list \<Rightarrow> Event list" where
  "routed_from b r = map (\<lambda>x. fst (snd x)) (filter (\<lambda>x. fst x = b) r)"

definition kept_events :: "(nat \<times> Event \<times> bool) list \<Rightarrow> Event list" where
  "kept_events r = map (\<lambda>x. fst (snd x)) (filter (\<lambda>x. snd (snd x)) r)"

definition lost_events :: "(nat \<times> Event \<times> bool) list \<Rightarrow> nat" where
  "lost_events r = length (filter (\<lambda>x. \<not> snd (snd x)) r)"

definition handled_events :: "Msg list \<Rightarrow> Event list" where
  "handled_events hs = concat (map (\<lambda>m. case m of MEvent ev _ \<Rightarrow> [ev] | _ \<Rightarrow> []) hs)"

text \<open>The events that wait in a relay, oldest first, and the work there is before all channels are
  empty.\<close>

definition in_relay :: "relay \<Rightarrow> Event list" where
  "in_relay r = (case rl_held r of None \<Rightarrow> [] | Some ev \<Rightarrow> [ev]) @ rl_buffer r"

definition relay_work :: "relay \<Rightarrow> nat" where
  "relay_work r = 3 * length (rl_buffer r) + (if rl_held r = None then 0 else 2)"

definition pipe_work :: "pipeline \<Rightarrow> nat" where
  "pipe_work s = sum_list (map relay_work (pl_relays s)) + length (pl_events s) + length (pl_results s)"

definition is_internal :: "pipe_msg \<Rightarrow> bool" where
  "is_internal m \<longleftrightarrow>
     (case m of Receive _ \<Rightarrow> True | Forward _ \<Rightarrow> True | Handle _ \<Rightarrow> True | HandleResult _ \<Rightarrow> True | _ \<Rightarrow> False)"

definition backlog :: "pipeline \<Rightarrow> nat" where
  "backlog s = sum_list (map (\<lambda>r. length (in_relay r)) (pl_relays s)) + length (pl_events s)"

end
