(* ===== verification/EventPipelineProps.thy ===== *)
theory EventPipelineProps
  imports EventPipeline RegistryProps
begin

text \<open>
  The way of an observation from a backend to the registry: no event is lost uncounted or
  overtaken, the registry is the sequential actor of \<open>RegistryActor\<close> on what reaches it, the channels
  stay bounded, and they empty whatever the scheduler does.
\<close>

section \<open>Steps on a relay\<close>

lemma change_relay_simps [simp]:
  "length (pl_relays (change_relay b f s)) = length (pl_relays s)"
  "pl_events (change_relay b f s) = pl_events s" "pl_results (change_relay b f s) = pl_results s"
  "pl_actor (change_relay b f s) = pl_actor s" "pl_dropped (change_relay b f s) = pl_dropped s"
  "pl_ended (change_relay b f s) = pl_ended s" "pl_stopped (change_relay b f s) = pl_stopped s"
  "has_room (change_relay b f s) = has_room s"
  by (simp_all add: change_relay_def has_room_def)

lemma relay_at_change:
  "b < length (pl_relays s) \<Longrightarrow>
     pl_relays (change_relay b f s) ! c = (if c = b then f (pl_relays s ! b) else pl_relays s ! c)"
  by (simp add: change_relay_def)

lemma forward_simps:
  assumes "b < length (pl_relays s)" "rl_held (pl_relays s ! b) = Some ev"
  shows "pl_relays (forward b s) = pl_relays (change_relay b (\<lambda>r. r\<lparr>rl_held := None\<rparr>) s)"
    "pl_events (forward b s) = pl_events s @ (if has_room s then [ev] else [])"
    "pl_dropped (forward b s) = pl_dropped s + (if has_room s then 0 else 1)"
    "pl_results (forward b s) = pl_results s" "pl_actor (forward b s) = pl_actor s"
    "pl_ended (forward b s) = pl_ended s" "pl_stopped (forward b s) = pl_stopped s"
  using assms by (simp_all add: forward_def Let_def change_relay_def)

lemmas pipe_defs = pipe_step_def pipe_ok_def receive_def report_def

lemma sum_relays_change:
  fixes g :: "relay \<Rightarrow> nat"
  assumes "b < length (pl_relays s)"
  shows "sum_list (map g (pl_relays (change_relay b f s))) + g (pl_relays s ! b)
    = sum_list (map g (pl_relays s)) + g (f (pl_relays s ! b))"
  using sum_update [OF assms] by (simp add: change_relay_def)

section \<open>The channels stay bounded\<close>

definition buffers_ok :: "pipeline \<Rightarrow> bool" where
  "buffers_ok s \<longleftrightarrow> (\<forall>r \<in> set (pl_relays s). length (rl_buffer r) \<le> relayBuffer)"

definition relays_live :: "pipeline \<Rightarrow> bool" where
  "relays_live s \<longleftrightarrow> (\<forall>r \<in> set (pl_relays s). \<not> rl_returned r)"

definition pipe_inv :: "pipeline \<Rightarrow> bool" where
  "pipe_inv s \<longleftrightarrow> buffers_ok s \<and> length (pl_events s) \<le> eventsBuffer \<and> length (pl_results s) \<le> resultsBuffer
     \<and> actor_inv (pl_actor s) \<and> (\<not> pl_ended s \<longrightarrow> \<not> pl_stopped s \<and> relays_live s)"

definition pipe_start :: "pipeline \<Rightarrow> bool" where
  "pipe_start s \<longleftrightarrow> s = new_pipeline (length (pl_relays s)) (pl_actor s) \<and> actor_start (pl_actor s)"

lemma buffers_at: "buffers_ok s \<Longrightarrow> b < length (pl_relays s) \<Longrightarrow> length (rl_buffer (pl_relays s ! b)) \<le> relayBuffer"
  by (simp add: buffers_ok_def)

lemma buffers_change:
  assumes "buffers_ok s" "length (rl_buffer (f (pl_relays s ! b))) \<le> relayBuffer"
  shows "buffers_ok (change_relay b f s)"
  using assms by (auto simp: buffers_ok_def change_relay_def dest!: set_update_subset_insert [THEN subsetD])

lemma live_change:
  "relays_live s \<Longrightarrow> \<not> rl_returned (f (pl_relays s ! b)) \<Longrightarrow> relays_live (change_relay b f s)"
  by (auto simp: relays_live_def change_relay_def dest!: set_update_subset_insert [THEN subsetD])

lemma live_at: "relays_live s \<Longrightarrow> b < length (pl_relays s) \<Longrightarrow> \<not> rl_returned (pl_relays s ! b)"
  by (simp add: relays_live_def)

lemma live_cong: "pl_relays s' = pl_relays s \<Longrightarrow> relays_live s' = relays_live s"
  by (simp add: relays_live_def)

lemma buffers_cong: "pl_relays s' = pl_relays s \<Longrightarrow> buffers_ok s' = buffers_ok s"
  by (simp add: buffers_ok_def)

lemma pipe_step_inv:
  assumes inv: "pipe_inv s" and ok: "pipe_ok m s"
  shows "pipe_inv (pipe_step m s)"
proof (cases m)
  case (Send b ev)
  then show ?thesis using assms live_at [of s b]
    by (auto simp: pipe_defs pipe_inv_def intro!: buffers_change live_change)
next
  case (Receive b)
  then show ?thesis using assms buffers_at [of s b] live_at [of s b]
    by (auto simp: pipe_defs pipe_inv_def intro!: buffers_change live_change)
next
  case (Forward b)
  then obtain ev where b: "b < length (pl_relays s)" "rl_held (pl_relays s ! b) = Some ev"
    using ok by (auto simp: pipe_ok_def)
  have "buffers_ok (forward b s)"
    unfolding buffers_cong [OF forward_simps(1) [OF b]] using inv buffers_at [of s b] b
    by (intro buffers_change) (auto simp: pipe_inv_def)
  moreover have "relays_live s \<Longrightarrow> relays_live (forward b s)"
    unfolding live_cong [OF forward_simps(1) [OF b]] using b live_at [of s b] by (intro live_change) auto
  ultimately have "pipe_inv (forward b s)"
    using inv unfolding pipe_inv_def forward_simps [OF b] by (auto simp: has_room_def)
  then show ?thesis by (simp add: Forward pipe_step_def)
next
  case (GiveUp b)
  then show ?thesis using assms buffers_at [of s b] live_at [of s b]
    by (auto simp: pipe_defs pipe_inv_def intro!: buffers_change live_change)
qed (use assms in \<open>auto simp: pipe_defs pipe_inv_def buffers_ok_def relays_live_def actor_ok_def intro!: actor_step_inv\<close>)

lemma pipe_start_inv: "pipe_start s \<Longrightarrow> pipe_inv s"
proof -
  assume "pipe_start s"
  then obtain n a where s: "s = new_pipeline n a" and a: "actor_start a" by (auto simp: pipe_start_def)
  then show "pipe_inv s"
    using actor.init_invar [OF a] by (simp add: pipe_inv_def buffers_ok_def relays_live_def new_pipeline_def new_relay_def)
qed

interpretation pipe: machine pipe_start pipe_step pipe_ok pipe_inv
  by unfold_locales (rule pipe_start_inv, assumption, rule pipe_step_inv)

lemma pipe_start_new: "actor_start a \<Longrightarrow> pipe_start (new_pipeline n a)"
  by (simp add: pipe_start_def new_pipeline_def)

section \<open>Accounting\<close>

lemma routed_from_append [simp]: "routed_from b (r @ r') = routed_from b r @ routed_from b r'"
  by (simp add: routed_from_def)

lemma kept_events_append [simp]: "kept_events (r @ r') = kept_events r @ kept_events r'"
  by (simp add: kept_events_def)

lemma lost_events_append [simp]: "lost_events (r @ r') = lost_events r + lost_events r'"
  by (simp add: lost_events_def)

lemma handled_events_append [simp]: "handled_events (h @ h') = handled_events h @ handled_events h'"
  by (simp add: handled_events_def)

lemmas account_nil [simp] =
  routed_from_def [of _ "[]", simplified] kept_events_def [of "[]", simplified]
  lost_events_def [of "[]", simplified] handled_events_def [of "[]", simplified]

lemma pipe_step_relays [simp]: "length (pl_relays (pipe_step m s)) = length (pl_relays s)"
  by (simp add: pipe_defs forward_def Let_def split: pipe_msg.split option.split)

lemma run_relays [simp]: "length (pl_relays (pipe.run ms s)) = length (pl_relays s)"
  by (induction ms arbitrary: s) simp_all

text \<open>One step moves an event along its way and duplicates or reorders none.\<close>

lemma step_relay_account:
  assumes "pipe_ok m s" "b < length (pl_relays s)"
  shows "in_relay (pl_relays s ! b) @ sent_by b m s
    = routed_from b (routed m s) @ in_relay (pl_relays (pipe_step m s) ! b)"
proof (cases m)
  case (Forward c)
  then obtain ev where c: "c < length (pl_relays s)" "rl_held (pl_relays s ! c) = Some ev"
    using assms(1) by (auto simp: pipe_ok_def)
  show ?thesis
    using c assms(2)
    by (simp add: Forward pipe_step_def forward_simps [OF c] relay_at_change routed_from_def)
       (simp add: in_relay_def)
qed (use assms in \<open>auto simp: pipe_defs relay_at_change in_relay_def split: option.splits\<close>)

lemma step_event_account:
  assumes "pipe_ok m s"
  shows "pl_events s @ kept_events (routed m s) = handled_events (handled m s) @ pl_events (pipe_step m s)"
proof (cases m)
  case (Forward c)
  then obtain ev where c: "c < length (pl_relays s)" "rl_held (pl_relays s ! c) = Some ev"
    using assms(1) by (auto simp: pipe_ok_def)
  show ?thesis
    using c by (simp add: Forward pipe_step_def forward_simps [OF c] kept_events_def)
next
  case (Tick t)
  then show ?thesis using assms
    by (cases t) (simp_all add: pipe_defs is_tick_def handled_events_def)
qed (use assms in \<open>auto simp: pipe_defs handled_events_def\<close>)

lemma step_drop_account:
  assumes "pipe_ok m s"
  shows "pl_dropped (pipe_step m s) = pl_dropped s + of_nat (lost_events (routed m s))"
proof (cases m)
  case (Forward c)
  then obtain ev where c: "c < length (pl_relays s)" "rl_held (pl_relays s ! c) = Some ev"
    using assms(1) by (auto simp: pipe_ok_def)
  show ?thesis
    using c by (simp add: Forward pipe_step_def forward_simps [OF c] lost_events_def)
qed (use assms in \<open>auto simp: pipe_defs\<close>)

lemma step_actor_account:
  assumes "pipe_ok m s"
  shows "pl_actor (pipe_step m s) = actor.run (handled m s) (pl_actor s)"
    "actor.oks (handled m s) (pl_actor s)"
proof -
  have f: "pl_actor (forward b s) = pl_actor s" for b
    by (simp add: forward_def Let_def split: option.split)
  show "pl_actor (pipe_step m s) = actor.run (handled m s) (pl_actor s)"
    by (cases m) (simp_all add: pipe_step_def f receive_def report_def)
  show "actor.oks (handled m s) (pl_actor s)"
    using assms by (cases m) (simp_all add: pipe_ok_def actor_ok_def)
qed

text \<open>How the accounts of two runs add up.\<close>

lemma account_chain:
  "i @ x = r @ j \<Longrightarrow> j @ xs = rs @ k \<Longrightarrow> i @ x @ xs = (r @ rs) @ k"
  by (metis append_assoc)

lemma run_relay_account:
  "pipe.oks ms s \<Longrightarrow> b < length (pl_relays s) \<Longrightarrow>
     in_relay (pl_relays s ! b) @ along (sent_by b) ms s
       = routed_from b (along routed ms s) @ in_relay (pl_relays (pipe.run ms s) ! b)"
proof (induction ms arbitrary: s)
  case (Cons m ms)
  then show ?case
    using account_chain [OF step_relay_account [of m s b] Cons.IH [of "pipe_step m s"]] by simp
qed simp

lemma run_event_account:
  "pipe.oks ms s \<Longrightarrow> pl_events s @ kept_events (along routed ms s)
     = handled_events (along handled ms s) @ pl_events (pipe.run ms s)"
proof (induction ms arbitrary: s)
  case (Cons m ms)
  then show ?case
    using account_chain [OF step_event_account [of m s] Cons.IH [of "pipe_step m s"]] by simp
qed simp

lemma run_drop_account:
  "pipe.oks ms s \<Longrightarrow> pl_dropped (pipe.run ms s) = pl_dropped s + of_nat (lost_events (along routed ms s))"
  by (induction ms arbitrary: s) (simp_all add: step_drop_account)

lemma actor_oks_append: "actor.oks (ms @ ns) a \<longleftrightarrow> actor.oks ms a \<and> actor.oks ns (actor.run ms a)"
  by (induction ms arbitrary: a) simp_all

lemma run_actor_account:
  "pipe.oks ms s \<Longrightarrow> pl_actor (pipe.run ms s) = actor.run (along handled ms s) (pl_actor s)
     \<and> actor.oks (along handled ms s) (pl_actor s)"
proof (induction ms arbitrary: s)
  case (Cons m ms)
  then have "pipe_ok m s" "pipe.oks ms (pipe_step m s)" by simp_all
  then show ?case
    using Cons.IH [of "pipe_step m s"] step_actor_account [of m s]
    by (simp add: actor.run_append actor_oks_append)
qed simp

lemma along_append: "along f (ms @ ns) s = along f ms s @ along f ns (pipe.run ms s)"
  by (induction ms arbitrary: s) simp_all

lemma new_pipeline_simps [simp]:
  "pl_events (new_pipeline n a) = []" "pl_dropped (new_pipeline n a) = 0"
  "pl_actor (new_pipeline n a) = a" "length (pl_relays (new_pipeline n a)) = n"
  "pl_results (new_pipeline n a) = []"
  by (simp_all add: new_pipeline_def)

lemma new_pipeline_relay [simp]: "b < n \<Longrightarrow> pl_relays (new_pipeline n a) ! b = new_relay"
  by (simp add: new_pipeline_def)

section \<open>Losses need a backlog\<close>

lemma member_le_sum_list: "x \<in> set xs \<Longrightarrow> (f x :: nat) \<le> sum_list (map f xs)"
  by (induction xs) auto

lemma lost_needs_backlog:
  assumes "pipe_ok m s" "lost_events (routed m s) \<noteq> 0"
  shows "eventsBuffer < backlog s"
proof -
  obtain b ev where m: "m = Forward b" and ev: "rl_held (pl_relays s ! b) = Some ev" and full: "\<not> has_room s"
    using assms(2) by (cases m) (auto simp: lost_events_def split: option.splits if_splits)
  have b: "b < length (pl_relays s)" using assms(1) m by (simp add: pipe_ok_def)
  have "1 \<le> length (in_relay (pl_relays s ! b))" by (simp add: in_relay_def ev)
  also have "\<dots> \<le> sum_list (map (\<lambda>r. length (in_relay r)) (pl_relays s))"
    by (rule member_le_sum_list) (simp add: b)
  finally show ?thesis using full by (simp add: backlog_def has_room_def)
qed

lemma no_backlog_no_loss:
  "pipe.oks ms s \<Longrightarrow> \<forall>k < length ms. backlog (pipe.run (take k ms) s) \<le> eventsBuffer
     \<Longrightarrow> lost_events (along routed ms s) = 0"
proof (induction ms arbitrary: s)
  case (Cons m ms)
  have "lost_events (routed m s) = 0"
    using lost_needs_backlog [of m s] Cons.prems by fastforce
  moreover have "\<forall>k < length ms. backlog (pipe.run (take k ms) (pipe_step m s)) \<le> eventsBuffer"
    using Cons.prems(2) by (auto dest: spec [of _ "Suc _"])
  ultimately show ?case using Cons by simp
qed simp

text \<open>The backlog grows with the events sent only.\<close>

definition is_send :: "pipe_msg \<Rightarrow> bool" where
  "is_send m \<longleftrightarrow> (case m of Send _ _ \<Rightarrow> True | _ \<Rightarrow> False)"

lemma step_backlog:
  assumes "pipe_ok m s"
  shows "backlog (pipe_step m s) \<le> backlog s + (if is_send m then 1 else 0)"
proof (cases m)
  case (Send b ev)
  then show ?thesis
    using assms sum_relays_change [of b s "\<lambda>r. length (in_relay r)" "\<lambda>r. r\<lparr>rl_buffer := rl_buffer r @ [ev]\<rparr>"]
    by (simp add: pipe_defs backlog_def is_send_def) (simp add: in_relay_def split: option.splits)
next
  case (Receive b)
  then have b: "b < length (pl_relays s)" "rl_held (pl_relays s ! b) = None" "rl_buffer (pl_relays s ! b) \<noteq> []"
    using assms by (auto simp: pipe_ok_def)
  show ?thesis
    using sum_relays_change [OF b(1), of "\<lambda>r. length (in_relay r)"
        "\<lambda>r. r\<lparr>rl_buffer := tl (rl_buffer r), rl_held := Some (hd (rl_buffer r))\<rparr>"] b
    by (simp add: Receive pipe_step_def receive_def backlog_def is_send_def) (simp add: in_relay_def)
next
  case (Forward b)
  then obtain ev where b: "b < length (pl_relays s)" "rl_held (pl_relays s ! b) = Some ev"
    using assms by (auto simp: pipe_ok_def)
  show ?thesis
    using sum_relays_change [OF b(1), of "\<lambda>r. length (in_relay r)" "\<lambda>r. r\<lparr>rl_held := None\<rparr>"] b
    by (simp add: Forward pipe_step_def backlog_def is_send_def forward_simps [OF b]) (simp add: in_relay_def)
next
  case (GiveUp b)
  then show ?thesis
    using assms sum_relays_change [of b s "\<lambda>r. length (in_relay r)" "\<lambda>r. r\<lparr>rl_returned := True\<rparr>"]
    by (simp add: pipe_defs backlog_def is_send_def) (simp add: in_relay_def)
qed (use assms in \<open>auto simp: pipe_defs backlog_def is_send_def\<close>)

lemma run_backlog:
  "pipe.oks ms s \<Longrightarrow> backlog (pipe.run ms s) \<le> backlog s + length (filter is_send ms)"
proof (induction ms arbitrary: s)
  case (Cons m ms)
  then have "backlog (pipe.run ms (pipe_step m s)) \<le> backlog (pipe_step m s) + length (filter is_send ms)"
    by simp
  then show ?case using step_backlog [of m s] Cons.prems by (auto split: if_splits)
qed simp

lemma oks_take: "pipe.oks ms s \<Longrightarrow> pipe.oks (take k ms) s"
  by (induction ms arbitrary: s k) (auto simp: take_Cons' )

lemma sends_take: "length (filter is_send (take k ms)) \<le> length (filter is_send ms)"
  by (metis append_take_drop_id filter_append le_add1 length_append)

lemma backlog_new [simp]: "backlog (new_pipeline n a) = 0"
  by (simp add: backlog_def new_pipeline_def in_relay_def new_relay_def)

section \<open>The channels empty\<close>

lemma internal_does_work:
  assumes "pipe_ok m s" "is_internal m"
  shows "pipe_work (pipe_step m s) < pipe_work s"
proof (cases m)
  case (Receive b)
  then have b: "b < length (pl_relays s)" "rl_held (pl_relays s ! b) = None" "rl_buffer (pl_relays s ! b) \<noteq> []"
    using assms by (auto simp: pipe_ok_def)
  then have "length (rl_buffer (pl_relays s ! b)) = Suc (length (tl (rl_buffer (pl_relays s ! b))))" by simp
  then show ?thesis
    using sum_relays_change [OF b(1), of relay_work
        "\<lambda>r. r\<lparr>rl_buffer := tl (rl_buffer r), rl_held := Some (hd (rl_buffer r))\<rparr>"] b(2)
    by (simp add: Receive pipe_step_def receive_def pipe_work_def relay_work_def)
next
  case (Forward b)
  then obtain ev where b: "b < length (pl_relays s)" "rl_held (pl_relays s ! b) = Some ev"
    using assms by (auto simp: pipe_ok_def)
  show ?thesis
    using sum_relays_change [OF b(1), of relay_work "\<lambda>r. r\<lparr>rl_held := None\<rparr>"] b(2)
    by (simp add: Forward pipe_step_def pipe_work_def forward_simps [OF b] relay_work_def)
qed (use assms in \<open>auto simp: pipe_defs pipe_work_def is_internal_def neq_Nil_conv\<close>)

lemma internal_steps_are_few:
  "pipe.oks ms s \<Longrightarrow> \<forall>m \<in> set ms. is_internal m \<Longrightarrow> length ms + pipe_work (pipe.run ms s) \<le> pipe_work s"
proof (induction ms arbitrary: s)
  case (Cons m ms)
  then have "length ms + pipe_work (pipe.run ms (pipe_step m s)) \<le> pipe_work (pipe_step m s)" by simp
  then show ?case using internal_does_work [of m s] Cons.prems by simp
qed simp

lemma work_bounded:
  assumes "pipe_inv s"
  shows "pipe_work s \<le> 194 * length (pl_relays s) + 1280"
proof -
  have "relay_work r \<le> 194" if "r \<in> set (pl_relays s)" for r
    using assms that by (fastforce simp: pipe_inv_def buffers_ok_def relay_work_def relayBuffer_def)
  then have "sum_list (map relay_work (pl_relays s)) \<le> sum_list (map (\<lambda>r. 194) (pl_relays s))"
    by (rule sum_list_mono)
  then have "sum_list (map relay_work (pl_relays s)) \<le> 194 * length (pl_relays s)"
    by (simp add: sum_list_triv)
  then show ?thesis
    using assms by (simp add: pipe_work_def pipe_inv_def eventsBuffer_def resultsBuffer_def)
qed

lemma work_remains:
  assumes inv: "pipe_inv s" and live: "\<not> pl_ended s" and work: "pipe_work s \<noteq> 0"
  shows "\<exists>m. is_internal m \<and> pipe_ok m s"
proof -
  have up: "\<not> pl_stopped s" "relays_live s" using inv live by (auto simp: pipe_inv_def)
  consider (events) "pl_events s \<noteq> []" | (results) "pl_results s \<noteq> []"
    | (relay) r where "r \<in> set (pl_relays s)" "relay_work r \<noteq> 0"
    using work by (auto simp: pipe_work_def)
  then show ?thesis
  proof cases
    case events
    then show ?thesis using up by (intro exI [of _ "Handle 0"]) (simp add: is_internal_def pipe_ok_def)
  next
    case results
    then show ?thesis using up by (intro exI [of _ "HandleResult 0"]) (simp add: is_internal_def pipe_ok_def)
  next
    case relay
    then obtain b where b: "b < length (pl_relays s)" "relay_work (pl_relays s ! b) \<noteq> 0"
      by (auto simp: in_set_conv_nth)
    then show ?thesis
      using up live live_at [OF up(2) b(1)]
      by (intro exI [of _ "if rl_held (pl_relays s ! b) = None then Receive b else Forward b"])
         (auto simp: is_internal_def pipe_ok_def relay_work_def split: if_splits)
  qed
qed

lemma internal_keeps_ended: "is_internal m \<Longrightarrow> pl_ended (pipe_step m s) = pl_ended s"
  by (cases m) (simp_all add: is_internal_def pipe_step_def receive_def forward_def Let_def split: option.split)

lemma internal_run_keeps_ended:
  "\<forall>m \<in> set ms. is_internal m \<Longrightarrow> pl_ended (pipe.run ms s) = pl_ended s"
  by (induction ms arbitrary: s) (simp_all add: internal_keeps_ended)

section \<open>A concrete run\<close>

definition ex_start :: Actor where
  "ex_start = actor_init ex_cfg ex_policy 0"

definition ex_messages :: "pipe_msg list" where
  "ex_messages = [Send 0 ex_add, Send 1 ex_add, Receive 1, Forward 1, Receive 0, Handle 1000]"

lemma ex_start: "actor_start ex_start"
  by (simp add: ex_start_def actor_start_init)

lemmas pipe_eval = pipe_step_def pipe_ok_def receive_def forward_def change_relay_def has_room_def
  new_pipeline_def new_relay_def relayBuffer_def eventsBuffer_def

lemma ex_oks: "pipe.oks ex_messages (new_pipeline 2 ex_start)"
  by (simp add: ex_messages_def pipe_eval)

lemma ex_sends: "length (filter is_send ex_messages) \<le> 1024"
  by (simp add: ex_messages_def is_send_def)

text \<open>Two events sent and none taken yet.\<close>

definition ex_waiting :: pipeline where
  "ex_waiting = pipe.run [Send 0 ex_add, Send 1 ex_add] (new_pipeline 2 ex_start)"

lemma ex_waiting_reachable: "pipe.reachable ex_waiting"
  unfolding ex_waiting_def
  by (intro pipe.run_reachable pipe.reachable.start pipe_start_new ex_start) (simp add: pipe_eval)

section \<open>The properties\<close>

text \<open>C8. Whatever the backends send and however the goroutines interleave, no observation is
  lost uncounted or overtaken: the events of a backend are, in order, those its relay passed on and those
  still in it; the events passed on with room are, in order, those the registry handled and those still in its
  channel; and the counter of dropped events is the number of the others, modulo the width of the
  counter.\<close>

theorem no_event_goes_missing:
  assumes "pipe.oks ms (new_pipeline n a)"
  shows "case (pipe.run ms (new_pipeline n a), along routed ms (new_pipeline n a)) of (s, r) \<Rightarrow>
     (\<forall>b < n. along (sent_by b) ms (new_pipeline n a) = routed_from b r @ in_relay (pl_relays s ! b))
     \<and> kept_events r = handled_events (along handled ms (new_pipeline n a)) @ pl_events s
     \<and> pl_dropped s = of_nat (lost_events r)"
  using run_relay_account [OF assms] run_event_account [OF assms] run_drop_account [OF assms]
  by (simp add: in_relay_def new_relay_def)

theorem no_event_goes_missing_witness:
  "case (pipe.run ex_messages (new_pipeline 2 ex_start), along routed ex_messages (new_pipeline 2 ex_start)) of
     (s, r) \<Rightarrow> r = [(1, ex_add, True)]
       \<and> along (sent_by 0) ex_messages (new_pipeline 2 ex_start) = routed_from 0 r @ in_relay (pl_relays s ! 0)
       \<and> kept_events r = handled_events (along handled ex_messages (new_pipeline 2 ex_start)) @ pl_events s
       \<and> pl_dropped s = of_nat (lost_events r)"
proof -
  have "along routed ex_messages (new_pipeline 2 ex_start) = [(1, ex_add, True)]"
    by (simp add: ex_messages_def pipe_eval)
  then show ?thesis using no_event_goes_missing [OF ex_oks] by simp
qed

text \<open>C9. The registry behind its channels is the sequential actor: its state is the one the actor
  reaches by handling, one after the other, what the channels delivered, and each of these messages was one it may
  get, so what holds of the reachable states of the actor holds here.\<close>

theorem channels_refine_the_actor:
  assumes "actor_start a" "pipe.oks ms (new_pipeline n a)"
  shows "pl_actor (pipe.run ms (new_pipeline n a)) = actor.run (along handled ms (new_pipeline n a)) a
    \<and> actor.oks (along handled ms (new_pipeline n a)) a
    \<and> actor.reachable (pl_actor (pipe.run ms (new_pipeline n a)))"
  using run_actor_account [OF assms(2)] actor.run_reachable [OF actor.reachable.start [OF assms(1)]]
  by simp

theorem channels_refine_the_actor_witness:
  "pl_actor (pipe.run ex_messages (new_pipeline 2 ex_start)) = actor.run [MEvent ex_add 1000] ex_start
    \<and> actor.reachable (pl_actor (pipe.run ex_messages (new_pipeline 2 ex_start)))"
proof -
  have "along handled ex_messages (new_pipeline 2 ex_start) = [MEvent ex_add 1000]"
    by (simp add: ex_messages_def pipe_eval)
  then show ?thesis using channels_refine_the_actor [OF ex_start ex_oks] by metis
qed

text \<open>A burst is not lost: while no more than 1024 events have been sent, none is dropped, even when
  the registry handles none of them; every one is handled or waits.\<close>

theorem burst_is_not_lost:
  assumes "pipe.oks ms (new_pipeline n a)" "length (filter is_send ms) \<le> 1024"
  shows "pl_dropped (pipe.run ms (new_pipeline n a)) = 0
    \<and> lost_events (along routed ms (new_pipeline n a)) = 0"
proof -
  have "backlog (pipe.run (take k ms) (new_pipeline n a)) \<le> eventsBuffer" for k
    using run_backlog [OF oks_take [OF assms(1)], of k] sends_take [of k ms] assms(2)
    by (simp add: eventsBuffer_def)
  then have "lost_events (along routed ms (new_pipeline n a)) = 0"
    using no_backlog_no_loss [OF assms(1)] by simp
  then show ?thesis using run_drop_account [OF assms(1)] by simp
qed

theorem burst_is_not_lost_witness:
  "pl_dropped (pipe.run ex_messages (new_pipeline 2 ex_start)) = 0"
  using burst_is_not_lost [OF ex_oks ex_sends] by simp

text \<open>C10. While the context lives, the channels empty: the goroutines between them take at
  most 194 steps for each backend and 1280 more, whatever the scheduler picks, and while anything is left in a channel one
  of them can move; no step waits for a backend, a probe or a timer.\<close>

theorem channels_drain:
  assumes "pipe.reachable s" "\<not> pl_ended s" "pipe.oks ms s" "\<forall>m \<in> set ms. is_internal m"
  shows "length ms \<le> 194 * length (pl_relays s) + 1280
    \<and> (backlog (pipe.run ms s) = 0 \<and> pl_results (pipe.run ms s) = []
        \<or> (\<exists>m. is_internal m \<and> pipe_ok m (pipe.run ms s)))"
proof -
  let ?t = "pipe.run ms s"
  have inv: "pipe_inv s" "pipe_inv ?t"
    using assms(1,3) pipe.reachable_invar pipe.run_invar by blast+
  have "\<not> pl_ended ?t" using assms(2,4) by (simp add: internal_run_keeps_ended)
  then have "pipe_work ?t = 0 \<or> (\<exists>m. is_internal m \<and> pipe_ok m ?t)"
    using work_remains [OF inv(2)] by blast
  moreover have "backlog ?t = 0 \<and> pl_results ?t = []" if "pipe_work ?t = 0"
    using that by (auto simp: pipe_work_def backlog_def relay_work_def in_relay_def split: if_splits option.splits)
  ultimately show ?thesis
    using internal_steps_are_few [OF assms(3,4)] work_bounded [OF inv(1)] by auto
qed

theorem channels_drain_witness:
  "\<exists>m. is_internal m \<and> pipe_ok m (pipe.run [Receive 0, Forward 0, Receive 1] ex_waiting)"
proof -
  have live: "\<not> pl_ended ex_waiting" by (simp add: ex_waiting_def pipe_eval)
  have oks: "pipe.oks [Receive 0, Forward 0, Receive 1] ex_waiting" by (simp add: ex_waiting_def pipe_eval)
  have internal: "\<forall>m \<in> set [Receive 0, Forward 0, Receive 1]. is_internal m" by (simp add: is_internal_def)
  have left: "backlog (pipe.run [Receive 0, Forward 0, Receive 1] ex_waiting) \<noteq> 0"
    by (simp add: ex_waiting_def pipe_eval backlog_def)
  from channels_drain [OF ex_waiting_reachable live oks internal] left show ?thesis by metis
qed

text \<open>A backend never waits for the registry: while the context lives, at most two steps of its
  own relay make room for its next event.\<close>

theorem relay_makes_room:
  assumes "pipe.reachable s" "\<not> pl_ended s" "b < length (pl_relays s)"
  shows "\<exists>ms. set ms \<subseteq> {Receive b, Forward b} \<and> length ms \<le> 2 \<and> pipe.oks ms s
    \<and> pipe_ok (Send b ev) (pipe.run ms s)"
proof (cases "length (rl_buffer (pl_relays s ! b)) < relayBuffer")
  case True
  then show ?thesis using assms(3) by (intro exI [of _ "[]"]) (simp add: pipe_ok_def)
next
  case False
  have inv: "pipe_inv s" by (rule pipe.reachable_invar [OF assms(1)])
  then have live: "\<not> rl_returned (pl_relays s ! b)"
    using assms(2,3) live_at by (auto simp: pipe_inv_def)
  have len: "length (rl_buffer (pl_relays s ! b)) = relayBuffer"
    using False inv assms(3) buffers_at by (fastforce simp: pipe_inv_def)
  then have full: "rl_buffer (pl_relays s ! b) \<noteq> []" by (auto simp: relayBuffer_def)
  show ?thesis
  proof (cases "rl_held (pl_relays s ! b)")
    case None
    then show ?thesis
      using assms(3) live full len
      by (intro exI [of _ "[Receive b]"]) (simp add: pipe_defs relay_at_change relayBuffer_def)
  next
    case (Some e)
    then show ?thesis
      using assms live full len forward_simps [OF assms(3) Some]
      by (intro exI [of _ "[Forward b, Receive b]"])
         (simp add: pipe_step_def pipe_ok_def receive_def relay_at_change relayBuffer_def)
  qed
qed

theorem relay_makes_room_witness:
  "\<exists>ms. set ms \<subseteq> {Receive 1, Forward 1} \<and> length ms \<le> 2 \<and> pipe.oks ms ex_waiting
    \<and> pipe_ok (Send 1 ex_add) (pipe.run ms ex_waiting)"
  by (rule relay_makes_room [OF ex_waiting_reachable]) (simp_all add: ex_waiting_def pipe_eval)

end
