(* ===== verification/BackendProps.thy ===== *)
theory BackendProps
  imports Avahi RegistryLifecycle
begin

text \<open>
  The backends and the registry together: observations of one device by several backends become one
  device, and what the operator configured is served.
\<close>

section \<open>One device, several sources\<close>

lemma added_alias:
  "reg_inv r \<Longrightarrow> h \<in> set (eventHandles ev) \<Longrightarrow>
     r_aliases (fst (applyAdd ev now r)) h = Some (snd (resolveID ev r))"
  by (simp add: applyAdd_eq bindAliases_def aliases_foldl_all)

lemma mac_handle:
  assumes "is_mac (NormaliseMAC (txt_get (ep_TXT (ev_Endpoint ev)) ''mac''))"
  shows "prefixMAC @ NormaliseMAC (txt_get (ep_TXT (ev_Endpoint ev)) ''mac'') \<in> set (eventHandles ev)"
  using assms by (simp add: eventHandles_def Let_def is_mac_def)

lemma first_alias_only:
  "h \<in> set hs \<Longrightarrow> al h = Some i \<Longrightarrow> (\<And>h. h \<in> set hs \<Longrightarrow> al h = None \<or> al h = Some i) \<Longrightarrow> first_alias al hs = Some i"
proof (induction hs)
  case (Cons x hs)
  have "al x = None \<or> al x = Some i" by (rule Cons.prems(3)) simp
  then show ?case using Cons by (cases "al x") auto
qed simp

text \<open>Two observations that carry one MAC resolve to one device.\<close>

lemma same_mac_joins:
  assumes "reg_inv r" "ev_DeviceID ev = []" "ev_DeviceID ev' = []"
    and "is_mac (NormaliseMAC (txt_get (ep_TXT (ev_Endpoint ev)) ''mac''))"
    and "NormaliseMAC (txt_get (ep_TXT (ev_Endpoint ev')) ''mac'') = NormaliseMAC (txt_get (ep_TXT (ev_Endpoint ev)) ''mac'')"
    and "\<And>h. h \<in> set (eventHandles ev') \<Longrightarrow>
      r_aliases (fst (applyAdd ev now r)) h = None \<or> r_aliases (fst (applyAdd ev now r)) h = Some (snd (resolveID ev r))"
  shows "resolveID ev' (fst (applyAdd ev now r)) = (fst (applyAdd ev now r), snd (resolveID ev r))"
proof -
  let ?m = "prefixMAC @ NormaliseMAC (txt_get (ep_TXT (ev_Endpoint ev)) ''mac'')"
  have d: "DeriveID (ev_Kind ev) (ev_Instance ev) (ep_TXT (ev_Endpoint ev)) = ?m"
    "DeriveID (ev_Kind ev') (ev_Instance ev') (ep_TXT (ev_Endpoint ev')) = ?m"
    using assms(4,5) DeriveID_txt_mac by metis+
  have "?m \<in> set (eventHandles ev')" using mac_handle [of ev'] assms(4,5) by simp
  then have "first_alias (r_aliases (fst (applyAdd ev now r))) (eventHandles ev') = Some (snd (resolveID ev r))"
    using added_alias [OF assms(1) mac_handle [OF assms(4)]] assms(6) by (intro first_alias_only) auto
  moreover have "IsMACID (snd (resolveID ev r))" using resolveID_mac [OF assms(2)] d(1) by simp
  ultimately show ?thesis
    using assms(3) by (simp add: resolveID_def Let_def d(2) prefixMAC_def)
qed

lemma cloud_txt_mac: "is_mac (ds_MAC dev) \<Longrightarrow> txt_get (cloud_txt dev) ''mac'' = ds_MAC dev"
  by (auto simp: cloud_txt_def txt_get_def is_mac_def Let_def)

lemma cloud_event_simps:
  "ev_DeviceID (cloud_event now dev) = []" "ep_TXT (ev_Endpoint (cloud_event now dev)) = cloud_txt dev"
  "ev_Instance (cloud_event now dev) = ds_ID dev"
  "key_ServiceType (ep_Key (ev_Endpoint (cloud_event now dev))) = ''shelly_cloud''"
  by (simp_all add: cloud_event_def cloud_source_name_def)

lemma cloud_handles:
  assumes "is_mac (ds_MAC dev)"
  shows "set (eventHandles (cloud_event now dev)) \<subseteq> {prefixName @ lower (regInstanceLabel (ds_ID dev)), prefixMAC @ ds_MAC dev}"
proof -
  have mac: "txt_get (cloud_txt dev) ''mac'' = ds_MAC dev" "NormaliseMAC (ds_MAC dev) = ds_MAC dev"
    using assms cloud_txt_mac [OF assms] by (auto simp: NormaliseMAC_id is_mac_def)
  then have "DeriveID (ev_Kind (cloud_event now dev)) (ds_ID dev) (cloud_txt dev) = prefixMAC @ ds_MAC dev"
    using DeriveID_txt_mac [of "cloud_txt dev"] assms by simp
  moreover have "txt_get (cloud_txt dev) ''id'' = []" by (simp add: cloud_txt_def txt_get_def Let_def)
  ultimately show ?thesis using mac by (auto simp: eventHandles_def Let_def cloud_event_simps)
qed

text \<open>C25. The cloud and the local network see one device: when a device was announced with its MAC, by
  Avahi or any other backend, the cloud's report of that MAC lands on the same device as a second
  endpoint, beside the announced one, and touches no other device; unless something else goes by the
  cloud's identifier as its name.\<close>

theorem cloud_report_joins_the_announced_device:
  assumes "reg_inv r" "ev_DeviceID ev = []" "is_mac (ds_MAC dev)"
    and "NormaliseMAC (txt_get (ep_TXT (ev_Endpoint ev)) ''mac'') = ds_MAC dev"
    and "key_ServiceType (ep_Key (ev_Endpoint ev)) \<noteq> ''shelly_cloud''"
    and "r1 = fst (applyAdd ev t r)" "i = snd (resolveID ev r)"
    and "r_aliases r1 (prefixName @ lower (regInstanceLabel (ds_ID dev))) \<in> {None, Some i}"
  shows "\<exists>d. device_of (fst (applyAdd (cloud_event now dev) now r1)) i = Some d
    \<and> map_of (ds_endpoints d) (ep_Key (ev_Endpoint ev)) = Some (new_endpoint ev)
    \<and> map_of (ds_endpoints d) (ep_Key (ev_Endpoint (cloud_event now dev))) = Some (new_endpoint (cloud_event now dev))
    \<and> (\<forall>j. j \<noteq> i \<longrightarrow> device_of (fst (applyAdd (cloud_event now dev) now r1)) j = device_of r1 j)"
proof -
  let ?c = "cloud_event now dev"
  have mac: "NormaliseMAC (txt_get (ep_TXT (ev_Endpoint ?c)) ''mac'') = ds_MAC dev"
    using assms(3) cloud_txt_mac [OF assms(3)] by (auto simp: cloud_event_simps NormaliseMAC_id is_mac_def)
  have "prefixMAC @ ds_MAC dev \<in> set (eventHandles ev)" using mac_handle [of ev] assms(3,4) by simp
  then have "r_aliases r1 (prefixMAC @ ds_MAC dev) = Some i" using added_alias [OF assms(1)] assms(6,7) by simp
  then have handles: "r_aliases r1 h = None \<or> r_aliases r1 h = Some i" if "h \<in> set (eventHandles ?c)" for h
    using that cloud_handles [OF assms(3), of now] assms(8) by auto
  have join: "resolveID ?c r1 = (r1, i)"
    using same_mac_joins [of r ev ?c t] assms(1-4) mac handles by (simp add: assms(6,7) cloud_event_simps)
  have r1: "reg_inv r1" using assms(1) by (simp add: assms(6) applyAdd_inv)
  have dev1: "device_of r1 i = Some (added ev t r)" using applyAdd_device [OF assms(1), of ev t i] by (simp add: assms(6,7))
  have "map_of (ds_endpoints (added ev t r)) (ep_Key (ev_Endpoint ev)) = Some (new_endpoint ev)"
    by (simp add: added_endpoints map_of_update)
  moreover have "ep_Key (ev_Endpoint ev) \<noteq> ep_Key (ev_Endpoint ?c)" using assms(5) cloud_event_simps(4) by metis
  ultimately show ?thesis
    using applyAdd_device [OF r1, of ?c now]
    by (simp add: join added_endpoints dev1 map_of_update)
qed

definition seen_event :: Event where
  "seen_event = \<lparr>ev_Type = EventAdd, ev_Source = ''avahi'', ev_DeviceID = [], ev_Instance = ''shellyplug-s'', ev_Unnamed = False,
     ev_Domain = ''local'', ev_Kind = KindShelly,
     ev_Endpoint = ex_endpoint\<lparr>ep_TXT := [''mac'' \<mapsto> ''A8032AB1C2D3'']\<rparr>, ev_At = 1000\<rparr>"

definition cloud_dev :: DeviceStatus where
  "cloud_dev = \<lparr>ds_ID = ''a8032ab1c2d3'', ds_Gen = 1, ds_MAC = ''a8032ab1c2d3'', ds_Code = [], ds_Online = True, ds_Addr = Addr4 7\<rparr>"

lemma seen_mac: "NormaliseMAC (txt_get (ep_TXT (ev_Endpoint seen_event)) ''mac'') = ''a8032ab1c2d3''"
  by code_simp

lemma cloud_dev_mac: "is_mac (ds_MAC cloud_dev)"
  by code_simp

lemma seen_resolve: "snd (resolveID seen_event (New ex_cfg ex_policy)) = ex_id"
  by code_simp

lemma seen_no_name:
  "r_aliases (fst (applyAdd seen_event 1000 (New ex_cfg ex_policy))) (prefixName @ lower (regInstanceLabel (ds_ID cloud_dev))) = None"
  by code_simp

theorem cloud_report_joins_the_announced_device_witness:
  "\<exists>d. device_of (fst (applyAdd (cloud_event 2000 cloud_dev) 2000 (fst (applyAdd seen_event 1000 (New ex_cfg ex_policy))))) ex_id = Some d
     \<and> map_of (ds_endpoints d) (ep_Key (ev_Endpoint seen_event)) = Some (new_endpoint seen_event)"
proof -
  have inv: "reg_inv (New ex_cfg ex_policy)" by (rule reg_inv_New)
  have "key_ServiceType (ep_Key (ev_Endpoint seen_event)) \<noteq> ''shelly_cloud''"
    by (simp add: seen_event_def ex_endpoint_def ServiceShelly_def)
  from cloud_report_joins_the_announced_device [OF inv _ cloud_dev_mac _ this refl refl, of 1000 2000]
  show ?thesis using seen_mac seen_no_name seen_resolve by (auto simp: seen_event_def cloud_dev_def)
qed

section \<open>What the operator configured\<close>

lemma static_entries_unmapped:
  "static_entries parseAddr i es = Inr out \<Longrightarrow> e \<in> set out \<Longrightarrow> unmap (st_addr e) = st_addr e"
  by (induction parseAddr i es arbitrary: out rule: static_entries.induct)
     (auto simp: Let_def split: option.splits sum.splits if_splits)

lemma static_added:
  assumes inv: "reg_inv r" and new: "NewStatic parseAddr entries interval = Inr s" and e: "e \<in> set (ss_entries s)"
    and ev: "ev = static_event t e \<or> ev = static_event t e\<lparr>ev_At := t'\<rparr>"
  shows "\<exists>d. device_of (fst (applyAdd ev now r)) (StaticID (st_id e)) = Some d
    \<and> dev_Static d \<and> st_addr e \<in> set (dev_Addrs d)"
proof -
  have un: "unmap (st_addr e) = st_addr e"
    using new e by (auto simp: NewStatic_def split: sum.splits intro: static_entries_unmapped)
  have res: "resolveID ev r = (r, StaticID (st_id e))"
    using ev by (auto simp: resolveID_def static_event_def StaticID_def)
  have "map_of (ds_endpoints (added ev now r)) (ep_Key (ev_Endpoint ev)) = Some (new_endpoint ev)"
    by (simp add: added_endpoints map_of_update)
  then have "(ep_Key (ev_Endpoint ev), new_endpoint ev) \<in> set (ds_endpoints (added ev now r))" by (rule map_of_SomeD)
  moreover have "ep_Trusted (new_endpoint ev)" "ep_Addr (new_endpoint ev) = st_addr e"
    using ev by (auto simp: new_endpoint_def Endpoint.extend_def static_event_def)
  ultimately have "st_addr e \<in> set (dev_Addrs (added ev now r))"
    unfolding added_addrs using un by force
  moreover have "dev_Static (added ev now r)"
    using ev by (auto simp: added_Static static_event_def static_name_def sourceStatic_def)
  ultimately show ?thesis using applyAdd_device [OF inv, of ev now] by (simp add: res)
qed

text \<open>What the operator lists is served: the event of a static entry makes a permanent device with the
  listed address among those it is contacted at, whatever the address policy allows or denies.\<close>

theorem static_entry_is_served:
  assumes "reg_inv r" "NewStatic parseAddr entries interval = Inr s" "e \<in> set (ss_entries s)"
  shows "\<exists>d. device_of (fst (applyAdd (static_event now e) now r)) (StaticID (st_id e)) = Some d
    \<and> dev_Static d \<and> st_addr e \<in> set (dev_Addrs d)"
  using static_added [OF assms, of "static_event now e"] by blast

theorem static_entry_is_served_witness:
  "\<exists>d. device_of (fst (applyAdd (static_event 5 \<lparr>st_id = ''plug'', st_kind = ''shelly'', st_addr = Addr4 0x7F000001, st_port = 80\<rparr>) 5
        (New ex_cfg ex_policy))) ''static:plug'' = Some d
     \<and> dev_Static d \<and> Addr4 0x7F000001 \<in> set (dev_Addrs d)"
proof -
  let ?s = "\<lparr>ss_entries = [\<lparr>st_id = ''plug'', st_kind = ''shelly'', st_addr = Addr4 0x7F000001, st_port = 80\<rparr>],
      ss_interval = 60, ss_health = zero_health\<rparr>"
  have s: "NewStatic (\<lambda>_. Some (Addr4 0x7F000001)) [\<lparr>se_ID = ''plug'', se_Kind = ''shelly'', se_Address = ''127.0.0.1'', se_Port = 0\<rparr>] 60
      = Inr ?s"
    by (simp add: NewStatic_def KindShelly_def KindESPHome_def defaultPort_def)
  have "StaticID ''plug'' = ''static:plug''" by code_simp
  then show ?thesis
    using static_entry_is_served [OF reg_inv_New [of ex_cfg ex_policy] s, of "hd (ss_entries ?s)" 5] by simp
qed

section \<open>Polling the cloud\<close>

lemma poll_interval: "poll answer now accept s = (sent, ok, s') \<Longrightarrow> cs_interval s' = cs_interval s"
  by (auto simp: poll_def Let_def split: sum.splits prod.splits if_splits)

text \<open>While its context lives the cloud source polls for ever, at least once per interval.\<close>

lemma cloud_source_keeps_polling:
  "list_all (\<lambda>(answer, now, accept, ended). accept = None \<and> \<not> ended) polls \<Longrightarrow>
     length (fst (snd (cloud_source_run polls retry s))) = length polls
     \<and> list_all (\<lambda>w. w \<le> cs_interval s) (fst (snd (cloud_source_run polls retry s)))"
proof (induction polls arbitrary: retry s)
  case (Cons p polls)
  obtain answer now accept ended where p: "p = (answer, now, accept, ended)" by (cases p)
  have acc: "accept = None" "\<not> ended" using Cons.prems by (simp_all add: p)
  obtain sent ok s' where q: "poll answer now None s = (sent, ok, s')" by (cases "poll answer now None s")
  show ?case
    using Cons.prems Cons.IH [of "if ok then pollRetryInitial else min (retry * pollRetryFactor) (cs_interval s')" s'] poll_interval [OF q]
    by (auto simp: p q acc Let_def split: prod.split)
qed simp

end
