(* ===== verification/EndToEnd.thy ===== *)
theory EndToEnd
  imports EventPipelineProps BackendProps AppProps
begin

text \<open>
  From a line of the configuration to a scrape: the static source, the channels, the registry, its
  snapshot and the handler of probes, one after the other.
\<close>

section \<open>What a static event leaves in the registry\<close>

lemma static_handled:
  assumes "reg_inv r" "NewStatic parseAddr entries interval = Inr s" "e \<in> set (ss_entries s)"
  shows "snd (applyEvent (static_event t e) now r) \<and> r_cfg (fst (applyEvent (static_event t e) now r)) = r_cfg r
    \<and> (\<exists>d. device_of (fst (applyEvent (static_event t e) now r)) (StaticID (st_id e)) = Some d
        \<and> dev_Static d \<and> st_addr e \<in> set (dev_Addrs d))"
proof -
  have "\<exists>ev. applyEvent (static_event t e) now r = applyAdd ev now r
      \<and> (ev = static_event t e \<or> ev = static_event t e\<lparr>ev_At := now\<rparr>)"
    by (auto simp: applyEvent_def Let_def static_event_def)
  then show ?thesis
    using static_added [OF assms] applyAdd_eq(4,5) [OF assms(1)] by metis
qed

section \<open>Publication\<close>

lemma published_device:
  assumes "reg_inv r" "device_of r i = Some d"
  shows "Snapshot_Get (Some (publish now r)) i = Some (Device.truncate d)"
proof -
  have "distinct (map dev_ID (published_devices r))" using assms(1) by (simp add: published_ids reg_inv_alist)
  from Get_newSnapshot [OF this, of now i "Device.truncate d"] show ?thesis
    unfolding publish_def published_lookup [OF assms(1)] using assms(2) by simp
qed

lemma after_publish_deadline:
  assumes "snd res" "(ac_dirty a \<longleftrightarrow> ac_publish a \<noteq> None)"
    and "now + rc_SnapshotCoalesce (r_cfg (fst res)) \<le> p" "\<And>dl. ac_publish a = Some dl \<Longrightarrow> dl \<le> p"
  shows "actor_ok (MPublish p) (after now res a)"
  using assms by (auto simp: actor_ok_def after_def Let_def markDirty_def)

lemma probe_finds_published:
  assumes "Snapshot_Get snap i = Some d" "i \<noteq> []"
  shows "StatusOf (fst (probeHandler conv cfg run snap i header w)) = 200"
  using assms by (simp add: probeHandler_def StatusOf_def split: prod.split)

section \<open>The way through the channels\<close>

definition delivery :: "nat \<Rightarrow> Event \<Rightarrow> time \<Rightarrow> time \<Rightarrow> pipe_msg list" where
  "delivery b ev h p = [Send b ev, Receive b, Forward b, Handle h, Tick (MPublish p)]"

lemma quiet_channels:
  assumes "backlog s = 0" "b < length (pl_relays s)"
  shows "pl_events s = []" "rl_buffer (pl_relays s ! b) = []" "rl_held (pl_relays s ! b) = None"
proof -
  have "length (in_relay (pl_relays s ! b)) \<le> sum_list (map (\<lambda>r. length (in_relay r)) (pl_relays s))"
    using assms(2) by (intro member_le_sum_list) simp
  then have "in_relay (pl_relays s ! b) = []" using assms by (simp add: backlog_def)
  then show "rl_buffer (pl_relays s ! b) = []" "rl_held (pl_relays s ! b) = None"
    by (auto simp: in_relay_def split: option.splits)
  show "pl_events s = []" using assms(1) by (simp add: backlog_def)
qed

text \<open>With empty channels an event reaches the actor in four steps.\<close>

lemma delivered:
  assumes live: "\<not> pl_stopped s" "\<not> rl_returned (pl_relays s ! b)" and b: "b < length (pl_relays s)"
    and quiet: "backlog s = 0"
    and p: "actor_ok (MPublish p) (actor_step (MEvent ev h) (pl_actor s))"
  shows "pipe.oks (delivery b ev h p) s
    \<and> pl_actor (pipe.run (delivery b ev h p) s) = actor_step (MPublish p) (actor_step (MEvent ev h) (pl_actor s))"
proof -
  note q = quiet_channels [OF quiet b]
  define s1 where "s1 = pipe_step (Send b ev) s"
  define s2 where "s2 = pipe_step (Receive b) s1"
  define s3 where "s3 = pipe_step (Forward b) s2"
  define s4 where "s4 = pipe_step (Handle h) s3"
  have s1: "pipe_ok (Send b ev) s" "b < length (pl_relays s1)" "pl_events s1 = []" "\<not> pl_stopped s1"
    "pl_actor s1 = pl_actor s" "pl_relays s1 ! b = (pl_relays s ! b)\<lparr>rl_buffer := [ev]\<rparr>"
    using b q live by (simp_all add: s1_def pipe_defs relay_at_change relayBuffer_def)
  have s2: "pipe_ok (Receive b) s1" "b < length (pl_relays s2)" "pl_events s2 = []" "\<not> pl_stopped s2"
    "pl_actor s2 = pl_actor s" "rl_held (pl_relays s2 ! b) = Some ev" "\<not> rl_returned (pl_relays s2 ! b)"
    using s1 q live by (simp_all add: s2_def pipe_defs relay_at_change)
  note f = forward_simps [OF s2(2,6)]
  have room: "has_room s2" using s2(3) by (simp add: has_room_def eventsBuffer_def)
  have s3: "pipe_ok (Forward b) s2" "pl_events s3 = [ev]" "\<not> pl_stopped s3" "pl_actor s3 = pl_actor s"
    using s2 room by (simp_all add: s3_def pipe_ok_def pipe_step_def f)
  have s4: "pipe_ok (Handle h) s3" "\<not> pl_stopped s4" "pl_actor s4 = actor_step (MEvent ev h) (pl_actor s)"
    using s3 by (simp_all add: s4_def pipe_ok_def pipe_step_def)
  have "pipe_ok (Tick (MPublish p)) s4" using s4 p by (simp add: pipe_ok_def is_tick_def)
  moreover have "pl_actor (pipe_step (Tick (MPublish p)) s4)
      = actor_step (MPublish p) (actor_step (MEvent ev h) (pl_actor s))"
    using s4 by (simp add: pipe_step_def)
  ultimately show ?thesis
    using s1(1) s2(1) s3(1) s4(1) by (simp add: delivery_def s1_def s2_def s3_def s4_def)
qed

text \<open>C7. What the operator lists can be scraped: from any state of the running exporter in which the
  channels are empty, once the static source sends the event of an entry, four steps bring it to the registry, the
  next publication shows a permanent device with the listed address, whatever the address policy, and a probe of its
  identifier is answered, whatever its outcome, never refused as unknown.\<close>

theorem configured_device_is_scrapable:
  assumes "pipe.reachable s" "\<not> pl_ended s" "backlog s = 0" "b < length (pl_relays s)"
    and "NewStatic parseAddr entries interval = Inr src" "e \<in> set (ss_entries src)"
    and "h + rc_SnapshotCoalesce (r_cfg (ac_reg (pl_actor s))) \<le> p" "\<forall>dl. ac_publish (pl_actor s) = Some dl \<longrightarrow> dl \<le> p"
  shows "pipe.oks (delivery b (static_event t e) h p) s
    \<and> (case Some (ac_snapshot (pl_actor (pipe.run (delivery b (static_event t e) h p) s))) of snap \<Rightarrow>
        (\<exists>d. Snapshot_Get snap (StaticID (st_id e)) = Some d \<and> dev_Static d \<and> st_addr e \<in> set (dev_Addrs d))
        \<and> StatusOf (fst (probeHandler conv cfg run snap (StaticID (st_id e)) header w)) = 200)"
proof -
  let ?ev = "static_event t e" and ?a = "pl_actor s"
  have inv: "pipe_inv s" by (rule pipe.reachable_invar [OF assms(1)])
  then have live: "\<not> pl_stopped s" "\<not> rl_returned (pl_relays s ! b)" and a: "actor_inv ?a"
    using assms(2,4) live_at by (auto simp: pipe_inv_def)
  have reg: "reg_inv (ac_reg ?a)" using a by (simp add: actor_inv_def)
  let ?res = "applyEvent ?ev h (ac_reg ?a)"
  obtain d where cfg: "r_cfg (fst ?res) = r_cfg (ac_reg ?a)" and d: "snd ?res" "device_of (fst ?res) (StaticID (st_id e)) = Some d" "dev_Static d"
    "st_addr e \<in> set (dev_Addrs d)"
    using static_handled [OF reg assms(5,6)] by blast
  have reg': "reg_inv (fst ?res)" by (rule applyEvent_inv [OF reg])
  have step: "actor_step (MEvent ?ev h) ?a = after h ?res ?a" by (simp add: actor_step_def)
  have ok: "actor_ok (MPublish p) (actor_step (MEvent ?ev h) ?a)"
    unfolding step using after_publish_deadline [OF d(1), of ?a h p] a assms(7,8) cfg by (simp add: actor_inv_def)
  note del = delivered [OF live assms(4,3) ok]
  have snap: "ac_snapshot (pl_actor (pipe.run (delivery b ?ev h p) s)) = publish p (fst ?res)"
    using del by (simp add: step actor_step_def after_def Let_def markDirty_def)
  have get: "Snapshot_Get (Some (publish p (fst ?res))) (StaticID (st_id e)) = Some (Device.truncate d)"
    by (rule published_device [OF reg' d(2)])
  have "StaticID (st_id e) \<noteq> []" by (simp add: StaticID_def)
  from probe_finds_published [OF get this] show ?thesis
    using conjunct1 [OF del] get d(3,4) by (simp add: snap Device.truncate_def)
qed

definition ex_entry :: static_entry where
  "ex_entry = \<lparr>st_id = ''plug'', st_kind = ''shelly'', st_addr = Addr4 0x7F000001, st_port = 80\<rparr>"

theorem configured_device_is_scrapable_witness:
  "StatusOf (fst (probeHandler (\<lambda>_. 0) (cfg_Probe Default) (\<lambda>budget d w. (([], Success 200, 0, budget), w))
     (Some (ac_snapshot (pl_actor (pipe.run (delivery 0 (static_event 5 ex_entry) 7 900000000) (new_pipeline 1 ex_start)))))
     (StaticID ''plug'') None ())) = 200"
proof -
  let ?src = "\<lparr>ss_entries = [ex_entry], ss_interval = 60, ss_health = zero_health\<rparr>"
  let ?s = "new_pipeline 1 ex_start"
  have new: "NewStatic (\<lambda>_. Some (Addr4 0x7F000001)) [\<lparr>se_ID = ''plug'', se_Kind = ''shelly'', se_Address = ''127.0.0.1'', se_Port = 0\<rparr>] 60
      = Inr ?src"
    by (simp add: NewStatic_def KindShelly_def KindESPHome_def defaultPort_def ex_entry_def)
  have start: "pipe.reachable ?s" by (intro pipe.reachable.start pipe_start_new ex_start)
  have live: "\<not> pl_ended ?s" "0 < length (pl_relays ?s)" by (simp_all add: new_pipeline_def)
  have entry: "ex_entry \<in> set (ss_entries ?src)" by simp
  have due: "7 + rc_SnapshotCoalesce (r_cfg (ac_reg (pl_actor ?s))) \<le> 900000000"
    by (simp add: ex_start_def actor_init_def ex_cfg_def)
  have clean: "\<forall>dl. ac_publish (pl_actor ?s) = Some dl \<longrightarrow> dl \<le> 900000000"
    by (simp add: ex_start_def actor_init_def)
  have name: "st_id ex_entry = ''plug''" by (simp add: ex_entry_def)
  show ?thesis
    using configured_device_is_scrapable [OF start live(1) backlog_new live(2) new entry due clean,
        of 5 "\<lambda>_. 0" "cfg_Probe Default" "\<lambda>budget d w. (([], Success 200, 0, budget), w)" None "()", THEN conjunct2]
    unfolding name by simp
qed

end
