(* ===== verification/DescConcurrent.thy ===== *)
theory DescConcurrent
  imports MetricsProps
begin

text \<open>
  \<^verbatim>\<open>DescCache.Get\<close> of \<^verbatim>\<open>internal/metrics/descs.go\<close> under concurrent probes: the
  lookup under the read lock, the second lookup under the write lock, and the descriptors as objects on a heap, so
  that which of two calls made a descriptor shows.  Every call is a goroutine with a program counter.  The
  lock is \<^verbatim>\<open>sync.RWMutex\<close>: readers exclude the writer and the writer excludes everybody.
\<close>

section \<open>Calls and steps\<close>

record desc_request =
  dq_Name :: string
  dq_Help :: string
  dq_Labels :: "string list"

definition request_key :: "desc_request \<Rightarrow> string" where
  "request_key q = desc_key (dq_Name q) (dq_Labels q)"

definition NewDesc :: "desc_request \<Rightarrow> Desc" where
  "NewDesc q = \<lparr>desc_Name = dq_Name q, desc_Help = dq_Help q, desc_Labels = dq_Labels q\<rparr>"

text \<open>Where a call stands; a descriptor is the index of its object.\<close>

datatype desc_progress =
    Asked
  | ReadLocked
  | Looked "nat option"    \<comment> \<open>still under the read lock\<close>
  | NotFound
  | WriteLocked
  | Absent                 \<comment> \<open>looked again, still under the write lock\<close>
  | Settled nat            \<comment> \<open>before the deferred unlock\<close>
  | Answered nat

record desc_store =
  dc_heap :: "Desc list"
  dc_m :: "string \<Rightarrow> nat option"
  dc_readers :: nat
  dc_writer :: bool
  dc_calls :: "(desc_request \<times> desc_progress) list"

definition NewDescCache :: desc_store where
  "NewDescCache = \<lparr>dc_heap = [], dc_m = Map.empty, dc_readers = 0, dc_writer = False, dc_calls = []\<rparr>"

definition put_call :: "nat \<Rightarrow> desc_progress \<Rightarrow> desc_store \<Rightarrow> desc_store" where
  "put_call c p s = s\<lparr>dc_calls := (dc_calls s)[c := (fst (dc_calls s ! c), p)]\<rparr>"

text \<open>The next step of a call; \<open>None\<close> while it has to wait for the lock, or has returned.\<close>

definition desc_move :: "nat \<Rightarrow> desc_store \<Rightarrow> desc_store option" where
  "desc_move c s =
     (if \<not> c < length (dc_calls s) then None
      else let q = fst (dc_calls s ! c); k = request_key q in
        case snd (dc_calls s ! c) of
          Asked \<Rightarrow>
            if dc_writer s then None else Some (put_call c ReadLocked (s\<lparr>dc_readers := dc_readers s + 1\<rparr>))
        | ReadLocked \<Rightarrow> Some (put_call c (Looked (dc_m s k)) s)
        | Looked (Some d) \<Rightarrow> Some (put_call c (Answered d) (s\<lparr>dc_readers := dc_readers s - 1\<rparr>))
        | Looked None \<Rightarrow> Some (put_call c NotFound (s\<lparr>dc_readers := dc_readers s - 1\<rparr>))
        | NotFound \<Rightarrow>
            if dc_writer s \<or> 0 < dc_readers s then None
            else Some (put_call c WriteLocked (s\<lparr>dc_writer := True\<rparr>))
        | WriteLocked \<Rightarrow>
            (case dc_m s k of
               Some d \<Rightarrow> Some (put_call c (Settled d) s)
             | None \<Rightarrow> Some (put_call c Absent s))
        | Absent \<Rightarrow>
            (let d = length (dc_heap s)
             in Some (put_call c (Settled d) (s\<lparr>dc_heap := dc_heap s @ [NewDesc q], dc_m := (dc_m s)(k \<mapsto> d)\<rparr>)))
        | Settled d \<Rightarrow> Some (put_call c (Answered d) (s\<lparr>dc_writer := False\<rparr>))
        | Answered d \<Rightarrow> None)"

datatype desc_msg = Ask desc_request | Move nat

definition desc_step :: "desc_msg \<Rightarrow> desc_store \<Rightarrow> desc_store" where
  "desc_step m s =
     (case m of
        Ask q \<Rightarrow> s\<lparr>dc_calls := dc_calls s @ [(q, Asked)]\<rparr>
      | Move c \<Rightarrow> (case desc_move c s of None \<Rightarrow> s | Some s' \<Rightarrow> s'))"

definition desc_ok :: "desc_msg \<Rightarrow> desc_store \<Rightarrow> bool" where
  "desc_ok m s \<longleftrightarrow> (case m of Ask q \<Rightarrow> True | Move c \<Rightarrow> desc_move c s \<noteq> None)"

text \<open>\<^verbatim>\<open>Len\<close>: the entries of the map, for the exporter's own metrics.\<close>

definition DescCache_Len :: "desc_store \<Rightarrow> nat" where
  "DescCache_Len s = card (dom (dc_m s))"

section \<open>The invariant\<close>

definition desc_call :: "desc_store \<Rightarrow> nat \<Rightarrow> desc_request \<Rightarrow> desc_progress \<Rightarrow> bool" where
  "desc_call s c q p \<longleftrightarrow> c < length (dc_calls s) \<and> dc_calls s ! c = (q, p)"

fun reads :: "desc_progress \<Rightarrow> bool" where
  "reads ReadLocked = True"
| "reads (Looked _) = True"
| "reads _ = False"

fun writes :: "desc_progress \<Rightarrow> bool" where
  "writes WriteLocked = True"
| "writes Absent = True"
| "writes (Settled _) = True"
| "writes _ = False"

text \<open>What a call holds as its descriptor.\<close>

fun holds :: "desc_progress \<Rightarrow> nat option" where
  "holds (Looked d) = d"
| "holds (Settled d) = Some d"
| "holds (Answered d) = Some d"
| "holds _ = None"

definition lock_ok :: "desc_store \<Rightarrow> bool" where
  "lock_ok s \<longleftrightarrow> dc_readers s = length (filter (\<lambda>x. reads (snd x)) (dc_calls s))
     \<and> length (filter (\<lambda>x. writes (snd x)) (dc_calls s)) = (if dc_writer s then 1 else 0)
     \<and> (dc_writer s \<longrightarrow> dc_readers s = 0)"

definition heap_key :: "Desc \<Rightarrow> string" where
  "heap_key d = desc_key (desc_Name d) (desc_Labels d)"

text \<open>The map and the heap are inverse to each other.\<close>

definition heap_ok :: "desc_store \<Rightarrow> bool" where
  "heap_ok s \<longleftrightarrow> (\<forall>k d. dc_m s k = Some d \<longleftrightarrow> d < length (dc_heap s) \<and> heap_key (dc_heap s ! d) = k)"

definition made_for :: "desc_store \<Rightarrow> bool" where
  "made_for s \<longleftrightarrow> set (dc_heap s) \<subseteq> NewDesc ` fst ` set (dc_calls s)"

definition calls_ok :: "desc_store \<Rightarrow> bool" where
  "calls_ok s \<longleftrightarrow> (\<forall>c q p. desc_call s c q p \<longrightarrow>
     (\<forall>d. holds p = Some d \<longrightarrow> dc_m s (request_key q) = Some d)
     \<and> (p = Absent \<longrightarrow> dc_m s (request_key q) = None))"

definition desc_inv :: "desc_store \<Rightarrow> bool" where
  "desc_inv s \<longleftrightarrow> lock_ok s \<and> heap_ok s \<and> made_for s \<and> calls_ok s"

definition desc_work :: "desc_progress \<Rightarrow> nat" where
  "desc_work p = (case p of Asked \<Rightarrow> 7 | ReadLocked \<Rightarrow> 6 | Looked _ \<Rightarrow> 5 | NotFound \<Rightarrow> 4 | WriteLocked \<Rightarrow> 3
     | Absent \<Rightarrow> 2 | Settled _ \<Rightarrow> 1 | Answered _ \<Rightarrow> 0)"

definition desc_work_left :: "desc_store \<Rightarrow> nat" where
  "desc_work_left s = sum_list (map (\<lambda>x. desc_work (snd x)) (dc_calls s))"

text \<open>The sequential model sees the map with the descriptors themselves.\<close>

definition desc_view :: "desc_store \<Rightarrow> desc_cache" where
  "desc_view s = (\<lambda>k. map_option ((!) (dc_heap s)) (dc_m s k))"

end
