(* ===== verification/DescConcurrentProps.thy ===== *)
theory DescConcurrentProps
  imports DescConcurrent
begin

text \<open>
  The descriptor cache under concurrent probes: one descriptor for each key, the answer of the sequential
  model for every call, and no call that waits forever.
\<close>

section \<open>Steps\<close>

lemma put_call_simps [simp]:
  "dc_heap (put_call c p s) = dc_heap s" "dc_m (put_call c p s) = dc_m s"
  "dc_readers (put_call c p s) = dc_readers s" "dc_writer (put_call c p s) = dc_writer s"
  "length (dc_calls (put_call c p s)) = length (dc_calls s)"
  by (simp_all add: put_call_def)

lemma put_call_calls: "dc_calls (put_call c p s) = (dc_calls s)[c := (fst (dc_calls s ! c), p)]"
  by (simp add: put_call_def)

lemma put_call_requests: "fst ` set (dc_calls (put_call c p s)) = fst ` set (dc_calls s)"
proof (cases "c < length (dc_calls s)")
  case True
  have "map fst (dc_calls (put_call c p s)) = map fst (dc_calls s)"
    by (simp add: put_call_calls map_update)
       (metis True length_map list_update_id nth_map)
  then show ?thesis by (metis set_map)
next
  case False
  then have "dc_calls (put_call c p s) = dc_calls s" by (simp add: put_call_calls list_update_beyond)
  then show ?thesis by simp
qed

lemma desc_call_put:
  "desc_call s c q p \<Longrightarrow> desc_call (put_call c p' s) c' q' r \<longleftrightarrow>
     (if c' = c then q' = q \<and> r = p' else desc_call s c' q' r)"
  by (auto simp: desc_call_def put_call_calls)

lemma desc_call_cong: "dc_calls s' = dc_calls s \<Longrightarrow> desc_call s' = desc_call s"
  by (intro ext) (simp add: desc_call_def)

lemma count_put:
  assumes "desc_call s c q p"
  shows "length (filter (\<lambda>x. P (snd x)) (dc_calls (put_call c p' s))) + (if P p then 1 else 0)
    = length (filter (\<lambda>x. P (snd x)) (dc_calls s)) + (if P p' then 1 else 0)"
  using assms filter_update [of c "dc_calls s" "\<lambda>x. P (snd x)" "(q, p')"]
  by (simp add: desc_call_def put_call_calls)

text \<open>A step that leaves map and heap alone: the lock is kept in step with the calls, and what the call
  now claims is true.\<close>

lemma desc_inv_put:
  assumes inv: "desc_inv s" and c: "desc_call s c q p"
    and same: "dc_heap t = dc_heap s" "dc_m t = dc_m s" "dc_calls t = dc_calls s"
    and readers: "dc_readers t + (if reads p then 1 else 0) = dc_readers s + (if reads p' then 1 else 0)"
    and writer: "(if dc_writer t then 1 else 0) + (if writes p then 1 else 0)
      = (if dc_writer s then 1 else 0) + (if writes p' then 1 else (0::nat))"
    and excl: "dc_writer t \<Longrightarrow> dc_readers t = 0"
    and true: "\<And>d. holds p' = Some d \<Longrightarrow> dc_m s (request_key q) = Some d"
      "p' = Absent \<Longrightarrow> dc_m s (request_key q) = None"
  shows "desc_inv (put_call c p' t)"
proof -
  have calls: "dc_calls (put_call c p' t) = dc_calls (put_call c p' s)" by (simp add: put_call_calls same)
  have "lock_ok (put_call c p' t)"
    using inv readers writer excl count_put [OF c, of reads p'] count_put [OF c, of writes p']
    by (auto simp: desc_inv_def lock_ok_def calls split: if_splits)
  moreover have "heap_ok (put_call c p' t)" using inv by (simp add: desc_inv_def heap_ok_def same)
  moreover have "made_for (put_call c p' t)"
    using inv by (simp add: desc_inv_def made_for_def calls put_call_requests same)
  moreover have "calls_ok (put_call c p' t)"
    using inv true unfolding desc_inv_def calls_ok_def desc_call_cong [OF calls] desc_call_put [OF c]
    by (auto simp: same)
  ultimately show ?thesis by (simp add: desc_inv_def)
qed

lemma some_counted:
  assumes "desc_call s c q p" "P p"
  shows "0 < length (filter (\<lambda>x. P (snd x)) (dc_calls s))"
  using assms by (force simp: desc_call_def filter_empty_conv in_set_conv_nth)

lemma writer_holds: "desc_inv s \<Longrightarrow> desc_call s c q p \<Longrightarrow> writes p \<Longrightarrow> dc_writer s \<and> dc_readers s = 0"
  using some_counted [of s c q p writes] by (auto simp: desc_inv_def lock_ok_def split: if_splits)

lemma reader_holds: "desc_inv s \<Longrightarrow> desc_call s c q p \<Longrightarrow> reads p \<Longrightarrow> \<not> dc_writer s \<and> 0 < dc_readers s"
  using some_counted [of s c q p reads] by (auto simp: desc_inv_def lock_ok_def split: if_splits)

lemma one_writer:
  assumes inv: "desc_inv s" and c: "desc_call s c q p" "writes p" and c': "desc_call s c' q' p'" "writes p'"
  shows "c' = c"
proof (rule ccontr)
  assume "c' \<noteq> c"
  then have "desc_call (put_call c Asked s) c' q' p'" using c' desc_call_put [OF c(1)] by simp
  from some_counted [of _ _ _ _ writes, OF this c'(2)] have "2 \<le> length (filter (\<lambda>x. writes (snd x)) (dc_calls s))"
    using count_put [OF c(1), of writes Asked] c(2) by (simp del: length_greater_0_conv)
  then show False using inv by (auto simp: desc_inv_def lock_ok_def split: if_splits)
qed

lemma heap_key_NewDesc [simp]: "heap_key (NewDesc q) = request_key q"
  by (simp add: heap_key_def NewDesc_def request_key_def)

text \<open>The step that makes a descriptor.\<close>

lemma desc_inv_make:
  assumes inv: "desc_inv s" and c: "desc_call s c q Absent"
  shows "desc_inv (put_call c (Settled (length (dc_heap s)))
    (s\<lparr>dc_heap := dc_heap s @ [NewDesc q], dc_m := (dc_m s)(request_key q \<mapsto> length (dc_heap s))\<rparr>))"
    (is "desc_inv (put_call c ?p ?t)")
proof -
  have calls: "dc_calls (put_call c ?p ?t) = dc_calls (put_call c ?p s)" by (simp add: put_call_calls)
  have none: "dc_m s (request_key q) = None" using inv c by (auto simp: desc_inv_def calls_ok_def)
  have heap: "dc_m s k = Some d \<longleftrightarrow> d < length (dc_heap s) \<and> heap_key (dc_heap s ! d) = k" for k d
    using inv by (simp add: desc_inv_def heap_ok_def)
  have "lock_ok (put_call c ?p ?t)"
    using inv count_put [OF c, of reads ?p] count_put [OF c, of writes ?p] writer_holds [OF inv c]
    by (auto simp: desc_inv_def lock_ok_def calls)
  moreover have "heap_ok (put_call c ?p ?t)"
    using none heap [of "request_key q"] heap by (auto simp: heap_ok_def nth_append less_Suc_eq)
  moreover have "q \<in> fst ` set (dc_calls s)"
    using c by (metis desc_call_def fst_conv image_eqI nth_mem)
  then have "made_for (put_call c ?p ?t)"
    using inv by (auto simp: desc_inv_def made_for_def calls put_call_requests)
  moreover have "calls_ok (put_call c ?p ?t)"
    unfolding calls_ok_def desc_call_cong [OF calls] desc_call_put [OF c]
  proof (intro allI impI)
    fix c' q' p'
    assume h: "if c' = c then q' = q \<and> p' = ?p else desc_call s c' q' p'"
    show "(\<forall>d. holds p' = Some d \<longrightarrow> dc_m (put_call c ?p ?t) (request_key q') = Some d)
      \<and> (p' = Absent \<longrightarrow> dc_m (put_call c ?p ?t) (request_key q') = None)"
    proof (cases "c' = c")
      case True
      then show ?thesis using h by simp
    next
      case False
      then have c': "desc_call s c' q' p'" using h by simp
      have "p' \<noteq> Absent" using one_writer [OF inv c _ c'] False by auto
      moreover have "dc_m s (request_key q') = Some d" if "holds p' = Some d" for d
        using inv c' that by (simp add: desc_inv_def calls_ok_def)
      ultimately show ?thesis using none by fastforce
    qed
  qed
  ultimately show ?thesis by (simp add: desc_inv_def)
qed

lemma desc_move_inv:
  assumes inv: "desc_inv s" and m: "desc_move c s = Some s'"
  shows "desc_inv s'"
proof -
  obtain q p where x: "dc_calls s ! c = (q, p)" by force
  have c: "desc_call s c q p" using m x by (auto simp: desc_call_def desc_move_def split: if_splits)
  have lt: "c < length (dc_calls s)" using c by (simp add: desc_call_def)
  have true: "holds p = Some d \<Longrightarrow> dc_m s (request_key q) = Some d" for d
    using inv c by (auto simp: desc_inv_def calls_ok_def)
  note lock = reader_holds [OF inv c] writer_holds [OF inv c]
  show ?thesis
  proof (cases p)
    case Absent
    then show ?thesis using m x lt desc_inv_make [OF inv, of c q] c
      by (auto simp: desc_move_def Let_def)
  next
    case (Looked d)
    then show ?thesis using m x lt lock true
      by (cases d) (auto simp: desc_move_def intro!: desc_inv_put [OF inv c])
  next
    case WriteLocked
    then show ?thesis using m x lt lock
      by (auto simp: desc_move_def split: option.splits intro!: desc_inv_put [OF inv c])
  qed (use m x lt lock true in
      \<open>auto simp: desc_move_def split: if_splits intro!: desc_inv_put [OF inv c]\<close>)
qed

lemma desc_ask_inv: "desc_inv s \<Longrightarrow> desc_inv (s\<lparr>dc_calls := dc_calls s @ [(q, Asked)]\<rparr>)"
  by (auto simp: desc_inv_def lock_ok_def heap_ok_def made_for_def calls_ok_def desc_call_def nth_append
      less_Suc_eq split: if_splits)

lemma desc_new_inv: "desc_inv NewDescCache"
  by (simp add: desc_inv_def lock_ok_def heap_ok_def made_for_def calls_ok_def desc_call_def NewDescCache_def)

lemma desc_step_inv: "desc_inv s \<Longrightarrow> desc_ok m s \<Longrightarrow> desc_inv (desc_step m s)"
  by (cases m) (auto simp: desc_step_def desc_ok_def desc_ask_inv desc_move_inv)

interpretation descs: machine "\<lambda>s. s = NewDescCache" desc_step desc_ok desc_inv
  by unfold_locales (auto simp: desc_new_inv desc_step_inv)

section \<open>No call waits forever\<close>

lemma desc_move_work:
  assumes "desc_move c s = Some s'"
  shows "desc_work_left s' < desc_work_left s"
proof -
  obtain q p where x: "dc_calls s ! c = (q, p)" by force
  have lt: "c < length (dc_calls s)" using assms by (auto simp: desc_move_def split: if_splits)
  have put: "desc_work_left (put_call c p' t) + desc_work p = desc_work_left s + desc_work p'"
    if "dc_calls t = dc_calls s" for p' t
    using sum_update [OF lt, of "\<lambda>x. desc_work (snd x)" "(q, p')"] that x
    by (simp add: desc_work_left_def put_call_calls)
  obtain p' t where s': "s' = put_call c p' t" "dc_calls t = dc_calls s" "desc_work p' < desc_work p"
    using assms x lt
    by (cases p) (auto simp: desc_move_def desc_work_def Let_def split: if_splits option.splits)
  then show ?thesis using put [of t p'] by simp
qed

lemma desc_call_exists: "0 < length (filter (\<lambda>x. P (snd x)) (dc_calls s)) \<Longrightarrow> \<exists>c q p. desc_call s c q p \<and> P p"
  by (auto simp: filter_empty_conv desc_call_def in_set_conv_nth) (metis prod.collapse)

text \<open>Whoever holds the lock can go on, and when nobody does the others can.\<close>

lemma desc_call_moves:
  assumes "desc_call s c q p" "\<forall>d. p \<noteq> Answered d" "p = Asked \<Longrightarrow> \<not> dc_writer s"
    "p = NotFound \<Longrightarrow> \<not> dc_writer s \<and> dc_readers s = 0"
  shows "desc_move c s \<noteq> None"
  using assms by (cases p) (auto simp: desc_call_def desc_move_def Let_def split: option.splits)

lemma some_call_moves:
  assumes inv: "desc_inv s" and c: "desc_call s c q p" "\<forall>d. p \<noteq> Answered d"
  shows "\<exists>c. desc_move c s \<noteq> None"
proof -
  have lock: "dc_readers s = length (filter (\<lambda>x. reads (snd x)) (dc_calls s))"
    "length (filter (\<lambda>x. writes (snd x)) (dc_calls s)) = (if dc_writer s then 1 else 0)"
    using inv by (auto simp: desc_inv_def lock_ok_def)
  consider "dc_writer s" | "0 < dc_readers s" | "\<not> dc_writer s" "dc_readers s = 0" by auto
  then show ?thesis
  proof cases
    case 1
    then have "0 < length (filter (\<lambda>x. writes (snd x)) (dc_calls s))" using lock(2) by simp
    then obtain c' q' p' where "desc_call s c' q' p'" "writes p'" using desc_call_exists [of writes s] by blast
    then show ?thesis using desc_call_moves [of s c' q' p'] by (intro exI [of _ c'], cases p') auto
  next
    case 2
    then obtain c' q' p' where "desc_call s c' q' p'" "reads p'"
      using desc_call_exists [of reads s] lock(1) by auto
    then show ?thesis using desc_call_moves [of s c' q' p'] by (intro exI [of _ c'], cases p') auto
  next
    case 3
    then show ?thesis using desc_call_moves [OF c] by (intro exI [of _ c]) auto
  qed
qed

section \<open>What a call is given\<close>

lemma answered:
  "desc_inv s \<Longrightarrow> desc_call s c q (Answered d) \<Longrightarrow>
     dc_m s (request_key q) = Some d \<and> d < length (dc_heap s) \<and> heap_key (dc_heap s ! d) = request_key q"
  unfolding desc_inv_def calls_ok_def heap_ok_def by fastforce

lemma heap_as_map:
  assumes "desc_inv s"
  shows "inj_on (\<lambda>d. heap_key (dc_heap s ! d)) {..<length (dc_heap s)}"
    "(\<lambda>d. heap_key (dc_heap s ! d)) ` {..<length (dc_heap s)} = dom (dc_m s)"
proof -
  have heap: "dc_m s k = Some d \<longleftrightarrow> d < length (dc_heap s) \<and> heap_key (dc_heap s ! d) = k" for k d
    using assms by (simp add: desc_inv_def heap_ok_def)
  show "inj_on (\<lambda>d. heap_key (dc_heap s ! d)) {..<length (dc_heap s)}"
    by (rule inj_onI) (metis heap lessThan_iff option.inject)
  show "(\<lambda>d. heap_key (dc_heap s ! d)) ` {..<length (dc_heap s)} = dom (dc_m s)"
    by (auto simp: dom_def heap image_iff)
qed

lemma keys_asked:
  assumes "desc_inv s"
  shows "dom (dc_m s) \<subseteq> request_key ` fst ` set (dc_calls s)"
proof
  fix k
  assume "k \<in> dom (dc_m s)"
  then obtain d where d: "d < length (dc_heap s)" "heap_key (dc_heap s ! d) = k"
    using assms by (auto simp: desc_inv_def heap_ok_def)
  then have "dc_heap s ! d \<in> NewDesc ` fst ` set (dc_calls s)"
    using assms nth_mem by (fastforce simp: desc_inv_def made_for_def)
  then obtain q where "q \<in> fst ` set (dc_calls s)" "dc_heap s ! d = NewDesc q" by blast
  then show "k \<in> request_key ` fst ` set (dc_calls s)" using d(2) by (metis heap_key_NewDesc imageI)
qed

lemma desc_view_move:
  assumes inv: "desc_inv s" and m: "desc_move c s = Some s'"
  shows "desc_view s' = desc_view s \<or>
    (\<exists>q :: desc_request. desc_view s' = snd (DescCache_Get (dq_Name q) (dq_Help q) (dq_Labels q) (desc_view s)))"
proof -
  obtain q p where x: "dc_calls s ! c = (q, p)" by force
  have c: "desc_call s c q p" using m x by (auto simp: desc_call_def desc_move_def split: if_splits)
  have lt: "c < length (dc_calls s)" using c by (simp add: desc_call_def)
  show ?thesis
  proof (cases "p = Absent")
    case True
    have none: "dc_m s (request_key q) = None" using inv c True by (auto simp: desc_inv_def calls_ok_def)
    have heap: "dc_m s k = Some d \<Longrightarrow> d < length (dc_heap s)" for k d
      using inv by (simp add: desc_inv_def heap_ok_def)
    have s': "dc_heap s' = dc_heap s @ [NewDesc q]" "dc_m s' = (dc_m s)(request_key q \<mapsto> length (dc_heap s))"
      using m x lt True by (auto simp: desc_move_def Let_def)
    have "desc_view s' k = ((desc_view s)(request_key q \<mapsto> NewDesc q)) k" for k
      using heap [of k] by (cases "dc_m s k") (auto simp: desc_view_def s' nth_append)
    then have "desc_view s' = (desc_view s)(request_key q \<mapsto> NewDesc q)" by (rule ext)
    moreover have "snd (DescCache_Get (dq_Name q) (dq_Help q) (dq_Labels q) (desc_view s))
        = (desc_view s)(request_key q \<mapsto> NewDesc q)"
      using none by (simp add: DescCache_Get_def desc_view_def request_key_def NewDesc_def Let_def)
    ultimately show ?thesis by (intro disjI2 exI [of _ q]) simp
  next
    case False
    then have "dc_heap s' = dc_heap s \<and> dc_m s' = dc_m s"
      using m x lt by (cases p) (auto simp: desc_move_def Let_def split: if_splits option.splits)
    then show ?thesis by (simp add: desc_view_def)
  qed
qed

section \<open>The properties\<close>


text \<open>C21. Under any interleaving the cache is the sequential one: a step of a call changes what the map
  says not at all or as \<open>DescCache_Get\<close> does, and a call that has returned holds what
  \<open>DescCache_Get\<close> would return for it, which is found in the cache from then on.\<close>

theorem concurrent_get_is_Get:
  assumes "descs.reachable s"
  shows "(desc_move c s = Some s' \<longrightarrow> desc_view s' = desc_view s \<or>
      (\<exists>q :: desc_request. desc_view s' = snd (DescCache_Get (dq_Name q) (dq_Help q) (dq_Labels q) (desc_view s))))
    \<and> (desc_call s c q (Answered d) \<longrightarrow>
        DescCache_Get (dq_Name q) (dq_Help q) (dq_Labels q) (desc_view s) = (dc_heap s ! d, desc_view s))"
proof -
  have inv: "desc_inv s" by (rule descs.reachable_invar [OF assms])
  show ?thesis
    using desc_view_move [OF inv] answered [OF inv, of c q d]
    by (auto simp: DescCache_Get_def desc_view_def request_key_def)
qed

text \<open>Every call returns: it takes at most seven steps, and while one has not returned some call can
  move.\<close>

theorem descriptor_calls_return:
  assumes "descs.reachable s"
  shows "(\<forall>c s'. desc_move c s = Some s' \<longrightarrow> desc_work_left s' < desc_work_left s)
    \<and> ((\<exists>c q p. desc_call s c q p \<and> (\<forall>d. p \<noteq> Answered d)) \<longrightarrow> (\<exists>c. desc_move c s \<noteq> None))"
  using desc_move_work some_call_moves [OF descs.reachable_invar [OF assms]] by blast

section \<open>Two probes at once\<close>

definition ex_request :: desc_request where
  "ex_request = \<lparr>dq_Name = ''esp_up'', dq_Help = ''Up.'', dq_Labels = [''device'']\<rparr>"

definition ex_race :: "desc_msg list" where
  "ex_race = [Ask ex_request, Ask ex_request, Move 0, Move 1, Move 0, Move 1, Move 1, Move 0,
     Move 1, Move 1, Move 1, Move 1, Move 0, Move 0, Move 0]"

definition ex_raced :: desc_store where
  "ex_raced = descs.run ex_race NewDescCache"

lemmas race_eval = desc_step_def desc_ok_def desc_move_def put_call_def NewDescCache_def Let_def

lemma ex_raced: "ex_raced =
    \<lparr>dc_heap = [NewDesc ex_request], dc_m = [request_key ex_request \<mapsto> 0], dc_readers = 0, dc_writer = False,
     dc_calls = [(ex_request, Answered 0), (ex_request, Answered 0)]\<rparr>"
  by (simp add: ex_raced_def ex_race_def race_eval)

lemma ex_raced_reachable: "descs.reachable ex_raced"
  unfolding ex_raced_def
  by (intro descs.run_reachable descs.reachable.start refl) (simp add: ex_race_def race_eval)


theorem concurrent_get_is_Get_witness:
  "fst (DescCache_Get ''esp_up'' ''Up.'' [''device''] (desc_view ex_raced)) = NewDesc ex_request"
proof -
  have "desc_call ex_raced 1 ex_request (Answered 0)" by (simp add: ex_raced desc_call_def)
  moreover have "dc_heap ex_raced ! 0 = NewDesc ex_request" by (simp add: ex_raced)
  ultimately have "DescCache_Get (dq_Name ex_request) (dq_Help ex_request) (dq_Labels ex_request) (desc_view ex_raced)
      = (NewDesc ex_request, desc_view ex_raced)"
    using concurrent_get_is_Get [OF ex_raced_reachable] by metis
  then show ?thesis by (simp add: ex_request_def)
qed

theorem descriptor_calls_return_witness:
  "\<exists>c. desc_move c (desc_step (Ask ex_request) ex_raced) \<noteq> None"
proof -
  have "descs.reachable (desc_step (Ask ex_request) ex_raced)"
    by (rule descs.reachable.move [OF ex_raced_reachable]) (simp add: desc_ok_def)
  moreover have "desc_call (desc_step (Ask ex_request) ex_raced) 2 ex_request Asked"
    by (simp add: desc_call_def desc_step_def ex_raced)
  ultimately show ?thesis using descriptor_calls_return by blast
qed

end
