(* ===== verification/SelfDeclarations.thy ===== *)
theory SelfDeclarations
  imports AppWiring
begin

text \<open>
  \<^verbatim>\<open>NewSelf\<close> of \<^verbatim>\<open>internal/metrics/self.go\<close>: the metrics the exporter
  declares about itself.  The Prometheus client that they are registered with is not modelled; what it
  refuses (a name twice, a name or label that is none) cannot happen to these declarations.
\<close>

section \<open>The declarations\<close>

datatype metric_kind = SelfCounter | SelfGauge | SelfHistogram "real list"

record self_metric =
  sm_Kind :: metric_kind
  sm_Name :: string
  sm_Help :: string
  sm_Labels :: "string list"

definition self_counter :: "string \<Rightarrow> string \<Rightarrow> string list \<Rightarrow> self_metric" where
  "self_counter n help labels = \<lparr>sm_Kind = SelfCounter, sm_Name = n, sm_Help = help, sm_Labels = labels\<rparr>"

definition self_gauge :: "string \<Rightarrow> string \<Rightarrow> string list \<Rightarrow> self_metric" where
  "self_gauge n help labels = \<lparr>sm_Kind = SelfGauge, sm_Name = n, sm_Help = help, sm_Labels = labels\<rparr>"

definition NewSelf :: "self_metric list" where
  "NewSelf =
     [self_counter ''discovery_events_total'' ''Discovery observations received.'' [''source'', ''type'', ''kind''],
      self_counter ''discovery_events_dropped_total''
        ''Discovery observations discarded because the registry fell behind.'' [],
      self_gauge ''discovery_source_up'' ''Whether a discovery backend is currently working.'' [''source''],
      self_gauge ''discovery_last_event_timestamp_seconds''
        (''When a discovery backend last produced an event. A backend that goes quiet ''
         @ ''without erroring is the hardest failure to notice; alert on this.'') [''source''],
      self_gauge ''registry_devices'' ''Known devices.'' [''kind'', ''state''],
      self_counter ''registry_merges_total''
        ''Times two discovery records were found to describe one device.'' [],
      self_counter ''registry_expirations_total'' ''Devices forgotten.'' [''reason''],
      self_counter ''registry_address_changes_total''
        ''Times a device's preferred address changed.'' [''reason''],
      self_gauge ''avahi_up'' ''Whether the Avahi D-Bus session is established.'' [],
      self_counter ''avahi_reconnects_total''
        ''Avahi session restarts, by what triggered them.'' [''reason''],
      self_gauge ''avahi_active_resolvers''
        ''Outstanding Avahi service resolvers. Must stay well below objects-per-client-max.'' [],
      self_counter ''probes_total'' ''Probes performed.'' [''kind'', ''result''],
      self_counter ''probe_errors_total'' ''Probe failures.'' [''kind'', ''reason''],
      \<lparr>sm_Kind = SelfHistogram [5 / 100, 1 / 10, 1 / 4, 1 / 2, 1, 5 / 2, 5, 10, 20],
       sm_Name = ''probe_duration_seconds'', sm_Help = ''Probe duration.'', sm_Labels = [''kind'']\<rparr>,
      self_gauge ''probes_in_flight'' ''Probes currently executing.'' [],
      self_counter ''probes_skipped_total''
        ''Probes short-circuited without contacting the device.'' [''reason''],
      self_counter ''probes_shared_total''
        ''Probes served from a concurrent or cached result rather than a device request.'' [],
      self_gauge ''devices_in_backoff'' ''Devices currently being contacted less often.'' [],
      self_counter ''shelly_unknown_components_total''
        (''Shelly component types seen with no curated extractor. Alert on this increasing: ''
         @ ''it is the signal that a component should be promoted out of the raw namespace.'') [''component''],
      self_gauge ''shelly_identity_cache_entries'' ''Cached Shelly identities.'' [],
      self_gauge ''shelly_cloud_names_up''
        (''Whether the last refresh of names from Shelly Cloud succeeded. When it fails the ''
         @ ''previous names stay in use, so this going to 0 does not change any series.'') [],
      self_gauge ''shelly_cloud_names_last_success_timestamp_seconds''
        (''When names were last refreshed from Shelly Cloud. Alert on this: a revoked key ''
         @ ''leaves names silently frozen.'') [],
      self_gauge ''build_info'' ''Exporter build metadata. Always 1.'' [''version'', ''commit'', ''goversion'']]"

definition self_name :: "self_metric \<Rightarrow> string" where
  "self_name m = ExporterNamespace @ ''_'' @ sm_Name m"

section \<open>What they keep to\<close>

definition plain_name :: "string \<Rightarrow> bool" where
  "plain_name s \<longleftrightarrow> s \<noteq> [] \<and> list_all (\<lambda>c. is_lower_char c \<or> c = CHR ''_'') s \<and> hd s \<noteq> CHR ''_''"

text \<open>Registration cannot fail, and a scrape of the exporter cannot clash with one of a device.\<close>

lemma self_names_distinct: "distinct (map sm_Name NewSelf)"
  by code_simp

lemma self_names_plain: "list_all (\<lambda>m. plain_name (sm_Name m) \<and> list_all plain_name (sm_Labels m) \<and> distinct (sm_Labels m)) NewSelf"
  by code_simp

text \<open>The counters are those that end in \<^verbatim>\<open>_total\<close>, and no metric has a device label.\<close>

lemma self_totals_are_counters:
  "list_all (\<lambda>m. (sm_Kind m = SelfCounter) = has_suffix (sm_Name m) ''_total'') NewSelf"
  by code_simp

lemma self_metrics_name_no_device:
  "list_all (\<lambda>m. set (sm_Labels m) \<inter> {''device'', ''device_id'', ''instance'', ''mac'', ''target''} = {}) NewSelf"
  by code_simp

end
