(* ===== verification/Spec2Isabelle.thy ===== *)
theory Spec2Isabelle
  imports RegistryLifecycle ConfigProps ProbeProps MetricsClaims ESPHomeEmit ShellyReadings ShellyCollectorProps
    CloudProps ESPHomeSessionProps ESPHomeManagerProps ProbeConcurrentProps AppProps AppWiringProps Startup AppRun EndToEnd EventPipelineProps DescConcurrentProps SelfDeclarations AvahiProps BackendProps
begin

text \<open>
  A verification development for espressif-exporter, a Prometheus exporter for ESPHome and Shelly
  devices.

  \<^bold>\<open>The program.\<close>  Discovery backends (mDNS through Avahi or zeroconf, a static list, the Shelly
  cloud) send observations to the registry.  The registry is one goroutine that owns every device:
  it derives an identity for each observation, merges observations of the same device, orders its
  addresses, expires what is not heard of, and publishes an immutable snapshot.  Prometheus scrapes
  one device at a time: the server looks the device up in the snapshot and hands it to the probe
  gate, which applies backoff, a result cache and a limit on concurrent probes before a collector
  contacts the device.  A Shelly collector asks the device who it is, refuses to attribute one device's
  readings to another, and renders its status document; ESPHome devices are the exception: the exporter
  keeps a connection to each, fills a cache from it, and a probe renders the cached state.  A scrape that
  succeeds is reported back to the registry, for which it is a sign of life.  Everything emitted goes
  through one registry of metric families.

  \<^bold>\<open>The theories, in the order of the code.\<close>
  \<^item> \<open>Prelude\<close>, \<open>TextOps\<close>: times and durations, strings, association lists, replacement in
    strings; the locale \<open>machine\<close> (below).
  \<^item> \<open>Netip\<close>: the part of \<^verbatim>\<open>net/netip\<close> that is used, on 32 and 128 bit words, with the
    total order of addresses as an instance of \<open>linorder\<close>.
  \<^item> \<open>Discovery\<close> (\<^verbatim>\<open>internal/discovery\<close>): events, endpoints, classification, TXT records.
  \<^item> \<open>Identity\<close>, \<open>AddressPolicy\<close>, \<open>Registry\<close>, \<open>Snapshot\<close>, \<open>RegistryActor\<close>
    (\<^verbatim>\<open>internal/registry\<close>): the model of the registry, one definition per handler, and the
    actor as a machine whose messages are the arms of the \<^verbatim>\<open>select\<close> in \<^verbatim>\<open>Registry.Run\<close>.
    \<open>RegistryInv\<close> and \<open>RegistryExpire\<close> hold the invariant and its preservation,
    \<open>RegistryFacts\<close> the facts about single handlers, \<open>RegistryProps\<close> and
    \<open>RegistryLifecycle\<close> the properties.  \<open>EventPipeline\<close>, \<open>EventPipelineProps\<close>: the actor behind its
    channels, with the relays of \<^verbatim>\<open>multi.wrap\<close> that the backends send to and the reports of the probes.
  \<^item> \<open>Config\<close>, \<open>ConfigLoad\<close>, \<open>ConfigProps\<close> (\<^verbatim>\<open>internal/config\<close>): the records with
    their defaults, secrets, validation, and what a configuration that loads guarantees.
  \<^item> \<open>Probe\<close>, \<open>ProbeProps\<close> (\<^verbatim>\<open>internal/probe\<close>): reasons, the backoff ladder, and the
    gate as one call sees it; \<open>ProbeConcurrent\<close>, \<open>ProbeConcurrentProps\<close>: the gate under any number
    of concurrent calls, as a step relation over program counters.
  \<^item> \<open>Naming\<close>, \<open>Metrics\<close>, \<open>MetricsProps\<close>, \<open>MetricsClaims\<close>
    (\<^verbatim>\<open>internal/metrics\<close>): the unit table, families, labels, the emitter and the descriptor
    cache; \<open>DescConcurrent\<close>, \<open>DescConcurrentProps\<close>: that cache under concurrent probes, with its lock;
    \<open>SelfDeclarations\<close>: the metrics the exporter declares about itself.
  \<^item> \<open>ESPHomeCache\<close>, \<open>ESPHomeCollector\<close>, \<open>ESPHomeProps\<close>, \<open>EmitOk\<close>,
    \<open>ESPHomeEmit\<close> (\<^verbatim>\<open>internal/esphome\<close>): the per-device cache as a machine, the messages
    that fill it, and the rendering of a cached snapshot.  \<open>ESPHomeDevice\<close>, \<open>ESPHomeSession\<close>,
    \<open>ESPHomeSessionProps\<close> (\<^verbatim>\<open>device.go\<close>, \<^verbatim>\<open>conn.go\<close>): the goroutine of one
    device, from dialling to the loop that keeps a session alive; \<open>ESPHomeManager\<close>,
    \<open>ESPHomeManagerProps\<close> (\<^verbatim>\<open>manager.go\<close>): the set of these goroutines.
  \<^item> \<open>ShellyJson\<close>, \<open>ShellyGen2\<close>, \<open>ShellyGen1\<close>, \<open>ShellyEmit\<close>, \<open>ShellyProps\<close>,
    \<open>ShellyReadings\<close> (\<^verbatim>\<open>internal/shelly\<close>): documents, the extractors of both generations and
    the generic walk; \<open>ShellyHttp\<close>, \<open>ShellyIdentity\<close>, \<open>ShellyCollector\<close>,
    \<open>ShellyCollectorProps\<close>: credentials, clients, the identity guard, names, and a whole probe.
  \<^item> \<open>CloudJson\<close>, \<open>CloudStatus\<close>, \<open>CloudNames\<close>, \<open>CloudClient\<close>, \<open>CloudProps\<close>
    (\<^verbatim>\<open>internal/shellycloud\<close>): the client of the Shelly cloud and the store of names.
  \<^item> \<open>Backends\<close>, \<open>BackendProps\<close> (\<^verbatim>\<open>static\<close>,
    \<^verbatim>\<open>shellycloud\<close>, \<^verbatim>\<open>zeroconf\<close> below \<^verbatim>\<open>internal/discovery\<close>);
    \<open>AvahiClient\<close>, \<open>Avahi\<close>, \<open>AvahiSession\<close>, \<open>AvahiProps\<close> (\<^verbatim>\<open>avahi\<close>): the
    backends, the routing of D-Bus signals, the diagnosis of failures and the supervision of sessions.
  \<^item> \<open>Server\<close> (\<^verbatim>\<open>internal/server\<close>, \<^verbatim>\<open>internal/logging\<close>, \<^verbatim>\<open>internal/version\<close>): the
    HTTP handlers, the middleware, the log level and the line that shows the build; \<open>App\<close>, \<open>AppProps\<close>, \<open>AppWiring\<close>, \<open>AppWiringProps\<close>
    (\<^verbatim>\<open>internal/app\<close>): the runner that joins gate, collectors and registry, the construction of
    the backends, readiness, sampled metrics; \<open>Startup\<close>, \<open>AppRun\<close>
    (\<^verbatim>\<open>cmd/espressif-exporter\<close>): the layers of the configuration, the start, and the end of a
    run.  \<open>EndToEnd\<close>: from an entry of the configuration through source, channels, registry and
    snapshot to the answer of a probe.

  \<^bold>\<open>Interfaces.\<close>  The locale \<open>machine\<close> is the contract of every component that is driven by
  messages: a state, an initial state, a step, the condition under which a message can come, and an
  invariant; it gives reachable states, runs, and the induction that makes a preserved property an
  invariant.  It is interpreted on the registry actor, the channels around it, the descriptor cache, the limiter, the ESPHome cache and manager, the
  Avahi client, the slot of the cloud client, the Shelly collector, the limit on requests and the chain
  from a request to a probe.  \<open>epoch_cache\<close> is the contract of the caches keyed by device and epoch,
  interpreted on the identities and the names; \<open>honest_prober\<close> is what the server relies on in a
  collector, interpreted on both collectors.

  \<^bold>\<open>What the lemmas show.\<close>  The registry: its aliases never dangle, its snapshots are current
  whenever no publication is pending, scrapes keep a device reachable, expiry removes exactly what is
  stale, identities converge, and the epoch that the collectors key their caches by moves with every
  address change.  Its channels: no observation is lost uncounted or overtaken, what the registry does
  is what the sequential actor does on what they deliver, and they empty whatever the scheduler picks; a backend never waits for
  the registry, and a burst of 1024 events loses nothing.  The gate: a device is contacted exactly when it is due, delays stay in bounds, the
  cache and the backoff agree; under any interleaving the running probes stay within the limit, no
  device is probed by two calls at once, every call returns, and a call alone does what the sequential
  model says.  The collectors: readings come from the device that was asked for, everything emitted is
  accepted by Prometheus, no reading is lost for want of a family, a
  descriptor is made once however many probes ask for it, both Shelly generations name the same
  series, and names never change a verdict.  Connections: no dial without the key where encryption is
  required, one goroutine per device, bounded waits.  The cloud client: requests are paced, retries end,
  and the key never shows.  The backends: observations of one device by several sources become one
  device, and Avahi is fatal only before its first session.  The server: a failed probe has one reason,
  and its budget leaves room for the answer.  The start: what validation accepts never fails later, every
  setting has a variable, and the program ends with an error for two causes only.

  \<^bold>\<open>Choices of the model.\<close>
  \<^item> A time is an integer number of nanoseconds since Go's zero time and a duration an integer;
    subtraction of times saturates as Go's does.  A clock reading is an argument of the operation
    that takes it, and messages carry the reading of their moment; so is the random number of a jitter.
  \<^item> A goroutine is the sequence of the messages it handles, or of what it meets in its turns (a
    \<^emph>\<open>script\<close>); theorems quantify over all sequences.  Where goroutines share state without an owner,
    in the gate and in the descriptor cache, each has a program counter and the steps interleave freely.  A buffered
    channel is a list with a capacity; a send that would block is a step that is not possible yet.
  \<^item> A Go map that is iterated over is an association list whose order stands for the order the
    runtime picks; a map that is only looked up is a partial function.
  \<^item> A float64 is a real number, an infinity or not-a-number; rounding is not modelled.
  \<^item> Strings are byte strings; lower-casing and trimming are those of ASCII.
  \<^item> Errors are values: a failed probe is its reason, a failed validation a constructor of
    \<open>ConfigError\<close>, an emission that names no family an entry of the error list, a panic is
    \<open>None\<close>.
  \<^item> Third-party code is a parameter: the parsers of prefixes, addresses and URLs, the file system,
    koanf and the flag package, the JSON package (a document is what it decodes to), HTTP exchanges, the
    ESPHome client library, the D-Bus package, the multicast browser, the semaphore, the single-flight
    group and the error group.  Where a property relies on what such a package promises, the promise is a
    named hypothesis (\<open>sem_laws\<close>, \<open>grp_laws\<close>, \<open>url_law\<close>, \<open>group_law\<close>) and the witness
    instantiates it.
  \<^item> Loops run over finite lists or scripts, so every definition is total and no fuel is needed; the
    retry loop of the cloud client, the replacement in strings and the walk over a document end by a
    measure, the calls of the gate by \<open>work_left\<close>, at most twelve steps for each, those of the descriptor
    cache by \<open>desc_work_left\<close>, and the emptying of the channels by \<open>pipe_work\<close>.

  \<^bold>\<open>Not modelled.\<close>  What has no logic of its own in this repository or lies in its libraries: the
  merging of configuration trees (koanf) and their decoding, the parsing of flags, signals, TCP and TLS, the
  exchange of the digest and basic schemes, the serialisation of metrics, the Prometheus client behind the exporter's
  own metrics, the profiling routes, and the writing of log records.
\<close>

end
